(* ===== verification/Prelude.thy ===== *)
theory Prelude
  imports Complex_Main "HOL-Library.Product_Lexorder" "HOL-Library.List_Lexorder"
    "HOL-Library.Char_ord"
begin

text \<open>
  Shared vocabulary of the development: the timestamp type, the fallible results, and the
  algebra of database tables (a table is the list of its rows). The generic lemmas here are
  the ones every component's proofs rest on: what a lookup returns after an
  \<open>UPDATE ... WHERE\<close>, after an insert and after an upsert, and that primary keys stay
  distinct.
\<close>

named_theorems handler_defs \<open>definitions of the operations a proof unfolds step by step\<close>

type_synonym unix_seconds = real
type_synonym error = string
type_synonym 'a result = "error + 'a"

text \<open>Results: \<open>?\<close> on a value (\<open>Inl\<close> is the early return).\<close>

definition result_bind :: "'a result \<Rightarrow> ('a \<Rightarrow> 'b result) \<Rightarrow> 'b result" where
  "result_bind r f = (case r of Inl e \<Rightarrow> Inl e | Inr a \<Rightarrow> f a)"

fun ok_or :: "'a option \<Rightarrow> error \<Rightarrow> 'a result" where
  "ok_or None e = Inl e"
| "ok_or (Some a) e = Inr a"

fun is_ok :: "'a result \<Rightarrow> bool" where
  "is_ok (Inl e) = False"
| "is_ok (Inr a) = True"

text \<open>A \<open>COALESCE(?, column)\<close>: the bound value if there is one, else the column.\<close>

fun coalesce :: "'a option \<Rightarrow> 'a option \<Rightarrow> 'a option" where
  "coalesce (Some a) _ = Some a"
| "coalesce None b = b"

lemma coalesce_None_right [simp]: "coalesce a None = a"
  by (cases a) auto

subsection \<open>Tables\<close>

text \<open>The first row whose key is \<open>k\<close> (\<open>SELECT ... WHERE key = k\<close>, \<open>fetch_optional\<close>).\<close>

definition row_of :: "('r \<Rightarrow> 'k) \<Rightarrow> 'k \<Rightarrow> 'r list \<Rightarrow> 'r option" where
  "row_of key k rows = find (\<lambda>r. key r = k) rows"

text \<open>\<open>UPDATE ... SET f WHERE p\<close>.\<close>

definition update_where :: "('r \<Rightarrow> bool) \<Rightarrow> ('r \<Rightarrow> 'r) \<Rightarrow> 'r list \<Rightarrow> 'r list" where
  "update_where p f rows = map (\<lambda>r. if p r then f r else r) rows"

text \<open>\<open>INSERT ... ON CONFLICT(key) DO UPDATE SET f\<close>.\<close>

definition upsert :: "('r \<Rightarrow> 'k) \<Rightarrow> 'r \<Rightarrow> ('r \<Rightarrow> 'r) \<Rightarrow> 'r list \<Rightarrow> 'r list" where
  "upsert key new f rows =
     (if \<exists>r\<in>set rows. key r = key new then update_where (\<lambda>r. key r = key new) f rows
      else rows @ [new])"

text \<open>\<open>rows_affected()\<close> of an update.\<close>

definition affected :: "('r \<Rightarrow> bool) \<Rightarrow> 'r list \<Rightarrow> nat" where
  "affected p rows = length (filter p rows)"

text \<open>\<open>ORDER BY k ASC\<close> and \<open>DESC\<close>; with distinct keys the descending order is the reverse.\<close>

definition order_by :: "('r \<Rightarrow> 'k::linorder) \<Rightarrow> 'r list \<Rightarrow> 'r list" where
  "order_by key rows = sort_key key rows"

definition order_by_desc :: "('r \<Rightarrow> 'k::linorder) \<Rightarrow> 'r list \<Rightarrow> 'r list" where
  "order_by_desc key rows = rev (sort_key key rows)"

definition pk :: "('r \<Rightarrow> 'k) \<Rightarrow> 'r list \<Rightarrow> bool" where
  "pk key rows \<longleftrightarrow> distinct (map key rows)"

lemma row_of_Nil [simp]: "row_of key k [] = None"
  by (simp add: row_of_def)

lemma row_of_Cons [simp]:
  "row_of key k (r # rows) = (if key r = k then Some r else row_of key k rows)"
  by (simp add: row_of_def)

lemma row_of_SomeD: "row_of key k rows = Some r \<Longrightarrow> r \<in> set rows \<and> key r = k"
  by (induction rows) (auto split: if_splits)

lemma row_of_None_iff: "row_of key k rows = None \<longleftrightarrow> (\<forall>r\<in>set rows. key r \<noteq> k)"
  by (induction rows) auto

lemma row_of_append [simp]:
  "row_of key k (xs @ ys) = (case row_of key k xs of Some r \<Rightarrow> Some r | None \<Rightarrow> row_of key k ys)"
  by (induction xs) auto

lemma update_where_Nil [simp]: "update_where p f [] = []"
  by (simp add: update_where_def)

lemma update_where_Cons [simp]:
  "update_where p f (r # rows) = (if p r then f r else r) # update_where p f rows"
  by (simp add: update_where_def)

lemma length_update_where [simp]: "length (update_where p f rows) = length rows"
  by (simp add: update_where_def)

lemma set_update_where: "set (update_where p f rows) = (\<lambda>r. if p r then f r else r) ` set rows"
  by (simp add: update_where_def)

text \<open>An update that keeps the key commutes with the lookup.\<close>

lemma row_of_update_where:
  assumes "\<And>r. key (f r) = key r"
  shows "row_of key k (update_where p f rows) =
         map_option (\<lambda>r. if p r then f r else r) (row_of key k rows)"
  using assms by (induction rows) auto

lemma map_key_update_where:
  assumes "\<And>r. key (f r) = key r"
  shows "map key (update_where p f rows) = map key rows"
  using assms by (induction rows) auto

lemma pk_update_where:
  assumes "\<And>r. key (f r) = key r"
  shows "pk key (update_where p f rows) = pk key rows"
  using assms by (simp add: pk_def map_key_update_where)

lemma pk_append_one: "pk key (rows @ [r]) \<longleftrightarrow> pk key rows \<and> row_of key (key r) rows = None"
  by (auto simp: pk_def row_of_None_iff image_iff)

lemma pk_row_of: "pk key rows \<Longrightarrow> r \<in> set rows \<Longrightarrow> row_of key (key r) rows = Some r"
  by (induction rows) (auto simp: pk_def)

lemma row_of_upsert:
  assumes "\<And>r. key (f r) = key r"
  shows "row_of key k (upsert key new f rows) =
         (if k = key new then (case row_of key k rows of Some r \<Rightarrow> Some (f r) | None \<Rightarrow> Some new)
          else row_of key k rows)"
proof (cases "row_of key (key new) rows")
  case None
  then have "\<not> (\<exists>r\<in>set rows. key r = key new)" by (auto simp: row_of_None_iff)
  with None show ?thesis by (auto simp: upsert_def split: option.splits)
next
  case (Some r)
  then have ex: "\<exists>r\<in>set rows. key r = key new" and "key r = key new"
    by (auto dest: row_of_SomeD)
  have "row_of key k (upsert key new f rows) =
        map_option (\<lambda>r. if key r = key new then f r else r) (row_of key k rows)"
    using ex assms by (simp add: upsert_def row_of_update_where)
  with Some show ?thesis
    by (cases "row_of key k rows") (auto dest: row_of_SomeD)
qed

lemma pk_upsert:
  assumes "\<And>r. key (f r) = key r"
  shows "pk key rows \<Longrightarrow> pk key (upsert key new f rows)"
  using assms by (simp add: upsert_def pk_update_where pk_append_one row_of_None_iff)

lemma affected_pos: "0 < affected p rows \<longleftrightarrow> (\<exists>r\<in>set rows. p r)"
  by (auto simp: affected_def filter_empty_conv)

lemma affected_update_where:
  "affected q (update_where p f rows) =
   length (filter (\<lambda>r. q (if p r then f r else r)) rows)"
  by (induction rows) (auto simp: affected_def)

text \<open>With a primary key, an update of one row changes a count by at most that row.\<close>

lemma affected_update_row:
  assumes "pk key rows" "row_of key k rows = Some r" "\<And>x. key (f x) = key x"
  shows "affected q (update_where (\<lambda>x. key x = k) f rows) + (if q r then 1 else 0) =
         affected q rows + (if q (f r) then 1 else 0)"
  using assms(1,2)
proof (induction rows)
  case Nil
  then show ?case by simp
next
  case (Cons x rows)
  show ?case
  proof (cases "key x = k")
    case True
    with Cons.prems have "r = x" and fresh: "\<forall>y\<in>set rows. key y \<noteq> k"
      by (auto simp: pk_def image_iff)
    from fresh have "update_where (\<lambda>x. key x = k) f rows = rows"
      by (induction rows) auto
    with True \<open>r = x\<close> show ?thesis by (auto simp: affected_def)
  next
    case False
    with Cons.prems have "pk key rows" "row_of key k rows = Some r" by (auto simp: pk_def)
    with Cons.IH False show ?thesis by (auto simp: affected_def)
  qed
qed

lemma set_order_by [simp]: "set (order_by key rows) = set rows"
  by (simp add: order_by_def)

lemma set_order_by_desc [simp]: "set (order_by_desc key rows) = set rows"
  by (simp add: order_by_desc_def)

lemma length_order_by_desc [simp]: "length (order_by_desc key rows) = length rows"
  by (simp add: order_by_desc_def)

text \<open>Reversing the newest-first page walks it oldest first.\<close>

lemma rev_order_by_desc [simp]: "rev (order_by_desc key rows) = order_by key rows"
  by (simp add: order_by_desc_def order_by_def)

lemma sorted_order_by [simp]: "sorted (map key (order_by key rows))"
  by (simp add: order_by_def)

subsection \<open>Association lists (the in-memory hash maps, in their iteration order)\<close>

fun alist_put :: "'k \<Rightarrow> 'v \<Rightarrow> ('k \<times> 'v) list \<Rightarrow> ('k \<times> 'v) list" where
  "alist_put k v [] = [(k, v)]"
| "alist_put k v ((k', v') # m) = (if k = k' then (k, v) # m else (k', v') # alist_put k v m)"

definition alist_del :: "'k \<Rightarrow> ('k \<times> 'v) list \<Rightarrow> ('k \<times> 'v) list" where
  "alist_del k m = filter (\<lambda>(k', v). k' \<noteq> k) m"

lemma map_of_alist_put [simp]: "map_of (alist_put k v m) = (map_of m)(k \<mapsto> v)"
  by (induction k v m rule: alist_put.induct) (auto simp: fun_eq_iff)

lemma map_of_alist_del [simp]: "map_of (alist_del k m) = (map_of m)(k := None)"
  by (induction m) (auto simp: alist_del_def fun_eq_iff)

lemma set_alist_put: "x \<in> set (alist_put k v m) \<Longrightarrow> x = (k, v) \<or> x \<in> set m"
  by (induction k v m rule: alist_put.induct) (auto split: if_splits)

lemma distinct_alist_put: "distinct (map fst m) \<Longrightarrow> distinct (map fst (alist_put k v m))"
proof (induction k v m rule: alist_put.induct)
  case (2 k v k' v' m)
  have "fst ` set (alist_put k v m) = insert k (fst ` set m)"
    by (metis dom_fun_upd dom_map_of_conv_image_fst map_of_alist_put option.distinct(1))
  with 2 show ?case by auto
qed simp

lemma distinct_alist_del: "distinct (map fst m) \<Longrightarrow> distinct (map fst (alist_del k m))"
  by (induction m) (auto simp: alist_del_def)

end
