(* ===== verification/Text.thy ===== *)
theory Text
  imports Prelude
begin

text \<open>
  The string operations of the Rust standard library that the code uses, on
  \<open>string = char list\<close> (a \<open>char\<close> is a byte, as in Rust's UTF-8 \<open>str\<close>):
  \<open>strip_prefix\<close>, \<open>strip_suffix\<close>, \<open>split\<close>, \<open>split_once\<close>, \<open>rsplit_once\<close>, \<open>trim\<close>, decimal
  printing with zero padding and \<open>u64::from_str\<close>. The lemmas are the round trips and the
  separator facts that keys, ids and gate expressions rest on.
\<close>

fun strip_prefix :: "string \<Rightarrow> string \<Rightarrow> string option" where
  "strip_prefix [] s = Some s"
| "strip_prefix (p # ps) [] = None"
| "strip_prefix (p # ps) (c # cs) = (if p = c then strip_prefix ps cs else None)"

definition starts_with :: "string \<Rightarrow> string \<Rightarrow> bool" where
  "starts_with p s \<longleftrightarrow> strip_prefix p s \<noteq> None"

definition strip_suffix :: "string \<Rightarrow> string \<Rightarrow> string option" where
  "strip_suffix p s = map_option rev (strip_prefix (rev p) (rev s))"

text \<open>\<open>s.split(c)\<close>: one segment more than there are separators.\<close>

fun split_on :: "char \<Rightarrow> string \<Rightarrow> string list" where
  "split_on c [] = [[]]"
| "split_on c (x # xs) =
     (if x = c then [] # split_on c xs
      else (case split_on c xs of [] \<Rightarrow> [[x]] | seg # segs \<Rightarrow> (x # seg) # segs))"

text \<open>\<open>s.split_once(p)\<close> at the first occurrence of the string \<open>p\<close>; \<open>s.rsplit_once(c)\<close> at the
  last occurrence of the character.\<close>

fun split_once :: "string \<Rightarrow> string \<Rightarrow> (string \<times> string) option" where
  "split_once p s =
     (case strip_prefix p s of Some rest \<Rightarrow> Some ([], rest)
      | None \<Rightarrow> (case s of [] \<Rightarrow> None
               | x # xs \<Rightarrow> map_option (\<lambda>(a, b). (x # a, b)) (split_once p xs)))"

declare split_once.simps [simp del]

fun rsplit_once :: "char \<Rightarrow> string \<Rightarrow> (string \<times> string) option" where
  "rsplit_once c [] = None"
| "rsplit_once c (x # xs) =
     (case rsplit_once c xs of Some (a, b) \<Rightarrow> Some (x # a, b)
      | None \<Rightarrow> if x = c then Some ([], xs) else None)"

text \<open>ASCII white space, as \<open>str::trim\<close> removes it from ASCII text.\<close>

definition is_space :: "char \<Rightarrow> bool" where
  "is_space c \<longleftrightarrow> (let n = of_char c :: nat in n = 32 \<or> (9 \<le> n \<and> n \<le> 13))"

definition trim :: "string \<Rightarrow> string" where
  "trim s = rev (dropWhile is_space (rev (dropWhile is_space s)))"

subsection \<open>Decimal numbers\<close>

definition digit :: "nat \<Rightarrow> char" where
  "digit d = char_of (48 + d)"

definition is_digit :: "char \<Rightarrow> bool" where
  "is_digit c \<longleftrightarrow> (let n = of_char c :: nat in 48 \<le> n \<and> n \<le> 57)"

definition digit_val :: "char \<Rightarrow> nat" where
  "digit_val c = of_char c - 48"

fun show_nat :: "nat \<Rightarrow> string" where
  "show_nat n = (if n < 10 then [digit n] else show_nat (n div 10) @ [digit (n mod 10)])"

declare show_nat.simps [simp del]

fun parse_digits :: "nat \<Rightarrow> string \<Rightarrow> nat option" where
  "parse_digits acc [] = Some acc"
| "parse_digits acc (c # cs) =
     (if is_digit c then parse_digits (acc * 10 + digit_val c) cs else None)"

text \<open>
  \<open>u64::from_str\<close>: an optional \<open>+\<close>, at least one digit, no overflow (the code checks each
  step; the partial values only grow, so that is a check of the final value).
\<close>

definition parse_u64 :: "string \<Rightarrow> nat option" where
  "parse_u64 s =
     (let body = (case s of c # cs \<Rightarrow> if c = CHR ''+'' then cs else s | [] \<Rightarrow> [])
      in if body = [] then None
         else (case parse_digits 0 body of
                 Some n \<Rightarrow> if n < 2 ^ 64 then Some n else None
               | None \<Rightarrow> None))"

text \<open>\<open>{:0w$}\<close> of a non-negative number, and of an \<open>i64\<close> (the sign counts in the width).\<close>

definition pad_left :: "nat \<Rightarrow> string \<Rightarrow> string" where
  "pad_left w s = replicate (w - length s) (CHR ''0'') @ s"

definition show_pad :: "nat \<Rightarrow> nat \<Rightarrow> string" where
  "show_pad w n = pad_left w (show_nat n)"

definition show_pad_int :: "nat \<Rightarrow> int \<Rightarrow> string" where
  "show_pad_int w i =
     (if i < 0 then CHR ''-'' # pad_left (w - 1) (show_nat (nat (- i))) else show_pad w (nat i))"

definition show_int :: "int \<Rightarrow> string" where
  "show_int i = (if i < 0 then CHR ''-'' # show_nat (nat (- i)) else show_nat (nat i))"

text \<open>\<open>{:?}\<close> of printable ASCII text.\<close>

definition debug_str :: "string \<Rightarrow> string" where
  "debug_str s =
     [CHR 0x22] @ concat (map (\<lambda>c. if c = CHR 0x22 \<or> c = CHR 0x5C then [CHR 0x5C, c] else [c]) s) @ [CHR 0x22]"

subsection \<open>Prefixes\<close>

lemma strip_prefix_Some_iff: "strip_prefix p s = Some r \<longleftrightarrow> s = p @ r"
  by (induction p s rule: strip_prefix.induct) auto

lemma strip_prefix_append [simp]: "strip_prefix p (p @ r) = Some r"
  by (simp add: strip_prefix_Some_iff)

lemma starts_with_iff: "starts_with p s \<longleftrightarrow> (\<exists>r. s = p @ r)"
  by (auto simp: starts_with_def strip_prefix_Some_iff)

lemma starts_with_append [simp]: "starts_with p (p @ r)"
  by (simp add: starts_with_def)

lemma strip_suffix_Some_iff: "strip_suffix p s = Some r \<longleftrightarrow> s = r @ p"
proof
  assume "strip_suffix p s = Some r"
  then have "rev s = rev p @ rev r"
    by (auto simp: strip_suffix_def strip_prefix_Some_iff)
  then show "s = r @ p" by (simp flip: rev_append)
next
  assume "s = r @ p"
  then show "strip_suffix p s = Some r" by (simp add: strip_suffix_def)
qed

lemma strip_suffix_append [simp]: "strip_suffix p (r @ p) = Some r"
  by (simp add: strip_suffix_Some_iff)

subsection \<open>Splitting\<close>

lemma split_on_nonempty [simp]: "split_on c s \<noteq> []"
  by (induction s) (auto split: list.splits)

lemma split_on_no_sep: "c \<notin> set s \<Longrightarrow> split_on c s = [s]"
  by (induction s) auto

lemma split_on_Cons_sep: "c \<notin> set s \<Longrightarrow> split_on c (s @ c # t) = s # split_on c t"
  by (induction s) auto

lemma split_on_append_sep: "split_on c (s @ c # t) = split_on c s @ split_on c t"
proof (induction s)
  case (Cons x s)
  then show ?case by (cases "split_on c s") auto
qed simp

lemma split_on_inj: "split_on c s = split_on c t \<Longrightarrow> s = t"
proof (induction s arbitrary: t)
  case Nil
  then show ?case by (cases t) (auto split: list.splits if_splits)
next
  case (Cons x s)
  then show ?case
    by (cases t) (auto split: list.splits if_splits)
qed

lemma split_on_ConsE:
  assumes "split_on c s = a # b # segs"
  obtains t where "s = a @ c # t" "split_on c t = b # segs"
proof -
  have "\<exists>t. s = a @ c # t \<and> split_on c t = b # segs"
    using assms
  proof (induction s arbitrary: a)
    case (Cons x s)
    show ?case
    proof (cases "x = c")
      case True
      with Cons.prems show ?thesis by auto
    next
      case False
      with Cons.prems obtain a' where "a = x # a'" "split_on c s = a' # b # segs"
        by (auto split: list.splits)
      with Cons.IH show ?thesis by auto
    qed
  qed simp
  with that show thesis by blast
qed

lemma last_split_on: "c \<notin> set t \<Longrightarrow> last (split_on c (s @ c # t)) = t"
  by (simp add: split_on_append_sep split_on_no_sep)

lemma parse_u64_bound: "parse_u64 s = Some n \<Longrightarrow> n < 2 ^ 64"
  by (auto simp: parse_u64_def Let_def split: option.splits if_splits)

lemma set_split_on: "seg \<in> set (split_on c s) \<Longrightarrow> c \<notin> set seg"
  by (induction s arbitrary: seg) (auto split: list.splits if_splits)

lemma rsplit_once_None_iff: "rsplit_once c s = None \<longleftrightarrow> c \<notin> set s"
  by (induction s) (auto split: option.splits)

lemma rsplit_once_append:
  assumes "c \<notin> set b"
  shows "rsplit_once c (a @ c # b) = Some (a, b)"
proof (induction a)
  case Nil
  from assms have "rsplit_once c b = None" by (simp add: rsplit_once_None_iff)
  then show ?case by simp
qed simp

lemma split_once_at:
  assumes "\<And>u v. s = u @ v \<Longrightarrow> v \<noteq> [] \<Longrightarrow> strip_prefix p (v @ p @ t) = None"
  shows "split_once p (s @ p @ t) = Some (s, t)"
  using assms
proof (induction s)
  case Nil
  then show ?case by (simp add: split_once.simps)
next
  case (Cons x s)
  have "strip_prefix p ((x # s) @ p @ t) = None"
    using Cons.prems [of "[]" "x # s"] by simp
  moreover have "split_once p (s @ p @ t) = Some (s, t)"
    by (rule Cons.IH) (use Cons.prems in \<open>force intro: Cons.prems\<close>)
  ultimately show ?case by (subst split_once.simps) simp
qed

lemma split_once_char: "c \<notin> set s \<Longrightarrow> split_once [c] (s @ c # t) = Some (s, t)"
proof -
  assume "c \<notin> set s"
  then have "split_once [c] (s @ [c] @ t) = Some (s, t)"
    by (intro split_once_at) (auto simp: neq_Nil_conv)
  then show ?thesis by simp
qed

lemma split_once_char_iff: "split_once [c] s = Some (a, b) \<longleftrightarrow> s = a @ c # b \<and> c \<notin> set a"
proof
  show "split_once [c] s = Some (a, b) \<Longrightarrow> s = a @ c # b \<and> c \<notin> set a"
  proof (induction s arbitrary: a)
    case Nil
    then show ?case by (simp add: split_once.simps)
  next
    case (Cons x s)
    then show ?case
      by (subst (asm) (2) split_once.simps) (auto split: if_splits)
  qed
qed (auto simp: split_once_char)

lemma trim_id: "s \<noteq> [] \<Longrightarrow> \<not> is_space (hd s) \<Longrightarrow> \<not> is_space (last s) \<Longrightarrow> trim s = s"
proof -
  assume a: "s \<noteq> []" "\<not> is_space (hd s)" "\<not> is_space (last s)"
  then have "dropWhile is_space s = s" by (cases s) auto
  moreover from a have "dropWhile is_space (rev s) = rev s"
    by (cases s rule: rev_cases) auto
  ultimately show ?thesis by (simp add: trim_def)
qed

subsection \<open>Printing and parsing numbers\<close>

lemma of_char_digit: "d < 10 \<Longrightarrow> (of_char (digit d) :: nat) = 48 + d"
  by (simp add: digit_def)

lemma is_digit_digit [simp]: "d < 10 \<Longrightarrow> is_digit (digit d)"
  by (simp add: is_digit_def of_char_digit)

lemma digit_val_digit [simp]: "d < 10 \<Longrightarrow> digit_val (digit d) = d"
  by (simp add: digit_val_def of_char_digit)

lemma show_nat_nonempty [simp]: "show_nat n \<noteq> []"
  by (subst show_nat.simps) simp

lemma show_nat_digits: "\<forall>c\<in>set (show_nat n). is_digit c"
proof (induction n rule: show_nat.induct)
  case (1 n)
  show ?case
  proof (cases "n < 10")
    case True
    then show ?thesis by (subst show_nat.simps) simp
  next
    case False
    with "1.IH" show ?thesis by (subst show_nat.simps) auto
  qed
qed

lemma parse_digits_append:
  "parse_digits acc (s @ t) =
   (case parse_digits acc s of Some a \<Rightarrow> parse_digits a t | None \<Rightarrow> None)"
  by (induction s arbitrary: acc) auto

lemma parse_digits_show_nat:
  "parse_digits acc (show_nat n) = Some (acc * 10 ^ length (show_nat n) + n)"
proof (induction n arbitrary: acc rule: show_nat.induct)
  case (1 n)
  show ?case
  proof (cases "n < 10")
    case True
    then show ?thesis by (subst (1 2) show_nat.simps) simp
  next
    case False
    then have "show_nat n = show_nat (n div 10) @ [digit (n mod 10)]"
      by (simp add: show_nat.simps [of n])
    with "1.IH" [OF False] show ?thesis
      by (simp add: parse_digits_append algebra_simps)
  qed
qed

lemma parse_digits_zeros: "parse_digits 0 (replicate k (CHR ''0'') @ s) = parse_digits 0 s"
  by (induction k) (auto simp: is_digit_def digit_val_def)

lemma parse_digits_show_pad: "parse_digits 0 (show_pad w n) = Some n"
  by (simp add: show_pad_def pad_left_def parse_digits_zeros parse_digits_show_nat)

lemma show_pad_nonempty [simp]: "show_pad w n \<noteq> []"
  by (simp add: show_pad_def pad_left_def)

lemma show_pad_digits: "\<forall>c\<in>set (show_pad w n). is_digit c"
  using show_nat_digits by (auto simp: show_pad_def pad_left_def is_digit_def)

lemma show_pad_inj: "show_pad w m = show_pad w n \<Longrightarrow> m = n"
  by (metis option.inject parse_digits_show_pad)

lemma show_nat_hd_not_plus: "hd (show_nat n) \<noteq> CHR ''+''"
proof -
  have "hd (show_nat n) \<in> set (show_nat n)" by simp
  then have "is_digit (hd (show_nat n))" using show_nat_digits by blast
  then show ?thesis by (auto simp: is_digit_def)
qed

lemma parse_u64_show_nat:
  assumes "n < 2 ^ 64"
  shows "parse_u64 (show_nat n) = Some n"
proof -
  obtain c cs where s: "show_nat n = c # cs" by (cases "show_nat n") auto
  with show_nat_hd_not_plus [of n] have "c \<noteq> CHR ''+''" by simp
  with s parse_digits_show_nat [of 0 n] assms show ?thesis by (simp add: parse_u64_def)
qed

lemma digit_not_sep: "is_digit c \<Longrightarrow> c \<noteq> CHR ''/'' \<and> c \<noteq> CHR ''-'' \<and> c \<noteq> CHR ''.''"
  by (auto simp: is_digit_def)

lemma slash_notin_show_nat [simp]: "CHR ''/'' \<notin> set (show_nat n)"
  using show_nat_digits [of n] digit_not_sep by blast

end
