(* ===== verification/Keys.thy ===== *)
theory Keys
  imports Text
begin

text \<open>
  The store-relative key layout of \<open>chuk-train-proto/src/keys.rs\<close>, the metric-key grammar of
  \<open>introspect.rs\<close>, and the parser of a checkpoint uri in \<open>hub/messages.rs\<close>. The lemmas show
  that the layout round-trips through the parser, that layout keys are safe exactly when
  their parts are, and that a safe key can never leave the store's root.
\<close>

definition CKPT_HOT_PREFIX :: string where [simp]: "CKPT_HOT_PREFIX = ''ckpt-hot''"
definition CKPT_FINAL_PREFIX :: string where [simp]: "CKPT_FINAL_PREFIX = ''ckpt-final''"
definition CHECKPOINT_DIR_PREFIX :: string where [simp]: "CHECKPOINT_DIR_PREFIX = ''step_''"
definition CHECKPOINT_READY_MARKER :: string where [simp]: "CHECKPOINT_READY_MARKER = ''.ready''"
definition CHECKPOINT_META_FILE :: string where [simp]: "CHECKPOINT_META_FILE = ''meta.json''"
definition CHECKPOINT_MODEL_FILE :: string where
  [simp]: "CHECKPOINT_MODEL_FILE = ''model.safetensors''"
definition CODE_UNIT_TARBALL :: string where [simp]: "CODE_UNIT_TARBALL = ''unit.tar.zst''"
definition CODE_UNIT_MANIFEST :: string where [simp]: "CODE_UNIT_MANIFEST = ''unit.toml''"
definition CODE_UNIT_LOCKFILE :: string where [simp]: "CODE_UNIT_LOCKFILE = ''uv.lock''"

definition code_unit_dir :: "string \<Rightarrow> string \<Rightarrow> string" where
  "code_unit_dir name sha = ''artifacts/code/'' @ name @ ''/'' @ sha"

definition code_unit_tarball :: "string \<Rightarrow> string \<Rightarrow> string" where
  "code_unit_tarball name sha = code_unit_dir name sha @ ''/'' @ CODE_UNIT_TARBALL"

definition code_unit_manifest :: "string \<Rightarrow> string \<Rightarrow> string" where
  "code_unit_manifest name sha = code_unit_dir name sha @ ''/'' @ CODE_UNIT_MANIFEST"

definition code_unit_lockfile :: "string \<Rightarrow> string \<Rightarrow> string" where
  "code_unit_lockfile name sha = code_unit_dir name sha @ ''/'' @ CODE_UNIT_LOCKFILE"

definition checkpoint_dir :: "string \<Rightarrow> nat \<Rightarrow> string" where
  "checkpoint_dir run_id step =
     CKPT_HOT_PREFIX @ ''/'' @ run_id @ ''/'' @ CHECKPOINT_DIR_PREFIX @ show_nat step"

definition checkpoint_file :: "string \<Rightarrow> nat \<Rightarrow> string \<Rightarrow> string" where
  "checkpoint_file run_id step filename = checkpoint_dir run_id step @ ''/'' @ filename"

definition checkpoint_final_dir :: "string \<Rightarrow> nat \<Rightarrow> string" where
  "checkpoint_final_dir run_id step =
     CKPT_FINAL_PREFIX @ ''/'' @ run_id @ ''/'' @ CHECKPOINT_DIR_PREFIX @ show_nat step"

definition checkpoint_final_file :: "string \<Rightarrow> nat \<Rightarrow> string \<Rightarrow> string" where
  "checkpoint_final_file run_id step filename = checkpoint_final_dir run_id step @ ''/'' @ filename"

definition is_safe_key :: "string \<Rightarrow> bool" where
  "is_safe_key key \<longleftrightarrow>
     key \<noteq> [] \<and> \<not> starts_with ''/'' key \<and>
     \<not> (\<exists>seg\<in>set (split_on (CHR ''/'') key). seg = [] \<or> seg = ''.'' \<or> seg = ''..'')"

text \<open>\<open>step_from_uri\<close> (hub/messages.rs): the trailing \<open>step_<n>\<close> segment.\<close>

definition step_from_uri :: "string \<Rightarrow> nat option" where
  "step_from_uri uri =
     (case strip_prefix CHECKPOINT_DIR_PREFIX (last (split_on (CHR ''/'') uri)) of
        Some rest \<Rightarrow> parse_u64 rest | None \<Rightarrow> None)"

text \<open>\<open>introspect.rs\<close>: \<open>introspect/<family>[/<qualifier>]/L{i}[@<corpus>]\<close>.\<close>

definition metric_key ::
  "string \<Rightarrow> string option \<Rightarrow> nat option \<Rightarrow> string option \<Rightarrow> string" where
  "metric_key family qualifier layer corpus =
     (let k0 = ''introspect/'' @ family;
          k1 = (case qualifier of Some q \<Rightarrow> k0 @ ''/'' @ q | None \<Rightarrow> k0);
          k2 = (case layer of Some i \<Rightarrow> k1 @ ''/'' @ ''L'' @ show_nat i | None \<Rightarrow> k1)
      in case corpus of Some c \<Rightarrow> k2 @ ''@'' @ c | None \<Rightarrow> k2)"

definition layer_key :: "string \<Rightarrow> nat \<Rightarrow> string" where
  "layer_key family layer = metric_key family None (Some layer) None"

definition global_key :: "string \<Rightarrow> string" where
  "global_key family = metric_key family None None None"

text \<open>The hub's lineage label of a dataset (\<open>dataset_label\<close>, hub/schedule.rs).\<close>

definition dataset_label :: "string \<Rightarrow> string \<Rightarrow> string" where
  "dataset_label asked content_sha =
     (case rsplit_once (CHR ''@'') asked of
        Some (name, _) \<Rightarrow> name @ ''@sha256:'' @ content_sha
      | None \<Rightarrow> ''sha256:'' @ content_sha)"

subsection \<open>What a path means, and what a safe key can reach\<close>

text \<open>
  POSIX resolution of a path's segments below a directory stack: an empty segment or a dot
  stays, a double dot goes to the parent. This is the reference the guard is judged by; it is
  not code of the repository.
\<close>

fun resolve_segs :: "string list \<Rightarrow> string list \<Rightarrow> string list" where
  "resolve_segs dir [] = dir"
| "resolve_segs dir (seg # segs) =
     (if seg = [] \<or> seg = ''.'' then resolve_segs dir segs
      else if seg = ''..'' then resolve_segs (butlast dir) segs
      else resolve_segs (dir @ [seg]) segs)"

lemma resolve_segs_safe:
  "\<forall>seg\<in>set segs. seg \<noteq> [] \<and> seg \<noteq> ''.'' \<and> seg \<noteq> ''..'' \<Longrightarrow>
   resolve_segs dir segs = dir @ segs"
  by (induction segs arbitrary: dir) auto

lemma is_safe_key_segs:
  "is_safe_key key \<longleftrightarrow>
   (\<forall>seg\<in>set (split_on (CHR ''/'') key). seg \<noteq> [] \<and> seg \<noteq> ''.'' \<and> seg \<noteq> ''..'')"
proof (cases key)
  case (Cons c cs)
  have "c = CHR ''/'' \<Longrightarrow> [] \<in> set (split_on (CHR ''/'') (c # cs))" by simp
  with Cons show ?thesis by (auto simp: is_safe_key_def starts_with_iff)
qed (simp add: is_safe_key_def)

lemma is_safe_key_join:
  "is_safe_key (a @ CHR ''/'' # b) \<longleftrightarrow> is_safe_key a \<and> is_safe_key b"
  by (auto simp: is_safe_key_segs split_on_append_sep)

lemma is_safe_seg:
  "CHR ''/'' \<notin> set s \<Longrightarrow> is_safe_key s \<longleftrightarrow> s \<noteq> [] \<and> s \<noteq> ''.'' \<and> s \<noteq> ''..''"
  by (simp add: is_safe_key_segs split_on_no_sep)

lemma is_safe_step: "is_safe_key (CHECKPOINT_DIR_PREFIX @ show_nat n)"
  by (simp add: is_safe_seg)

lemma is_safe_lit [simp]: "is_safe_key ''ckpt-hot''" "is_safe_key ''ckpt-final''"
  "is_safe_key ''artifacts'' " "is_safe_key ''code''" "is_safe_key ''runs''"
  "is_safe_key ''meta.json''" "is_safe_key ''model.safetensors''"
  by (simp_all add: is_safe_seg)

lemma is_safe_checkpoint_dir: "is_safe_key (checkpoint_dir run step) \<longleftrightarrow> is_safe_key run"
  using is_safe_key_join [of "''ckpt-hot''" "run @ CHR ''/'' # CHECKPOINT_DIR_PREFIX @ show_nat step"]
    is_safe_key_join [of run "CHECKPOINT_DIR_PREFIX @ show_nat step"] is_safe_step [of step]
  by (simp add: checkpoint_dir_def)

lemma is_safe_checkpoint_file:
  "is_safe_key (checkpoint_file run step f) \<longleftrightarrow> is_safe_key run \<and> is_safe_key f"
  using is_safe_key_join [of "checkpoint_dir run step" f]
  by (simp add: checkpoint_file_def is_safe_checkpoint_dir)

lemma step_from_uri_checkpoint_dir:
  assumes "n < 2 ^ 64"
  shows "step_from_uri (base @ checkpoint_dir run n) = Some n"
proof -
  let ?tail = "CHECKPOINT_DIR_PREFIX @ show_nat n"
  have "base @ checkpoint_dir run n = (base @ CKPT_HOT_PREFIX @ ''/'' @ run) @ CHR ''/'' # ?tail"
    by (simp add: checkpoint_dir_def)
  moreover have "CHR ''/'' \<notin> set ?tail" by simp
  ultimately have "last (split_on (CHR ''/'') (base @ checkpoint_dir run n)) = ?tail"
    by (metis last_split_on)
  with assms show ?thesis
    by (simp add: step_from_uri_def parse_u64_show_nat del: CHECKPOINT_DIR_PREFIX_def)
qed

text \<open>The only uris that parse are those whose last segment is \<open>step_\<close> and a decimal.\<close>

lemma step_from_uri_SomeD:
  "step_from_uri uri = Some n \<Longrightarrow>
   n < 2 ^ 64 \<and> (\<exists>d. last (split_on (CHR ''/'') uri) = ''step_'' @ d \<and> parse_u64 d = Some n)"
  by (auto simp: step_from_uri_def strip_prefix_Some_iff split: option.splits
      dest: parse_u64_bound)


end
