(* ===== verification/Wire.thy ===== *)
theory Wire
  imports Keys
begin

text \<open>
  \<open>chuk-compute-wire\<close>: the compute-generic protocol between worker and control plane. The
  transparent string newtypes are \<open>string\<close>s; \<open>u64\<close> and \<open>u32\<close> fields are \<open>nat\<close> (their bounds
  are hypotheses where a property needs them), \<open>i64\<close> fields are \<open>int\<close>, JSON values are the
  datatype \<open>json\<close>; a \<open>BTreeMap\<close> that is only carried is an association list in key order.
\<close>

type_synonym job_id = string
type_synonym worker_id = string
type_synonym artifact_class = string

text \<open>\<open>serde_json::Value\<close>; a number is an integer or a finite float.\<close>

datatype json =
    JNull
  | JBool bool
  | JInt int
  | JFloat real
  | JStr string
  | JArr "json list"
  | JObj "(string \<times> json) list"

fun as_i64 :: "json \<Rightarrow> int option" where
  "as_i64 (JInt i) = (if - (2 ^ 63) \<le> i \<and> i < 2 ^ 63 then Some i else None)"
| "as_i64 _ = None"

text \<open>\<open>Value::get(key)\<close>: only an object has members.\<close>

fun json_get :: "json \<Rightarrow> string \<Rightarrow> json option" where
  "json_get (JObj fields) k = map_of fields k"
| "json_get _ k = None"

text \<open>
  An \<open>f64\<close> that may be non-finite (metric values); timestamps and money are \<open>real\<close>.
\<close>

datatype f64 = Fin real | PosInf | NegInf | NaN

fun is_finite :: "f64 \<Rightarrow> bool" where
  "is_finite (Fin x) = True"
| "is_finite _ = False"

datatype worker_class = Leased | Persistent

datatype kill_reason = Wall | MaxRuntime | Cancel_reason | Drain_reason | OomGuard

datatype upload_policy = OnExit | OnAppearance | Stream

record input_artifact =
  ia_uri :: string
  ia_dest :: string
  ia_sha256 :: "string option"
  ia_unpack :: bool

record output_rule =
  or_class :: artifact_class
  or_glob :: string
  or_upload :: upload_policy
  or_key_prefix :: string
  or_ready_marker :: "string option"

datatype readiness = Immediate | HttpGet string nat | TcpOpen nat | LogLine string

datatype restart_policy = Never | OnFailure | Always

record service_spec =
  sv_name :: string
  sv_ports :: "nat list"
  sv_readiness :: readiness
  sv_restart :: restart_policy

record service_ref =
  sr_name :: string
  sr_env :: string

record placement =
  pl_prefer_worker :: "worker_id option"
  pl_require_labels :: "(string \<times> string) list"

record job =
  jb_id :: job_id
  jb_template :: string
  jb_command :: "string list"
  jb_env :: "(string \<times> string) list"
  jb_inputs :: "input_artifact list"
  jb_outputs :: "output_rule list"
  jb_metrics_file :: "string option"
  jb_max_runtime_secs :: "nat option"
  jb_term_grace_secs :: nat
  jb_service :: "service_spec option"
  jb_needs :: "service_ref list"
  jb_campaign :: "string option"
  jb_placement :: placement
  jb_grant :: "string option"

record gpu_info =
  gi_name :: string
  gi_vram_bytes :: nat
  gi_driver_version :: "string option"
  gi_cuda_version :: "string option"

datatype accelerator = Cuda "gpu_info list" | Mps string nat | Cpu

record capabilities =
  cp_os :: string
  cp_arch :: string
  cp_cpu_cores :: nat
  cp_ram_bytes :: nat
  cp_free_disk_bytes :: nat
  cp_preemptible :: bool
  cp_accelerator :: accelerator
  cp_labels :: "(string \<times> string) list"

record resume =
  re_worker_id :: worker_id
  re_running_jobs :: "job_id list"
  re_high_water :: nat

record telemetry_config =
  tc_interval_secs :: nat
  tc_enabled :: bool

definition default_telemetry :: telemetry_config where
  "default_telemetry = \<lparr>tc_interval_secs = 5, tc_enabled = True\<rparr>"

text \<open>Worker to control plane; the first \<open>nat\<close> of a streamed event is its \<open>seq\<close>.\<close>

datatype worker_to_cp =
    Hello nat string string string capabilities "resume option"
      \<comment> \<open>protocol version, semver, target triple, token, capabilities, resume\<close>
  | Heartbeat
  | JobStarted nat job_id
  | JobExited nat job_id int
  | JobKilled nat job_id kill_reason
  | ServiceReady nat job_id "nat list"
  | Log nat job_id string
  | Metric nat "job_id option" "nat option" "(string \<times> f64) list"
  | Artifact nat job_id artifact_class string "string option" "nat option" json
  | Drained

datatype cp_to_worker =
    HelloAck worker_id worker_class telemetry_config "unix_seconds option" nat
  | HelloReject string nat "string option" "string option"
  | AssignJob job
  | Cancel job_id
  | Drain unix_seconds

definition PROTOCOL_VERSION :: nat where [simp]: "PROTOCOL_VERSION = 1"
definition DEFAULT_TERM_GRACE_SECS :: nat where [simp]: "DEFAULT_TERM_GRACE_SECS = 30"
definition SANDBOX_PLACEHOLDER :: string where [simp]: "SANDBOX_PLACEHOLDER = ''${SANDBOX}''"

datatype blob_method = Put | Get

record blob_url_request =
  bq_key :: string
  bq_method :: blob_method

record blob_url_response =
  br_url :: string
  br_requires_grant_header :: bool

end
