(* ===== verification/Domain.thy ===== *)
theory Domain
  imports Wire
begin

text \<open>
  \<open>chuk-train-proto\<close>: the training domain's types (\<open>domain.rs\<close>, \<open>lease.rs\<close>, \<open>manifest.rs\<close>,
  the REST payloads of \<open>wire.rs\<close> the control plane computes with) and the constants both
  sides agree on. Columns the stores keep as JSON text are kept as the value itself.
\<close>

type_synonym run_id = string

datatype run_state = Queued | Assigned | Running | Completed | Failed | Cancelled

fun run_state_str :: "run_state \<Rightarrow> string" where
  "run_state_str Queued = ''queued''"
| "run_state_str Assigned = ''assigned''"
| "run_state_str Running = ''running''"
| "run_state_str Completed = ''completed''"
| "run_state_str Failed = ''failed''"
| "run_state_str Cancelled = ''cancelled''"

fun is_terminal :: "run_state \<Rightarrow> bool" where
  "is_terminal s = (s = Completed \<or> s = Failed \<or> s = Cancelled)"

datatype checkpoint_location = R2Hot | R2Final | Drive

fun checkpoint_location_str :: "checkpoint_location \<Rightarrow> string" where
  "checkpoint_location_str R2Hot = ''r2_hot''"
| "checkpoint_location_str R2Final = ''r2_final''"
| "checkpoint_location_str Drive = ''drive''"

datatype role = Read | Write | Admin | Sysadmin

fun role_str :: "role \<Rightarrow> string" where
  "role_str Read = ''read''"
| "role_str Write = ''write''"
| "role_str Admin = ''admin''"
| "role_str Sysadmin = ''sysadmin''"

text \<open>\<open>derive(PartialOrd, Ord)\<close>: the order of declaration, least privileged first.\<close>

fun role_rank :: "role \<Rightarrow> nat" where
  "role_rank Read = 0"
| "role_rank Write = 1"
| "role_rank Admin = 2"
| "role_rank Sysadmin = 3"

lemma role_rank_inj: "role_rank a = role_rank b \<Longrightarrow> a = b"
  by (cases a; cases b) auto

instantiation role :: linorder
begin
definition less_eq_role :: "role \<Rightarrow> role \<Rightarrow> bool" where
  "less_eq_role a b \<longleftrightarrow> role_rank a \<le> role_rank b"
definition less_role :: "role \<Rightarrow> role \<Rightarrow> bool" where
  "less_role a b \<longleftrightarrow> role_rank a < role_rank b"
instance
  by standard (auto simp: less_eq_role_def less_role_def intro: role_rank_inj)
end

record user =
  us_email :: string
  us_team_id :: string
  us_role :: role
  us_created_at :: unix_seconds

record team =
  tm_id :: string
  tm_name :: string
  tm_created_at :: unix_seconds

datatype worker_state = Connected | Disconnected

datatype event_kind =
    EvCreated | EvQueued | EvAssigned | EvRunning | EvCompleted | EvFailed | EvCancelled
  | EvCheckpoint | EvSliced | EvResumed | EvGateEvaluated

fun event_kind_of :: "run_state \<Rightarrow> event_kind" where
  "event_kind_of Queued = EvQueued"
| "event_kind_of Assigned = EvAssigned"
| "event_kind_of Running = EvRunning"
| "event_kind_of Completed = EvCompleted"
| "event_kind_of Failed = EvFailed"
| "event_kind_of Cancelled = EvCancelled"

record code_ref =
  cr_name :: string
  cr_sha :: string

definition code_ref_display :: "code_ref \<Rightarrow> string" where
  "code_ref_display c = cr_name c @ ''@sha256:'' @ cr_sha c"

datatype artifact_kind =
  KCode | KEnv | KDataset | KCheckpoint | KMetrics | KLogs | KDeck

record artifact_ref =
  ar_name :: string
  ar_kind :: artifact_kind
  ar_sha :: "string option"

record data_ref =
  dr_dataset :: string
  dr_plan :: "string option"

record run_link =
  rl_kind :: string
  rl_label :: string
  rl_url :: string

record checkpoint_policy =
  po_every_steps :: nat
  po_keep_last :: nat
  po_keep_every :: nat

definition default_checkpoint_policy :: checkpoint_policy where
  "default_checkpoint_policy = \<lparr>po_every_steps = 500, po_keep_last = 3, po_keep_every = 5000\<rparr>"

record shell_spec =
  sh_command :: string
  sh_timeout_s :: nat

record train_spec =
  tr_code :: code_ref
  tr_entrypoint :: string
  tr_config :: "string option"
  tr_overrides :: json
  tr_artifacts_in :: "artifact_ref list"
  tr_data :: "data_ref option"
  tr_checkpoint :: checkpoint_policy
  tr_seed :: "int option"
  tr_arch :: "string option"
  tr_timeout_s :: nat
  tr_links :: "run_link list"

datatype run_spec = Shell shell_spec | Train train_spec

fun kind_str :: "run_spec \<Rightarrow> string" where
  "kind_str (Shell _) = ''shell''"
| "kind_str (Train _) = ''train''"

fun timeout_s :: "run_spec \<Rightarrow> nat" where
  "timeout_s (Shell s) = sh_timeout_s s"
| "timeout_s (Train t) = tr_timeout_s t"

record hardware =
  hw_host :: string
  hw_os :: string
  hw_gpu :: "string option"
  hw_vram_mb :: "nat option"
  hw_driver :: "string option"

subsection \<open>Leases (\<open>lease.rs\<close>)\<close>

datatype lease_state = Active | Draining | Destroyed

fun lease_state_str :: "lease_state \<Rightarrow> string" where
  "lease_state_str Active = ''active''"
| "lease_state_str Draining = ''draining''"
| "lease_state_str Destroyed = ''destroyed''"

record lease_extension =
  ex_minutes :: real
  ex_at :: unix_seconds
  ex_reason :: string

record lease =
  ls_worker_id :: worker_id
  ls_provider :: string
  ls_instance_id :: string
  ls_price_hr :: real
  ls_granted_min :: real
  ls_drain_window_min :: real
  ls_started_at :: unix_seconds
  ls_state :: lease_state
  ls_extensions :: "lease_extension list"

definition total_granted_min :: "lease \<Rightarrow> real" where
  "total_granted_min l = ls_granted_min l + sum_list (map ex_minutes (ls_extensions l))"

definition wall_secs :: "lease \<Rightarrow> real" where
  "wall_secs l = total_granted_min l * 60"

definition drain_secs :: "lease \<Rightarrow> real" where
  "drain_secs l = max (wall_secs l - ls_drain_window_min l * 60) 0"

definition remaining_min :: "lease \<Rightarrow> unix_seconds \<Rightarrow> real" where
  "remaining_min l now = (wall_secs l - (now - ls_started_at l)) / 60"

definition projected_cost :: "lease \<Rightarrow> real" where
  "projected_cost l = ls_price_hr l * total_granted_min l / 60"

record offer =
  of_id :: string
  of_provider :: string
  of_gpu :: string
  of_price_hr :: real
  of_vram_gb :: "nat option"
  of_region :: "string option"

record instance_rec =
  in_id :: string
  in_provider :: string
  in_gpu :: string
  in_price_hr :: real

datatype instance_status = InstRunning | Gone | Unknown

record provision_request =
  pr_provider :: string
  pr_lease_min :: real
  pr_offer_id :: "string option"
  pr_gpu :: "string option"
  pr_max_price_hr :: "real option"

record provision_result =
  pv_worker_id :: worker_id
  pv_lease :: lease
  pv_bootstrap :: string

record ledger_entry =
  le_ts :: unix_seconds
  le_worker_id :: worker_id
  le_provider :: string
  le_event :: string
  le_minutes :: real
  le_cost :: real

record budget =
  bu_scope :: string
  bu_cap :: real
  bu_period :: string
  bu_updated_at :: unix_seconds

record teardown_result =
  td_worker_id :: worker_id
  td_destroyed :: bool
  td_status :: instance_status

subsection \<open>Manifests and checkpoint lineage (\<open>manifest.rs\<close>)\<close>

record unit_requires =
  ur_cuda :: "string option"
  ur_min_vram_gb :: "nat option"

record code_unit_manifest_rec =
  mf_name :: string
  mf_version :: string
  mf_entrypoints :: "(string \<times> string) list"
  mf_python :: "string option"
  mf_requires :: unit_requires

definition entrypoint :: "code_unit_manifest_rec \<Rightarrow> string \<Rightarrow> string option" where
  "entrypoint m name = map_of (mf_entrypoints m) name"

record checkpoint_meta =
  cm_step :: nat
  cm_seed :: "int option"
  cm_arch :: "string option"
  cm_code :: "code_ref option"
  cm_config_hash :: "string option"
  cm_tokenizer_hash :: "string option"
  cm_parent_checkpoint :: "string option"
  cm_datasets :: "string list"
  cm_dataset_sha :: "string option"
  cm_plan_sha :: "string option"
  cm_run_id :: "run_id option"
  cm_slices :: "(nat \<times> nat) list"

definition default_checkpoint_meta :: checkpoint_meta where
  "default_checkpoint_meta =
     \<lparr>cm_step = 0, cm_seed = None, cm_arch = None, cm_code = None, cm_config_hash = None,
      cm_tokenizer_hash = None, cm_parent_checkpoint = None, cm_datasets = [],
      cm_dataset_sha = None, cm_plan_sha = None, cm_run_id = None, cm_slices = []\<rparr>"

subsection \<open>Views and payloads (\<open>wire.rs\<close>)\<close>

record worker_info =
  wi_id :: worker_id
  wi_labels :: "string list"
  wi_hardware :: hardware
  wi_state :: worker_state
  wi_current_run :: "run_id option"
  wi_joined_at :: unix_seconds
  wi_last_seen :: unix_seconds
  wi_heartbeat_age_s :: real
  wi_lease :: "lease option"
  wi_telemetry :: "(string \<times> f64) list option"

record telemetry_point =
  tp_ts :: unix_seconds
  tp_value :: f64

record worker_telemetry =
  wt_worker_id :: worker_id
  wt_sampled_at :: unix_seconds
  wt_values :: "(string \<times> f64) list"
  wt_series :: "string \<Rightarrow> telemetry_point list"

record run_summary =
  rs_id :: run_id
  rs_name :: string
  rs_kind :: string
  rs_state :: run_state
  rs_worker_id :: "worker_id option"
  rs_exit_code :: "int option"
  rs_experiment_ref :: "string option"
  rs_sweep_id :: "string option"
  rs_created_by :: "string option"
  rs_created_at :: unix_seconds
  rs_updated_at :: unix_seconds

record run_record =
  rr_summary :: run_summary
  rr_spec :: run_spec

record run_event =
  re_ts :: unix_seconds
  re_event :: event_kind
  re_detail :: json

record outbox_row =
  ob_id :: int
  ob_run_id :: run_id
  ob_kind :: string
  ob_payload :: string
  ob_attempts :: int

record code_unit_info =
  cu_code :: code_ref
  cu_manifest :: code_unit_manifest_rec
  cu_uri :: string
  cu_created_at :: unix_seconds

record checkpoint_info =
  ck_run_id :: run_id
  ck_step :: nat
  ck_uri :: string
  ck_model_hash :: string
  ck_pinned :: bool
  ck_pin_name :: "string option"
  ck_meta :: checkpoint_meta
  ck_created_at :: unix_seconds
  ck_location :: checkpoint_location
  ck_archived_at :: "unix_seconds option"

record api_key_info =
  ak_id :: string
  ak_team_id :: string
  ak_created_by :: string
  ak_name :: string
  ak_prefix :: string
  ak_role :: role
  ak_created_at :: unix_seconds
  ak_last_used_at :: "unix_seconds option"
  ak_revoked_at :: "unix_seconds option"

record worker_token_info =
  wk_id :: string
  wk_worker_id :: worker_id
  wk_name :: string
  wk_prefix :: string
  wk_created_at :: unix_seconds
  wk_last_used_at :: "unix_seconds option"
  wk_revoked_at :: "unix_seconds option"

record metric_point =
  mp_step :: nat
  mp_value :: real

record spend_line =
  sl_provider :: string
  sl_committed :: real
  sl_spent :: real
  sl_cap :: "real option"
  sl_headroom :: "real option"

record spend_report =
  sp_period :: string
  sp_lines :: "spend_line list"
  sp_total_committed :: real
  sp_total_spent :: real
  sp_global_cap :: "real option"
  sp_global_headroom :: "real option"

record sweep_spec =
  sw_template :: train_spec
  sw_axes :: "(string \<times> json list) list"
  sw_concurrency :: nat

record sweep_child =
  sc_run_id :: run_id
  sc_state :: run_state
  sc_assignment :: "(string \<times> json) list"

record sweep_aggregate_point =
  sa_step :: nat
  sa_n :: nat
  sa_mean :: real
  sa_std :: real
  sa_min :: real
  sa_max :: real

record sweep_status_rec =
  ss_sweep_id :: string
  ss_name :: string
  ss_concurrency :: nat
  ss_children :: "sweep_child list"
  ss_key :: string
  ss_aggregate :: "sweep_aggregate_point list"

datatype gate_action = Record | StopRun

fun gate_action_str :: "gate_action \<Rightarrow> string" where
  "gate_action_str Record = ''record''"
| "gate_action_str StopRun = ''stop_run''"

record gate_info =
  ga_scope :: string
  ga_scope_id :: string
  ga_name :: string
  ga_expr :: string
  ga_action :: gate_action
  ga_created_at :: unix_seconds
  ga_tripped :: "bool option"
  ga_last_value :: "f64 option"
  ga_evaluated_at :: "unix_seconds option"
  ga_detail :: "string option"

subsection \<open>Constants (\<open>constants.rs\<close>), durations in seconds\<close>

definition HEARTBEAT_TIMEOUT :: real where [simp]: "HEARTBEAT_TIMEOUT = 90"
definition HEARTBEAT_PREEMPT_TIMEOUT :: real where [simp]: "HEARTBEAT_PREEMPT_TIMEOUT = 600"
definition ASSIGNMENT_STUCK_TIMEOUT :: real where [simp]: "ASSIGNMENT_STUCK_TIMEOUT = 60"
definition WORKER_SAMPLE_RETENTION :: real where [simp]: "WORKER_SAMPLE_RETENTION = 15 * 60"
definition UPLOAD_GRANT_TTL :: real where [simp]: "UPLOAD_GRANT_TTL = 24 * 3600"
definition JOIN_TOKEN_TTL :: real where [simp]: "JOIN_TOKEN_TTL = 30 * 60"
definition JOIN_TOKEN_PREFIX :: string where [simp]: "JOIN_TOKEN_PREFIX = ''cj_''"
definition WORKER_TOKEN_PREFIX :: string where [simp]: "WORKER_TOKEN_PREFIX = ''cw_''"
definition API_KEY_PREFIX :: string where [simp]: "API_KEY_PREFIX = ''ck_''"
definition DEFAULT_TEAM_ID :: string where [simp]: "DEFAULT_TEAM_ID = ''default''"
definition EXIT_CODE_AGENT_ERROR :: int where [simp]: "EXIT_CODE_AGENT_ERROR = - 1"
definition EXIT_CODE_CANCELLED :: int where [simp]: "EXIT_CODE_CANCELLED = - 15"
definition MAX_SWEEP_CHILDREN :: nat where [simp]: "MAX_SWEEP_CHILDREN = 256"
definition GATE_SCOPE_RUN :: string where [simp]: "GATE_SCOPE_RUN = ''run''"
definition LEDGER_EVENT_LEASE_START :: string where [simp]: "LEDGER_EVENT_LEASE_START = ''lease_start''"
definition LEDGER_EVENT_EXTEND :: string where [simp]: "LEDGER_EVENT_EXTEND = ''extend''"
definition LEDGER_EVENT_LEASE_END :: string where [simp]: "LEDGER_EVENT_LEASE_END = ''lease_end''"
definition BUDGET_SCOPE_GLOBAL :: string where [simp]: "BUDGET_SCOPE_GLOBAL = ''global''"
definition BUDGET_SCOPE_PROVIDER_PREFIX :: string where
  [simp]: "BUDGET_SCOPE_PROVIDER_PREFIX = ''provider:''"
definition BUDGET_PERIOD_MONTH :: string where [simp]: "BUDGET_PERIOD_MONTH = ''month''"
definition BUDGET_PERIOD_ALL :: string where [simp]: "BUDGET_PERIOD_ALL = ''all''"

subsection \<open>Facts about leases\<close>

lemma wall_secs_extend:
  "wall_secs (l\<lparr>ls_extensions := ls_extensions l @ [e]\<rparr>) = wall_secs l + ex_minutes e * 60"
  by (simp add: wall_secs_def total_granted_min_def algebra_simps)

lemma wall_secs_state [simp]: "wall_secs (l\<lparr>ls_state := s\<rparr>) = wall_secs l"
  by (simp add: wall_secs_def total_granted_min_def)

lemma drain_secs_state [simp]: "drain_secs (l\<lparr>ls_state := s\<rparr>) = drain_secs l"
  by (simp add: drain_secs_def)

lemma projected_cost_state [simp]: "projected_cost (l\<lparr>ls_state := s\<rparr>) = projected_cost l"
  by (simp add: projected_cost_def total_granted_min_def)

lemma drain_secs_le_wall:
  "0 \<le> wall_secs l \<Longrightarrow> 0 \<le> ls_drain_window_min l \<Longrightarrow> drain_secs l \<le> wall_secs l"
  by (simp add: drain_secs_def)

end
