(* ===== verification/Ids.thy ===== *)
theory Ids
  imports Domain
begin

text \<open>
  \<open>store/ids.rs\<close>, the helpers both store adapters share: run and sweep ids, the civil
  calendar behind them (also \<open>budget.rs\<close>, which adds the inverse), metric downsampling, the
  fold of telemetry samples and the event-detail merge. All divisions of the calendar code
  act on non-negative operands or are \<open>div_euclid\<close> with a positive divisor, so \<open>div\<close> and
  \<open>mod\<close> on \<open>int\<close> compute them.
\<close>

definition civil_from_days :: "int \<Rightarrow> int \<times> nat \<times> nat" where
  "civil_from_days z0 =
     (let z = z0 + 719468;
          era = z div 146097;
          doe = z - era * 146097;
          yoe = (doe - doe div 1460 + doe div 36524 - doe div 146096) div 365;
          y = yoe + era * 400;
          doy = doe - (365 * yoe + yoe div 4 - yoe div 100);
          mp = (5 * doy + 2) div 153;
          d = nat (doy - (153 * mp + 2) div 5 + 1);
          m = nat (if mp < 10 then mp + 3 else mp - 9)
      in (if m \<le> 2 then y + 1 else y, m, d))"

definition utc_parts :: "int \<Rightarrow> int \<times> nat \<times> nat \<times> nat \<times> nat \<times> nat" where
  "utc_parts secs =
     (let days = secs div 86400;
          rem = secs mod 86400;
          (y, m, d) = civil_from_days days
      in (y, m, d, nat (rem div 3600), nat (rem mod 3600 div 60), nat (rem mod 60)))"

definition EXEC_ID_PREFIX :: string where [simp]: "EXEC_ID_PREFIX = ''EXEC-''"
definition SWEEP_ID_PREFIX :: string where [simp]: "SWEEP_ID_PREFIX = ''SWEEP-''"
definition RUN_ID_SEQ_WIDTH :: nat where [simp]: "RUN_ID_SEQ_WIDTH = 5"

text \<open>\<open>at as i64\<close> truncates towards zero.\<close>

definition trunc_to_int :: "real \<Rightarrow> int" where
  "trunc_to_int x = (if x < 0 then \<lceil>x\<rceil> else \<lfloor>x\<rfloor>)"

definition stamped_id :: "string \<Rightarrow> unix_seconds \<Rightarrow> int \<Rightarrow> string" where
  "stamped_id prefix ts seq =
     (let (y, m, d, hh, mm, ss) = utc_parts (trunc_to_int ts)
      in prefix @ show_pad_int 4 y @ show_pad 2 m @ show_pad 2 d @ ''-'' @
         show_pad 2 hh @ show_pad 2 mm @ show_pad 2 ss @ ''-'' @
         show_pad_int RUN_ID_SEQ_WIDTH seq)"

definition new_run_id :: "unix_seconds \<Rightarrow> int \<Rightarrow> string" where
  "new_run_id ts seq = stamped_id EXEC_ID_PREFIX ts seq"

definition new_sweep_id :: "unix_seconds \<Rightarrow> int \<Rightarrow> string" where
  "new_sweep_id ts seq = stamped_id SWEEP_ID_PREFIX ts seq"

text \<open>\<open>budget.rs\<close>: the inverse calendar map and the start of the current month.\<close>

definition days_from_civil :: "int \<Rightarrow> nat \<Rightarrow> nat \<Rightarrow> int" where
  "days_from_civil y0 m d =
     (let y = (if m \<le> 2 then y0 - 1 else y0);
          era = y div 400;
          yoe = y mod 400;
          mp = (if m > 2 then int m - 3 else int m + 9);
          doy = (153 * mp + 2) div 5 + int d - 1;
          doe = yoe * 365 + yoe div 4 - yoe div 100 + doy
      in era * 146097 + doe - 719468)"

definition month_start :: "unix_seconds \<Rightarrow> unix_seconds" where
  "month_start now =
     (let days = trunc_to_int now div 86400;
          (y, m, _) = civil_from_days days
      in real_of_int (days_from_civil y m 1 * 86400))"

text \<open>\<open>points.iter().step_by(stride)\<close> and the in-place downsampling.\<close>

fun step_by :: "nat \<Rightarrow> 'a list \<Rightarrow> 'a list" where
  "step_by k [] = []"
| "step_by k (x # xs) = x # step_by k (drop (k - 1) xs)"

definition div_ceil :: "nat \<Rightarrow> nat \<Rightarrow> nat" where
  "div_ceil a b = (a + b - 1) div b"

definition downsample_in_place :: "'a list \<Rightarrow> nat \<Rightarrow> 'a list" where
  "downsample_in_place points limit =
     (if limit = 0 \<or> length points \<le> limit then points
      else let stride = div_ceil (length points) limit;
               kept = step_by stride points
           in if points \<noteq> [] \<and> (kept = [] \<or> last kept \<noteq> last points)
              then kept @ [last points] else kept)"

text \<open>\<open>merge_field\<close>: insert into a JSON object, coercing a non-object to an empty one. A
  \<open>serde_json\<close> object is ordered by key, so its members are kept in key order.\<close>

fun put_member :: "string \<Rightarrow> json \<Rightarrow> (string \<times> json) list \<Rightarrow> (string \<times> json) list" where
  "put_member k v [] = [(k, v)]"
| "put_member k v ((k', v') # m) =
     (if k = k' then (k, v) # m
      else if k < k' then (k, v) # (k', v') # m
      else (k', v') # put_member k v m)"

fun merge_field :: "json \<Rightarrow> string \<Rightarrow> json \<Rightarrow> json" where
  "merge_field (JObj m) k v = JObj (put_member k v m)"
| "merge_field _ k v = JObj (put_member k v [])"

text \<open>\<open>worker_telemetry_from_samples\<close>: samples ascending by timestamp.\<close>

definition telemetry_series :: "(unix_seconds \<times> (string \<times> f64) list) list \<Rightarrow> string \<Rightarrow> telemetry_point list"
  where
  "telemetry_series samples key =
     concat (map (\<lambda>(ts, values). map (\<lambda>(k, v). \<lparr>tp_ts = ts, tp_value = v\<rparr>)
                                   (filter (\<lambda>(k, v). k = key) values)) samples)"

definition worker_telemetry_from_samples ::
  "worker_id \<Rightarrow> (unix_seconds \<times> (string \<times> f64) list) list \<Rightarrow> worker_telemetry option" where
  "worker_telemetry_from_samples worker_id samples =
     (if samples = [] then None
      else Some \<lparr>wt_worker_id = worker_id, wt_sampled_at = fst (last samples),
                 wt_values = snd (last samples), wt_series = telemetry_series samples\<rparr>)"

subsection \<open>Downsampling keeps the shape of a series\<close>

lemma length_step_by: "0 < k \<Longrightarrow> length (step_by k xs) = div_ceil (length xs) k"
proof (induction k xs rule: step_by.induct)
  case (1 k)
  then show ?case by (simp add: div_ceil_def)
next
  case (2 k x xs)
  show ?case
  proof (cases "k \<le> Suc (length xs)")
    case True
    with "2.prems" have "length xs - (k - 1) + k - 1 = length xs" by simp
    moreover from "2.prems" have "(length xs + k) div k = length xs div k + 1"
      by simp
    ultimately show ?thesis
      using 2 by (simp add: div_ceil_def)
  next
    case False
    with "2.prems" have "(length xs + k) div k = 1" by simp
    with 2 False show ?thesis by (simp add: div_ceil_def)
  qed
qed

lemma set_step_by: "set (step_by k xs) \<subseteq> set xs"
  by (induction k xs rule: step_by.induct) (auto dest: in_set_dropD)

lemma sorted_step_by: "sorted xs \<Longrightarrow> sorted (step_by k xs)"
proof (induction k xs rule: step_by.induct)
  case (2 k x xs)
  have "set (step_by k (drop (k - 1) xs)) \<subseteq> set xs"
    using set_step_by [of k "drop (k - 1) xs"] set_drop_subset [of "k - 1" xs] by blast
  with 2 show ?case by (auto simp: sorted_wrt_drop)
qed simp

lemma map_step_by: "map f (step_by k xs) = step_by k (map f xs)"
  by (induction k xs rule: step_by.induct) (auto simp: drop_map)

lemma step_by_nonempty [simp]: "step_by k xs = [] \<longleftrightarrow> xs = []"
  by (cases xs) auto

lemma div_ceil_le: "0 < m \<Longrightarrow> m < n \<Longrightarrow> div_ceil n (div_ceil n m) \<le> m"
proof -
  assume m: "0 < m" "m < n"
  let ?s = "div_ceil n m"
  have "n + m - 1 < m + m * ((n + m - 1) div m)"
    using m by (intro dividend_less_times_div) simp
  then have "n \<le> m * ?s"
    using m unfolding div_ceil_def by linarith
  moreover have "0 < ?s" using m by (simp add: div_ceil_def div_greater_zero_iff)
  ultimately have "n + ?s - 1 < Suc m * ?s" using m by simp
  then have "(n + ?s - 1) div ?s < Suc m" using \<open>0 < ?s\<close> by (simp add: less_mult_imp_div_less)
  then show ?thesis by (simp add: div_ceil_def [of n ?s])
qed

lemma length_downsample:
  "0 < m \<Longrightarrow> length (downsample_in_place xs m) \<le> m + 1"
  using div_ceil_le [of m "length xs"]
  by (auto simp: downsample_in_place_def Let_def length_step_by div_ceil_def div_greater_zero_iff
      not_le)

lemma last_downsample: "xs \<noteq> [] \<Longrightarrow> last (downsample_in_place xs m) = last xs"
  by (auto simp: downsample_in_place_def Let_def)

lemma hd_downsample: "xs \<noteq> [] \<Longrightarrow> hd (downsample_in_place xs m) = hd xs"
  by (cases xs) (auto simp: downsample_in_place_def Let_def)

lemma set_downsample: "set (downsample_in_place xs m) \<subseteq> set xs"
  by (auto simp: downsample_in_place_def Let_def dest: subsetD [OF set_step_by])

lemma sorted_downsample:
  assumes "sorted (map f xs)"
  shows "sorted (map f (downsample_in_place xs m))"
proof -
  let ?k = "div_ceil (length xs) m"
  have s: "sorted (map f (step_by ?k xs))"
    using assms by (simp add: map_step_by sorted_step_by)
  have "\<forall>x\<in>set (step_by ?k xs). xs \<noteq> [] \<longrightarrow> f x \<le> f (last xs)"
  proof (intro ballI impI)
    fix x assume "x \<in> set (step_by ?k xs)" "xs \<noteq> []"
    with set_step_by have "x \<in> set xs" by fastforce
    with assms \<open>xs \<noteq> []\<close> show "f x \<le> f (last xs)"
      by (cases xs rule: rev_cases) (auto simp: sorted_append)
  qed
  with s assms show ?thesis
    by (auto simp: downsample_in_place_def Let_def sorted_append)
qed

subsection \<open>Ids are unique in the sequence number\<close>

lemma minus_notin_show_pad [simp]: "CHR ''-'' \<notin> set (show_pad w n)"
  using show_pad_digits digit_not_sep by blast

lemma slash_notin_show_pad [simp]: "CHR ''/'' \<notin> set (show_pad w n)"
  using show_pad_digits digit_not_sep by blast

lemma rsplit_stamped_id:
  assumes "0 \<le> seq"
  obtains pre where "rsplit_once (CHR ''-'') (stamped_id prefix ts seq) = Some (pre, show_pad 5 (nat seq))"
proof -
  obtain y m d hh mm ss where u: "utc_parts (trunc_to_int ts) = (y, m, d, hh, mm, ss)"
    by (metis prod_cases6)
  let ?pre = "prefix @ show_pad_int 4 y @ show_pad 2 m @ show_pad 2 d @ ''-'' @
    show_pad 2 hh @ show_pad 2 mm @ show_pad 2 ss"
  have "stamped_id prefix ts seq = ?pre @ CHR ''-'' # show_pad 5 (nat seq)"
    using assms by (simp add: stamped_id_def u show_pad_int_def)
  then show thesis
    using rsplit_once_append [of "CHR ''-''" "show_pad 5 (nat seq)" ?pre] that by simp
qed

lemma stamped_id_inj:
  assumes "stamped_id p ts seq = stamped_id p' ts' seq'" "0 \<le> seq" "0 \<le> seq'"
  shows "seq = seq'"
proof -
  obtain pre where 1: "rsplit_once (CHR ''-'') (stamped_id p ts seq) = Some (pre, show_pad 5 (nat seq))"
    using rsplit_stamped_id [OF assms(2)] by blast
  obtain pre' where 2: "rsplit_once (CHR ''-'') (stamped_id p' ts' seq') = Some (pre', show_pad 5 (nat seq'))"
    using rsplit_stamped_id [OF assms(3)] by blast
  from 1 2 assms(1) have "show_pad 5 (nat seq) = show_pad 5 (nat seq')" by simp
  then have "nat seq = nat seq'" by (rule show_pad_inj)
  with assms(2,3) show ?thesis by simp
qed

lemma slash_notin_stamped_id:
  assumes "CHR ''/'' \<notin> set p"
  shows "CHR ''/'' \<notin> set (stamped_id p ts seq)"
proof -
  have "CHR ''/'' \<notin> set (show_pad_int w i)" for w i
    by (auto simp: show_pad_int_def pad_left_def)
  with assms show ?thesis
    by (auto simp: stamped_id_def Let_def split: prod.splits)
qed

end
