(* ===== verification/Calendar.thy ===== *)
theory Calendar
  imports Ids
begin

text \<open>
  Correctness of the calendar arithmetic of \<open>store/ids.rs\<close> and \<open>budget.rs\<close> (Hinnant's
  algorithms): every day number decomposes into era, year of era and day of year, the
  decomposition is a valid civil date, \<open>days_from_civil\<close> inverts it, and \<open>month_start\<close> is
  the first day of the same month. Year and month tables are evaluated by the kernel.
\<close>

subsection \<open>The calendar round trip\<close>

definition year_start :: "int \<Rightarrow> int" where
  "year_start Y = 365 * Y + Y div 4 - Y div 100"

definition year_last :: "int \<Rightarrow> int" where
  "year_last Y = (if Y = 399 then 146096 else year_start (Y + 1) - 1)"

definition yoe_num :: "int \<Rightarrow> int" where
  "yoe_num n = n - n div 1460 + n div 36524 - n div 146096"

lemma div_add_one:
  fixes n k :: int
  assumes "0 < k"
  shows "(n + 1) div k = (if k dvd n + 1 then n div k + 1 else n div k)"
proof -
  let ?q = "n div k" and ?r = "n mod k"
  have n: "n = k * ?q + ?r" and r: "0 \<le> ?r" "?r < k" using assms by auto
  show ?thesis
  proof (cases "?r + 1 = k")
    case True
    have "n + 1 = k * ?q + (?r + 1)" using n by linarith
    then have e: "n + 1 = k * (?q + 1)" using True by (simp only: distrib_left mult_1_right)
    then have "(n + 1) div k = ?q + 1" using assms by simp
    with e show ?thesis by (metis dvd_triv_left)
  next
    case False
    with r have "?r + 1 < k" "0 < ?r + 1" by auto
    then have "(n + 1) mod k = ?r + 1" using mod_add_left_eq [of n k 1] r by simp
    with \<open>0 < ?r + 1\<close> have "\<not> k dvd n + 1" by (simp add: dvd_eq_mod_eq_0)
    moreover have "(n + 1) div k = ?q"
      using n r \<open>?r + 1 < k\<close> by (intro int_div_pos_eq [where r = "?r + 1"]) auto
    ultimately show ?thesis by simp
  qed
qed

lemma yoe_num_Suc: "yoe_num n \<le> yoe_num (n + 1)"
proof -
  have "146096 dvd n + 1 \<Longrightarrow> 36524 dvd n + 1"
    by (rule dvd_trans [of _ 146096]) (simp_all add: dvd_def)
  then show ?thesis by (simp add: yoe_num_def div_add_one)
qed

lemma yoe_num_mono: "m \<le> n \<Longrightarrow> yoe_num m \<le> yoe_num n"
proof (induction "nat (n - m)" arbitrary: n)
  case 0
  then show ?case by simp
next
  case (Suc k)
  then have "yoe_num m \<le> yoe_num (n - 1)" by simp
  also have "\<dots> \<le> yoe_num n" using yoe_num_Suc [of "n - 1"] by simp
  finally show ?case .
qed

lemma year_table:
  "\<forall>Y\<in>set [0..399]. yoe_num (year_start Y) div 365 = Y \<and> yoe_num (year_last Y) div 365 = Y \<and>
     year_last Y - year_start Y \<le> 365"
  by code_simp

lemma yoe_correct:
  assumes "0 \<le> doe" "doe \<le> 146096"
  defines "Y \<equiv> yoe_num doe div 365"
  shows "0 \<le> Y \<and> Y \<le> 399 \<and> 0 \<le> doe - year_start Y \<and> doe - year_start Y \<le> 365"
proof -
  let ?P = "\<lambda>k::nat. doe \<le> year_last (int k) \<and> k \<le> 399"
  have "?P 399" using assms by (simp add: year_last_def)
  define k where "k = (LEAST k. ?P k)"
  have k: "?P k" unfolding k_def by (rule LeastI [of ?P]) fact
  have low: "year_start (int k) \<le> doe"
  proof (cases k)
    case 0
    then show ?thesis using assms by (simp add: year_start_def)
  next
    case (Suc j)
    then have "\<not> ?P j" using not_less_Least [of j ?P] by (simp add: k_def)
    with Suc k show ?thesis by (auto simp: year_last_def algebra_simps)
  qed
  have tab: "yoe_num (year_start (int k)) div 365 = int k \<and>
     yoe_num (year_last (int k)) div 365 = int k \<and> year_last (int k) - year_start (int k) \<le> 365"
    using year_table k by simp
  have "yoe_num (year_start (int k)) div 365 \<le> Y" "Y \<le> yoe_num (year_last (int k)) div 365"
    unfolding Y_def using low k by (auto intro!: zdiv_mono1 yoe_num_mono)
  with tab have "Y = int k" by simp
  with k low tab show ?thesis by simp
qed

lemma month_table:
  "\<forall>doy\<in>set [0..365]. (let mp = (5 * doy + 2) div 153; d = doy - (153 * mp + 2) div 5 + 1
     in 0 \<le> mp \<and> mp \<le> 11 \<and> 1 \<le> d \<and> d \<le> 31)"
  by code_simp

lemma month_bounds:
  fixes doy :: int
  assumes "0 \<le> doy" "doy \<le> 365"
  defines "mp \<equiv> (5 * doy + 2) div 153"
  shows "0 \<le> mp" "mp \<le> 11" "1 \<le> doy - (153 * mp + 2) div 5 + 1"
    "doy - (153 * mp + 2) div 5 + 1 \<le> 31"
  using month_table [THEN bspec, of doy] assms by (auto simp: Let_def)

lemma civil_from_days_parts:
  fixes z :: int
  obtains era Y doy mp where
    "z + 719468 = era * 146097 + (year_start Y + doy)"
    "0 \<le> Y" "Y \<le> 399" "0 \<le> doy" "doy \<le> 365" "mp = (5 * doy + 2) div 153"
    "0 \<le> mp" "mp \<le> 11"
    "civil_from_days z =
       (if mp < 10 then Y + era * 400 else Y + era * 400 + 1,
        nat (if mp < 10 then mp + 3 else mp - 9), nat (doy - (153 * mp + 2) div 5 + 1))"
    "yoe_num (year_start Y + doy) div 365 = Y" "year_start Y + doy \<le> 146096"
proof -
  define era where "era = (z + 719468) div 146097"
  define doe where "doe = z + 719468 - era * 146097"
  have "doe = (z + 719468) mod 146097"
    by (simp add: doe_def era_def minus_div_mult_eq_mod)
  then have doe: "0 \<le> doe" "doe \<le> 146096"
    using pos_mod_bound [of 146097 "z + 719468"] by auto
  define Y where "Y = yoe_num doe div 365"
  define doy where "doy = doe - year_start Y"
  define mp where "mp = (5 * doy + 2) div 153"
  have Y: "0 \<le> Y" "Y \<le> 399" "0 \<le> doy" "doy \<le> 365"
    using yoe_correct [OF doe] unfolding Y_def doy_def by auto
  then have mp: "0 \<le> mp" "mp \<le> 11" unfolding mp_def by (auto intro: month_bounds)
  have "civil_from_days z =
       (if mp < 10 then Y + era * 400 else Y + era * 400 + 1,
        nat (if mp < 10 then mp + 3 else mp - 9), nat (doy - (153 * mp + 2) div 5 + 1))"
    using mp unfolding civil_from_days_def Let_def
    by (simp only: era_def [symmetric] doe_def [symmetric] yoe_num_def [symmetric]
        Y_def [symmetric] year_start_def [symmetric] doy_def [symmetric] mp_def [symmetric])
       (auto simp: nat_le_iff)
  moreover have "year_start Y + doy = doe" by (simp add: doy_def)
  ultimately show ?thesis
    using Y mp doe by (intro that [of era Y doy mp]) (auto simp: doe_def mp_def Y_def)
qed

lemma days_from_civil_day:
  "0 \<le> Y \<Longrightarrow> Y \<le> 399 \<Longrightarrow> 0 \<le> mp \<Longrightarrow> mp \<le> 11 \<Longrightarrow>
   days_from_civil (if mp < 10 then Y + era * 400 else Y + era * 400 + 1)
     (nat (if mp < 10 then mp + 3 else mp - 9)) d =
   era * 146097 + (year_start Y + ((153 * mp + 2) div 5 + int d - 1)) - 719468"
proof -
  assume a: "0 \<le> Y" "Y \<le> 399" "0 \<le> mp" "mp \<le> 11"
  then have d: "(Y + era * 400) div 400 = era" "(Y + era * 400) mod 400 = Y" by auto
  show ?thesis
  proof (cases "mp < 10")
    case True
    with a d show ?thesis
      by (simp add: days_from_civil_def Let_def year_start_def nat_le_iff zless_nat_eq_int_zless algebra_simps)
  next
    case False
    with a have "mp = 10 \<or> mp = 11" by auto
    with a d show ?thesis
      by (auto simp: days_from_civil_def Let_def year_start_def algebra_simps)
  qed
qed

lemma days_from_civil_civil_from_days:
  "civil_from_days z = (y, m, d) \<Longrightarrow> days_from_civil y m d = z"
proof -
  assume c: "civil_from_days z = (y, m, d)"
  obtain era Y doy mp where p:
    "z + 719468 = era * 146097 + (year_start Y + doy)"
    "0 \<le> Y" "Y \<le> 399" "0 \<le> doy" "doy \<le> 365" "mp = (5 * doy + 2) div 153" "0 \<le> mp" "mp \<le> 11"
    "civil_from_days z =
       (if mp < 10 then Y + era * 400 else Y + era * 400 + 1,
        nat (if mp < 10 then mp + 3 else mp - 9), nat (doy - (153 * mp + 2) div 5 + 1))"
    using civil_from_days_parts by metis
  have pos: "0 \<le> doy - (153 * mp + 2) div 5 + 1" using month_bounds [OF p(4,5)] p(6) by simp
  from c p(9) have y: "y = (if mp < 10 then Y + era * 400 else Y + era * 400 + 1)"
    and m: "m = nat (if mp < 10 then mp + 3 else mp - 9)"
    and d: "d = nat (doy - (153 * mp + 2) div 5 + 1)" by auto
  from d pos have "int d = doy - (153 * mp + 2) div 5 + 1" by simp
  with days_from_civil_day [OF p(2,3,7,8), of era d] p(1) y m show ?thesis by simp
qed

lemma civil_from_days_valid:
  "civil_from_days z = (y, m, d) \<Longrightarrow> 1 \<le> m \<and> m \<le> 12 \<and> 1 \<le> d \<and> d \<le> 31"
proof -
  assume c: "civil_from_days z = (y, m, d)"
  obtain era Y doy mp where p:
    "0 \<le> doy" "doy \<le> 365" "mp = (5 * doy + 2) div 153" "0 \<le> mp" "mp \<le> 11"
    "civil_from_days z =
       (if mp < 10 then Y + era * 400 else Y + era * 400 + 1,
        nat (if mp < 10 then mp + 3 else mp - 9), nat (doy - (153 * mp + 2) div 5 + 1))"
    using civil_from_days_parts by metis
  have "1 \<le> doy - (153 * mp + 2) div 5 + 1" "doy - (153 * mp + 2) div 5 + 1 \<le> 31"
    using month_bounds [OF p(1,2)] p(3) by auto
  moreover from c p(6) have "m = nat (if mp < 10 then mp + 3 else mp - 9)"
    "d = nat (doy - (153 * mp + 2) div 5 + 1)" by simp_all
  ultimately show ?thesis using p(4,5) by auto
qed

lemma civil_from_days_at:
  assumes z: "z = era * 146097 + (year_start Y + doy) - 719468"
    and bounds: "0 \<le> year_start Y + doy" "year_start Y + doy \<le> 146096"
    and Y: "yoe_num (year_start Y + doy) div 365 = Y"
    and mp: "mp = (5 * doy + 2) div 153" "0 \<le> mp" "mp \<le> 11"
  shows "civil_from_days z =
       (if mp < 10 then Y + era * 400 else Y + era * 400 + 1,
        nat (if mp < 10 then mp + 3 else mp - 9), nat (doy - (153 * mp + 2) div 5 + 1))"
proof -
  define doe where "doe = year_start Y + doy"
  have e: "(z + 719468) div 146097 = era" using z bounds by (simp add: doe_def)
  have d: "z + 719468 - era * 146097 = doe" using z by (simp add: doe_def)
  have doy: "doe - year_start Y = doy" by (simp add: doe_def)
  have yoe: "yoe_num doe div 365 = Y" using Y by (simp add: doe_def)
  show ?thesis
    unfolding civil_from_days_def Let_def e d
    by (simp only: yoe_num_def [symmetric] yoe year_start_def [symmetric] doy mp(1) [symmetric])
       (use mp in \<open>auto simp: nat_le_iff\<close>)
qed

text \<open>The first day of a date's month is that date's day number less \<open>d - 1\<close>.\<close>

lemma civil_from_days_first:
  assumes c: "civil_from_days z = (y, m, d)"
  shows "civil_from_days (z - (int d - 1)) = (y, m, 1)"
proof -
  obtain era Y doy mp where p:
    "z + 719468 = era * 146097 + (year_start Y + doy)"
    "0 \<le> Y" "Y \<le> 399" "0 \<le> doy" "doy \<le> 365" "mp = (5 * doy + 2) div 153" "0 \<le> mp" "mp \<le> 11"
    "civil_from_days z =
       (if mp < 10 then Y + era * 400 else Y + era * 400 + 1,
        nat (if mp < 10 then mp + 3 else mp - 9), nat (doy - (153 * mp + 2) div 5 + 1))"
    "yoe_num (year_start Y + doy) div 365 = Y" "year_start Y + doy \<le> 146096"
    using civil_from_days_parts by metis
  define first where "first = (153 * mp + 2) div 5"
  have tab: "mp \<in> set [0..11]" using p(7,8) by simp
  have mp': "(5 * first + 2) div 153 = mp" "0 \<le> first"
    using tab unfolding first_def by (auto simp: upto.simps)
  from c p(9) have "d = nat (doy - (153 * mp + 2) div 5 + 1)" by simp
  moreover have "1 \<le> doy - first + 1" using month_bounds(3) [OF p(4,5)] p(6) by (simp add: first_def)
  ultimately have d: "int d = doy - first + 1" and le: "first \<le> doy"
    by (simp_all add: first_def)
  have ys: "0 \<le> year_start Y" "yoe_num (year_start Y) div 365 = Y"
    using p(2,3) year_table by (auto simp: year_start_def)
  have "yoe_num (year_start Y) div 365 \<le> yoe_num (year_start Y + first) div 365"
    "yoe_num (year_start Y + first) div 365 \<le> yoe_num (year_start Y + doy) div 365"
    using mp'(2) le by (auto intro!: zdiv_mono1 yoe_num_mono)
  with ys p(10) have "yoe_num (year_start Y + first) div 365 = Y" by simp
  then have "civil_from_days (z - (int d - 1)) =
       (if mp < 10 then Y + era * 400 else Y + era * 400 + 1,
        nat (if mp < 10 then mp + 3 else mp - 9), nat (first - (153 * mp + 2) div 5 + 1))"
    using p(1,7,8,11) ys mp' le d by (intro civil_from_days_at) auto
  moreover from c p(9) have "y = (if mp < 10 then Y + era * 400 else Y + era * 400 + 1)"
    "m = nat (if mp < 10 then mp + 3 else mp - 9)" by simp_all
  moreover have "nat (first - (153 * mp + 2) div 5 + 1) = 1" by (simp add: first_def)
  ultimately show ?thesis by (simp only:)
qed

lemma month_start_eq:
  assumes "civil_from_days (trunc_to_int t div 86400) = (y, m, d)"
  shows "month_start t = real_of_int ((trunc_to_int t div 86400 - (int d - 1)) * 86400)"
  using days_from_civil_civil_from_days [OF civil_from_days_first [OF assms]] assms
  by (simp add: month_start_def)

end
