(* ===== verification/Store.thy ===== *)
theory Store
  imports Calendar
begin

text \<open>
  The control plane's persistent state and every query of the SQLite adapter
  (\<open>store/sqlite/*.rs\<close>) that the hub, the lease manager and the access layer use. One record
  field per table, a table being the list of its rows in \<open>rowid\<close> order; a query without
  \<open>ORDER BY\<close> returns rows in that order. Columns that hold JSON text hold the value. The
  clock is an argument (\<open>now()\<close>), one reading per operation. I/O failure of the database is
  not modelled; a violated primary key is the error result.
\<close>

record worker_row =
  wr_id :: worker_id
  wr_labels :: "string list"
  wr_hardware :: hardware
  wr_connected :: bool
  wr_current_run :: "run_id option"
  wr_joined_at :: unix_seconds
  wr_last_seen :: unix_seconds

record sample_row =
  sm_worker_id :: worker_id
  sm_ts :: unix_seconds
  sm_payload :: "(string \<times> f64) list"

record run_row =
  ru_summary :: run_summary
  ru_spec :: run_spec
  ru_experiments_run_id :: "string option"

record sweep_row =
  sx_id :: string
  sx_name :: string
  sx_template :: train_spec
  sx_axes :: "(string \<times> json list) list"
  sx_concurrency :: nat
  sx_created_at :: unix_seconds
  sx_created_by :: "string option"

record log_row =
  lg_run_id :: run_id
  lg_n :: int
  lg_ts :: unix_seconds
  lg_line :: string

record event_row =
  er_run_id :: run_id
  er_event :: run_event

record metric_row =
  mr_run_id :: run_id
  mr_step :: nat
  mr_key :: string
  mr_value :: "real option"
  mr_ts :: unix_seconds

record checkpoint_row =
  cx_info :: checkpoint_info
  cx_drive_file_ids :: "(string \<times> string) list option"

record user_row =
  ux_user :: user
  ux_experiments_key :: "string option"

record api_key_row =
  ax_info :: api_key_info
  ax_key_hash :: string

record worker_token_row =
  kx_info :: worker_token_info
  kx_token_hash :: string

record join_token_row =
  jt_id :: string
  jt_worker_id :: worker_id
  jt_token_hash :: string
  jt_created_at :: unix_seconds
  jt_expires_at :: unix_seconds
  jt_used_at :: "unix_seconds option"

record outbox_event_row =
  eo_id :: int
  eo_run_id :: run_id
  eo_kind :: string
  eo_payload :: string
  eo_attempts :: int
  eo_last_error :: "string option"
  eo_created_at :: unix_seconds
  eo_next_attempt_at :: unix_seconds
  eo_completed_at :: "unix_seconds option"

record store =
  st_workers :: "worker_row list"
  st_samples :: "sample_row list"
  st_runs :: "run_row list"
  st_sweeps :: "sweep_row list"
  st_logs :: "log_row list"
  st_events :: "event_row list"
  st_code_units :: "code_unit_info list"
  st_metrics :: "metric_row list"
  st_gates :: "gate_info list"
  st_checkpoints :: "checkpoint_row list"
  st_leases :: "lease list"
  st_ledger :: "ledger_entry list"
  st_budgets :: "budget list"
  st_teams :: "team list"
  st_users :: "user_row list"
  st_api_keys :: "api_key_row list"
  st_worker_tokens :: "worker_token_row list"
  st_join_tokens :: "join_token_row list"
  st_run_seq :: "int option"
  st_outbox :: "outbox_event_row list"

definition empty_store :: store where
  "empty_store =
     \<lparr>st_workers = [], st_samples = [], st_runs = [], st_sweeps = [], st_logs = [], st_events = [],
      st_code_units = [], st_metrics = [], st_gates = [], st_checkpoints = [], st_leases = [],
      st_ledger = [], st_budgets = [], st_teams = [], st_users = [], st_api_keys = [],
      st_worker_tokens = [], st_join_tokens = [], st_run_seq = None, st_outbox = []\<rparr>"

abbreviation run_key :: "run_row \<Rightarrow> run_id" where
  "run_key r \<equiv> rs_id (ru_summary r)"

abbreviation ckpt_key :: "checkpoint_row \<Rightarrow> run_id \<times> nat" where
  "ckpt_key r \<equiv> (ck_run_id (cx_info r), ck_step (cx_info r))"

abbreviation gate_key :: "gate_info \<Rightarrow> string \<times> string \<times> string" where
  "gate_key g \<equiv> (ga_scope g, ga_scope_id g, ga_name g)"

abbreviation metric_row_key :: "metric_row \<Rightarrow> run_id \<times> string \<times> nat" where
  "metric_row_key m \<equiv> (mr_run_id m, mr_key m, mr_step m)"

subsection \<open>Logs and events (\<open>logs.rs\<close>)\<close>

definition append_log :: "unix_seconds \<Rightarrow> run_id \<Rightarrow> string \<Rightarrow> store \<Rightarrow> store" where
  "append_log now rid line s =
     (let n = foldr max (map lg_n (filter (\<lambda>r. lg_run_id r = rid) (st_logs s))) 0 + 1
      in s\<lparr>st_logs := st_logs s @ [\<lparr>lg_run_id = rid, lg_n = n, lg_ts = now, lg_line = line\<rparr>]\<rparr>)"

definition tail_logs :: "run_id \<Rightarrow> nat \<Rightarrow> store \<Rightarrow> string list" where
  "tail_logs rid lines s =
     rev (map lg_line (take lines (order_by_desc lg_n (filter (\<lambda>r. lg_run_id r = rid) (st_logs s)))))"

definition add_event :: "unix_seconds \<Rightarrow> run_id \<Rightarrow> event_kind \<Rightarrow> json \<Rightarrow> store \<Rightarrow> store" where
  "add_event now rid event detail s =
     (let detail' = (if detail = JNull then JObj [] else detail)
      in s\<lparr>st_events := st_events s @
            [\<lparr>er_run_id = rid, er_event = \<lparr>re_ts = now, re_event = event, re_detail = detail'\<rparr>\<rparr>]\<rparr>)"

definition store_events :: "run_id \<Rightarrow> store \<Rightarrow> run_event list" where
  "store_events rid s = map er_event (filter (\<lambda>r. er_run_id r = rid) (st_events s))"

subsection \<open>Runs (\<open>runs.rs\<close>)\<close>

definition next_run_seq :: "store \<Rightarrow> store \<times> int" where
  "next_run_seq s =
     (let v = (case st_run_seq s of None \<Rightarrow> 1 | Some n \<Rightarrow> n + 1)
      in (s\<lparr>st_run_seq := Some v\<rparr>, v))"

definition create_run ::
  "unix_seconds \<Rightarrow> string \<Rightarrow> run_spec \<Rightarrow> string option \<Rightarrow> string option \<Rightarrow> string option \<Rightarrow>
   store \<Rightarrow> store \<times> run_id result" where
  "create_run now name spec experiment_ref created_by sweep_id s =
     (let (s1, seq) = next_run_seq s;
          rid = new_run_id now seq;
          row = \<lparr>ru_summary =
                   \<lparr>rs_id = rid, rs_name = name, rs_kind = kind_str spec, rs_state = Queued,
                    rs_worker_id = None, rs_exit_code = None, rs_experiment_ref = experiment_ref,
                    rs_sweep_id = sweep_id, rs_created_by = created_by, rs_created_at = now,
                    rs_updated_at = now\<rparr>,
                 ru_spec = spec, ru_experiments_run_id = None\<rparr>
      in if row_of run_key rid (st_runs s1) \<noteq> None
         then (s1, Inl ''UNIQUE constraint failed: runs.id'')
         else let s2 = s1\<lparr>st_runs := st_runs s1 @ [row]\<rparr>;
                  s3 = add_event now rid EvCreated (JObj [(''name'', JStr name)]) s2;
                  s4 = add_event now rid EvQueued JNull s3
              in (s4, Inr rid))"

definition set_run_columns ::
  "unix_seconds \<Rightarrow> run_state \<Rightarrow> worker_id option \<Rightarrow> int option \<Rightarrow> run_row \<Rightarrow> run_row" where
  "set_run_columns now state wid code r =
     r\<lparr>ru_summary := (ru_summary r)
        \<lparr>rs_state := state, rs_updated_at := now,
         rs_worker_id := coalesce wid (rs_worker_id (ru_summary r)),
         rs_exit_code := coalesce code (rs_exit_code (ru_summary r))\<rparr>\<rparr>"

definition transition ::
  "unix_seconds \<Rightarrow> run_id \<Rightarrow> run_state \<Rightarrow> worker_id option \<Rightarrow> int option \<Rightarrow> json \<Rightarrow> store \<Rightarrow> store"
  where
  "transition now rid state wid code detail s =
     (let s1 = s\<lparr>st_runs := update_where (\<lambda>r. run_key r = rid)
                             (set_run_columns now state wid code) (st_runs s)\<rparr>;
          d1 = (case wid of Some w \<Rightarrow> merge_field detail ''worker'' (JStr w) | None \<Rightarrow> detail);
          d2 = (case code of Some c \<Rightarrow> merge_field d1 ''exit_code'' (JInt c) | None \<Rightarrow> d1)
      in add_event now rid (event_kind_of state) d2 s1)"

definition transition_if_live ::
  "unix_seconds \<Rightarrow> run_id \<Rightarrow> run_state \<Rightarrow> worker_id option \<Rightarrow> store \<Rightarrow> store \<times> bool" where
  "transition_if_live now rid state wid s =
     (let live = (\<lambda>r. run_key r = rid \<and> \<not> is_terminal (rs_state (ru_summary r)));
          applied = 0 < affected live (st_runs s);
          s1 = s\<lparr>st_runs := update_where live (set_run_columns now state wid None) (st_runs s)\<rparr>;
          d = (case wid of Some w \<Rightarrow> merge_field JNull ''worker'' (JStr w) | None \<Rightarrow> JNull)
      in (if applied then add_event now rid (event_kind_of state) d s1 else s1, applied))"

definition run_of_row :: "run_row \<Rightarrow> run_record" where
  "run_of_row r = \<lparr>rr_summary = ru_summary r, rr_spec = ru_spec r\<rparr>"

definition next_queued :: "store \<Rightarrow> run_record option" where
  "next_queued s =
     (case order_by (\<lambda>r. rs_created_at (ru_summary r))
             (filter (\<lambda>r. rs_state (ru_summary r) = Queued) (st_runs s)) of
        [] \<Rightarrow> None | r # _ \<Rightarrow> Some (run_of_row r))"

definition store_run :: "run_id \<Rightarrow> store \<Rightarrow> run_record option" where
  "store_run rid s = map_option run_of_row (row_of run_key rid (st_runs s))"

record run_query =
  rq_state :: "run_state option"
  rq_experiment_ref :: "string option"
  rq_sweep_id :: "string option"
  rq_offset :: nat

definition default_run_query :: run_query where
  "default_run_query =
     \<lparr>rq_state = None, rq_experiment_ref = None, rq_sweep_id = None, rq_offset = 0\<rparr>"

definition run_matches :: "run_query \<Rightarrow> run_row \<Rightarrow> bool" where
  "run_matches q r \<longleftrightarrow>
     (rq_state q = None \<or> rq_state q = Some (rs_state (ru_summary r))) \<and>
     (rq_experiment_ref q = None \<or> rq_experiment_ref q = rs_experiment_ref (ru_summary r)) \<and>
     (rq_sweep_id q = None \<or> rq_sweep_id q = rs_sweep_id (ru_summary r))"

definition store_runs :: "run_query \<Rightarrow> nat \<Rightarrow> store \<Rightarrow> run_summary list" where
  "store_runs q limit s =
     map ru_summary (take limit (drop (rq_offset q)
       (order_by_desc (\<lambda>r. (rs_created_at (ru_summary r), rs_id (ru_summary r)))
         (filter (run_matches q) (st_runs s)))))"

definition set_experiments_run_id :: "run_id \<Rightarrow> string \<Rightarrow> store \<Rightarrow> store" where
  "set_experiments_run_id rid ext s =
     s\<lparr>st_runs := update_where (\<lambda>r. run_key r = rid)
                   (\<lambda>r. r\<lparr>ru_experiments_run_id := Some ext\<rparr>) (st_runs s)\<rparr>"

definition experiments_run_id :: "run_id \<Rightarrow> store \<Rightarrow> string option" where
  "experiments_run_id rid s =
     (case row_of run_key rid (st_runs s) of Some r \<Rightarrow> ru_experiments_run_id r | None \<Rightarrow> None)"

text \<open>The experiments outbox. Rows are never deleted, so the next \<open>AUTOINCREMENT\<close> id is one
  more than the number of rows.\<close>

definition enqueue_outbox_event ::
  "run_id \<Rightarrow> string \<Rightarrow> string \<Rightarrow> unix_seconds \<Rightarrow> store \<Rightarrow> store \<times> int" where
  "enqueue_outbox_event rid kind payload ts s =
     (let i = int (length (st_outbox s)) + 1
      in (s\<lparr>st_outbox := st_outbox s @
             [\<lparr>eo_id = i, eo_run_id = rid, eo_kind = kind, eo_payload = payload, eo_attempts = 0,
               eo_last_error = None, eo_created_at = ts, eo_next_attempt_at = ts,
               eo_completed_at = None\<rparr>]\<rparr>, i))"

definition due_outbox_events :: "unix_seconds \<Rightarrow> nat \<Rightarrow> store \<Rightarrow> outbox_row list" where
  "due_outbox_events ts limit s =
     map (\<lambda>r. \<lparr>ob_id = eo_id r, ob_run_id = eo_run_id r, ob_kind = eo_kind r,
               ob_payload = eo_payload r, ob_attempts = eo_attempts r\<rparr>)
       (take limit (order_by eo_created_at
         (filter (\<lambda>r. eo_completed_at r = None \<and> eo_next_attempt_at r \<le> ts) (st_outbox s))))"

definition mark_outbox_event_done :: "unix_seconds \<Rightarrow> int \<Rightarrow> store \<Rightarrow> store" where
  "mark_outbox_event_done now i s =
     s\<lparr>st_outbox := update_where (\<lambda>r. eo_id r = i) (\<lambda>r. r\<lparr>eo_completed_at := Some now\<rparr>) (st_outbox s)\<rparr>"

definition mark_outbox_event_failed :: "int \<Rightarrow> string \<Rightarrow> unix_seconds \<Rightarrow> store \<Rightarrow> store" where
  "mark_outbox_event_failed i err next s =
     s\<lparr>st_outbox := update_where (\<lambda>r. eo_id r = i)
        (\<lambda>r. r\<lparr>eo_attempts := eo_attempts r + 1, eo_last_error := Some err,
               eo_next_attempt_at := next\<rparr>) (st_outbox s)\<rparr>"

subsection \<open>Workers (\<open>workers.rs\<close>)\<close>

definition worker_joined ::
  "unix_seconds \<Rightarrow> worker_id \<Rightarrow> string list \<Rightarrow> hardware \<Rightarrow> store \<Rightarrow> store" where
  "worker_joined now wid labels hw s =
     s\<lparr>st_workers := upsert wr_id
        \<lparr>wr_id = wid, wr_labels = labels, wr_hardware = hw, wr_connected = True,
         wr_current_run = None, wr_joined_at = now, wr_last_seen = now\<rparr>
        (\<lambda>r. r\<lparr>wr_labels := labels, wr_hardware := hw, wr_connected := True, wr_last_seen := now\<rparr>)
        (st_workers s)\<rparr>"

definition worker_seen :: "unix_seconds \<Rightarrow> worker_id \<Rightarrow> store \<Rightarrow> store" where
  "worker_seen now wid s =
     s\<lparr>st_workers := update_where (\<lambda>r. wr_id r = wid) (\<lambda>r. r\<lparr>wr_last_seen := now\<rparr>) (st_workers s)\<rparr>"

definition worker_left :: "worker_id \<Rightarrow> store \<Rightarrow> store" where
  "worker_left wid s =
     s\<lparr>st_workers := update_where (\<lambda>r. wr_id r = wid) (\<lambda>r. r\<lparr>wr_connected := False\<rparr>) (st_workers s)\<rparr>"

definition set_worker_run :: "worker_id \<Rightarrow> run_id option \<Rightarrow> store \<Rightarrow> store" where
  "set_worker_run wid rid s =
     s\<lparr>st_workers := update_where (\<lambda>r. wr_id r = wid) (\<lambda>r. r\<lparr>wr_current_run := rid\<rparr>) (st_workers s)\<rparr>"

definition worker_is_persistent :: "worker_id \<Rightarrow> store \<Rightarrow> bool" where
  "worker_is_persistent wid s \<longleftrightarrow>
     (\<exists>r\<in>set (st_worker_tokens s). wk_worker_id (kx_info r) = wid \<and> wk_revoked_at (kx_info r) = None)"

definition record_worker_samples ::
  "unix_seconds \<Rightarrow> worker_id \<Rightarrow> (string \<times> f64) list \<Rightarrow> store \<Rightarrow> store" where
  "record_worker_samples now wid values s =
     s\<lparr>st_samples :=
        filter (\<lambda>r. \<not> (sm_worker_id r = wid \<and> sm_ts r < now - WORKER_SAMPLE_RETENTION))
          (st_samples s @ [\<lparr>sm_worker_id = wid, sm_ts = now, sm_payload = values\<rparr>])\<rparr>"

definition store_worker_telemetry :: "worker_id \<Rightarrow> store \<Rightarrow> worker_telemetry option" where
  "store_worker_telemetry wid s =
     worker_telemetry_from_samples wid
       (map (\<lambda>r. (sm_ts r, sm_payload r))
         (order_by sm_ts (filter (\<lambda>r. sm_worker_id r = wid) (st_samples s))))"

text \<open>\<open>f64::round\<close>: half away from zero; the view shows the age to a tenth of a second.\<close>

definition round_half_away :: "real \<Rightarrow> real" where
  "round_half_away x = (if x < 0 then - real_of_int \<lfloor>- x + 1/2\<rfloor> else real_of_int \<lfloor>x + 1/2\<rfloor>)"

definition worker_of_row :: "unix_seconds \<Rightarrow> worker_row \<Rightarrow> worker_info" where
  "worker_of_row now r =
     \<lparr>wi_id = wr_id r, wi_labels = wr_labels r, wi_hardware = wr_hardware r,
      wi_state = (if wr_connected r then Connected else Disconnected),
      wi_current_run = wr_current_run r, wi_joined_at = wr_joined_at r,
      wi_last_seen = wr_last_seen r,
      wi_heartbeat_age_s = round_half_away ((now - wr_last_seen r) * 10) / 10,
      wi_lease = None, wi_telemetry = None\<rparr>"

definition store_lease :: "worker_id \<Rightarrow> store \<Rightarrow> lease option" where
  "store_lease wid s = row_of ls_worker_id wid (st_leases s)"

definition store_worker :: "unix_seconds \<Rightarrow> worker_id \<Rightarrow> store \<Rightarrow> worker_info option" where
  "store_worker now wid s =
     map_option (\<lambda>r. (worker_of_row now r)\<lparr>wi_lease := store_lease wid s\<rparr>)
       (row_of wr_id wid (st_workers s))"

definition latest_sample :: "worker_id \<Rightarrow> store \<Rightarrow> (string \<times> f64) list option" where
  "latest_sample wid s =
     (case order_by sm_ts (filter (\<lambda>r. sm_worker_id r = wid) (st_samples s)) of
        [] \<Rightarrow> None | rows \<Rightarrow> Some (sm_payload (last rows)))"

definition fleet :: "unix_seconds \<Rightarrow> store \<Rightarrow> worker_info list" where
  "fleet now s =
     map (\<lambda>r. (worker_of_row now r)
                \<lparr>wi_lease := store_lease (wr_id r) s, wi_telemetry := latest_sample (wr_id r) s\<rparr>)
       (order_by wr_joined_at (st_workers s))"

subsection \<open>Sweeps, metrics, gates (\<open>sweeps.rs\<close>, \<open>metrics.rs\<close>, \<open>gates.rs\<close>)\<close>

definition create_sweep ::
  "unix_seconds \<Rightarrow> string \<Rightarrow> train_spec \<Rightarrow> (string \<times> json list) list \<Rightarrow> nat \<Rightarrow> string option \<Rightarrow>
   store \<Rightarrow> store \<times> string result" where
  "create_sweep now name template axes concurrency created_by s =
     (let (s1, seq) = next_run_seq s;
          sid = new_sweep_id now seq
      in if row_of sx_id sid (st_sweeps s1) \<noteq> None
         then (s1, Inl ''UNIQUE constraint failed: sweeps.id'')
         else (s1\<lparr>st_sweeps := st_sweeps s1 @
                   [\<lparr>sx_id = sid, sx_name = name, sx_template = template, sx_axes = axes,
                     sx_concurrency = concurrency, sx_created_at = now, sx_created_by = created_by\<rparr>]\<rparr>,
               Inr sid))"

definition store_sweep :: "string \<Rightarrow> store \<Rightarrow> sweep_row option" where
  "store_sweep sid s = row_of sx_id sid (st_sweeps s)"

definition sweep_active_children :: "string \<Rightarrow> store \<Rightarrow> nat" where
  "sweep_active_children sid s =
     affected (\<lambda>r. rs_sweep_id (ru_summary r) = Some sid \<and>
                   (rs_state (ru_summary r) = Assigned \<or> rs_state (ru_summary r) = Running))
       (st_runs s)"

fun storable :: "f64 \<Rightarrow> real option" where
  "storable (Fin x) = Some x"
| "storable _ = None"

definition append_metric :: "unix_seconds \<Rightarrow> run_id \<Rightarrow> nat \<Rightarrow> string \<times> f64 \<Rightarrow> metric_row list \<Rightarrow> metric_row list" where
  "append_metric ts rid step = (\<lambda>(key, value) rows.
     upsert metric_row_key
       \<lparr>mr_run_id = rid, mr_step = step, mr_key = key, mr_value = storable value, mr_ts = ts\<rparr>
       (\<lambda>r. r\<lparr>mr_value := storable value\<rparr>) rows)"

definition append_metrics ::
  "unix_seconds \<Rightarrow> run_id \<Rightarrow> nat \<Rightarrow> (string \<times> f64) list \<Rightarrow> store \<Rightarrow> store" where
  "append_metrics ts rid step values s =
     s\<lparr>st_metrics := fold (append_metric ts rid step) values (st_metrics s)\<rparr>"

definition metric_series ::
  "run_id \<Rightarrow> string list option \<Rightarrow> nat \<Rightarrow> nat \<Rightarrow> store \<Rightarrow> string \<Rightarrow> metric_point list" where
  "metric_series rid keys since_step downsample s key =
     (let rows = order_by mr_step
                   (filter (\<lambda>r. mr_run_id r = rid \<and> since_step \<le> mr_step r \<and> mr_key r = key) (st_metrics s));
          wanted = (case keys of None \<Rightarrow> True | Some ks \<Rightarrow> key \<in> set ks);
          points = (if wanted
                    then concat (map (\<lambda>r. case mr_value r of None \<Rightarrow> []
                                          | Some v \<Rightarrow> [\<lparr>mp_step = mr_step r, mp_value = v\<rparr>]) rows)
                    else [])
      in if 0 < downsample then downsample_in_place points downsample else points)"

record metric_observation =
  mo_ts :: unix_seconds
  mo_value :: f64

definition metric_history :: "run_id \<Rightarrow> string \<Rightarrow> store \<Rightarrow> metric_observation list" where
  "metric_history rid key s =
     map (\<lambda>r. \<lparr>mo_ts = mr_ts r,
               mo_value = (case mr_value r of Some v \<Rightarrow> Fin v | None \<Rightarrow> NaN)\<rparr>)
       (order_by mr_step (filter (\<lambda>r. mr_run_id r = rid \<and> mr_key r = key) (st_metrics s)))"

definition register_gate ::
  "unix_seconds \<Rightarrow> string \<Rightarrow> string \<Rightarrow> string \<Rightarrow> string \<Rightarrow> gate_action \<Rightarrow> store \<Rightarrow> store" where
  "register_gate now scope scope_id name expr action s =
     (let fresh = \<lparr>ga_scope = scope, ga_scope_id = scope_id, ga_name = name, ga_expr = expr,
                   ga_action = action, ga_created_at = now, ga_tripped = None,
                   ga_last_value = None, ga_evaluated_at = None, ga_detail = None\<rparr>
      in s\<lparr>st_gates := upsert gate_key fresh
            (\<lambda>g. g\<lparr>ga_expr := expr, ga_action := action, ga_created_at := now, ga_tripped := None,
                   ga_last_value := None, ga_evaluated_at := None, ga_detail := None\<rparr>)
            (st_gates s)\<rparr>)"

definition store_gates :: "string \<Rightarrow> string \<Rightarrow> store \<Rightarrow> gate_info list" where
  "store_gates scope scope_id s =
     order_by ga_name (filter (\<lambda>g. ga_scope g = scope \<and> ga_scope_id g = scope_id) (st_gates s))"

text \<open>SQLite has no NaN: binding one stores \<open>NULL\<close>.\<close>

fun sql_real :: "f64 option \<Rightarrow> f64 option" where
  "sql_real (Some NaN) = None"
| "sql_real v = v"

definition record_gate_result ::
  "string \<Rightarrow> string \<Rightarrow> string \<Rightarrow> bool \<Rightarrow> f64 option \<Rightarrow> string \<Rightarrow> unix_seconds \<Rightarrow> store \<Rightarrow> store" where
  "record_gate_result scope scope_id name tripped last_value detail ts s =
     s\<lparr>st_gates := update_where (\<lambda>g. gate_key g = (scope, scope_id, name))
        (\<lambda>g. g\<lparr>ga_tripped := Some tripped, ga_last_value := sql_real last_value,
               ga_evaluated_at := Some ts, ga_detail := Some detail\<rparr>) (st_gates s)\<rparr>"

end
