(* ===== verification/Capability.thy ===== *)
theory Capability
  imports Prelude
begin

text \<open>
  The interface of a table of bearer capabilities: what a holder of a token may rely on after
  owners were revoked. Three tables of the control plane provide it (run grants, API keys,
  worker tokens); the clients' lemmas are proved here once.
\<close>

locale capability_table =
  fixes sound :: "'t \<Rightarrow> bool"
    and lookup :: "'t \<Rightarrow> 'k \<Rightarrow> 'c option"
    and owner :: "'c \<Rightarrow> 'o"
    and revoke :: "'o \<Rightarrow> 't \<Rightarrow> 't"
  assumes sound_revoke: "sound t \<Longrightarrow> sound (revoke r t)"
    and lookup_revoke: "sound t \<Longrightarrow> lookup (revoke r t) k =
          (case lookup t k of None \<Rightarrow> None | Some c \<Rightarrow> if owner c = r then None else Some c)"
begin

lemma revoked_owner: "sound t \<Longrightarrow> lookup (revoke r t) k = Some c \<Longrightarrow> owner c \<noteq> r"
  by (auto simp: lookup_revoke split: option.splits if_splits)

lemma other_owner_kept: "sound t \<Longrightarrow> lookup t k = Some c \<Longrightarrow> owner c \<noteq> r \<Longrightarrow>
    lookup (revoke r t) k = Some c"
  by (simp add: lookup_revoke)

lemma sound_revoke_all: "sound t \<Longrightarrow> sound (fold revoke rs t)"
  by (induction rs arbitrary: t) (auto intro: sound_revoke)

text \<open>After any sequence of revocations exactly the capabilities of unrevoked owners are left.\<close>

lemma lookup_revoke_all:
  "sound t \<Longrightarrow> lookup (fold revoke rs t) k = Some c \<longleftrightarrow> lookup t k = Some c \<and> owner c \<notin> set rs"
  by (induction rs arbitrary: t)
     (auto simp: sound_revoke lookup_revoke split: option.splits if_splits)

end

text \<open>A table whose capabilities each reach into the disjoint region of their owner.\<close>

locale confined_capabilities = capability_table sound lookup owner revoke
  for sound :: "'t \<Rightarrow> bool" and lookup :: "'t \<Rightarrow> 'k \<Rightarrow> 'c option"
    and owner :: "'c \<Rightarrow> 'o" and revoke :: "'o \<Rightarrow> 't \<Rightarrow> 't" +
  fixes covers :: "'c \<Rightarrow> 'x \<Rightarrow> bool"
    and region :: "'o \<Rightarrow> 'x \<Rightarrow> bool"
  assumes covers_region: "sound t \<Longrightarrow> lookup t k = Some c \<Longrightarrow> covers c x \<Longrightarrow> region (owner c) x"
    and region_disjoint: "region r x \<Longrightarrow> region r' x \<Longrightarrow> r = r'"
begin

lemma one_owner:
  "sound t \<Longrightarrow> lookup t k = Some c \<Longrightarrow> lookup t k' = Some c' \<Longrightarrow> covers c x \<Longrightarrow> covers c' x \<Longrightarrow>
   owner c = owner c'"
  by (blast intro: region_disjoint covers_region)

lemma no_access_after_revoke:
  assumes "sound t" "lookup (revoke r t) k = Some c" "region r x"
  shows "\<not> covers c x"
proof
  assume "covers c x"
  with assms have "region (owner c) x" by (blast intro: covers_region sound_revoke)
  then have "owner c = r" using assms(3) by (rule region_disjoint)
  with revoked_owner [OF assms(1,2)] show False by simp
qed

end

end
