(* ===== verification/StoreMeta.thy ===== *)
theory StoreMeta
  imports Store Capability
begin

text \<open>
  The rest of the SQLite adapter: code units, checkpoints, leases, ledger and budgets,
  teams, users and API keys, worker tokens and join tokens; then the store's well-formedness
  (primary keys are distinct, the sequence counter bounds every minted id) and the frame
  and preservation lemmas the hub's proofs use.
\<close>

subsection \<open>Code units (\<open>codeunits.rs\<close>)\<close>

abbreviation unit_key :: "code_unit_info \<Rightarrow> string \<times> string" where
  "unit_key u \<equiv> (cr_name (cu_code u), cr_sha (cu_code u))"

definition register_code_unit ::
  "unix_seconds \<Rightarrow> code_ref \<Rightarrow> code_unit_manifest_rec \<Rightarrow> string \<Rightarrow> store \<Rightarrow> store" where
  "register_code_unit now code manifest uri s =
     s\<lparr>st_code_units := upsert unit_key
        \<lparr>cu_code = code, cu_manifest = manifest, cu_uri = uri, cu_created_at = now\<rparr>
        (\<lambda>u. u\<lparr>cu_manifest := manifest, cu_uri := uri\<rparr>) (st_code_units s)\<rparr>"

definition store_code_unit :: "string \<Rightarrow> string \<Rightarrow> store \<Rightarrow> code_unit_info option" where
  "store_code_unit name sha s = row_of unit_key (name, sha) (st_code_units s)"

subsection \<open>Checkpoints (\<open>checkpoints.rs\<close>)\<close>

definition record_checkpoint ::
  "unix_seconds \<Rightarrow> run_id \<Rightarrow> nat \<Rightarrow> string \<Rightarrow> string \<Rightarrow> checkpoint_meta \<Rightarrow> store \<Rightarrow> store" where
  "record_checkpoint now rid step uri model_hash meta s =
     s\<lparr>st_checkpoints := upsert ckpt_key
        \<lparr>cx_info = \<lparr>ck_run_id = rid, ck_step = step, ck_uri = uri, ck_model_hash = model_hash,
                     ck_pinned = False, ck_pin_name = None, ck_meta = meta, ck_created_at = now,
                     ck_location = R2Hot, ck_archived_at = None\<rparr>,
         cx_drive_file_ids = None\<rparr>
        (\<lambda>c. c\<lparr>cx_info := (cx_info c)\<lparr>ck_uri := uri, ck_model_hash := model_hash, ck_meta := meta\<rparr>\<rparr>)
        (st_checkpoints s)\<rparr>"

definition store_checkpoints :: "run_id \<Rightarrow> store \<Rightarrow> checkpoint_info list" where
  "store_checkpoints rid s =
     order_by ck_step (map cx_info (filter (\<lambda>c. ck_run_id (cx_info c) = rid) (st_checkpoints s)))"

definition latest_checkpoint :: "run_id \<Rightarrow> store \<Rightarrow> checkpoint_info option" where
  "latest_checkpoint rid s =
     (case order_by_desc ck_step
             (map cx_info (filter (\<lambda>c. ck_run_id (cx_info c) = rid) (st_checkpoints s))) of
        [] \<Rightarrow> None | c # _ \<Rightarrow> Some c)"

definition pin_checkpoint :: "run_id \<Rightarrow> nat \<Rightarrow> string \<Rightarrow> store \<Rightarrow> store \<times> bool" where
  "pin_checkpoint rid step name s =
     (let p = (\<lambda>c. ckpt_key c = (rid, step))
      in (s\<lparr>st_checkpoints := update_where p
             (\<lambda>c. c\<lparr>cx_info := (cx_info c)\<lparr>ck_pinned := True, ck_pin_name := Some name\<rparr>\<rparr>)
             (st_checkpoints s)\<rparr>,
          0 < affected p (st_checkpoints s)))"

definition set_checkpoint_location :: "run_id \<Rightarrow> nat \<Rightarrow> checkpoint_location \<Rightarrow> store \<Rightarrow> store" where
  "set_checkpoint_location rid step loc s =
     s\<lparr>st_checkpoints := update_where (\<lambda>c. ckpt_key c = (rid, step))
        (\<lambda>c. c\<lparr>cx_info := (cx_info c)\<lparr>ck_location := loc\<rparr>\<rparr>) (st_checkpoints s)\<rparr>"

definition mark_checkpoint_archived ::
  "run_id \<Rightarrow> nat \<Rightarrow> (string \<times> string) list \<Rightarrow> unix_seconds \<Rightarrow> store \<Rightarrow> store" where
  "mark_checkpoint_archived rid step drive_ids archived_at s =
     s\<lparr>st_checkpoints := update_where (\<lambda>c. ckpt_key c = (rid, step))
        (\<lambda>c. c\<lparr>cx_info := (cx_info c)\<lparr>ck_location := Drive, ck_archived_at := Some archived_at\<rparr>,
               cx_drive_file_ids := Some drive_ids\<rparr>) (st_checkpoints s)\<rparr>"

definition checkpoint_drive_ids :: "run_id \<Rightarrow> nat \<Rightarrow> store \<Rightarrow> (string \<times> string) list option" where
  "checkpoint_drive_ids rid step s =
     (case row_of ckpt_key (rid, step) (st_checkpoints s) of
        Some c \<Rightarrow> cx_drive_file_ids c | None \<Rightarrow> None)"

subsection \<open>Leases, ledger, budgets (\<open>leases.rs\<close>, \<open>ledger.rs\<close>)\<close>

definition create_lease :: "lease \<Rightarrow> store \<Rightarrow> store" where
  "create_lease l s =
     s\<lparr>st_leases := upsert ls_worker_id l
        (\<lambda>x. x\<lparr>ls_provider := ls_provider l, ls_instance_id := ls_instance_id l,
               ls_price_hr := ls_price_hr l, ls_granted_min := ls_granted_min l,
               ls_drain_window_min := ls_drain_window_min l, ls_started_at := ls_started_at l,
               ls_state := ls_state l, ls_extensions := ls_extensions l\<rparr>) (st_leases s)\<rparr>"

definition live_leases :: "store \<Rightarrow> lease list" where
  "live_leases s = filter (\<lambda>l. ls_state l \<noteq> Destroyed) (st_leases s)"

definition set_lease_state :: "worker_id \<Rightarrow> lease_state \<Rightarrow> store \<Rightarrow> store" where
  "set_lease_state wid state s =
     s\<lparr>st_leases := update_where (\<lambda>l. ls_worker_id l = wid) (\<lambda>l. l\<lparr>ls_state := state\<rparr>) (st_leases s)\<rparr>"

definition store_extend_lease :: "worker_id \<Rightarrow> lease_extension \<Rightarrow> store \<Rightarrow> store \<times> lease option" where
  "store_extend_lease wid ext s =
     (case store_lease wid s of
        None \<Rightarrow> (s, None)
      | Some l \<Rightarrow>
          let exts = ls_extensions l @ [ext]
          in (s\<lparr>st_leases := update_where (\<lambda>l. ls_worker_id l = wid)
                 (\<lambda>l. l\<lparr>ls_extensions := exts\<rparr>) (st_leases s)\<rparr>,
              Some (l\<lparr>ls_extensions := exts\<rparr>)))"

definition ledger_append :: "ledger_entry \<Rightarrow> store \<Rightarrow> store" where
  "ledger_append e s = s\<lparr>st_ledger := st_ledger s @ [e]\<rparr>"

definition set_budget :: "budget \<Rightarrow> store \<Rightarrow> store" where
  "set_budget b s =
     s\<lparr>st_budgets := upsert bu_scope b
        (\<lambda>x. x\<lparr>bu_cap := bu_cap b, bu_period := bu_period b, bu_updated_at := bu_updated_at b\<rparr>)
        (st_budgets s)\<rparr>"

definition delete_budget :: "string \<Rightarrow> store \<Rightarrow> store \<times> bool" where
  "delete_budget scope s =
     (s\<lparr>st_budgets := filter (\<lambda>b. bu_scope b \<noteq> scope) (st_budgets s)\<rparr>,
      0 < affected (\<lambda>b. bu_scope b = scope) (st_budgets s))"

definition store_budgets :: "store \<Rightarrow> budget list" where
  "store_budgets s = order_by bu_scope (st_budgets s)"

subsection \<open>Teams, users, API keys (\<open>auth.rs\<close>)\<close>

definition ensure_team :: "unix_seconds \<Rightarrow> string \<Rightarrow> string \<Rightarrow> store \<Rightarrow> store" where
  "ensure_team now tid name s =
     s\<lparr>st_teams := upsert tm_id \<lparr>tm_id = tid, tm_name = name, tm_created_at = now\<rparr> (\<lambda>t. t)
        (st_teams s)\<rparr>"

definition upsert_user :: "unix_seconds \<Rightarrow> string \<Rightarrow> string \<Rightarrow> role \<Rightarrow> store \<Rightarrow> store" where
  "upsert_user now email team_id r s =
     s\<lparr>st_users := upsert (\<lambda>u. us_email (ux_user u))
        \<lparr>ux_user = \<lparr>us_email = email, us_team_id = team_id, us_role = r, us_created_at = now\<rparr>,
         ux_experiments_key = None\<rparr>
        (\<lambda>u. u\<lparr>ux_user := (ux_user u)\<lparr>us_team_id := team_id, us_role := r\<rparr>\<rparr>) (st_users s)\<rparr>"

definition get_user :: "string \<Rightarrow> store \<Rightarrow> user option" where
  "get_user email s = map_option ux_user (row_of (\<lambda>u. us_email (ux_user u)) email (st_users s))"

definition list_users :: "string \<Rightarrow> store \<Rightarrow> user list" where
  "list_users team_id s =
     order_by us_email (filter (\<lambda>u. us_team_id u = team_id) (map ux_user (st_users s)))"

definition remove_user :: "string \<Rightarrow> store \<Rightarrow> store" where
  "remove_user email s = s\<lparr>st_users := filter (\<lambda>u. us_email (ux_user u) \<noteq> email) (st_users s)\<rparr>"

definition set_user_experiments_key :: "unix_seconds \<Rightarrow> string \<Rightarrow> string option \<Rightarrow> store \<Rightarrow> store" where
  "set_user_experiments_key now email encrypted s =
     s\<lparr>st_users := upsert (\<lambda>u. us_email (ux_user u))
        \<lparr>ux_user = \<lparr>us_email = email, us_team_id = DEFAULT_TEAM_ID, us_role = Read, us_created_at = now\<rparr>,
         ux_experiments_key = encrypted\<rparr>
        (\<lambda>u. u\<lparr>ux_experiments_key := encrypted\<rparr>) (st_users s)\<rparr>"

definition user_experiments_key :: "string \<Rightarrow> store \<Rightarrow> string option" where
  "user_experiments_key email s =
     (case row_of (\<lambda>u. us_email (ux_user u)) email (st_users s) of
        Some u \<Rightarrow> ux_experiments_key u | None \<Rightarrow> None)"

definition create_api_key ::
  "unix_seconds \<Rightarrow> string \<Rightarrow> string \<Rightarrow> string \<Rightarrow> string \<Rightarrow> string \<Rightarrow> string \<Rightarrow> role \<Rightarrow> store \<Rightarrow> store result"
  where
  "create_api_key now kid team_id created_by name prefix key_hash r s =
     (if row_of (\<lambda>k. ak_id (ax_info k)) kid (st_api_keys s) \<noteq> None
      then Inl ''UNIQUE constraint failed: api_keys.id''
      else Inr (s\<lparr>st_api_keys := st_api_keys s @
             [\<lparr>ax_info = \<lparr>ak_id = kid, ak_team_id = team_id, ak_created_by = created_by,
                          ak_name = name, ak_prefix = prefix, ak_role = r, ak_created_at = now,
                          ak_last_used_at = None, ak_revoked_at = None\<rparr>,
               ax_key_hash = key_hash\<rparr>]\<rparr>))"

definition list_api_keys :: "string \<Rightarrow> store \<Rightarrow> api_key_info list" where
  "list_api_keys team_id s =
     order_by_desc ak_created_at (filter (\<lambda>k. ak_team_id k = team_id) (map ax_info (st_api_keys s)))"

definition revoke_api_key :: "unix_seconds \<Rightarrow> string \<Rightarrow> store \<Rightarrow> store \<times> bool" where
  "revoke_api_key now kid s =
     (let p = (\<lambda>k. ak_id (ax_info k) = kid \<and> ak_revoked_at (ax_info k) = None)
      in (s\<lparr>st_api_keys := update_where p
             (\<lambda>k. k\<lparr>ax_info := (ax_info k)\<lparr>ak_revoked_at := Some now\<rparr>\<rparr>) (st_api_keys s)\<rparr>,
          0 < affected p (st_api_keys s)))"

definition resolve_api_key :: "string \<Rightarrow> store \<Rightarrow> api_key_info option" where
  "resolve_api_key key_hash s =
     map_option ax_info
       (row_of ax_key_hash key_hash (filter (\<lambda>k. ak_revoked_at (ax_info k) = None) (st_api_keys s)))"

definition touch_api_key :: "string \<Rightarrow> unix_seconds \<Rightarrow> store \<Rightarrow> store" where
  "touch_api_key kid ts s =
     s\<lparr>st_api_keys := update_where (\<lambda>k. ak_id (ax_info k) = kid)
        (\<lambda>k. k\<lparr>ax_info := (ax_info k)\<lparr>ak_last_used_at := Some ts\<rparr>\<rparr>) (st_api_keys s)\<rparr>"

subsection \<open>Worker tokens and join tokens (\<open>tokens.rs\<close>)\<close>

definition create_worker_token ::
  "unix_seconds \<Rightarrow> string \<Rightarrow> worker_id \<Rightarrow> string \<Rightarrow> string \<Rightarrow> string \<Rightarrow> store \<Rightarrow> store result" where
  "create_worker_token now kid wid name prefix token_hash s =
     (if row_of (\<lambda>k. wk_id (kx_info k)) kid (st_worker_tokens s) \<noteq> None
      then Inl ''UNIQUE constraint failed: worker_tokens.id''
      else Inr (s\<lparr>st_worker_tokens := st_worker_tokens s @
             [\<lparr>kx_info = \<lparr>wk_id = kid, wk_worker_id = wid, wk_name = name, wk_prefix = prefix,
                          wk_created_at = now, wk_last_used_at = None, wk_revoked_at = None\<rparr>,
               kx_token_hash = token_hash\<rparr>]\<rparr>))"

definition resolve_worker_token :: "string \<Rightarrow> store \<Rightarrow> worker_token_info option" where
  "resolve_worker_token token_hash s =
     map_option kx_info
       (row_of kx_token_hash token_hash
         (filter (\<lambda>k. wk_revoked_at (kx_info k) = None) (st_worker_tokens s)))"

definition list_worker_tokens :: "store \<Rightarrow> worker_token_info list" where
  "list_worker_tokens s = order_by_desc wk_created_at (map kx_info (st_worker_tokens s))"

definition revoke_worker_token :: "unix_seconds \<Rightarrow> string \<Rightarrow> store \<Rightarrow> store \<times> bool" where
  "revoke_worker_token now kid s =
     (let p = (\<lambda>k. wk_id (kx_info k) = kid \<and> wk_revoked_at (kx_info k) = None)
      in (s\<lparr>st_worker_tokens := update_where p
             (\<lambda>k. k\<lparr>kx_info := (kx_info k)\<lparr>wk_revoked_at := Some now\<rparr>\<rparr>) (st_worker_tokens s)\<rparr>,
          0 < affected p (st_worker_tokens s)))"

definition touch_worker_token :: "string \<Rightarrow> unix_seconds \<Rightarrow> store \<Rightarrow> store" where
  "touch_worker_token kid ts s =
     s\<lparr>st_worker_tokens := update_where (\<lambda>k. wk_id (kx_info k) = kid)
        (\<lambda>k. k\<lparr>kx_info := (kx_info k)\<lparr>wk_last_used_at := Some ts\<rparr>\<rparr>) (st_worker_tokens s)\<rparr>"

definition create_join_token ::
  "unix_seconds \<Rightarrow> string \<Rightarrow> worker_id \<Rightarrow> string \<Rightarrow> unix_seconds \<Rightarrow> store \<Rightarrow> store result" where
  "create_join_token now tid wid token_hash expires_at s =
     (if row_of jt_id tid (st_join_tokens s) \<noteq> None
      then Inl ''UNIQUE constraint failed: join_tokens.id''
      else Inr (s\<lparr>st_join_tokens := st_join_tokens s @
             [\<lparr>jt_id = tid, jt_worker_id = wid, jt_token_hash = token_hash, jt_created_at = now,
               jt_expires_at = expires_at, jt_used_at = None\<rparr>]\<rparr>))"

definition resolve_join_token ::
  "string \<Rightarrow> unix_seconds \<Rightarrow> store \<Rightarrow> store \<times> (worker_id \<times> bool) option" where
  "resolve_join_token token_hash ts s =
     (let fresh = (\<lambda>t. jt_token_hash t = token_hash \<and> jt_used_at t = None \<and> ts < jt_expires_at t);
          s1 = s\<lparr>st_join_tokens := update_where fresh (\<lambda>t. t\<lparr>jt_used_at := Some ts\<rparr>)
                                    (st_join_tokens s)\<rparr>
      in case find fresh (st_join_tokens s) of
           Some t \<Rightarrow> (s1, Some (jt_worker_id t, True))
         | None \<Rightarrow>
             (s1, map_option (\<lambda>t. (jt_worker_id t, False))
                    (find (\<lambda>t. jt_token_hash t = token_hash \<and> jt_used_at t \<noteq> None) (st_join_tokens s1))))"

text \<open>Both token tables provide the capability interface (stored hashes are distinct).\<close>

lemma find_update_where_filter:
  assumes "pk key rows" "\<And>r. key (f r) = key r" "\<And>r. live (f r) = False"
  shows "row_of key k (filter live (update_where p f rows)) =
     (case row_of key k (filter live rows) of None \<Rightarrow> None | Some r \<Rightarrow> if p r then None else Some r)"
  using assms(1)
proof (induction rows)
  case (Cons r rows)
  have "row_of key (key r) (filter live (update_where p f rows)) = None"
    using Cons.prems assms(2) by (auto simp: row_of_None_iff pk_def set_update_where image_iff)
  moreover have "row_of key (key r) (filter live rows) = None"
    using Cons.prems by (auto simp: row_of_None_iff pk_def image_iff)
  moreover have "pk key rows" using Cons.prems by (simp add: pk_def)
  ultimately show ?case using Cons.IH assms(2,3) by auto
qed simp

definition api_keys_sound :: "store \<Rightarrow> bool" where
  "api_keys_sound s = pk ax_key_hash (st_api_keys s)"

definition worker_tokens_sound :: "store \<Rightarrow> bool" where
  "worker_tokens_sound s = pk kx_token_hash (st_worker_tokens s)"

interpretation api_keys: capability_table api_keys_sound "\<lambda>s h. resolve_api_key h s" ak_id
    "\<lambda>kid s. fst (revoke_api_key now kid s)" for now
proof unfold_locales
  fix t r assume "api_keys_sound t"
  then show "api_keys_sound (fst (revoke_api_key now r t))"
    by (simp add: api_keys_sound_def revoke_api_key_def Let_def pk_update_where)
next
  fix t r k assume "api_keys_sound t"
  then show "resolve_api_key k (fst (revoke_api_key now r t)) =
      (case resolve_api_key k t of None \<Rightarrow> None | Some c \<Rightarrow> if ak_id c = r then None else Some c)"
    by (auto simp: api_keys_sound_def resolve_api_key_def revoke_api_key_def Let_def
        find_update_where_filter dest!: row_of_SomeD split: option.splits)
qed

interpretation worker_tokens: capability_table worker_tokens_sound
    "\<lambda>s h. resolve_worker_token h s" wk_id "\<lambda>kid s. fst (revoke_worker_token now kid s)" for now
proof unfold_locales
  fix t r assume "worker_tokens_sound t"
  then show "worker_tokens_sound (fst (revoke_worker_token now r t))"
    by (simp add: worker_tokens_sound_def revoke_worker_token_def Let_def pk_update_where)
next
  fix t r k assume "worker_tokens_sound t"
  then show "resolve_worker_token k (fst (revoke_worker_token now r t)) =
      (case resolve_worker_token k t of None \<Rightarrow> None | Some c \<Rightarrow> if wk_id c = r then None else Some c)"
    by (auto simp: worker_tokens_sound_def resolve_worker_token_def revoke_worker_token_def Let_def
        find_update_where_filter dest!: row_of_SomeD split: option.splits)
qed

subsection \<open>Well-formed stores\<close>

text \<open>The \<open>PRIMARY KEY\<close> constraints of the tables the hub and the lease manager write, and
  the bound the run sequence puts on minted run ids.\<close>

definition run_id_minted :: "int \<Rightarrow> run_id \<Rightarrow> bool" where
  "run_id_minted n rid \<longleftrightarrow> (\<exists>ts k. 1 \<le> k \<and> k \<le> n \<and> rid = new_run_id ts k)"

definition seq_now :: "store \<Rightarrow> int" where
  "seq_now s = (case st_run_seq s of None \<Rightarrow> 0 | Some n \<Rightarrow> n)"

definition wf_store :: "store \<Rightarrow> bool" where
  "wf_store s \<longleftrightarrow>
     pk run_key (st_runs s) \<and> pk wr_id (st_workers s) \<and> pk ls_worker_id (st_leases s) \<and>
     pk ckpt_key (st_checkpoints s) \<and> 0 \<le> seq_now s \<and>
     (\<forall>r\<in>set (st_runs s). run_id_minted (seq_now s) (run_key r))"

lemma wf_empty_store: "wf_store empty_store"
  by (simp add: wf_store_def empty_store_def pk_def seq_now_def)

lemma run_id_minted_mono: "run_id_minted n rid \<Longrightarrow> n \<le> m \<Longrightarrow> run_id_minted m rid"
  unfolding run_id_minted_def using order_trans by blast

lemma run_id_fresh:
  assumes "\<forall>r\<in>set rows. run_id_minted n (run_key r)" "0 \<le> n"
  shows "row_of run_key (new_run_id ts (n + 1)) rows = None"
proof -
  have "new_run_id ts (n + 1) \<noteq> run_key r" if "r \<in> set rows" for r
  proof
    assume eq: "new_run_id ts (n + 1) = run_key r"
    from assms that obtain ts' k where "1 \<le> k" "k \<le> n" "run_key r = new_run_id ts' k"
      by (auto simp: run_id_minted_def)
    with eq assms(2) have "n + 1 = k"
      by (intro stamped_id_inj) (auto simp: new_run_id_def)
    with \<open>k \<le> n\<close> show False by simp
  qed
  then show ?thesis unfolding row_of_None_iff by metis
qed

lemma next_run_seq_eq: "next_run_seq s = (s\<lparr>st_run_seq := Some (seq_now s + 1)\<rparr>, seq_now s + 1)"
  by (auto simp: next_run_seq_def seq_now_def Let_def split: option.splits)

text \<open>Creating a run never violates the key, and the new run is queued and unassigned.\<close>

lemma create_run_ok:
  assumes "wf_store s"
  shows "\<exists>s'. create_run now name spec er cb sid s = (s', Inr (new_run_id now (seq_now s + 1))) \<and>
     wf_store s' \<and> seq_now s' = seq_now s + 1 \<and>
     st_runs s' = st_runs s @
       [\<lparr>ru_summary = \<lparr>rs_id = new_run_id now (seq_now s + 1), rs_name = name,
          rs_kind = kind_str spec, rs_state = Queued, rs_worker_id = None, rs_exit_code = None,
          rs_experiment_ref = er, rs_sweep_id = sid, rs_created_by = cb, rs_created_at = now,
          rs_updated_at = now\<rparr>, ru_spec = spec, ru_experiments_run_id = None\<rparr>]"
proof -
  let ?rid = "new_run_id now (seq_now s + 1)"
  have fresh: "row_of run_key ?rid (st_runs s) = None"
    using assms by (intro run_id_fresh) (auto simp: wf_store_def)
  have "run_id_minted (seq_now s + 1) ?rid"
    using assms unfolding run_id_minted_def wf_store_def
    by (intro exI [of _ now] exI [of _ "seq_now s + 1"]) simp
  moreover have "\<forall>r\<in>set (st_runs s). run_id_minted (seq_now s + 1) (run_key r)"
    using assms by (auto simp: wf_store_def intro: run_id_minted_mono)
  ultimately show ?thesis using assms fresh
    by (simp add: create_run_def Let_def next_run_seq_eq add_event_def wf_store_def pk_append_one)
       (simp add: seq_now_def)
qed

subsection \<open>Frame facts\<close>

text \<open>Which tables an operation leaves alone; the bundle the component proofs simplify with.\<close>

lemma add_event_frame [simp]:
  "st_workers (add_event t r e d s) = st_workers s"
  "st_runs (add_event t r e d s) = st_runs s"
  "st_sweeps (add_event t r e d s) = st_sweeps s"
  "st_leases (add_event t r e d s) = st_leases s"
  "st_checkpoints (add_event t r e d s) = st_checkpoints s"
  "st_code_units (add_event t r e d s) = st_code_units s"
  "st_gates (add_event t r e d s) = st_gates s"
  "st_metrics (add_event t r e d s) = st_metrics s"
  "st_ledger (add_event t r e d s) = st_ledger s"
  "st_budgets (add_event t r e d s) = st_budgets s"
  "st_run_seq (add_event t r e d s) = st_run_seq s"
  "st_worker_tokens (add_event t r e d s) = st_worker_tokens s"
  by (simp_all add: add_event_def Let_def)

lemma transition_frame [simp]:
  "st_workers (transition t r st w c d s) = st_workers s"
  "st_sweeps (transition t r st w c d s) = st_sweeps s"
  "st_leases (transition t r st w c d s) = st_leases s"
  "st_checkpoints (transition t r st w c d s) = st_checkpoints s"
  "st_code_units (transition t r st w c d s) = st_code_units s"
  "st_gates (transition t r st w c d s) = st_gates s"
  "st_metrics (transition t r st w c d s) = st_metrics s"
  "st_run_seq (transition t r st w c d s) = st_run_seq s"
  "st_worker_tokens (transition t r st w c d s) = st_worker_tokens s"
  "st_runs (transition t r st w c d s) =
     update_where (\<lambda>x. run_key x = r) (set_run_columns t st w c) (st_runs s)"
  by (simp_all add: transition_def Let_def)

lemma set_worker_run_frame [simp]:
  "st_runs (set_worker_run w r s) = st_runs s"
  "st_sweeps (set_worker_run w r s) = st_sweeps s"
  "st_leases (set_worker_run w r s) = st_leases s"
  "st_checkpoints (set_worker_run w r s) = st_checkpoints s"
  "st_code_units (set_worker_run w r s) = st_code_units s"
  "st_gates (set_worker_run w r s) = st_gates s"
  "st_metrics (set_worker_run w r s) = st_metrics s"
  "st_run_seq (set_worker_run w r s) = st_run_seq s"
  "st_worker_tokens (set_worker_run w r s) = st_worker_tokens s"
  "st_workers (set_worker_run w r s) =
     update_where (\<lambda>x. wr_id x = w) (\<lambda>x. x\<lparr>wr_current_run := r\<rparr>) (st_workers s)"
  by (simp_all add: set_worker_run_def)

lemma run_key_set_run_columns [simp]: "run_key (set_run_columns t st w c r) = run_key r"
  by (simp add: set_run_columns_def)

lemma set_run_columns_fields [simp]:
  "rs_state (ru_summary (set_run_columns t st w c r)) = st"
  "rs_updated_at (ru_summary (set_run_columns t st w c r)) = t"
  "rs_created_at (ru_summary (set_run_columns t st w c r)) = rs_created_at (ru_summary r)"
  "rs_sweep_id (ru_summary (set_run_columns t st w c r)) = rs_sweep_id (ru_summary r)"
  "rs_worker_id (ru_summary (set_run_columns t st w c r)) = coalesce w (rs_worker_id (ru_summary r))"
  "rs_exit_code (ru_summary (set_run_columns t st w c r)) = coalesce c (rs_exit_code (ru_summary r))"
  "ru_spec (set_run_columns t st w c r) = ru_spec r"
  by (simp_all add: set_run_columns_def)

lemma wf_add_event [simp]: "wf_store (add_event t r e d s) = wf_store s"
  by (simp add: wf_store_def seq_now_def)

lemma ball_update_where:
  assumes "\<And>r. key (f r) = key r"
  shows "(\<forall>r\<in>set (update_where p f rows). Q (key r)) \<longleftrightarrow> (\<forall>r\<in>set rows. Q (key r))"
  using assms by (induction rows) auto

lemma wf_transition [simp]: "wf_store (transition t r st w c d s) = wf_store s"
  by (simp add: wf_store_def seq_now_def pk_update_where ball_update_where [where key = run_key])

lemma wf_set_worker_run [simp]: "wf_store (set_worker_run w r s) = wf_store s"
  by (simp add: wf_store_def seq_now_def pk_update_where)

lemma row_of_transition:
  "row_of run_key k (st_runs (transition t r st w c d s)) =
     map_option (\<lambda>x. if run_key x = r then set_run_columns t st w c x else x)
       (row_of run_key k (st_runs s))"
  by (simp add: row_of_update_where)

text \<open>\<open>transition_if_live\<close> applies exactly to a run that exists and is not terminal.\<close>

lemma transition_if_live_spec:
  assumes "wf_store s"
  shows "transition_if_live t r st w s =
     (case row_of run_key r (st_runs s) of
        None \<Rightarrow> (s, False)
      | Some x \<Rightarrow> if is_terminal (rs_state (ru_summary x)) then (s, False)
                 else (transition t r st w None JNull s, True))"
proof -
  let ?live = "\<lambda>y. run_key y = r \<and> \<not> is_terminal (rs_state (ru_summary y))"
  have keep: "update_where ?live f rows = rows" if "\<forall>y\<in>set rows. \<not> ?live y" for f rows
    using that by (induction rows) auto
  show ?thesis
  proof (cases "row_of run_key r (st_runs s)")
    case None
    then have dead: "\<forall>y\<in>set (st_runs s). \<not> ?live y" by (auto simp: row_of_None_iff)
    then have "\<not> 0 < affected ?live (st_runs s)" unfolding affected_pos by blast
    with None dead show ?thesis by (simp only: transition_if_live_def Let_def keep) simp
  next
    case (Some x)
    then have x: "x \<in> set (st_runs s)" "run_key x = r" by (auto dest: row_of_SomeD)
    have uniq: "y = x" if "y \<in> set (st_runs s)" "run_key y = r" for y
      using assms that Some pk_row_of [of run_key "st_runs s" y] by (auto simp: wf_store_def)
    show ?thesis
    proof (cases "is_terminal (rs_state (ru_summary x))")
      case True
      then have dead: "\<forall>y\<in>set (st_runs s). \<not> ?live y" using uniq by auto
      then have "\<not> 0 < affected ?live (st_runs s)" unfolding affected_pos by blast
      with Some True dead show ?thesis by (simp only: transition_if_live_def Let_def keep) simp
    next
      case False
      then have "update_where ?live (set_run_columns t st w None) (st_runs s) =
          update_where (\<lambda>y. run_key y = r) (set_run_columns t st w None) (st_runs s)"
        using uniq by (auto simp: update_where_def)
      moreover have "0 < affected ?live (st_runs s)"
        unfolding affected_pos using x False by blast
      ultimately show ?thesis
        using Some False
        by (simp only: transition_if_live_def transition_def Let_def) (simp split: option.splits)
    qed
  qed
qed

end
