(* ===== verification/Gate.thy ===== *)
theory Gate
  imports StoreMeta
begin

text \<open>
  Watchdog gates (\<open>gate.rs\<close>): the closed expression grammar, its parser and the evaluation of
  a gate over a metric history. An \<open>f64\<close> is an exact real or one of the three non-finite
  values; decimal literals are read exactly (no rounding). Messages that print an \<open>f64\<close> take
  the printer as an argument, since the shortest-decimal printing of \<open>std\<close> depends on the
  binary representation.
\<close>

subsection \<open>\<open>f64\<close>\<close>

fun f64_less :: "f64 \<Rightarrow> f64 \<Rightarrow> bool" where
  "f64_less NaN _ = False"
| "f64_less _ NaN = False"
| "f64_less (Fin x) (Fin y) = (x < y)"
| "f64_less NegInf y = (y \<noteq> NegInf)"
| "f64_less (Fin _) y = (y = PosInf)"
| "f64_less PosInf _ = False"

definition f64_leq :: "f64 \<Rightarrow> f64 \<Rightarrow> bool" where
  "f64_leq x y \<longleftrightarrow> x \<noteq> NaN \<and> y \<noteq> NaN \<and> (x = y \<or> f64_less x y)"

text \<open>\<open>f64::min\<close>: a NaN operand is ignored.\<close>

definition f64_min :: "f64 \<Rightarrow> f64 \<Rightarrow> f64" where
  "f64_min x y = (if x = NaN then y else if y = NaN then x else if f64_less y x then y else x)"

fun is_infinite :: "f64 \<Rightarrow> bool" where
  "is_infinite PosInf = True"
| "is_infinite NegInf = True"
| "is_infinite _ = False"

subsection \<open>\<open>f64::from_str\<close>\<close>

definition to_lower :: "char \<Rightarrow> char" where
  "to_lower c = (let n = of_char c :: nat in if 65 \<le> n \<and> n \<le> 90 then char_of (n + 32) else c)"

definition neg_f64 :: "f64 \<Rightarrow> f64" where
  "neg_f64 x = (case x of Fin r \<Rightarrow> Fin (- r) | PosInf \<Rightarrow> NegInf | NegInf \<Rightarrow> PosInf | NaN \<Rightarrow> NaN)"

definition take_sign :: "string \<Rightarrow> bool \<times> string" where
  "take_sign s = (case s of
       [] \<Rightarrow> (False, [])
     | c # cs \<Rightarrow> if c = CHR ''-'' then (True, cs) else if c = CHR ''+'' then (False, cs) else (False, s))"

definition parse_exponent :: "string \<Rightarrow> int option" where
  "parse_exponent s =
     (let (neg, ds) = take_sign s
      in if ds = [] then None
         else map_option (\<lambda>n. if neg then - int n else int n) (parse_digits 0 ds))"

definition scale10 :: "nat \<Rightarrow> int \<Rightarrow> real" where
  "scale10 m e = (if 0 \<le> e then real m * 10 ^ nat e else real m / 10 ^ nat (- e))"

definition parse_decimal :: "string \<Rightarrow> real option" where
  "parse_decimal s =
     (let mant = takeWhile (\<lambda>c. to_lower c \<noteq> CHR ''e'') s;
          rest = dropWhile (\<lambda>c. to_lower c \<noteq> CHR ''e'') s;
          ip = takeWhile (\<lambda>c. c \<noteq> CHR ''.'') mant;
          fp = tl (dropWhile (\<lambda>c. c \<noteq> CHR ''.'') mant);
          ex = (if rest = [] then Some 0 else parse_exponent (tl rest))
      in if ip @ fp = [] then None
         else (case (parse_digits 0 (ip @ fp), ex) of
                 (Some m, Some e) \<Rightarrow> Some (scale10 m (e - int (length fp)))
               | _ \<Rightarrow> None))"

definition parse_f64 :: "string \<Rightarrow> f64 option" where
  "parse_f64 s =
     (let (neg, body) = take_sign s;
          low = map to_lower body;
          v = (if low = ''inf'' \<or> low = ''infinity'' then Some PosInf
               else if low = ''nan'' then Some NaN
               else map_option Fin (parse_decimal body))
      in if neg then map_option neg_f64 v else v)"

subsection \<open>The grammar\<close>

datatype cmp_op = Gt | Ge | Lt | Le

fun cmp_apply :: "cmp_op \<Rightarrow> f64 \<Rightarrow> f64 \<Rightarrow> bool" where
  "cmp_apply Gt l r = f64_less r l"
| "cmp_apply Ge l r = f64_leq r l"
| "cmp_apply Lt l r = f64_less l r"
| "cmp_apply Le l r = f64_leq l r"

fun cmp_str :: "cmp_op \<Rightarrow> string" where
  "cmp_str Gt = ''>''" | "cmp_str Ge = ''>=''" | "cmp_str Lt = ''<''" | "cmp_str Le = ''<=''"

datatype gate_expr =
    IsNan string
  | NoImprove string real
  | Threshold string cmp_op f64

fun gate_metric_key :: "gate_expr \<Rightarrow> string" where
  "gate_metric_key (IsNan k) = k"
| "gate_metric_key (NoImprove k _) = k"
| "gate_metric_key (Threshold k _ _) = k"

record verdict =
  ve_tripped :: bool
  ve_last_value :: "f64 option"
  ve_detail :: string

definition is_ascii_alphanumeric :: "char \<Rightarrow> bool" where
  "is_ascii_alphanumeric c \<longleftrightarrow>
     (let n = of_char c :: nat in (48 \<le> n \<and> n \<le> 57) \<or> (65 \<le> n \<and> n \<le> 90) \<or> (97 \<le> n \<and> n \<le> 122))"

definition valid_key :: "string \<Rightarrow> bool" where
  "valid_key key \<longleftrightarrow> key \<noteq> [] \<and>
     (\<forall>c\<in>set key. is_ascii_alphanumeric c \<or> c \<in> {CHR ''_'', CHR ''-'', CHR ''/'', CHR ''.''})"

definition parse_isnan :: "string \<Rightarrow> string \<Rightarrow> gate_expr result" where
  "parse_isnan expr rest =
     (case strip_suffix ''))'' rest of
        None \<Rightarrow> Inl (''malformed isnan gate '' @ debug_str expr @ '': expected isnan(last(<key>))'')
      | Some inner \<Rightarrow>
          (let key = trim inner
           in if \<not> valid_key key then Inl (''invalid metric key '' @ debug_str key)
              else Inr (IsNan key)))"

definition parse_no_improve :: "string \<Rightarrow> string \<Rightarrow> gate_expr result" where
  "parse_no_improve expr rest =
     (case strip_suffix '')'' rest of
        None \<Rightarrow> Inl (''malformed no_improve gate '' @ debug_str expr @
                      '': expected no_improve(<key>, <N>min)'')
      | Some inner \<Rightarrow>
          (case split_once '','' inner of
             None \<Rightarrow> Inl ''no_improve needs a window: no_improve(<key>, <N>min)''
           | Some (key0, window) \<Rightarrow>
               (let key = trim key0
                in if \<not> valid_key key then Inl (''invalid metric key '' @ debug_str key)
                   else (case strip_suffix ''min'' (trim window) of
                           None \<Rightarrow> Inl (''window '' @ debug_str window @ '' must end in '' @ debug_str ''min'')
                         | Some num \<Rightarrow>
                             (case parse_f64 (trim num) of
                                None \<Rightarrow> Inl (''window '' @ debug_str window @ '' is not a number of minutes'')
                              | Some (Fin w) \<Rightarrow>
                                  if 0 < w then Inr (NoImprove key w)
                                  else Inl ''window must be a positive number of minutes''
                              | Some _ \<Rightarrow> Inl ''window must be a positive number of minutes'')))))"

definition take_op :: "string \<Rightarrow> (cmp_op \<times> string) option" where
  "take_op c =
     (case strip_prefix ''>='' c of Some v \<Rightarrow> Some (Ge, v)
      | None \<Rightarrow> (case strip_prefix ''<='' c of Some v \<Rightarrow> Some (Le, v)
      | None \<Rightarrow> (case strip_prefix ''>'' c of Some v \<Rightarrow> Some (Gt, v)
      | None \<Rightarrow> (case strip_prefix ''<'' c of Some v \<Rightarrow> Some (Lt, v)
      | None \<Rightarrow> None))))"

definition parse_threshold :: "string \<Rightarrow> string \<Rightarrow> gate_expr result" where
  "parse_threshold expr rest =
     (case split_once '')'' rest of
        None \<Rightarrow> Inl (''malformed threshold gate '' @ debug_str expr @
                      '': expected last(<key>) <op> <value>'')
      | Some (key0, comparison) \<Rightarrow>
          (let key = trim key0
           in if \<not> valid_key key then Inl (''invalid metric key '' @ debug_str key)
              else (case take_op (trim comparison) of
                      None \<Rightarrow> Inl (''unsupported operator in '' @ debug_str expr @ '': use > >= < <='')
                    | Some (op, value) \<Rightarrow>
                        (case parse_f64 (trim value) of
                           None \<Rightarrow> Inl (''threshold '' @ debug_str value @ '' is not a number'')
                         | Some v \<Rightarrow> Inr (Threshold key op v)))))"

definition parse_gate :: "string \<Rightarrow> gate_expr result" where
  "parse_gate expr0 =
     (let expr = trim expr0
      in case strip_prefix ''isnan(last('' expr of
           Some rest \<Rightarrow> parse_isnan expr rest
         | None \<Rightarrow>
             (case strip_prefix ''no_improve('' expr of
                Some rest \<Rightarrow> parse_no_improve expr rest
              | None \<Rightarrow>
                  (case strip_prefix ''last('' expr of
                     Some rest \<Rightarrow> parse_threshold expr rest
                   | None \<Rightarrow>
                       Inl (''unrecognised gate expression '' @ debug_str expr @
                            '': use isnan(last(<key>)), no_improve(<key>, <N>min), or last(<key>) <op> <value>''))))"

subsection \<open>Evaluation\<close>

definition no_data :: "string \<Rightarrow> verdict" where
  "no_data key = \<lparr>ve_tripped = False, ve_last_value = None,
                  ve_detail = ''no observations of '' @ key @ '' yet''\<rparr>"

definition best_of :: "metric_observation list \<Rightarrow> f64" where
  "best_of obs = fold (\<lambda>o' acc. f64_min acc (mo_value o')) obs PosInf"

definition last_obs :: "metric_observation list \<Rightarrow> metric_observation option" where
  "last_obs history = (if history = [] then None else Some (last history))"

definition show_bool :: "bool \<Rightarrow> string" where
  "show_bool b = (if b then ''true'' else ''false'')"

fun evaluate_gate ::
  "(f64 \<Rightarrow> string) \<Rightarrow> gate_expr \<Rightarrow> metric_observation list \<Rightarrow> unix_seconds \<Rightarrow> verdict" where
  "evaluate_gate fmt (IsNan key) history now =
     (case last_obs history of
        Some obs \<Rightarrow>
          if \<not> is_finite (mo_value obs)
          then \<lparr>ve_tripped = True, ve_last_value = Some (mo_value obs),
                ve_detail = ''last('' @ key @ '') is not finite''\<rparr>
          else \<lparr>ve_tripped = False, ve_last_value = Some (mo_value obs),
                ve_detail = ''last('' @ key @ '') = '' @ fmt (mo_value obs) @ '' is finite''\<rparr>
      | None \<Rightarrow> no_data key)"
| "evaluate_gate fmt (Threshold key op value) history now =
     (case last_obs history of
        Some obs \<Rightarrow>
          (let tripped = cmp_apply op (mo_value obs) value
           in \<lparr>ve_tripped = tripped, ve_last_value = Some (mo_value obs),
               ve_detail = ''last('' @ key @ '') = '' @ fmt (mo_value obs) @ '' '' @ cmp_str op @ '' '' @
                           fmt value @ '' is '' @ show_bool tripped\<rparr>)
      | None \<Rightarrow> no_data key)"
| "evaluate_gate fmt (NoImprove key window_min) history now =
     (let cutoff = now - window_min * 60;
          best_before = best_of (filter (\<lambda>o'. mo_ts o' < cutoff) history);
          best_within = best_of (filter (\<lambda>o'. cutoff \<le> mo_ts o') history);
          last_value = map_option mo_value (last_obs history)
      in if is_infinite best_before
         then \<lparr>ve_tripped = False, ve_last_value = last_value,
               ve_detail = key @ '' has < '' @ fmt (Fin window_min) @ ''min of history''\<rparr>
         else \<lparr>ve_tripped = f64_leq best_before best_within, ve_last_value = last_value,
               ve_detail = ''best '' @ key @ '' in trailing '' @ fmt (Fin window_min) @ ''min = '' @
                           fmt best_within @ '' vs '' @ fmt best_before @ '' before''\<rparr>)"

subsection \<open>The parser accepts exactly the grammar\<close>

definition threshold_form :: "string \<Rightarrow> string \<Rightarrow> cmp_op \<Rightarrow> f64 \<Rightarrow> bool" where
  "threshold_form s k op v \<longleftrightarrow>
     (\<exists>a b c. s = ''last('' @ a @ '')'' @ b \<and> CHR '')'' \<notin> set a \<and> k = trim a \<and> valid_key k \<and>
        trim b = cmp_str op @ c \<and> parse_f64 (trim c) = Some v)"

definition no_improve_form :: "string \<Rightarrow> string \<Rightarrow> real \<Rightarrow> bool" where
  "no_improve_form s k w \<longleftrightarrow>
     (\<exists>a b c. s = ''no_improve('' @ a @ '','' @ b @ '')'' \<and> CHR '','' \<notin> set a \<and> k = trim a \<and>
        valid_key k \<and> trim b = c @ ''min'' \<and> parse_f64 (trim c) = Some (Fin w) \<and> 0 < w)"

fun gate_form :: "string \<Rightarrow> gate_expr \<Rightarrow> bool" where
  "gate_form s (IsNan k) = (\<exists>a. s = ''isnan(last('' @ a @ ''))'' \<and> k = trim a \<and> valid_key k)"
| "gate_form s (NoImprove k w) = no_improve_form s k w"
| "gate_form s (Threshold k op v) = threshold_form s k op v"

lemma parse_f64_eq_sign: "parse_f64 (trim (CHR ''='' # c)) = None"
proof -
  obtain d where "trim (CHR ''='' # c) = CHR ''='' # d"
  proof -
    have "\<exists>d. rev (dropWhile is_space (rev (CHR ''='' # c))) = CHR ''='' # d"
    proof (cases "\<forall>x\<in>set (rev c). is_space x")
      case True
      then have "dropWhile is_space (rev c @ [CHR ''='']) = dropWhile is_space [CHR ''='']"
        by (intro dropWhile_append2) blast
      then show ?thesis by (simp add: is_space_def)
    next
      case False
      then obtain x where "x \<in> set (rev c)" "\<not> is_space x" by blast
      then show ?thesis by (simp add: dropWhile_append1)
    qed
    with that show thesis by (auto simp: trim_def is_space_def)
  qed
  then show ?thesis
    by (simp add: parse_f64_def take_sign_def parse_decimal_def to_lower_def is_digit_def Let_def)
qed

lemma take_op_iff:
  "take_op c = Some (op, v) \<longleftrightarrow>
     c = cmp_str op @ v \<and> (op \<in> {Gt, Lt} \<longrightarrow> \<not> starts_with ''='' v)"
proof (cases op)
  case Gt
  then show ?thesis
    by (cases c; cases "tl c") (auto simp: take_op_def starts_with_iff split: option.splits if_splits)
next
  case Ge
  then show ?thesis
    by (cases c; cases "tl c") (auto simp: take_op_def starts_with_iff split: option.splits if_splits)
next
  case Lt
  then show ?thesis
    by (cases c; cases "tl c") (auto simp: take_op_def starts_with_iff split: option.splits if_splits)
next
  case Le
  then show ?thesis
    by (cases c; cases "tl c") (auto simp: take_op_def starts_with_iff split: option.splits if_splits)
qed

lemma parse_isnan_iff:
  "parse_isnan e r = Inr g \<longleftrightarrow> (\<exists>a. r = a @ ''))'' \<and> valid_key (trim a) \<and> g = IsNan (trim a))"
  by (cases "strip_suffix ''))'' r") (auto simp: parse_isnan_def strip_suffix_Some_iff Let_def)

lemma parse_no_improve_iff:
  "parse_no_improve e r = Inr g \<longleftrightarrow>
     (\<exists>k w. g = NoImprove k w \<and> no_improve_form (''no_improve('' @ r) k w)"
proof
  assume "parse_no_improve e r = Inr g"
  then obtain a b c w where "r = (a @ CHR '','' # b) @ '')''" "CHR '','' \<notin> set a"
    "valid_key (trim a)" "trim b = c @ ''min''" "parse_f64 (trim c) = Some (Fin w)" "0 < w"
    "g = NoImprove (trim a) w"
    by (auto simp: parse_no_improve_def Let_def strip_suffix_Some_iff split_once_char_iff
        split: option.splits if_splits f64.splits)
  then show "\<exists>k w. g = NoImprove k w \<and> no_improve_form (''no_improve('' @ r) k w"
    by (auto simp: no_improve_form_def)
next
  assume "\<exists>k w. g = NoImprove k w \<and> no_improve_form (''no_improve('' @ r) k w"
  then obtain a b c w where r: "r = (a @ CHR '','' # b) @ '')''" "CHR '','' \<notin> set a"
    "valid_key (trim a)" "trim b = c @ ''min''" "parse_f64 (trim c) = Some (Fin w)" "0 < w"
    "g = NoImprove (trim a) w"
    by (auto simp: no_improve_form_def)
  then have "strip_suffix '')'' r = Some (a @ CHR '','' # b)"
    "split_once '','' (a @ CHR '','' # b) = Some (a, b)" "strip_suffix ''min'' (trim b) = Some c"
    by (simp_all add: strip_suffix_Some_iff split_once_char)
  with r show "parse_no_improve e r = Inr g" by (simp add: parse_no_improve_def Let_def)
qed

lemma parse_threshold_iff:
  "parse_threshold e r = Inr g \<longleftrightarrow>
     (\<exists>k op v. g = Threshold k op v \<and> threshold_form (''last('' @ r) k op v)"
proof
  assume "parse_threshold e r = Inr g"
  then obtain a b c op v where r: "r = a @ CHR '')'' # b" "CHR '')'' \<notin> set a"
    "valid_key (trim a)" "trim b = cmp_str op @ c" "parse_f64 (trim c) = Some v"
    and g: "g = Threshold (trim a) op v"
    by (auto simp: parse_threshold_def Let_def split_once_char_iff take_op_iff
        split: option.splits if_splits)
  have "threshold_form (''last('' @ r) (trim a) op v"
    unfolding threshold_form_def using r by (intro exI [of _ a] exI [of _ b] exI [of _ c]) simp
  with g show "\<exists>k op v. g = Threshold k op v \<and> threshold_form (''last('' @ r) k op v" by blast
next
  assume "\<exists>k op v. g = Threshold k op v \<and> threshold_form (''last('' @ r) k op v"
  then obtain a b c op v where r: "r = a @ CHR '')'' # b" "CHR '')'' \<notin> set a"
    "valid_key (trim a)" "trim b = cmp_str op @ c" "parse_f64 (trim c) = Some v"
    "g = Threshold (trim a) op v"
    by (auto simp: threshold_form_def)
  have "\<not> starts_with ''='' c"
    using r(5) parse_f64_eq_sign by (auto simp: starts_with_iff)
  with r(4) have "take_op (trim b) = Some (op, c)" by (simp add: take_op_iff)
  with r show "parse_threshold e r = Inr g"
    by (simp add: parse_threshold_def Let_def split_once_char)
qed

lemma gate_form_head: "gate_form s g \<Longrightarrow>
    (case g of IsNan _ \<Rightarrow> (\<exists>r. s = ''isnan(last('' @ r) | NoImprove _ _ \<Rightarrow> (\<exists>r. s = ''no_improve('' @ r)
     | Threshold _ _ _ \<Rightarrow> (\<exists>r. s = ''last('' @ r))"
  by (cases g) (auto simp: no_improve_form_def threshold_form_def)

text \<open>C4: \<open>gate::parse\<close> accepts an expression, and returns the gate \<open>g\<close>, exactly when the
  trimmed text is one of the three documented forms with that meaning; every other text is an
  error. The grammar leaves no choice: longest-match of the operators never loses a reading.\<close>

theorem parse_gate_iff: "parse_gate expr = Inr g \<longleftrightarrow> gate_form (trim expr) g"
proof -
  let ?s = "trim expr"
  consider (1) r where "?s = ''isnan(last('' @ r" | (2) r where "?s = ''no_improve('' @ r"
    | (3) r where "?s = ''last('' @ r"
    | (4) "strip_prefix ''isnan(last('' ?s = None" "strip_prefix ''no_improve('' ?s = None"
        "strip_prefix ''last('' ?s = None"
    unfolding strip_prefix_Some_iff [symmetric] by blast
  then show ?thesis
  proof cases
    case 1
    then show ?thesis
      by (cases g) (auto simp: parse_gate_def parse_isnan_iff no_improve_form_def threshold_form_def)
  next
    case 2
    then show ?thesis
      by (cases g) (auto simp: parse_gate_def parse_no_improve_iff threshold_form_def)
  next
    case 3
    then show ?thesis
      by (cases g) (auto simp: parse_gate_def parse_threshold_iff no_improve_form_def)
  next
    case 4
    then have "\<not> gate_form ?s g"
      using gate_form_head [of ?s g] by (auto split: gate_expr.splits)
    with 4 show ?thesis by (simp add: parse_gate_def)
  qed
qed

subsection \<open>When a gate trips\<close>

text \<open>Stored histories hold finite values or NaN (\<open>metric_history\<close>).\<close>

definition stored_obs :: "metric_observation \<Rightarrow> bool" where
  "stored_obs o' \<longleftrightarrow> (case mo_value o' of Fin _ \<Rightarrow> True | NaN \<Rightarrow> True | _ \<Rightarrow> False)"

lemma metric_history_stored: "o' \<in> set (metric_history rid key s) \<Longrightarrow> stored_obs o'"
  by (auto simp: metric_history_def stored_obs_def split: option.splits)

definition finite_values :: "metric_observation list \<Rightarrow> real list" where
  "finite_values obs =
     concat (map (\<lambda>o'. case mo_value o' of Fin x \<Rightarrow> [x] | _ \<Rightarrow> []) obs)"

lemma f64_min_simps [simp]:
  "f64_min PosInf x = (if x = NaN then PosInf else x)"
  "f64_min (Fin a) (Fin b) = Fin (min a b)"
  "f64_min x NaN = x"
  by (cases x; auto simp: f64_min_def min_def)+

lemma f64_leq_simps [simp]:
  "f64_leq (Fin a) (Fin b) = (a \<le> b)" "f64_leq (Fin a) PosInf"
  by (auto simp: f64_leq_def)

lemma fold_f64_min_Fin:
  "\<forall>o'\<in>set obs. stored_obs o' \<Longrightarrow>
   fold (\<lambda>o' acc. f64_min acc (mo_value o')) obs (Fin a) = Fin (fold min (finite_values obs) a)"
  by (induction obs arbitrary: a)
     (auto simp: finite_values_def stored_obs_def min.commute split: f64.splits)

lemma best_of_stored:
  assumes "\<forall>o'\<in>set obs. stored_obs o'"
  shows "best_of obs = (if finite_values obs = [] then PosInf else Fin (Min (set (finite_values obs))))"
  using assms unfolding best_of_def
proof (induction obs)
  case Nil
  then show ?case by (simp add: finite_values_def)
next
  case (Cons o' obs)
  show ?case
  proof (cases "mo_value o'")
    case (Fin x)
    then have "finite_values (o' # obs) = x # finite_values obs" by (simp add: finite_values_def)
    with Cons.prems Fin show ?thesis
      by (simp add: fold_f64_min_Fin flip: Min.set_eq_fold)
  next
    case NaN
    then have "finite_values (o' # obs) = finite_values obs" by (simp add: finite_values_def)
    with Cons NaN show ?thesis by simp
  qed (use Cons.prems in \<open>auto simp: stored_obs_def\<close>)
qed

lemma finite_values_filter:
  "x \<in> set (finite_values (filter p obs)) \<longleftrightarrow> (\<exists>o'\<in>set obs. p o' \<and> mo_value o' = Fin x)"
  by (force simp: finite_values_def split: f64.splits)

text \<open>A \<open>no_improve\<close> gate over a stored history trips exactly when there is a finite value
  before the window and every finite value inside it is at least as large as some earlier one
  (so also when the window holds no finite value at all); \<open>isnan\<close> trips exactly on a
  non-finite latest value and a threshold exactly when the latest value satisfies it. None of
  them trips without observations.\<close>

theorem evaluate_gate_tripped_iff:
  "ve_tripped (evaluate_gate fmt g (metric_history rid key s) now) \<longleftrightarrow>
     (let h = metric_history rid key s in
      case g of
        IsNan _ \<Rightarrow> h \<noteq> [] \<and> \<not> is_finite (mo_value (last h))
      | Threshold _ op v \<Rightarrow> h \<noteq> [] \<and> cmp_apply op (mo_value (last h)) v
      | NoImprove _ w \<Rightarrow>
          (\<exists>p\<in>set h. mo_ts p < now - w * 60 \<and> mo_value p \<noteq> NaN) \<and>
          (\<forall>q\<in>set h. now - w * 60 \<le> mo_ts q \<and> mo_value q \<noteq> NaN \<longrightarrow>
             (\<exists>p\<in>set h. mo_ts p < now - w * 60 \<and> f64_leq (mo_value p) (mo_value q))))"
proof (cases g)
  case (NoImprove k w)
  let ?h = "metric_history rid key s" and ?c = "now - w * 60"
  let ?B = "finite_values (filter (\<lambda>o'. mo_ts o' < ?c) ?h)"
  let ?W = "finite_values (filter (\<lambda>o'. ?c \<le> mo_ts o') ?h)"
  have st: "\<forall>o'\<in>set (filter p ?h). stored_obs o'" for p
    using metric_history_stored [of _ rid key s] by auto
  have nan: "mo_value q \<noteq> NaN \<longleftrightarrow> (\<exists>x. mo_value q = Fin x)" if "q \<in> set ?h" for q
    using metric_history_stored [OF that] by (auto simp: stored_obs_def split: f64.splits)
  have "ve_tripped (evaluate_gate fmt g ?h now) \<longleftrightarrow>
      ?B \<noteq> [] \<and> (\<forall>y\<in>set ?W. Min (set ?B) \<le> y)"
    using NoImprove
    by (cases "?W = []") (simp_all add: Let_def best_of_stored [OF st])
  also have "\<dots> \<longleftrightarrow> ?B \<noteq> [] \<and> (\<forall>y\<in>set ?W. \<exists>x\<in>set ?B. x \<le> y)"
    by (cases "?B = []") (auto simp: Min_le_iff)
  also have "?B \<noteq> [] \<longleftrightarrow> (\<exists>p\<in>set ?h. mo_ts p < ?c \<and> mo_value p \<noteq> NaN)"
    using nan finite_values_filter [of _ "\<lambda>o'. mo_ts o' < ?c" ?h]
    by (metis list.set_intros(1) neq_Nil_conv empty_iff list.set(1))
  also have "(\<forall>y\<in>set ?W. \<exists>x\<in>set ?B. x \<le> y) \<longleftrightarrow>
      (\<forall>q\<in>set ?h. ?c \<le> mo_ts q \<and> mo_value q \<noteq> NaN \<longrightarrow>
         (\<exists>p\<in>set ?h. mo_ts p < ?c \<and> f64_leq (mo_value p) (mo_value q)))"
  proof -
    have le: "f64_leq (mo_value p) (Fin y) \<longleftrightarrow> (\<exists>x. mo_value p = Fin x \<and> x \<le> y)"
      if "p \<in> set ?h" for p y
      using metric_history_stored [OF that]
      by (auto simp: stored_obs_def f64_leq_def split: f64.splits)
    have B: "(\<exists>x\<in>set ?B. x \<le> y) \<longleftrightarrow>
        (\<exists>p\<in>set ?h. mo_ts p < ?c \<and> f64_leq (mo_value p) (Fin y))" for y
      unfolding Bex_def finite_values_filter using le by blast
    have "(\<forall>y\<in>set ?W. P y) \<longleftrightarrow> (\<forall>q\<in>set ?h. \<forall>y. ?c \<le> mo_ts q \<and> mo_value q = Fin y \<longrightarrow> P y)" for P
      unfolding Ball_def finite_values_filter by blast
    then have "(\<forall>y\<in>set ?W. \<exists>x\<in>set ?B. x \<le> y) \<longleftrightarrow>
        (\<forall>q\<in>set ?h. \<forall>y. ?c \<le> mo_ts q \<and> mo_value q = Fin y \<longrightarrow>
           (\<exists>p\<in>set ?h. mo_ts p < ?c \<and> f64_leq (mo_value p) (Fin y)))"
      unfolding B .
    also have "\<dots> \<longleftrightarrow> (\<forall>q\<in>set ?h. ?c \<le> mo_ts q \<and> mo_value q \<noteq> NaN \<longrightarrow>
           (\<exists>p\<in>set ?h. mo_ts p < ?c \<and> f64_leq (mo_value p) (mo_value q)))"
    proof (rule ball_cong [OF refl])
      fix q assume "q \<in> set ?h"
      then show "(\<forall>y. ?c \<le> mo_ts q \<and> mo_value q = Fin y \<longrightarrow>
           (\<exists>p\<in>set ?h. mo_ts p < ?c \<and> f64_leq (mo_value p) (Fin y))) \<longleftrightarrow>
         (?c \<le> mo_ts q \<and> mo_value q \<noteq> NaN \<longrightarrow>
           (\<exists>p\<in>set ?h. mo_ts p < ?c \<and> f64_leq (mo_value p) (mo_value q)))"
        by (cases "mo_value q") (auto dest: nan)
    qed
    finally show ?thesis .
  qed
  finally show ?thesis using NoImprove by (simp add: Let_def)
qed (auto simp: last_obs_def no_data_def Let_def)

text \<open>A stalled series: 2.0 before the window, 2.5 inside it.\<close>

definition demo_metrics :: store where
  "demo_metrics = append_metrics 130 ''R'' 2 [(''loss'', Fin (5/2))]
     (append_metrics 0 ''R'' 1 [(''loss'', Fin 2)] empty_store)"

lemma demo_metrics_history: "metric_history ''R'' ''loss'' demo_metrics =
    [\<lparr>mo_ts = 0, mo_value = Fin 2\<rparr>, \<lparr>mo_ts = 130, mo_value = Fin (5/2)\<rparr>]"
  by (simp add: metric_history_def demo_metrics_def append_metrics_def append_metric_def upsert_def
      empty_store_def order_by_def)

lemma evaluate_gate_tripped_iff_witness:
  "ve_tripped (evaluate_gate (\<lambda>_. []) (NoImprove ''loss'' 2)
     (metric_history ''R'' ''loss'' demo_metrics) 200)"
  by (subst evaluate_gate_tripped_iff) (simp add: demo_metrics_history)

end
