(* ===== verification/Config.thy ===== *)
theory Config
  imports Gate
begin

text \<open>
  Configuration from the environment (\<open>config.rs\<close>). The environment is a partial function; the
  parser of IP addresses is a parameter. Case folding is on ASCII letters.
\<close>

definition to_lower_char :: "char \<Rightarrow> char" where
  "to_lower_char c =
     (if 65 \<le> (of_char c :: nat) \<and> (of_char c :: nat) \<le> 90 then char_of ((of_char c :: nat) + 32) else c)"

definition to_lower :: "string \<Rightarrow> string" where
  "to_lower s = map to_lower_char s"

definition parse_below :: "nat \<Rightarrow> string \<Rightarrow> nat option" where
  "parse_below bound s =
     (case parse_u64 s of Some n \<Rightarrow> if n < bound then Some n else None | None \<Rightarrow> None)"

abbreviation parse_u16 :: "string \<Rightarrow> nat option" where "parse_u16 \<equiv> parse_below (2 ^ 16)"
abbreviation parse_u32 :: "string \<Rightarrow> nat option" where "parse_u32 \<equiv> parse_below (2 ^ 32)"

definition DEFAULT_STORE_SPEC :: string where "DEFAULT_STORE_SPEC = ''sqlite:chuk_train.db''"
definition DEFAULT_ARTIFACTS_SPEC :: string where
  "DEFAULT_ARTIFACTS_SPEC = ''file:./chuk_train_artifacts''"
definition DEFAULT_HOST :: string where "DEFAULT_HOST = ''0.0.0.0''"
definition FALLBACK_PORT_VAR :: string where "FALLBACK_PORT_VAR = ''PORT''"
definition PUBLIC_URL_VAR :: string where "PUBLIC_URL_VAR = ''CHUK_TRAIN_PUBLIC_URL''"
definition DEFAULT_PROVIDERS :: string where "DEFAULT_PROVIDERS = ''mock''"
definition DEFAULT_PORT :: nat where "DEFAULT_PORT = 8700"
definition AGENT_WS_PATH :: string where "AGENT_WS_PATH = ''/ws/agent''"
definition DEFAULT_DRAIN_WINDOW_MIN :: real where "DEFAULT_DRAIN_WINDOW_MIN = 5"
definition DEFAULT_IDLE_REAP :: real where "DEFAULT_IDLE_REAP = 600"
definition DEFAULT_RECONCILE_INTERVAL :: real where "DEFAULT_RECONCILE_INTERVAL = 600"
definition DEFAULT_CONFIRM_COST_THRESHOLD :: real where "DEFAULT_CONFIRM_COST_THRESHOLD = 5"

record config =
  cf_api_token :: string
  cf_join_token :: string
  cf_store_spec :: string
  cf_artifacts_spec :: string
  cf_public_url :: string
  cf_host :: string
  cf_port :: nat
  cf_providers :: string
  cf_agent_ws_url :: string
  cf_agent_bin :: "string option"
  cf_agent_dir :: "string option"
  cf_min_protocol :: nat
  cf_vast_api_key :: "string option"
  cf_drain_window_min :: f64
  cf_confirm_cost_threshold :: f64
  cf_reconcile_interval :: real
  cf_idle_reap :: real
  cf_google_client_id :: "string option"
  cf_google_client_secret :: "string option"
  cf_allowed_emails :: "string list"
  cf_sysadmin_email :: "string option"

definition auth_enabled :: "config \<Rightarrow> bool" where
  "auth_enabled c \<longleftrightarrow>
     cf_google_client_id c \<noteq> None \<and> cf_google_client_secret c \<noteq> None \<and> cf_allowed_emails c \<noteq> []"

definition required_token :: "(string \<Rightarrow> string option) \<Rightarrow> string \<Rightarrow> string result" where
  "required_token env var =
     (case env var of
        None \<Rightarrow> Inl (var @ '' must be set'')
      | Some value \<Rightarrow> if trim value \<noteq> [] then Inr value else Inl (var @ '' must not be empty''))"

text \<open>\<open>Duration::from_secs_f64\<close> panics outside the representable range.\<close>

definition duration_from_env :: "(string \<Rightarrow> string option) \<Rightarrow> string \<Rightarrow> real \<Rightarrow> real result" where
  "duration_from_env env var dflt =
     (case env var of
        None \<Rightarrow> Inr dflt
      | Some raw \<Rightarrow>
          (case parse_f64 raw of
             None \<Rightarrow> Inl (''parsing '' @ var)
           | Some (Fin x) \<Rightarrow>
               if 0 \<le> x \<and> x < 2 ^ 64 then Inr x
               else Inl ''panic: cannot convert float seconds to Duration''
           | Some _ \<Rightarrow> Inl ''panic: cannot convert float seconds to Duration''))"

definition f64_from_env :: "(string \<Rightarrow> string option) \<Rightarrow> string \<Rightarrow> real \<Rightarrow> f64 result" where
  "f64_from_env env var dflt =
     (case env var of
        None \<Rightarrow> Inr (Fin dflt)
      | Some raw \<Rightarrow> ok_or (parse_f64 raw) (''parsing '' @ var))"

definition non_empty :: "string option \<Rightarrow> string option" where
  "non_empty x = (case x of Some s \<Rightarrow> if s = [] then None else Some s | None \<Rightarrow> None)"

definition allowed_emails_of :: "(string \<Rightarrow> string option) \<Rightarrow> string list" where
  "allowed_emails_of env =
     filter (\<lambda>s. s \<noteq> []) (map (\<lambda>s. to_lower (trim s))
       (split_on (CHR '','') (case env ''CHUK_TRAIN_ALLOWED_EMAILS'' of Some s \<Rightarrow> s | None \<Rightarrow> [])))"

definition or_else :: "'a option \<Rightarrow> 'a option \<Rightarrow> 'a option" where
  "or_else x y = (case x of None \<Rightarrow> y | Some a \<Rightarrow> Some a)"

definition config_from_env ::
  "(string \<Rightarrow> string option) \<Rightarrow> (string \<Rightarrow> string option) \<Rightarrow> config result" where
  "config_from_env parse_ip env =
     result_bind (required_token env ''CHUK_TRAIN_API_TOKEN'') (\<lambda>api_token.
     result_bind (required_token env ''CHUK_TRAIN_JOIN_TOKEN'') (\<lambda>join_token.
     result_bind (case env ''CHUK_TRAIN_HOST'' of
                    Some raw \<Rightarrow> ok_or (parse_ip raw) ''parsing CHUK_TRAIN_HOST''
                  | None \<Rightarrow> Inr DEFAULT_HOST) (\<lambda>host.
     result_bind (case or_else (env ''CHUK_TRAIN_PORT'') (env FALLBACK_PORT_VAR) of
                    Some raw \<Rightarrow> ok_or (parse_u16 raw) ''parsing CHUK_TRAIN_PORT''
                  | None \<Rightarrow> Inr DEFAULT_PORT) (\<lambda>port.
     result_bind (duration_from_env env ''CHUK_TRAIN_RECONCILE_S'' DEFAULT_RECONCILE_INTERVAL) (\<lambda>reconcile.
     result_bind (duration_from_env env ''CHUK_TRAIN_IDLE_REAP_S'' DEFAULT_IDLE_REAP) (\<lambda>idle.
     result_bind (f64_from_env env ''CHUK_TRAIN_DRAIN_WINDOW_MIN'' DEFAULT_DRAIN_WINDOW_MIN) (\<lambda>drain.
     result_bind (f64_from_env env ''CHUK_TRAIN_CONFIRM_COST_THRESHOLD'' DEFAULT_CONFIRM_COST_THRESHOLD) (\<lambda>cost.
     Inr
       \<lparr>cf_api_token = api_token, cf_join_token = join_token,
        cf_store_spec = (case or_else (env ''CHUK_TRAIN_STORE'') (env ''CHUK_TRAIN_DB'') of
                           Some s \<Rightarrow> s | None \<Rightarrow> DEFAULT_STORE_SPEC),
        cf_artifacts_spec = (case env ''CHUK_TRAIN_ARTIFACTS'' of Some s \<Rightarrow> s | None \<Rightarrow> DEFAULT_ARTIFACTS_SPEC),
        cf_public_url = (case env PUBLIC_URL_VAR of
                           Some s \<Rightarrow> s | None \<Rightarrow> ''http://127.0.0.1:'' @ show_nat port),
        cf_host = host, cf_port = port,
        cf_providers = (case env ''CHUK_TRAIN_PROVIDERS'' of Some s \<Rightarrow> s | None \<Rightarrow> DEFAULT_PROVIDERS),
        cf_agent_ws_url = (case env ''CHUK_TRAIN_AGENT_WS_URL'' of
                             Some s \<Rightarrow> s | None \<Rightarrow> ''ws://127.0.0.1:'' @ show_nat port @ AGENT_WS_PATH),
        cf_agent_bin = env ''CHUK_TRAIN_AGENT_BIN'', cf_agent_dir = env ''CHUK_TRAIN_AGENT_DIR'',
        cf_min_protocol = (case env ''CHUK_TRAIN_MIN_PROTOCOL'' of
                             Some s \<Rightarrow> (case parse_u32 s of Some n \<Rightarrow> n | None \<Rightarrow> PROTOCOL_VERSION)
                           | None \<Rightarrow> PROTOCOL_VERSION),
        cf_vast_api_key = env ''CHUK_TRAIN_VAST_API_KEY'',
        cf_drain_window_min = drain, cf_confirm_cost_threshold = cost,
        cf_reconcile_interval = reconcile, cf_idle_reap = idle,
        cf_google_client_id = non_empty (env ''CHUK_TRAIN_GOOGLE_CLIENT_ID''),
        cf_google_client_secret = non_empty (env ''CHUK_TRAIN_GOOGLE_CLIENT_SECRET''),
        cf_allowed_emails = allowed_emails_of env,
        cf_sysadmin_email = non_empty (map_option (\<lambda>s. to_lower (trim s)) (env ''CHUK_TRAIN_SYSADMIN_EMAIL''))\<rparr>))))))))"

definition bootstrap_sysadmin :: "config \<Rightarrow> string option" where
  "bootstrap_sysadmin c =
     or_else (cf_sysadmin_email c) (case cf_allowed_emails c of e # _ \<Rightarrow> Some e | [] \<Rightarrow> None)"

subsection \<open>What a loaded configuration guarantees\<close>

lemma result_bind_Inr: "result_bind r f = Inr b \<longleftrightarrow> (\<exists>a. r = Inr a \<and> f a = Inr b)"
  by (cases r) (auto simp: result_bind_def)

lemma required_token_Inr: "required_token env var = Inr t \<longleftrightarrow> env var = Some t \<and> trim t \<noteq> []"
  by (auto simp: required_token_def split: option.splits if_splits)

lemma duration_from_env_Inr:
  "duration_from_env env var d = Inr t \<Longrightarrow> 0 \<le> d \<Longrightarrow> 0 \<le> t"
  by (auto simp: duration_from_env_def split: option.splits f64.splits if_splits)

lemma config_from_env_tokens:
  assumes "config_from_env parse_ip env = Inr c"
  shows "trim (cf_api_token c) \<noteq> []" "trim (cf_join_token c) \<noteq> []"
    "cf_allowed_emails c = allowed_emails_of env"
  using assms unfolding config_from_env_def result_bind_Inr
  by (auto simp: required_token_Inr)

text \<open>A configuration with the defaults, for concrete instances.\<close>

definition demo_base_config :: config where
  "demo_base_config = \<lparr>cf_api_token = ''k'', cf_join_token = ''j'', cf_store_spec = DEFAULT_STORE_SPEC,
     cf_artifacts_spec = DEFAULT_ARTIFACTS_SPEC, cf_public_url = ''http://127.0.0.1:8088'', cf_host = DEFAULT_HOST,
     cf_port = DEFAULT_PORT, cf_providers = DEFAULT_PROVIDERS, cf_agent_ws_url = ''ws://127.0.0.1'',
     cf_agent_bin = None, cf_agent_dir = None, cf_min_protocol = 0, cf_vast_api_key = None,
     cf_drain_window_min = Fin 5, cf_confirm_cost_threshold = Fin 10, cf_reconcile_interval = 60,
     cf_idle_reap = 600, cf_google_client_id = None, cf_google_client_secret = None, cf_allowed_emails = [],
     cf_sysadmin_email = None\<rparr>"

end
