(* ===== verification/Grant.thy ===== *)
theory Grant
  imports StoreMeta
begin

text \<open>
  Run-scoped upload capabilities (\<open>grant.rs\<close>), the filesystem blob store
  (\<open>artifacts/fs.rs\<close>) and the worker-facing transfer endpoints (\<open>upload.rs\<close>). The grant
  table is the \<open>HashMap\<close> behind the mutex, an association list; \<open>Instant::now()\<close> and the
  random token are arguments. The locale states what the hub and the endpoints rely on of
  a capability table; it is interpreted on \<open>GrantTable\<close> and on the API-key table.
\<close>

subsection \<open>The blob store\<close>

type_synonym blobs = "string \<Rightarrow> string option"

definition fs_uri :: "string \<Rightarrow> string \<Rightarrow> string" where
  "fs_uri dir key = ''file://'' @ dir @ ''/'' @ key"

definition fs_resolve :: "string \<Rightarrow> string result" where
  "fs_resolve key = (if is_safe_key key then Inr key else Inl ''unsafe artifact key'')"

definition fs_put :: "string \<Rightarrow> string \<Rightarrow> string \<Rightarrow> blobs \<Rightarrow> blobs \<times> string result" where
  "fs_put dir key bytes b =
     (case fs_resolve key of
        Inl e \<Rightarrow> (b, Inl e)
      | Inr path \<Rightarrow> (b(path \<mapsto> bytes), Inr (fs_uri dir key)))"

definition fs_get :: "string \<Rightarrow> blobs \<Rightarrow> string result" where
  "fs_get key b = result_bind (fs_resolve key) (\<lambda>path. ok_or (b path) ''No such file'')"

definition fs_exists :: "string \<Rightarrow> blobs \<Rightarrow> bool result" where
  "fs_exists key b = result_bind (fs_resolve key) (\<lambda>path. Inr (b path \<noteq> None))"

definition fs_delete :: "string \<Rightarrow> blobs \<Rightarrow> blobs \<times> unit result" where
  "fs_delete key b =
     (case fs_resolve key of Inl e \<Rightarrow> (b, Inl e) | Inr path \<Rightarrow> (b(path := None), Inr ()))"

definition fs_copy :: "string \<Rightarrow> string \<Rightarrow> blobs \<Rightarrow> blobs \<times> unit result" where
  "fs_copy src dst b =
     (case fs_resolve src of
        Inl e \<Rightarrow> (b, Inl e)
      | Inr src_path \<Rightarrow>
          (case fs_resolve dst of
             Inl e \<Rightarrow> (b, Inl e)
           | Inr dst_path \<Rightarrow>
               (case b src_path of
                  None \<Rightarrow> (b, Inl ''No such file'')
                | Some bytes \<Rightarrow> (b(dst_path \<mapsto> bytes), Inr ()))))"

subsection \<open>Grants\<close>

record grant =
  gr_run_id :: run_id
  gr_code :: code_ref
  gr_expires :: real

definition grant_is_valid :: "real \<Rightarrow> grant \<Rightarrow> bool" where
  "grant_is_valid now g \<longleftrightarrow> now < gr_expires g"

definition run_prefixes :: "grant \<Rightarrow> string list" where
  "run_prefixes g =
     [''runs/'' @ gr_run_id g @ ''/'',
      CKPT_HOT_PREFIX @ ''/'' @ gr_run_id g @ ''/'',
      CKPT_FINAL_PREFIX @ ''/'' @ gr_run_id g @ ''/'']"

definition may_write :: "grant \<Rightarrow> string \<Rightarrow> bool" where
  "may_write g key \<longleftrightarrow> is_safe_key key \<and> (\<exists>p\<in>set (run_prefixes g). starts_with p key)"

definition may_read :: "grant \<Rightarrow> string \<Rightarrow> bool" where
  "may_read g key \<longleftrightarrow>
     (if \<not> is_safe_key key then False
      else (\<exists>p\<in>set (run_prefixes g). starts_with p key) \<or>
           starts_with (code_unit_dir (cr_name (gr_code g)) (cr_sha (gr_code g)) @ ''/'') key)"

type_synonym grant_table = "(string \<times> grant) list"

definition grant_mint ::
  "string \<Rightarrow> real \<Rightarrow> run_id \<Rightarrow> code_ref \<Rightarrow> grant_table \<Rightarrow> grant_table \<times> string" where
  "grant_mint uuid now run_id code t =
     (let token = ''grant-'' @ uuid
      in (alist_put token \<lparr>gr_run_id = run_id, gr_code = code, gr_expires = now + UPLOAD_GRANT_TTL\<rparr> t,
          token))"

definition grant_resolve :: "real \<Rightarrow> string \<Rightarrow> grant_table \<Rightarrow> grant_table \<times> grant option" where
  "grant_resolve now token t =
     (case map_of t token of
        None \<Rightarrow> (t, None)
      | Some g \<Rightarrow> if grant_is_valid now g then (t, Some g) else (alist_del token t, None))"

definition grant_revoke_run :: "run_id \<Rightarrow> grant_table \<Rightarrow> grant_table" where
  "grant_revoke_run run_id t = filter (\<lambda>(_, g). gr_run_id g \<noteq> run_id) t"

subsection \<open>The transfer endpoints\<close>

datatype response =
    Created | Bytes string | Blob_url blob_url_response
  | Unauthorized | Forbidden | Not_found | Internal

definition authorize :: "real \<Rightarrow> string option \<Rightarrow> grant_table \<Rightarrow> grant_table \<times> grant option" where
  "authorize now header t =
     (case header of
        None \<Rightarrow> (t, None)
      | Some v \<Rightarrow> (case strip_prefix ''Bearer '' v of
                     None \<Rightarrow> (t, None)
                   | Some token \<Rightarrow> grant_resolve now token t))"

definition upload ::
  "real \<Rightarrow> string \<Rightarrow> string option \<Rightarrow> string \<Rightarrow> string \<Rightarrow> grant_table \<Rightarrow> blobs \<Rightarrow>
   (grant_table \<times> blobs) \<times> response" where
  "upload now dir header key body t b =
     (case authorize now header t of
        (t', None) \<Rightarrow> ((t', b), Unauthorized)
      | (t', Some g) \<Rightarrow>
          if \<not> may_write g key then ((t', b), Forbidden)
          else (case fs_put dir key body b of
                  (b', Inr _) \<Rightarrow> ((t', b'), Created)
                | (b', Inl _) \<Rightarrow> ((t', b'), Internal)))"

definition fetch ::
  "real \<Rightarrow> string option \<Rightarrow> string \<Rightarrow> grant_table \<Rightarrow> blobs \<Rightarrow> grant_table \<times> response" where
  "fetch now header key t b =
     (case authorize now header t of
        (t', None) \<Rightarrow> (t', Unauthorized)
      | (t', Some g) \<Rightarrow>
          (t', if \<not> may_read g key then Forbidden
               else (case fs_get key b of Inr bytes \<Rightarrow> Bytes bytes | Inl _ \<Rightarrow> Not_found)))"

definition trim_end_slashes :: "string \<Rightarrow> string" where
  "trim_end_slashes s = rev (dropWhile (\<lambda>c. c = CHR ''/'') (rev s))"

text \<open>\<open>presign\<close> is the backend's \<open>presign_put\<close>/\<open>presign_get\<close>: the S3 client's signed url,
  \<open>None\<close> for the filesystem backend.\<close>

definition blob_url ::
  "(blob_method \<Rightarrow> string \<Rightarrow> string option result) \<Rightarrow> string \<Rightarrow> real \<Rightarrow> string option \<Rightarrow>
   blob_url_request \<Rightarrow> grant_table \<Rightarrow> grant_table \<times> response" where
  "blob_url presign public_url now header req t =
     (case authorize now header t of
        (t', None) \<Rightarrow> (t', Unauthorized)
      | (t', Some g) \<Rightarrow>
          (let allowed = (case bq_method req of Put \<Rightarrow> may_write g (bq_key req)
                                              | Get \<Rightarrow> may_read g (bq_key req))
           in (t', if \<not> allowed then Forbidden
                   else (case presign (bq_method req) (bq_key req) of
                           Inr (Some signed) \<Rightarrow>
                             Blob_url \<lparr>br_url = signed, br_requires_grant_header = False\<rparr>
                         | Inr None \<Rightarrow>
                             (let action = (case bq_method req of Put \<Rightarrow> ''upload'' | Get \<Rightarrow> ''fetch'')
                              in Blob_url \<lparr>br_url = trim_end_slashes public_url @ ''/api'' @ ''/'' @ action
                                                    @ ''/'' @ bq_key req,
                                           br_requires_grant_header = True\<rparr>)
                         | Inl _ \<Rightarrow> Internal))))"

subsection \<open>Key confinement\<close>

text \<open>The keys of a run: those whose first segment is a run root and whose second is the id.\<close>

definition run_region :: "run_id \<Rightarrow> string \<Rightarrow> bool" where
  "run_region run_id key \<longleftrightarrow>
     (case split_on (CHR ''/'') key of
        d # r # _ # _ \<Rightarrow> d \<in> {''runs'', ''ckpt-hot'', ''ckpt-final''} \<and> r = run_id
      | _ \<Rightarrow> False)"

lemma split_on_two:
  assumes "CHR ''/'' \<notin> set a" "CHR ''/'' \<notin> set b"
  shows "starts_with (a @ CHR ''/'' # b @ ''/'') key \<longleftrightarrow>
     (\<exists>c cs. split_on (CHR ''/'') key = a # b # c # cs)"
proof
  assume "starts_with (a @ CHR ''/'' # b @ ''/'') key"
  then obtain rest where "key = a @ CHR ''/'' # b @ CHR ''/'' # rest" by (auto simp: starts_with_iff)
  with assms show "\<exists>c cs. split_on (CHR ''/'') key = a # b # c # cs"
    by (cases "split_on (CHR ''/'') rest") (auto simp: split_on_Cons_sep)
next
  assume "\<exists>c cs. split_on (CHR ''/'') key = a # b # c # cs"
  then obtain c cs where seg: "split_on (CHR ''/'') key = a # b # c # cs" by blast
  then obtain k1 where k1: "key = a @ CHR ''/'' # k1" "split_on (CHR ''/'') k1 = b # c # cs"
    by (rule split_on_ConsE) auto
  then obtain k2 where "k1 = b @ CHR ''/'' # k2" by (elim split_on_ConsE) auto
  with k1 show "starts_with (a @ CHR ''/'' # b @ ''/'') key" by (simp add: starts_with_iff)
qed

lemma run_prefixes_region:
  assumes "CHR ''/'' \<notin> set (gr_run_id g)"
  shows "(\<exists>p\<in>set (run_prefixes g). starts_with p key) \<longleftrightarrow> run_region (gr_run_id g) key"
  using split_on_two [OF _ assms, of "''runs''" key] split_on_two [OF _ assms, of "''ckpt-hot''" key]
    split_on_two [OF _ assms, of "''ckpt-final''" key]
  by (auto simp: run_prefixes_def run_region_def split: list.splits)

lemma run_region_disjoint: "run_region r key \<Longrightarrow> run_region r' key \<Longrightarrow> r = r'"
  by (auto simp: run_region_def split: list.splits)

lemma may_write_region:
  "CHR ''/'' \<notin> set (gr_run_id g) \<Longrightarrow> may_write g key \<longleftrightarrow> is_safe_key key \<and> run_region (gr_run_id g) key"
  by (simp add: may_write_def run_prefixes_region)

lemma may_write_may_read: "may_write g key \<Longrightarrow> may_read g key"
  by (simp add: may_write_def may_read_def)

text \<open>A key that some run's grant covers never names a code unit.\<close>

lemma run_region_not_code: "run_region r (code_unit_dir name sha @ rest) = False"
  by (auto simp: run_region_def code_unit_dir_def split: list.splits)

subsection \<open>The grant table as a capability table\<close>

definition grants_sound :: "grant_table \<Rightarrow> bool" where
  "grants_sound t \<longleftrightarrow> distinct (map fst t) \<and> (\<forall>(_, g)\<in>set t. CHR ''/'' \<notin> set (gr_run_id g))"

definition grant_lookup :: "real \<Rightarrow> grant_table \<Rightarrow> string \<Rightarrow> grant option" where
  "grant_lookup now t token = snd (grant_resolve now token t)"

lemma grant_lookup_eq:
  "grant_lookup now t token =
     (case map_of t token of Some g \<Rightarrow> if now < gr_expires g then Some g else None | None \<Rightarrow> None)"
  by (auto simp: grant_lookup_def grant_resolve_def grant_is_valid_def split: option.splits)

lemma map_of_revoke_run:
  "distinct (map fst t) \<Longrightarrow> map_of (grant_revoke_run r t) token =
     (case map_of t token of None \<Rightarrow> None | Some g \<Rightarrow> if gr_run_id g = r then None else Some g)"
  unfolding grant_revoke_run_def
  by (induction t) (auto split: option.splits simp: map_of_eq_None_iff image_iff)

interpretation grants: capability_table grants_sound "grant_lookup now" gr_run_id grant_revoke_run
  for now
proof unfold_locales
  fix t r assume "grants_sound t"
  then show "grants_sound (grant_revoke_run r t)"
    unfolding grants_sound_def grant_revoke_run_def by (induction t) (auto simp: image_iff)
next
  fix t r k assume "grants_sound t"
  then show "grant_lookup now (grant_revoke_run r t) k =
      (case grant_lookup now t k of None \<Rightarrow> None | Some c \<Rightarrow> if gr_run_id c = r then None else Some c)"
    by (auto simp: grants_sound_def grant_lookup_eq map_of_revoke_run split: option.splits)
qed

interpretation grant_writes: confined_capabilities grants_sound "grant_lookup now" gr_run_id
    grant_revoke_run may_write run_region for now
proof unfold_locales
  fix t k c x
  assume "grants_sound t" "grant_lookup now t k = Some c" "may_write c x"
  then show "run_region (gr_run_id c) x"
    by (auto simp: grants_sound_def grant_lookup_eq may_write_region dest!: map_of_SomeD
        split: option.splits if_splits)
qed (rule run_region_disjoint)

lemma grants_sound_mint:
  "grants_sound t \<Longrightarrow> CHR ''/'' \<notin> set r \<Longrightarrow> grants_sound (fst (grant_mint uuid now r code t))"
  unfolding grants_sound_def grant_mint_def
  by (auto simp: Let_def distinct_alist_put dest: set_alist_put)

lemma grants_sound_resolve: "grants_sound t \<Longrightarrow> grants_sound (fst (grant_resolve now token t))"
  unfolding grants_sound_def grant_resolve_def
  by (auto split: option.splits simp: distinct_alist_del) (auto simp: alist_del_def)

lemma grants_sound_authorize: "grants_sound t \<Longrightarrow> grants_sound (fst (authorize now h t))"
  by (auto simp: authorize_def split: option.splits intro: grants_sound_resolve)

lemma authorize_SomeD:
  "authorize now h t = (t', Some g) \<Longrightarrow>
   t' = t \<and> (\<exists>token. h = Some (''Bearer '' @ token) \<and> grant_lookup now t token = Some g)"
  by (auto simp: authorize_def grant_lookup_def grant_resolve_def strip_prefix_Some_iff
      split: option.splits if_splits)

subsection \<open>Properties\<close>

text \<open>Isolation of worker uploads. If every minted grant is for a slash-free run id, an
  upload is either refused, leaving every blob as it was, or it wrote the body at exactly the
  requested key; that key is safe and lies in the tree of the run the presented token was
  minted for, and resolving its segments from any directory stays below that directory and
  below that run's folder.\<close>

theorem upload_isolated:
  assumes "grants_sound t" and "upload now dir h key body t b = ((t', b'), resp)"
  shows "(resp \<noteq> Created \<and> b' = b) \<or>
    (resp = Created \<and> b' = b(key \<mapsto> body) \<and> is_safe_key key \<and>
     (\<exists>token g. h = Some (''Bearer '' @ token) \<and> map_of t token = Some g \<and> now < gr_expires g \<and>
        run_region (gr_run_id g) key) \<and>
     (\<forall>base. resolve_segs base (split_on (CHR ''/'') key) = base @ split_on (CHR ''/'') key))"
proof (cases "resp = Created")
  case True
  then obtain g where au: "authorize now h t = (t', Some g)" and w: "may_write g key"
    and b': "b' = b(key \<mapsto> body)"
    using assms(2) by (auto simp: upload_def fs_put_def fs_resolve_def
        split: prod.splits option.splits sum.splits if_splits)
  from authorize_SomeD [OF au] obtain token
    where t: "h = Some (''Bearer '' @ token)" "grant_lookup now t token = Some g" by blast
  from grant_writes.covers_region [OF assms(1) t(2) w] have reg: "run_region (gr_run_id g) key" .
  from w have safe: "is_safe_key key" by (simp add: may_write_def)
  have "resolve_segs base (split_on (CHR ''/'') key) = base @ split_on (CHR ''/'') key" for base
    using safe by (simp add: is_safe_key_segs resolve_segs_safe)
  then show ?thesis
    using True b' t reg safe by (auto simp: grant_lookup_eq split: option.splits if_splits)
next
  case False
  then have "b' = b"
    using assms(2) by (auto simp: upload_def fs_put_def fs_resolve_def may_write_def
        split: prod.splits option.splits sum.splits if_splits)
  with False show ?thesis by simp
qed

definition demo_code :: code_ref where
  "demo_code = \<lparr>cr_name = ''unit'', cr_sha = ''abc''\<rparr>"

definition demo_grants :: grant_table where
  "demo_grants = fst (grant_mint ''2'' 0 ''R-2'' demo_code (fst (grant_mint ''1'' 0 ''R-1'' demo_code [])))"

lemma demo_grants_eq [simp]: "demo_grants =
   [(''grant-1'', \<lparr>gr_run_id = ''R-1'', gr_code = demo_code, gr_expires = 86400\<rparr>),
    (''grant-2'', \<lparr>gr_run_id = ''R-2'', gr_code = demo_code, gr_expires = 86400\<rparr>)]"
  by (simp add: demo_grants_def grant_mint_def Let_def)

lemma upload_isolated_witness:
  "resolve_segs [''data''] (split_on (CHR ''/'') ''runs/R-1/log'') = [''data'', ''runs'', ''R-1'', ''log'']"
proof -
  have s: "grants_sound demo_grants" by (simp add: grants_sound_def)
  have u: "upload 5 ''data'' (Some ''Bearer grant-1'') ''runs/R-1/log'' ''x'' demo_grants Map.empty =
     ((demo_grants, [''runs/R-1/log'' \<mapsto> ''x'']), Created)"
    by (simp add: upload_def authorize_def grant_resolve_def grant_is_valid_def may_write_def
        run_prefixes_def starts_with_def is_safe_key_def fs_put_def fs_resolve_def)
  from upload_isolated [OF s u] show ?thesis by auto
qed

text \<open>Revocation is final. Once a run's grants are revoked, no token lets anybody write into
  that run's tree: the upload is answered 401 or 403 and changes nothing, while every token
  of another run still resolves as before.\<close>

theorem revoked_run_unwritable:
  assumes "grants_sound t" and "run_region r key"
  shows "(\<exists>resp\<in>{Unauthorized, Forbidden}. upload now dir h key body (grant_revoke_run r t) b =
            ((fst (authorize now h (grant_revoke_run r t)), b), resp)) \<and>
         (\<forall>token. grant_lookup now (grant_revoke_run r t) token =
            (case grant_lookup now t token of
               Some g \<Rightarrow> if gr_run_id g = r then None else Some g | None \<Rightarrow> None))"
proof
  show "\<exists>resp\<in>{Unauthorized, Forbidden}. upload now dir h key body (grant_revoke_run r t) b =
           ((fst (authorize now h (grant_revoke_run r t)), b), resp)"
  proof (cases "snd (authorize now h (grant_revoke_run r t))")
    case None
    then show ?thesis by (auto simp: upload_def split: prod.splits)
  next
    case (Some g)
    then have au: "authorize now h (grant_revoke_run r t) =
        (fst (authorize now h (grant_revoke_run r t)), Some g)" by (simp add: prod_eq_iff)
    from authorize_SomeD [OF this] obtain token
      where "grant_lookup now (grant_revoke_run r t) token = Some g" by blast
    from grant_writes.no_access_after_revoke [OF assms(1) this assms(2)]
    show ?thesis using Some by (auto simp: upload_def split: prod.splits)
  qed
qed (use grants.lookup_revoke [OF assms(1)] in \<open>auto split: option.splits\<close>)

lemma revoked_run_unwritable_witness:
  "snd (upload 5 ''data'' (Some ''Bearer grant-1'') ''runs/R-1/log'' ''x''
          (grant_revoke_run ''R-1'' demo_grants) Map.empty) \<in> {Unauthorized, Forbidden} \<and>
   (\<exists>g. grant_lookup 5 (grant_revoke_run ''R-1'' demo_grants) ''grant-2'' = Some g)"
proof -
  have s: "grants_sound demo_grants" by (simp add: grants_sound_def)
  have r: "run_region ''R-1'' ''runs/R-1/log''" by (simp add: run_region_def)
  have g: "grant_lookup 5 demo_grants ''grant-2'' =
      Some \<lparr>gr_run_id = ''R-2'', gr_code = demo_code, gr_expires = 86400\<rparr>"
    by (simp add: grant_lookup_eq)
  note refused = revoked_run_unwritable [OF s r, of 5 "''data''" "Some ''Bearer grant-1''" "''x''" Map.empty]
  from conjunct1 [OF refused] show ?thesis
    using conjunct2 [OF refused, THEN spec, of "''grant-2''"] g by auto
qed

end
