(* ===== verification/Jobspec.thy ===== *)
theory Jobspec
  imports Grant
begin

text \<open>
  The translation of a run into a compute-generic job (\<open>jobspec.rs\<close>). The caller's staging is
  the record \<open>train_staging\<close>; the job's environment is a \<open>BTreeMap\<close>, an association list in key
  order; \<open>show_json\<close> is the serializer of \<open>serde_json\<close>.
\<close>

record resume_staging =
  rg_model_uri :: string
  rg_meta_uri :: string

record shard_input =
  si_uri :: string
  si_sha256 :: string

record data_staging =
  ds_content_sha :: string
  ds_plan_sha :: "string option"
  ds_shards :: "shard_input list"

record train_staging =
  ts_entrypoint_cmd :: string
  ts_code_unit_uri :: string
  ts_grant :: string
  ts_resume :: "resume_staging option"
  ts_data :: "data_staging option"

definition sandboxed :: "string \<Rightarrow> string" where
  "sandboxed rel = SANDBOX_PLACEHOLDER @ ''/'' @ rel"

definition overrides_json :: "(json \<Rightarrow> string) \<Rightarrow> train_spec \<Rightarrow> string" where
  "overrides_json show_json tr =
     (if tr_overrides tr = JNull then ''{}'' else show_json (tr_overrides tr))"

definition base_job :: "run_id \<Rightarrow> string \<Rightarrow> string list \<Rightarrow> nat \<Rightarrow> job" where
  "base_job run_id template command secs =
     \<lparr>jb_id = run_id, jb_template = template, jb_command = command, jb_env = [], jb_inputs = [],
      jb_outputs = [], jb_metrics_file = None, jb_max_runtime_secs = Some secs,
      jb_term_grace_secs = DEFAULT_TERM_GRACE_SECS, jb_service = None, jb_needs = [],
      jb_campaign = None, jb_placement = \<lparr>pl_prefer_worker = None, pl_require_labels = []\<rparr>,
      jb_grant = None\<rparr>"

definition shell_job :: "run_id \<Rightarrow> shell_spec \<Rightarrow> job" where
  "shell_job run_id sh = base_job run_id ''shell'' [''/bin/sh'', ''-c'', sh_command sh] (sh_timeout_s sh)"

definition run_seed :: "train_spec \<Rightarrow> int option" where
  "run_seed tr = (case tr_seed tr of
       Some s \<Rightarrow> Some s
     | None \<Rightarrow> (case json_get (tr_overrides tr) ''seed'' of Some v \<Rightarrow> as_i64 v | None \<Rightarrow> None))"

definition script_environment ::
  "(json \<Rightarrow> string) \<Rightarrow> run_id \<Rightarrow> train_spec \<Rightarrow> train_staging \<Rightarrow> (string \<times> string) list" where
  "script_environment show_json run_id tr staging =
     [(''CHUK_CKPT_DIR'', sandboxed ''ckpt''),
      (''CHUK_CONFIG'', case tr_config tr of Some rel \<Rightarrow> sandboxed (''unit/'' @ rel) | None \<Rightarrow> []),
      (''CHUK_DATASET'', case ts_data staging of Some d \<Rightarrow> ds_content_sha d | None \<Rightarrow> []),
      (''CHUK_METRICS'', sandboxed ''metrics.jsonl''),
      (''CHUK_OVERRIDES'', overrides_json show_json tr),
      (''CHUK_PLAN'', case ts_data staging of
                        Some d \<Rightarrow> (case ds_plan_sha d of Some p \<Rightarrow> p | None \<Rightarrow> [])
                      | None \<Rightarrow> []),
      (''CHUK_RESUME_CKPT'', if ts_resume staging \<noteq> None then sandboxed ''resume'' else []),
      (''CHUK_RUN_ID'', run_id),
      (''CHUK_SEED'', case run_seed tr of Some s \<Rightarrow> show_int s | None \<Rightarrow> [])]"

definition train_inputs :: "train_staging \<Rightarrow> input_artifact list" where
  "train_inputs staging =
     [\<lparr>ia_uri = ts_code_unit_uri staging, ia_dest = sandboxed ''unit'', ia_sha256 = None, ia_unpack = True\<rparr>]
     @ (case ts_resume staging of
          None \<Rightarrow> []
        | Some r \<Rightarrow>
            [\<lparr>ia_uri = rg_model_uri r, ia_dest = sandboxed (''resume/'' @ CHECKPOINT_MODEL_FILE),
              ia_sha256 = None, ia_unpack = False\<rparr>,
             \<lparr>ia_uri = rg_meta_uri r, ia_dest = sandboxed (''resume/'' @ CHECKPOINT_META_FILE),
              ia_sha256 = None, ia_unpack = False\<rparr>])
     @ (case ts_data staging of
          None \<Rightarrow> []
        | Some d \<Rightarrow>
            map (\<lambda>sh. \<lparr>ia_uri = si_uri sh, ia_dest = sandboxed (''data/'' @ si_sha256 sh),
                       ia_sha256 = Some (si_sha256 sh), ia_unpack = False\<rparr>) (ds_shards d))"

definition train_job ::
  "(json \<Rightarrow> string) \<Rightarrow> run_id \<Rightarrow> train_spec \<Rightarrow> train_staging \<Rightarrow> job" where
  "train_job show_json run_id tr staging =
     (base_job run_id ''train''
        [''/bin/sh'', ''-c'', ''cd '' @ sandboxed ''unit'' @ '' && '' @ ts_entrypoint_cmd staging]
        (tr_timeout_s tr))
       \<lparr>jb_env := script_environment show_json run_id tr staging,
        jb_inputs := train_inputs staging,
        jb_outputs :=
          [\<lparr>or_class = ''checkpoint'', or_glob = sandboxed (''ckpt/'' @ CHECKPOINT_DIR_PREFIX @ ''*''),
            or_upload = OnAppearance, or_key_prefix = CKPT_HOT_PREFIX @ ''/'' @ run_id,
            or_ready_marker = Some CHECKPOINT_READY_MARKER\<rparr>],
        jb_metrics_file := Some (sandboxed ''metrics.jsonl''),
        jb_grant := Some (ts_grant staging)\<rparr>"

text \<open>The environment is listed in key order, as a \<open>BTreeMap\<close> iterates.\<close>

lemma script_environment_sorted: "sorted_wrt (<) (map fst (script_environment sj r t s))"
  by (simp add: script_environment_def)

text \<open>The checkpoint output rule names exactly the tree the grant of the run may write, and the
  keys the control plane later reads the checkpoint from.\<close>

lemma output_key_checkpoint_file:
  "or_key_prefix (hd (jb_outputs (train_job sj run_id t s))) @ ''/'' @ CHECKPOINT_DIR_PREFIX @
     show_nat step @ ''/'' @ fname = checkpoint_file run_id step fname"
  by (simp add: train_job_def checkpoint_file_def checkpoint_dir_def)

lemma checkpoint_file_writable:
  assumes "gr_run_id g = run_id" "is_safe_key run_id" "is_safe_key fname"
  shows "may_write g (checkpoint_file run_id step fname)"
proof -
  have "starts_with (CKPT_HOT_PREFIX @ ''/'' @ run_id @ ''/'') (checkpoint_file run_id step fname)"
    by (simp add: starts_with_iff checkpoint_file_def checkpoint_dir_def)
  with assms show ?thesis by (simp add: may_write_def is_safe_checkpoint_file run_prefixes_def)
qed

lemma code_unit_tarball_readable:
  assumes "is_safe_key (code_unit_tarball (cr_name (gr_code g)) (cr_sha (gr_code g)))"
  shows "may_read g (code_unit_tarball (cr_name (gr_code g)) (cr_sha (gr_code g)))"
  using assms by (auto simp: may_read_def code_unit_tarball_def starts_with_iff)

lemma show_int_nonempty [simp]: "show_int i \<noteq> []"
  by (simp add: show_int_def)

text \<open>C7: A job carries no authority beyond its run. For a safe run id, every checkpoint file the
  worker collects under the job's output rule is a key the run's grant may write and no other
  run's grant may, it is the very key the control plane resumes from, and the job's id is the
  run's id.\<close>

theorem train_job_outputs_confined:
  assumes "CHR ''/'' \<notin> set run_id" and "is_safe_key run_id" and "is_safe_key fname"
    and "gr_run_id g = run_id" and "gr_run_id g' \<noteq> run_id" and "CHR ''/'' \<notin> set (gr_run_id g')"
    and "rule \<in> set (jb_outputs (train_job sj run_id tr staging))"
  shows "jb_id (train_job sj run_id tr staging) = run_id \<and>
    (let key = or_key_prefix rule @ ''/'' @ CHECKPOINT_DIR_PREFIX @ show_nat step @ ''/'' @ fname in
     key = checkpoint_file run_id step fname \<and> may_write g key \<and> may_read g key \<and> \<not> may_write g' key)"
proof -
  let ?key = "checkpoint_file run_id step fname"
  have rule: "rule = hd (jb_outputs (train_job sj run_id tr staging))"
    using assms(7) by (simp add: train_job_def)
  have w: "may_write g ?key" using assms by (intro checkpoint_file_writable) auto
  then have "run_region run_id ?key" using assms(1,4) may_write_region by blast
  then have "\<not> may_write g' ?key"
    using assms(5,6) may_write_region run_region_disjoint by blast
  with w show ?thesis
    using rule output_key_checkpoint_file [where sj = sj and run_id = run_id and t = tr and
        s = staging and step = step and fname = fname]
    by (simp add: may_write_may_read Let_def) (simp add: train_job_def base_job_def)
qed

definition demo_train :: train_spec where
  "demo_train = \<lparr>tr_code = \<lparr>cr_name = ''unit'', cr_sha = ''abc''\<rparr>, tr_entrypoint = ''train'',
     tr_config = None, tr_overrides = JNull, tr_artifacts_in = [], tr_data = None,
     tr_checkpoint = default_checkpoint_policy, tr_seed = Some 7, tr_arch = None, tr_timeout_s = 60,
     tr_links = []\<rparr>"

definition demo_staging :: train_staging where
  "demo_staging = \<lparr>ts_entrypoint_cmd = ''python train.py'', ts_code_unit_uri = ''u'', ts_grant = ''grant-1'',
     ts_resume = None, ts_data = None\<rparr>"

lemma train_job_outputs_confined_witness:
  "may_write \<lparr>gr_run_id = ''R-1'', gr_code = demo_code, gr_expires = 0\<rparr>
     (checkpoint_file ''R-1'' 3 ''meta.json'') \<and>
   \<not> may_write \<lparr>gr_run_id = ''R-2'', gr_code = demo_code, gr_expires = 0\<rparr>
     (checkpoint_file ''R-1'' 3 ''meta.json'')"
proof -
  let ?g = "\<lparr>gr_run_id = ''R-1'', gr_code = demo_code, gr_expires = 0\<rparr>"
    and ?g' = "\<lparr>gr_run_id = ''R-2'', gr_code = demo_code, gr_expires = 0\<rparr>"
    and ?rule = "hd (jb_outputs (train_job (\<lambda>_. []) ''R-1'' demo_train demo_staging))"
  have p: "CHR ''/'' \<notin> set ''R-1''" "is_safe_key ''R-1''" "is_safe_key ''meta.json''"
    "gr_run_id ?g = ''R-1''" "gr_run_id ?g' \<noteq> ''R-1''" "CHR ''/'' \<notin> set (gr_run_id ?g')"
    "?rule \<in> set (jb_outputs (train_job (\<lambda>_. []) ''R-1'' demo_train demo_staging))"
    by (simp_all add: is_safe_seg train_job_def)
  from train_job_outputs_confined [OF p, of 3] show ?thesis
    unfolding Let_def by (metis (no_types, lifting))
qed

end
