(* ===== verification/Budget.thy ===== *)
theory Budget
  imports StoreMeta
begin

text \<open>
  Cost governance (\<open>budget.rs\<close>): realised and committed spend, the projected-spend check
  that provisioning and extensions are refused on, and the spend report. Money and time are
  exact reals; the two-decimal printing of a refusal takes the printer as an argument.
\<close>

record breach =
  br_scope :: string
  br_period :: string
  br_cap :: real
  br_projected :: real

definition breach_display :: "(real \<Rightarrow> string) \<Rightarrow> breach \<Rightarrow> string" where
  "breach_display fmt2 b =
     ''budget breach: scope '' @ br_scope b @ '' caps '' @ fmt2 (br_cap b) @ ''/'' @ br_period b @
     '' but this would project '' @ fmt2 (br_projected b) @
     '' (raise the cap with set_budget, tear down idle workers, or wait for the period to roll)''"

definition bad_scope :: "string \<Rightarrow> unit result" where
  "bad_scope scope =
     Inl (''unsupported budget scope '' @ debug_str scope @ '': use '' @ debug_str BUDGET_SCOPE_GLOBAL @
          '' or '' @ debug_str (BUDGET_SCOPE_PROVIDER_PREFIX @ ''<name>'') @
          '' (label scopes are not enforced yet)'')"

definition validate_scope :: "string \<Rightarrow> unit result" where
  "validate_scope scope =
     (if scope = BUDGET_SCOPE_GLOBAL then Inr ()
      else (case strip_prefix BUDGET_SCOPE_PROVIDER_PREFIX scope of
              Some name \<Rightarrow> if name \<noteq> [] then Inr () else bad_scope scope
            | None \<Rightarrow> bad_scope scope))"

definition validate_period :: "string \<Rightarrow> unit result" where
  "validate_period period =
     (if period = BUDGET_PERIOD_MONTH \<or> period = BUDGET_PERIOD_ALL then Inr ()
      else Inl (''unsupported budget period '' @ debug_str period @ '': use '' @
                debug_str BUDGET_PERIOD_MONTH @ '' or '' @ debug_str BUDGET_PERIOD_ALL))"

definition period_start :: "string \<Rightarrow> unix_seconds \<Rightarrow> unix_seconds option" where
  "period_start period now =
     (if period = BUDGET_PERIOD_MONTH then Some (month_start now) else None)"

definition budget_provider :: "string \<Rightarrow> string option" where
  "budget_provider scope = strip_prefix BUDGET_SCOPE_PROVIDER_PREFIX scope"

definition is_none_or :: "('a \<Rightarrow> bool) \<Rightarrow> 'a option \<Rightarrow> bool" where
  "is_none_or p x = (case x of None \<Rightarrow> True | Some a \<Rightarrow> p a)"

definition spent :: "ledger_entry list \<Rightarrow> string option \<Rightarrow> unix_seconds option \<Rightarrow> real" where
  "spent ledger provider since =
     sum_list (map le_cost
       (filter (\<lambda>e. is_none_or (\<lambda>p. le_provider e = p) provider)
         (filter (\<lambda>e. is_none_or (\<lambda>s. s \<le> le_ts e) since)
           (filter (\<lambda>e. le_event e = LEDGER_EVENT_LEASE_END) ledger))))"

definition committed :: "lease list \<Rightarrow> string option \<Rightarrow> real" where
  "committed live provider =
     sum_list (map projected_cost (filter (\<lambda>l. is_none_or (\<lambda>p. ls_provider l = p) provider) live))"

definition budget_applies :: "string \<Rightarrow> budget \<Rightarrow> bool" where
  "budget_applies provider b \<longleftrightarrow>
     bu_scope b = BUDGET_SCOPE_GLOBAL \<or> budget_provider (bu_scope b) = Some provider"

definition projected ::
  "ledger_entry list \<Rightarrow> lease list \<Rightarrow> real \<Rightarrow> unix_seconds \<Rightarrow> budget \<Rightarrow> real" where
  "projected ledger live candidate_cost now b =
     spent ledger (budget_provider (bu_scope b)) (period_start (bu_period b) now)
     + committed live (budget_provider (bu_scope b)) + candidate_cost"

fun evaluate_budgets ::
  "budget list \<Rightarrow> ledger_entry list \<Rightarrow> lease list \<Rightarrow> string \<Rightarrow> real \<Rightarrow> unix_seconds \<Rightarrow> breach option"
  where
  "evaluate_budgets [] ledger live provider candidate_cost now = None"
| "evaluate_budgets (b # budgets) ledger live provider candidate_cost now =
     (if \<not> budget_applies provider b
      then evaluate_budgets budgets ledger live provider candidate_cost now
      else let p = projected ledger live candidate_cost now b
           in if bu_cap b < p
              then Some \<lparr>br_scope = bu_scope b, br_period = bu_period b, br_cap = bu_cap b,
                         br_projected = p\<rparr>
              else evaluate_budgets budgets ledger live provider candidate_cost now)"

definition estimate_run_cost :: "lease list \<Rightarrow> nat \<Rightarrow> real" where
  "estimate_run_cost live secs =
     fold (\<lambda>l m. max m (ls_price_hr l)) live 0 * real secs / 3600"

definition report_providers :: "budget list \<Rightarrow> ledger_entry list \<Rightarrow> lease list \<Rightarrow> string list" where
  "report_providers budgets ledger live =
     sort (remdups
       (map ls_provider live @
        map le_provider (filter (\<lambda>e. le_event e = LEDGER_EVENT_LEASE_END) ledger) @
        List.map_filter (\<lambda>b. budget_provider (bu_scope b)) budgets))"

definition budget_for :: "budget list \<Rightarrow> string \<Rightarrow> string \<Rightarrow> budget option" where
  "budget_for budgets period scope = find (\<lambda>b. bu_scope b = scope \<and> bu_period b = period) budgets"

definition report_line ::
  "budget list \<Rightarrow> ledger_entry list \<Rightarrow> lease list \<Rightarrow> string \<Rightarrow> unix_seconds \<Rightarrow> string \<Rightarrow> spend_line" where
  "report_line budgets ledger live period now provider =
     (let line_spent = spent ledger (Some provider) (period_start period now);
          line_committed = committed live (Some provider);
          cap = map_option bu_cap (budget_for budgets period (BUDGET_SCOPE_PROVIDER_PREFIX @ provider))
      in \<lparr>sl_provider = provider, sl_committed = line_committed, sl_spent = line_spent, sl_cap = cap,
          sl_headroom = map_option (\<lambda>c. c - line_spent - line_committed) cap\<rparr>)"

definition spend_report ::
  "budget list \<Rightarrow> ledger_entry list \<Rightarrow> lease list \<Rightarrow> string \<Rightarrow> unix_seconds \<Rightarrow> spend_report" where
  "spend_report budgets ledger live period now =
     (let total_committed = committed live None;
          total_spent = spent ledger None (period_start period now);
          global_cap = map_option bu_cap (budget_for budgets period BUDGET_SCOPE_GLOBAL)
      in \<lparr>sp_period = period,
          sp_lines = map (report_line budgets ledger live period now)
                       (report_providers budgets ledger live),
          sp_total_committed = total_committed, sp_total_spent = total_spent,
          sp_global_cap = global_cap,
          sp_global_headroom = map_option (\<lambda>c. c - total_spent - total_committed) global_cap\<rparr>)"

subsection \<open>Spend is additive\<close>

lemma committed_append [simp]: "committed (xs @ ys) p = committed xs p + committed ys p"
  by (simp add: committed_def)

lemma committed_Nil [simp]: "committed [] p = 0"
  by (simp add: committed_def)

lemma committed_single:
  "committed [l] p = (if is_none_or (\<lambda>q. ls_provider l = q) p then projected_cost l else 0)"
  by (simp add: committed_def)

lemma committed_Cons: "committed (l # ls) p = committed [l] p + committed ls p"
  by (simp add: committed_def)

lemma spent_append [simp]: "spent (xs @ ys) p t = spent xs p t + spent ys p t"
  by (simp add: spent_def)

lemma spent_single:
  "spent [e] p t =
     (if le_event e = LEDGER_EVENT_LEASE_END \<and> is_none_or (\<lambda>s. s \<le> le_ts e) t \<and>
         is_none_or (\<lambda>q. le_provider e = q) p then le_cost e else 0)"
  by (simp add: spent_def)

lemma is_none_or_simps [simp]: "is_none_or p None" "is_none_or p (Some a) = p a"
  by (simp_all add: is_none_or_def)

lemma sum_list_partition:
  assumes "distinct ks" "\<forall>x\<in>set xs. key x \<in> set ks"
  shows "(\<Sum>k\<leftarrow>ks. sum_list (map f (filter (\<lambda>x. key x = k) xs))) = sum_list (map (f :: _ \<Rightarrow> real) xs)"
  using assms(2)
proof (induction xs)
  case Nil
  show ?case by (induction ks) auto
next
  case (Cons x xs)
  have one: "(\<Sum>k\<leftarrow>ks. if key x = k then f x else 0) = f x"
    using assms(1) Cons.prems by (simp add: sum_list_distinct_conv_sum_set)
  have "(\<Sum>k\<leftarrow>ks. sum_list (map f (filter (\<lambda>y. key y = k) (x # xs)))) =
      (\<Sum>k\<leftarrow>ks. (if key x = k then f x else 0) + sum_list (map f (filter (\<lambda>y. key y = k) xs)))"
    by (intro arg_cong [where f = sum_list] map_cong) auto
  with one Cons show ?case by (simp add: sum_list_addf)
qed


lemma evaluate_budgets_None:
  assumes "evaluate_budgets budgets ledger live provider cost now = None"
    "b \<in> set budgets" "budget_applies provider b"
  shows "projected ledger live cost now b \<le> bu_cap b"
  using assms by (induction budgets) (auto simp: Let_def split: if_splits)

text \<open>The spend report adds up: its lines, one per provider, sum to the report's total
  committed and total realised spend, every live lease's provider has a line, and each
  headroom is the cap less what the line shows as spent and committed.\<close>

theorem spend_report_adds_up:
  "(let r = spend_report budgets ledger live period now in
     sum_list (map sl_committed (sp_lines r)) = sp_total_committed r \<and>
     sum_list (map sl_spent (sp_lines r)) = sp_total_spent r \<and>
     distinct (map sl_provider (sp_lines r)) \<and>
     ls_provider ` set live \<subseteq> sl_provider ` set (sp_lines r) \<and>
     (\<forall>l\<in>set (sp_lines r). sl_headroom l = map_option (\<lambda>c. c - sl_spent l - sl_committed l) (sl_cap l)))"
proof -
  let ?ks = "report_providers budgets ledger live"
  let ?ended = "filter (\<lambda>e. is_none_or (\<lambda>s. s \<le> le_ts e) (period_start period now))
      (filter (\<lambda>e. le_event e = LEDGER_EVENT_LEASE_END) ledger)"
  have d: "distinct ?ks" by (simp add: report_providers_def)
  have live: "\<forall>l\<in>set live. ls_provider l \<in> set ?ks"
    and ended: "\<forall>e\<in>set ?ended. le_provider e \<in> set ?ks"
    by (auto simp: report_providers_def)
  have "(\<Sum>k\<leftarrow>?ks. committed live (Some k)) = committed live None"
    using sum_list_partition [OF d live, of projected_cost] by (simp add: committed_def)
  moreover have "(\<Sum>k\<leftarrow>?ks. spent ledger (Some k) (period_start period now)) =
      spent ledger None (period_start period now)"
    using sum_list_partition [OF d ended, of le_cost] by (simp add: spent_def)
  moreover have "map sl_provider (map (report_line budgets ledger live period now) ?ks) = ?ks"
    by (simp add: report_line_def Let_def comp_def)
  ultimately show ?thesis
    using d live by (auto simp: spend_report_def Let_def comp_def simp flip: set_map)
      (auto simp: report_line_def Let_def)
qed

definition demo_budgets :: "budget list" where
  "demo_budgets =
     [\<lparr>bu_scope = ''provider:modal'', bu_cap = 5, bu_period = ''all'', bu_updated_at = 0\<rparr>,
      \<lparr>bu_scope = ''provider:vast'', bu_cap = 50, bu_period = ''all'', bu_updated_at = 0\<rparr>,
      \<lparr>bu_scope = ''global'', bu_cap = 20, bu_period = ''all'', bu_updated_at = 0\<rparr>]"

definition demo_lease :: lease where
  "demo_lease = \<lparr>ls_worker_id = ''w-1'', ls_provider = ''modal'', ls_instance_id = ''i-1'', ls_price_hr = 3,
     ls_granted_min = 120, ls_drain_window_min = 10, ls_started_at = 0, ls_state = Active,
     ls_extensions = []\<rparr>"

lemmas demo_budget_simps = demo_budgets_def demo_lease_def budget_applies_def budget_provider_def
  projected_def committed_single spent_single projected_cost_def total_granted_min_def period_start_def spent_def
  committed_def

lemma demo_evaluate [simp]:
  "evaluate_budgets demo_budgets [] [demo_lease] ''modal'' 10 100 =
     Some \<lparr>br_scope = ''provider:modal'', br_period = ''all'', br_cap = 5, br_projected = 16\<rparr>"
  "evaluate_budgets demo_budgets [] [demo_lease] ''vast'' 10 100 = None"
  by (simp_all add: demo_budget_simps)


definition demo_ledger :: "ledger_entry list" where
  "demo_ledger = [\<lparr>le_ts = 50, le_worker_id = ''w-0'', le_provider = ''modal'', le_event = ''lease_end'',
     le_minutes = 30, le_cost = 2\<rparr>]"

lemma demo_report_providers: "report_providers demo_budgets demo_ledger [demo_lease] = [''modal'', ''vast'']"
  by (simp add: report_providers_def demo_budgets_def demo_lease_def demo_ledger_def budget_provider_def
      List.map_filter_def)

lemma spend_report_adds_up_witness:
  "let r = spend_report demo_budgets demo_ledger [demo_lease] ''all'' 100 in
     sum_list (map sl_committed (sp_lines r)) = 6 \<and> sum_list (map sl_spent (sp_lines r)) = 2 \<and>
     sl_headroom (hd (sp_lines r)) = Some (5 - 2 - 6)"
proof -
  let ?r = "spend_report demo_budgets demo_ledger [demo_lease] ''all'' 100"
  have total: "sp_total_committed ?r = 6" "sp_total_spent ?r = 2"
    by (simp_all add: spend_report_def Let_def demo_budget_simps demo_ledger_def)
  have lines: "sp_lines ?r = map (report_line demo_budgets demo_ledger [demo_lease] ''all'' 100) [''modal'', ''vast'']"
    by (simp add: spend_report_def Let_def demo_report_providers)
  then have l: "hd (sp_lines ?r) \<in> set (sp_lines ?r)" by simp
  have hd: "sl_cap (hd (sp_lines ?r)) = Some 5" "sl_spent (hd (sp_lines ?r)) = 2"
    "sl_committed (hd (sp_lines ?r)) = 6"
    unfolding lines by (simp_all add: report_line_def Let_def budget_for_def demo_budget_simps demo_ledger_def)
  from spend_report_adds_up [where budgets = demo_budgets and ledger = demo_ledger and live = "[demo_lease]"
      and period = "''all''" and now = 100] total l hd
  show ?thesis by (auto simp: Let_def)
qed

end
