(* ===== verification/Sweep.thy ===== *)
theory Sweep
  imports StoreMeta
begin

text \<open>
  Sweep fan-out (\<open>sweep.rs\<close>): expansion of a template over axes into concrete child specs, the
  inverse that recovers a child's axis point, and the aggregation over the children's metric
  series. A \<open>BTreeMap\<close> of axes is an association list in key order; the child count is a
  \<open>usize\<close> product and wraps at \<open>2 ^ 64\<close> as the release build does. The printing of a JSON
  value in an error message is an argument.
\<close>

type_synonym assignment = "(string \<times> json) list"
type_synonym axes = "(string \<times> json list) list"

definition AXIS_SEED :: string where [simp]: "AXIS_SEED = ''seed''"
definition AXIS_OVERRIDES_PREFIX :: string where [simp]: "AXIS_OVERRIDES_PREFIX = ''overrides.''"

definition bad_path :: "string \<Rightarrow> unit result" where
  "bad_path path = Inl (''unsupported axis path '' @ debug_str path @ '': use '' @ debug_str AXIS_SEED @
     '' or '' @ debug_str (AXIS_OVERRIDES_PREFIX @ ''<key>''))"

definition validate_path :: "string \<Rightarrow> unit result" where
  "validate_path path =
     (if path = AXIS_SEED then Inr ()
      else (case strip_prefix AXIS_OVERRIDES_PREFIX path of
              Some key \<Rightarrow> if key \<noteq> [] then Inr () else bad_path path
            | None \<Rightarrow> bad_path path))"

text \<open>\<open>apply\<close>; the \<open>expect\<close> on an unvalidated path is the last branch (a panic, unreachable from
  \<open>expand\<close>).\<close>

definition apply_axis :: "(json \<Rightarrow> string) \<Rightarrow> string \<Rightarrow> json \<Rightarrow> train_spec \<Rightarrow> train_spec result" where
  "apply_axis show_json path value spec =
     (if path = AXIS_SEED
      then (case as_i64 value of
              None \<Rightarrow> Inl (''seed axis value '' @ show_json value @ '' is not an integer'')
            | Some seed \<Rightarrow> Inr (spec\<lparr>tr_seed := Some seed\<rparr>))
      else (case strip_prefix AXIS_OVERRIDES_PREFIX path of
              None \<Rightarrow> Inl ''path validated''
            | Some key \<Rightarrow>
                (case (if tr_overrides spec = JNull then JObj [] else tr_overrides spec) of
                   JObj m \<Rightarrow> Inr (spec\<lparr>tr_overrides := JObj (put_member key value m)\<rparr>)
                 | _ \<Rightarrow> Inl ''template overrides is not a JSON object'')))"

fun apply_all :: "(json \<Rightarrow> string) \<Rightarrow> assignment \<Rightarrow> train_spec \<Rightarrow> train_spec result" where
  "apply_all show_json [] spec = Inr spec"
| "apply_all show_json ((path, value) # rest) spec =
     (case apply_axis show_json path value spec of
        Inl e \<Rightarrow> Inl e | Inr spec' \<Rightarrow> apply_all show_json rest spec')"

fun check_axes :: "axes \<Rightarrow> unit result" where
  "check_axes [] = Inr ()"
| "check_axes ((path, values) # rest) =
     (case validate_path path of
        Inl e \<Rightarrow> Inl e
      | Inr _ \<Rightarrow> if values = [] then Inl (''axis '' @ debug_str path @ '' has no values'')
                 else check_axes rest)"

definition combine :: "string \<times> json list \<Rightarrow> assignment list \<Rightarrow> assignment list" where
  "combine = (\<lambda>(path, values) combos.
     concat (map (\<lambda>combo. map (\<lambda>value. put_member path value combo) values) combos))"

definition combos :: "axes \<Rightarrow> assignment list" where
  "combos axes = fold combine axes [[]]"

definition fan_out :: "axes \<Rightarrow> nat" where
  "fan_out axes = fold (\<lambda>(_, values) n. (n * length values) mod 2 ^ 64) axes 1"

fun expand_children ::
  "(json \<Rightarrow> string) \<Rightarrow> train_spec \<Rightarrow> assignment list \<Rightarrow> (assignment \<times> train_spec) list result" where
  "expand_children show_json tmpl [] = Inr []"
| "expand_children show_json tmpl (a # rest) =
     (case apply_all show_json a tmpl of
        Inl e \<Rightarrow> Inl e
      | Inr spec \<Rightarrow>
          (case expand_children show_json tmpl rest of
             Inl e \<Rightarrow> Inl e | Inr children \<Rightarrow> Inr ((a, spec) # children)))"

definition expand_sweep ::
  "(json \<Rightarrow> string) \<Rightarrow> train_spec \<Rightarrow> axes \<Rightarrow> (assignment \<times> train_spec) list result" where
  "expand_sweep show_json tmpl axes =
     (if axes = [] then Inl ''axes must not be empty - a sweep with no axes is submit_run''
      else (case check_axes axes of
              Inl e \<Rightarrow> Inl e
            | Inr _ \<Rightarrow>
                (let total = fan_out axes
                 in if MAX_SWEEP_CHILDREN < total
                    then Inl (''sweep would fan out '' @ show_nat total @ '' children (max '' @
                              show_nat MAX_SWEEP_CHILDREN @ '') - split it up'')
                    else expand_children show_json tmpl (combos axes))))"

definition axis_value :: "train_spec \<Rightarrow> string \<Rightarrow> json option" where
  "axis_value spec path =
     (if path = AXIS_SEED then map_option JInt (tr_seed spec)
      else (case strip_prefix AXIS_OVERRIDES_PREFIX path of
              None \<Rightarrow> None | Some key \<Rightarrow> json_get (tr_overrides spec) key))"

definition assignment_of :: "train_spec \<Rightarrow> axes \<Rightarrow> assignment" where
  "assignment_of spec axes =
     List.map_filter (\<lambda>(path, _). map_option (\<lambda>v. (path, v)) (axis_value spec path)) axes"

subsection \<open>Aggregation\<close>

definition aggregate_values :: "metric_point list list \<Rightarrow> nat \<Rightarrow> real list" where
  "aggregate_values series step =
     map mp_value (filter (\<lambda>p. mp_step p = step) (concat series))"

definition aggregate_point :: "nat \<Rightarrow> real list \<Rightarrow> sweep_aggregate_point" where
  "aggregate_point step values =
     (let n = length values;
          mean = sum_list values / real n;
          variance = sum_list (map (\<lambda>v. (v - mean) ^ 2) values) / real n
      in \<lparr>sa_step = step, sa_n = n, sa_mean = mean, sa_std = sqrt variance,
          sa_min = foldr min values (hd values), sa_max = foldr max values (hd values)\<rparr>)"

definition aggregate :: "metric_point list list \<Rightarrow> sweep_aggregate_point list" where
  "aggregate series =
     map (\<lambda>step. aggregate_point step (aggregate_values series step))
       (sort (remdups (map mp_step (concat series))))"

subsection \<open>The cartesian product\<close>

definition is_point :: "axes \<Rightarrow> assignment \<Rightarrow> bool" where
  "is_point axes a \<longleftrightarrow> list_all2 (\<lambda>(p, v) (q, vs). p = q \<and> v \<in> set vs) a axes"

definition axes_size :: "axes \<Rightarrow> nat" where
  "axes_size axes = prod_list (map (\<lambda>(_, vs). length vs) axes)"

lemma fan_out_eq: "fan_out axes = axes_size axes mod 2 ^ 64"
proof -
  have "fold (\<lambda>(_, vs) n. (n * length vs) mod 2 ^ 64) axes (m mod 2 ^ 64) =
      (m * axes_size axes) mod 2 ^ 64" for m :: nat
    by (induction axes arbitrary: m) (auto simp: axes_size_def mod_mult_left_eq mult.assoc)
  from this [of 1] show ?thesis by (simp add: fan_out_def)
qed

lemma combos_snoc: "combos (axes @ [x]) = combine x (combos axes)"
  by (simp add: combos_def)

lemma length_combos: "length (combos axes) = axes_size axes"
proof (induction axes rule: rev_induct)
  case Nil
  show ?case by (simp add: combos_def axes_size_def)
next
  case (snoc x axes)
  then show ?case
    by (cases x) (simp add: combos_snoc combine_def axes_size_def length_concat comp_def sum_list_triv)
qed

lemma put_member_last: "\<forall>k'\<in>fst ` set m. k' < k \<Longrightarrow> put_member k v m = m @ [(k, v)]"
  by (induction k v m rule: put_member.induct) auto

lemma map_of_put_member [simp]: "map_of (put_member k v m) = (map_of m)(k \<mapsto> v)"
  by (induction k v m rule: put_member.induct) (auto simp: fun_eq_iff)

lemma is_point_keys: "is_point axes a \<Longrightarrow> map fst a = map fst axes"
  unfolding is_point_def by (induction rule: list_all2_induct) auto

lemma is_point_snoc:
  "is_point (axes @ [(q, vs)]) a \<longleftrightarrow> (\<exists>b v. a = b @ [(q, v)] \<and> is_point axes b \<and> v \<in> set vs)"
proof
  assume "is_point (axes @ [(q, vs)]) a"
  then obtain us ws where a: "a = us @ ws" "is_point axes us"
    and ws: "list_all2 (\<lambda>(p, v) (q, vs). p = q \<and> v \<in> set vs) ws [(q, vs)]"
    unfolding is_point_def list_all2_append2 by blast
  from ws obtain v where "ws = [(q, v)]" "v \<in> set vs" by (auto simp: list_all2_Cons2)
  with a show "\<exists>b v. a = b @ [(q, v)] \<and> is_point axes b \<and> v \<in> set vs" by blast
next
  assume "\<exists>b v. a = b @ [(q, v)] \<and> is_point axes b \<and> v \<in> set vs"
  then show "is_point (axes @ [(q, vs)]) a"
    unfolding is_point_def by (auto intro!: list_all2_appendI)
qed

lemma set_combos:
  assumes "sorted_wrt (<) (map fst axes)"
  shows "set (combos axes) = {a. is_point axes a}"
  using assms
proof (induction axes rule: rev_induct)
  case Nil
  show ?case by (simp add: combos_def is_point_def)
next
  case (snoc x axes)
  obtain q vs where x: "x = (q, vs)" by (cases x)
  have "put_member q v b = b @ [(q, v)]" if "is_point axes b" for b v
    using is_point_keys [OF that] snoc.prems x
    by (intro put_member_last) (auto simp: sorted_wrt_append simp flip: set_map)
  then show ?case
    using snoc x by (auto simp: combos_snoc combine_def is_point_snoc sorted_wrt_append)
qed

subsection \<open>What a child carries\<close>

lemma validate_path_cases:
  "validate_path p = Inr () \<Longrightarrow> p = ''seed'' \<or> (\<exists>k. p = ''overrides.'' @ k \<and> k \<noteq> [])"
  by (auto simp: validate_path_def bad_path_def strip_prefix_Some_iff
      split: if_splits option.splits)

lemma apply_axis_value:
  assumes "apply_axis sj p v s = Inr s'"
  shows "axis_value s' q = (if q = p then Some v else axis_value s q)"
proof (cases "p = ''seed''")
  case True
  with assms obtain i where "v = JInt i" "s' = s\<lparr>tr_seed := Some i\<rparr>"
    by (cases v) (auto simp: apply_axis_def split: option.splits if_splits)
  with True show ?thesis by (auto simp: axis_value_def split: option.splits)
next
  case False
  with assms obtain k m where p: "p = ''overrides.'' @ k"
    and m: "tr_overrides s = JObj m \<or> tr_overrides s = JNull \<and> m = []"
    and s': "s' = s\<lparr>tr_overrides := JObj (put_member k v m)\<rparr>"
    by (auto simp: apply_axis_def strip_prefix_Some_iff
        split: option.splits if_splits json.splits)
  show ?thesis
  proof (cases "strip_prefix ''overrides.'' q")
    case None
    with p s' show ?thesis by (auto simp: axis_value_def)
  next
    case (Some k')
    then have "q = ''overrides.'' @ k'" by (simp add: strip_prefix_Some_iff)
    with p s' m False show ?thesis by (auto simp: axis_value_def)
  qed
qed

lemma apply_axis_frame:
  "apply_axis sj p v s = Inr s' \<Longrightarrow>
   s' = s\<lparr>tr_seed := tr_seed s', tr_overrides := tr_overrides s'\<rparr>"
  by (auto simp: apply_axis_def split: option.splits if_splits json.splits)

lemma apply_all_frame:
  "apply_all sj a s = Inr s' \<Longrightarrow> s' = s\<lparr>tr_seed := tr_seed s', tr_overrides := tr_overrides s'\<rparr>"
proof (induction a arbitrary: s)
  case (Cons pv a)
  then obtain s1 where 1: "apply_axis sj (fst pv) (snd pv) s = Inr s1" "apply_all sj a s1 = Inr s'"
    by (cases pv) (auto split: sum.splits)
  have "s1\<lparr>tr_seed := x, tr_overrides := y\<rparr> = s\<lparr>tr_seed := x, tr_overrides := y\<rparr>" for x y
    by (subst apply_axis_frame [OF 1(1)]) simp
  with Cons.IH [OF 1(2)] show ?case by simp
qed simp

lemma apply_all_value:
  "apply_all sj a s = Inr s' \<Longrightarrow> distinct (map fst a) \<Longrightarrow>
   axis_value s' q = (case map_of a q of Some v \<Rightarrow> Some v | None \<Rightarrow> axis_value s q)"
proof (induction a arbitrary: s)
  case (Cons pv a)
  then obtain s1 where 1: "apply_axis sj (fst pv) (snd pv) s = Inr s1" "apply_all sj a s1 = Inr s'"
    by (cases pv) (auto split: sum.splits)
  have "fst pv \<notin> dom (map_of a)" using Cons.prems by (simp add: dom_map_of_conv_image_fst)
  with Cons.IH [OF 1(2)] Cons.prems apply_axis_value [OF 1(1)] show ?case
    by (cases pv) (auto split: option.splits simp: domIff)
qed simp

lemma expand_children_SomeD:
  "expand_children sj tmpl as = Inr children \<Longrightarrow>
   map fst children = as \<and> (\<forall>(a, spec)\<in>set children. apply_all sj a tmpl = Inr spec)"
  by (induction as arbitrary: children) (auto split: sum.splits)

lemma assignment_of_point:
  assumes "is_point axes a" "distinct (map fst a)" "apply_all sj a tmpl = Inr spec"
  shows "assignment_of spec axes = a"
proof -
  have "\<forall>(p, v)\<in>set a. axis_value spec p = Some v"
    using apply_all_value [OF assms(3,2)] assms(2) by (auto simp: map_of_is_SomeI)
  with assms(1) show ?thesis
    unfolding is_point_def assignment_of_def
    by (induction rule: list_all2_induct) (auto simp: List.map_filter_simps)
qed

text \<open>C6: Expansion is the cartesian product and is invertible. For axes in key order whose
  product fits a \<open>usize\<close>, an accepted sweep has exactly one child per point of the product, at
  most 256 of them; each child spec is the template with only seed and overrides changed, and
  \<open>assignment_of\<close> recovers from the spec the very point it was made for.\<close>

theorem expand_sweep_product:
  assumes "expand_sweep sj tmpl axes = Inr children"
    and "sorted_wrt (<) (map fst axes)" and "axes_size axes < 2 ^ 64"
  shows "map fst children = combos axes \<and> set (map fst children) = {a. is_point axes a} \<and>
    length children = axes_size axes \<and> length children \<le> 256 \<and>
    (\<forall>(a, spec)\<in>set children. assignment_of spec axes = a \<and>
       spec = tmpl\<lparr>tr_seed := tr_seed spec, tr_overrides := tr_overrides spec\<rparr>)"
proof -
  from assms(1,3) have ex: "expand_children sj tmpl (combos axes) = Inr children"
    and size: "axes_size axes \<le> 256"
    by (auto simp: expand_sweep_def Let_def fan_out_eq split: if_splits sum.splits)
  note ch = expand_children_SomeD [OF ex]
  have d: "distinct (map fst axes)"
    using assms(2) by (simp add: strict_sorted_iff)
  have "assignment_of spec axes = a \<and>
       spec = tmpl\<lparr>tr_seed := tr_seed spec, tr_overrides := tr_overrides spec\<rparr>"
    if "(a, spec) \<in> set children" for a spec
  proof -
    from that ch have ap: "apply_all sj a tmpl = Inr spec" by auto
    from that ch have "a \<in> set (combos axes)" by (metis fst_conv image_eqI list.set_map)
    with set_combos [OF assms(2)] have "is_point axes a" by simp
    with d ap show ?thesis
      by (metis assignment_of_point apply_all_frame is_point_keys)
  qed
  moreover have "length children = axes_size axes"
    using ch length_combos by (metis length_map)
  ultimately show ?thesis using ch size set_combos [OF assms(2)] by auto
qed

text \<open>The bound is lost to wrap-around: 64 axes of two values each pass every check with a
  computed fan-out of zero, while the product the code goes on to build has \<open>2 ^ 64\<close> points.\<close>

definition wide_axes :: axes where
  "wide_axes = map (\<lambda>i. (''overrides.'' @ show_pad 2 i, [JInt 0, JInt 1])) [0..<64]"

text \<open>The 256-child cap is not enforced beyond \<open>usize\<close>: there are valid axes whose computed
  fan-out is 0, so the request is not refused, although the product has \<open>2 ^ 64\<close> children.\<close>

theorem fan_out_cap_wraps:
  "check_axes wide_axes = Inr () \<and> fan_out wide_axes = 0 \<and> length (combos wide_axes) = 2 ^ 64 \<and>
   expand_sweep sj tmpl wide_axes = expand_children sj tmpl (combos wide_axes)"
proof -
  have size: "axes_size wide_axes = 2 ^ 64"
  proof -
    have "map (\<lambda>(_, vs). length vs) wide_axes = replicate 64 2"
      by (simp add: wide_axes_def comp_def map_replicate_const numeral_2_eq_2)
    then show ?thesis by (simp add: axes_size_def)
  qed
  have "check_axes (map (\<lambda>i. (''overrides.'' @ show_pad 2 i, [JInt 0, JInt 1])) is) = Inr ()" for "is"
    by (induction "is") (auto simp: validate_path_def)
  then have ck: "check_axes wide_axes = Inr ()" by (simp only: wide_axes_def)
  have "wide_axes \<noteq> []" by (simp add: wide_axes_def)
  with size ck show ?thesis
    by (simp add: fan_out_eq length_combos expand_sweep_def)
qed

definition demo_template :: train_spec where
  "demo_template = \<lparr>tr_code = \<lparr>cr_name = ''unit'', cr_sha = ''abc''\<rparr>, tr_entrypoint = ''train'',
     tr_config = None, tr_overrides = JObj [(''lr'', JInt 9)], tr_artifacts_in = [], tr_data = None,
     tr_checkpoint = default_checkpoint_policy, tr_seed = None, tr_arch = None, tr_timeout_s = 60,
     tr_links = []\<rparr>"

definition demo_axes :: axes where
  "demo_axes = [(''overrides.lr'', [JInt 1, JInt 2]), (''seed'', [JInt 7])]"

lemma expand_sweep_product_witness:
  "map fst (case expand_sweep (\<lambda>_. []) demo_template demo_axes of Inr cs \<Rightarrow> cs | Inl _ \<Rightarrow> []) =
     combos demo_axes \<and> axes_size demo_axes = 2"
proof -
  obtain children where ok: "expand_sweep (\<lambda>_. []) demo_template demo_axes = Inr children"
    by (simp add: expand_sweep_def demo_axes_def validate_path_def Let_def fan_out_def combos_def
        combine_def apply_axis_def demo_template_def split: sum.splits)
  have "sorted_wrt (<) (map fst demo_axes)" by (simp add: demo_axes_def)
  moreover have "axes_size demo_axes = 2" by (simp add: axes_size_def demo_axes_def)
  ultimately show ?thesis using expand_sweep_product [OF ok] ok by simp
qed

subsection \<open>Aggregates\<close>

lemma sum_list_le: "\<forall>v\<in>set vs. v \<le> (M::real) \<Longrightarrow> sum_list vs \<le> real (length vs) * M"
  by (induction vs) (auto simp: algebra_simps)

lemma sum_list_ge: "\<forall>v\<in>set vs. (m::real) \<le> v \<Longrightarrow> real (length vs) * m \<le> sum_list vs"
  by (induction vs) (auto simp: algebra_simps)

lemma foldr_max_ge: "v \<in> set vs \<Longrightarrow> v \<le> foldr max vs (a::real)"
  by (induction vs) auto

lemma foldr_min_le: "v \<in> set vs \<Longrightarrow> foldr min vs (a::real) \<le> v"
  by (induction vs) auto

lemma aggregate_point_bounds:
  assumes "vs \<noteq> []"
  shows "sa_min (aggregate_point k vs) \<le> sa_mean (aggregate_point k vs) \<and>
     sa_mean (aggregate_point k vs) \<le> sa_max (aggregate_point k vs) \<and>
     0 \<le> sa_std (aggregate_point k vs)"
proof -
  have n: "0 < real (length vs)" using assms by simp
  have "sum_list vs / real (length vs) \<le> foldr max vs (hd vs)"
    using n sum_list_le [of vs "foldr max vs (hd vs)"] foldr_max_ge
    by (simp add: pos_divide_le_eq mult.commute)
  moreover have "foldr min vs (hd vs) \<le> sum_list vs / real (length vs)"
    using n sum_list_ge [of vs "foldr min vs (hd vs)"] foldr_min_le
    by (simp add: pos_le_divide_eq mult.commute)
  moreover have "0 \<le> (\<Sum>v\<leftarrow>vs. (v - c) ^ 2)" for c :: real
    by (rule sum_list_nonneg) auto
  ultimately show ?thesis
    using n by (simp add: aggregate_point_def Let_def divide_nonneg_pos)
qed

lemma sum_filter_lengths:
  "distinct ks \<Longrightarrow> \<forall>x\<in>set xs. key x \<in> set ks \<Longrightarrow>
   (\<Sum>k\<leftarrow>ks. length (filter (\<lambda>x. key x = k) xs)) = length xs"
proof (induction xs)
  case (Cons x xs)
  have "(\<Sum>k\<leftarrow>ks. if key x = k then (1::nat) else 0) = 1"
    using Cons.prems by (simp add: sum_list_distinct_conv_sum_set)
  moreover have "(\<Sum>k\<leftarrow>ks. length (filter (\<lambda>y. key y = k) (x # xs))) =
      (\<Sum>k\<leftarrow>ks. (if key x = k then 1 else 0) + length (filter (\<lambda>y. key y = k) xs))"
    by (intro arg_cong [where f = sum_list] map_cong) auto
  ultimately show ?case using Cons by (simp add: sum_list_addf)
qed simp

text \<open>The sweep aggregate covers every reported point exactly once: its steps strictly
  increase, the counts add up to the number of points of all children, every row has at least
  one value, its mean lies between its minimum and maximum and its deviation is not negative.\<close>

theorem aggregate_covers:
  "sorted_wrt (<) (map sa_step (aggregate series)) \<and>
   sum_list (map sa_n (aggregate series)) = length (concat series) \<and>
   (\<forall>r\<in>set (aggregate series).
      0 < sa_n r \<and> sa_min r \<le> sa_mean r \<and> sa_mean r \<le> sa_max r \<and> 0 \<le> sa_std r)"
proof -
  let ?pts = "concat series" and ?ks = "sort (remdups (map mp_step (concat series)))"
  have steps: "map sa_step (aggregate series) = ?ks"
    by (simp add: aggregate_def aggregate_point_def Let_def comp_def)
  have "sum_list (map sa_n (aggregate series)) =
      (\<Sum>k\<leftarrow>?ks. length (filter (\<lambda>p. mp_step p = k) ?pts))"
    by (simp add: aggregate_def aggregate_point_def aggregate_values_def Let_def comp_def)
  also have "\<dots> = length ?pts" by (rule sum_filter_lengths) auto
  finally have n: "sum_list (map sa_n (aggregate series)) = length ?pts" .
  have "0 < sa_n r \<and> sa_min r \<le> sa_mean r \<and> sa_mean r \<le> sa_max r \<and> 0 \<le> sa_std r"
    if "r \<in> set (aggregate series)" for r
  proof -
    from that obtain p where p: "p \<in> set ?pts"
      and r: "r = aggregate_point (mp_step p) (aggregate_values series (mp_step p))"
      by (auto simp: aggregate_def)
    have "p \<in> set (filter (\<lambda>q. mp_step q = mp_step p) ?pts)" using p by auto
    then have "aggregate_values series (mp_step p) \<noteq> []"
      unfolding aggregate_values_def by (metis list.distinct(1) list.map_disc_iff empty_iff list.set(1))
    with aggregate_point_bounds [OF this, of "mp_step p"] show ?thesis
      unfolding r by (simp add: aggregate_point_def Let_def)
  qed
  with steps n show ?thesis by (simp add: strict_sorted_iff)
qed

definition demo_series :: "metric_point list list" where
  "demo_series = [[\<lparr>mp_step = 1, mp_value = 2\<rparr>, \<lparr>mp_step = 2, mp_value = 4\<rparr>],
                  [\<lparr>mp_step = 1, mp_value = 6\<rparr>]]"

lemma aggregate_covers_witness:
  "map sa_step (aggregate demo_series) = [1, 2] \<and> sum_list (map sa_n (aggregate demo_series)) = 3"
proof -
  have "sum_list (map sa_n (aggregate demo_series)) = 3"
    using aggregate_covers [of demo_series] by (simp add: demo_series_def)
  then show ?thesis
    by (simp add: aggregate_def demo_series_def aggregate_point_def aggregate_values_def Let_def)
qed

end
