(* ===== verification/HubCore.thy ===== *)
theory HubCore
  imports Jobspec Gate Budget Sweep
begin

text \<open>
  The hub (\<open>hub/mod.rs\<close>): the state behind its locks, the environment it is built with and
  the sending half of a worker link. A handler takes the hub and the clock reading and returns
  the hub after it together with its result; a state change made before an early return is
  kept. One handler runs at a time and reads the clock once.
\<close>

text \<open>A link is an unbounded channel to one websocket session: what was sent, in order, and
  whether the receiving half still exists. The session number identifies the channel.\<close>

record link =
  lk_session :: nat
  lk_open :: bool
  lk_sent :: "cp_to_worker list"

record resume_state =
  rz_from_step :: nat
  rz_base_slices :: "(nat \<times> nat) list"

definition default_resume_state :: resume_state where
  "default_resume_state = \<lparr>rz_from_step = 0, rz_base_slices = []\<rparr>"

record data_state =
  dz_content_sha :: string
  dz_plan_sha :: "string option"
  dz_dataset_label :: string

text \<open>The experiments mirror's calls, in order (\<open>hub/mirror.rs\<close>); each is a detached task.\<close>

datatype mirror_call =
    Report_created run_id run_spec "string option"
  | Report_state run_id run_state
  | Report_checkpoint run_id nat string checkpoint_meta

record hub =
  hb_store :: store
  hb_blobs :: blobs
  hb_grants :: grant_table
  hb_links :: "(worker_id \<times> link) list"
  hb_resume :: "run_id \<Rightarrow> resume_state option"
  hb_data :: "run_id \<Rightarrow> data_state option"
  hb_high_water :: "worker_id \<Rightarrow> nat option"
  hb_uuids :: nat
  hb_mirror :: "mirror_call list"

text \<open>
  The environment: what the hub takes from other crates. \<open>ev_uuid n\<close> is the \<open>n\<close>-th fresh UUID,
  \<open>ev_datasets\<close> the configured chuk-datasets client (a manifest's shards come with the url
  \<open>shard_url\<close> finds), \<open>ev_sha256\<close> the hex digest, the two \<open>meta\<close> functions the JSON codec of a
  sidecar, \<open>ev_show_json\<close> and \<open>ev_fmt\<close> the printers of a JSON value and of an \<open>f64\<close>.
\<close>

record resolved_data =
  rd_content_sha :: string
  rd_plan_sha :: "string option"
  rd_shards :: "(string \<times> string option) list"

record hub_env =
  ev_uuid :: "nat \<Rightarrow> string"
  ev_datasets :: "(string \<Rightarrow> string option \<Rightarrow> resolved_data result) option"
  ev_experiments :: bool
  ev_sha256 :: "string \<Rightarrow> string"
  ev_meta_parse :: "string \<Rightarrow> checkpoint_meta option"
  ev_meta_render :: "checkpoint_meta \<Rightarrow> string"
  ev_show_json :: "json \<Rightarrow> string"
  ev_fmt :: "f64 \<Rightarrow> string"
  ev_root :: string

definition new_hub :: "store \<Rightarrow> blobs \<Rightarrow> hub" where
  "new_hub s b =
     \<lparr>hb_store = s, hb_blobs = b, hb_grants = [], hb_links = [], hb_resume = Map.empty,
      hb_data = Map.empty, hb_high_water = Map.empty, hb_uuids = 0, hb_mirror = []\<rparr>"

definition resume_high_water :: "worker_id \<Rightarrow> hub \<Rightarrow> nat" where
  "resume_high_water w h = (case hb_high_water h w of Some n \<Rightarrow> n | None \<Rightarrow> 0)"

abbreviation on_store :: "(store \<Rightarrow> store) \<Rightarrow> hub \<Rightarrow> hub" where
  "on_store f h \<equiv> h\<lparr>hb_store := f (hb_store h)\<rparr>"

definition revoke_grants :: "run_id \<Rightarrow> hub \<Rightarrow> hub" where
  "revoke_grants rid h = h\<lparr>hb_grants := grant_revoke_run rid (hb_grants h)\<rparr>"

definition mint_grant :: "hub_env \<Rightarrow> unix_seconds \<Rightarrow> run_id \<Rightarrow> code_ref \<Rightarrow> hub \<Rightarrow> hub \<times> string" where
  "mint_grant env now rid code h =
     (let (t, token) = grant_mint (ev_uuid env (hb_uuids h)) now rid code (hb_grants h)
      in (h\<lparr>hb_grants := t, hb_uuids := hb_uuids h + 1\<rparr>, token))"

text \<open>\<open>send_to\<close>: the unbounded channel accepts the message while the receiver exists.\<close>

definition send_to :: "worker_id \<Rightarrow> cp_to_worker \<Rightarrow> hub \<Rightarrow> hub \<times> bool" where
  "send_to w msg h =
     (case map_of (hb_links h) w of
        None \<Rightarrow> (h, False)
      | Some lk \<Rightarrow>
          if lk_open lk
          then (h\<lparr>hb_links := alist_put w (lk\<lparr>lk_sent := lk_sent lk @ [msg]\<rparr>) (hb_links h)\<rparr>, True)
          else (h, False))"

definition mirror_created ::
  "hub_env \<Rightarrow> run_id \<Rightarrow> run_spec \<Rightarrow> string option \<Rightarrow> hub \<Rightarrow> hub" where
  "mirror_created env rid spec er h =
     (if ev_experiments env then h\<lparr>hb_mirror := hb_mirror h @ [Report_created rid spec er]\<rparr> else h)"

definition mirror_state :: "hub_env \<Rightarrow> run_id \<Rightarrow> run_state \<Rightarrow> hub \<Rightarrow> hub" where
  "mirror_state env rid st h =
     (if ev_experiments env then h\<lparr>hb_mirror := hb_mirror h @ [Report_state rid st]\<rparr> else h)"

definition mirror_checkpoint ::
  "hub_env \<Rightarrow> run_id \<Rightarrow> nat \<Rightarrow> string \<Rightarrow> checkpoint_meta \<Rightarrow> hub \<Rightarrow> hub" where
  "mirror_checkpoint env rid step uri meta h =
     (if ev_experiments env
      then h\<lparr>hb_mirror := hb_mirror h @ [Report_checkpoint rid step uri meta]\<rparr> else h)"

subsection \<open>Frame facts\<close>

lemma revoke_grants_frame [simp]:
  "hb_store (revoke_grants r h) = hb_store h" "hb_blobs (revoke_grants r h) = hb_blobs h"
  "hb_links (revoke_grants r h) = hb_links h" "hb_resume (revoke_grants r h) = hb_resume h"
  "hb_high_water (revoke_grants r h) = hb_high_water h"
  "hb_grants (revoke_grants r h) = grant_revoke_run r (hb_grants h)"
  by (simp_all add: revoke_grants_def)

lemma mirror_frame [simp]:
  "hb_store (mirror_created e r sp er h) = hb_store h" "hb_store (mirror_state e r st h) = hb_store h"
  "hb_store (mirror_checkpoint e r k u m h) = hb_store h"
  "hb_grants (mirror_created e r sp er h) = hb_grants h" "hb_grants (mirror_state e r st h) = hb_grants h"
  "hb_grants (mirror_checkpoint e r k u m h) = hb_grants h"
  "hb_links (mirror_created e r sp er h) = hb_links h" "hb_links (mirror_state e r st h) = hb_links h"
  "hb_links (mirror_checkpoint e r k u m h) = hb_links h"
  "hb_blobs (mirror_created e r sp er h) = hb_blobs h" "hb_blobs (mirror_state e r st h) = hb_blobs h"
  "hb_blobs (mirror_checkpoint e r k u m h) = hb_blobs h"
  "hb_high_water (mirror_created e r sp er h) = hb_high_water h"
  "hb_high_water (mirror_state e r st h) = hb_high_water h"
  "hb_high_water (mirror_checkpoint e r k u m h) = hb_high_water h"
  by (simp_all add: mirror_created_def mirror_state_def mirror_checkpoint_def)

lemma send_to_frame [simp]:
  "hb_store (fst (send_to w m h)) = hb_store h" "hb_grants (fst (send_to w m h)) = hb_grants h"
  "hb_blobs (fst (send_to w m h)) = hb_blobs h"
  "hb_high_water (fst (send_to w m h)) = hb_high_water h"
  by (auto simp: send_to_def split: option.splits)

lemma send_to_links:
  "map_of (hb_links (fst (send_to w m h))) =
     (if snd (send_to w m h)
      then (map_of (hb_links h))(w \<mapsto> (the (map_of (hb_links h) w))
              \<lparr>lk_sent := lk_sent (the (map_of (hb_links h) w)) @ [m]\<rparr>)
      else map_of (hb_links h))"
  by (auto simp: send_to_def split: option.splits)

end
