(* ===== verification/Schedule.thy ===== *)
theory Schedule
  imports HubCore
begin

text \<open>
  The scheduler (\<open>hub/schedule.rs\<close>): which run may be assigned next, the assembly of its job,
  one pump over the links, and the sweep of unconfirmed assignments. The links are pumped in
  the iteration order of the \<open>HashMap\<close>, the order of the association list; nothing below
  depends on which order that is.
\<close>

definition QUEUE_SCAN_LIMIT :: nat where [simp]: "QUEUE_SCAN_LIMIT = 500"

definition eligible_for_assignment :: "worker_info \<Rightarrow> real \<Rightarrow> bool" where
  "eligible_for_assignment wk unreachable_after_s \<longleftrightarrow>
     wi_current_run wk = None \<and>
     \<not> (case wi_lease wk of Some l \<Rightarrow> ls_state l = Draining | None \<Rightarrow> False) \<and>
     wi_heartbeat_age_s wk \<le> unreachable_after_s"

definition queued_query :: run_query where
  "queued_query = default_run_query\<lparr>rq_state := Some Queued\<rparr>"

text \<open>A sweep child is held back while its sweep has \<open>concurrency\<close> active children.\<close>

definition held_back :: "store \<Rightarrow> run_summary \<Rightarrow> bool" where
  "held_back s r \<longleftrightarrow>
     (case rs_sweep_id r of
        None \<Rightarrow> False
      | Some sid \<Rightarrow>
          (case store_sweep sid s of
             None \<Rightarrow> False
           | Some row \<Rightarrow> 0 < sx_concurrency row \<and> sx_concurrency row \<le> sweep_active_children sid s))"

definition next_assignable_queued :: "store \<Rightarrow> run_record option" where
  "next_assignable_queued s =
     (case find (\<lambda>r. \<not> held_back s r) (rev (store_runs queued_query QUEUE_SCAN_LIMIT s)) of
        Some r \<Rightarrow> store_run (rs_id r) s | None \<Rightarrow> None)"

subsection \<open>Assembling a job\<close>

fun collect_shards :: "(string \<times> string option) list \<Rightarrow> shard_input list result" where
  "collect_shards [] = Inr []"
| "collect_shards ((sha, None) # rest) = Inl (''no fetchable location for shard '' @ sha)"
| "collect_shards ((sha, Some url) # rest) =
     (case collect_shards rest of
        Inl e \<Rightarrow> Inl e | Inr xs \<Rightarrow> Inr (\<lparr>si_uri = url, si_sha256 = sha\<rparr> # xs))"

definition resolve_data ::
  "hub_env \<Rightarrow> run_id \<Rightarrow> data_ref option \<Rightarrow> hub \<Rightarrow> hub \<times> data_staging option result" where
  "resolve_data env rid data h =
     (case data of
        None \<Rightarrow> (h, Inr None)
      | Some ref \<Rightarrow>
          (case ev_datasets env of
             None \<Rightarrow> (h, Inl (''run declares a data: block ('' @ dr_dataset ref @
                     '') but CHUK_DATASETS_URL/CHUK_DATASETS_API_KEY are not configured''))
           | Some resolve \<Rightarrow>
               (case resolve (dr_dataset ref) (dr_plan ref) of
                  Inl _ \<Rightarrow> (h, Inl (''resolving dataset '' @ dr_dataset ref))
                | Inr rd \<Rightarrow>
                    (case collect_shards (rd_shards rd) of
                       Inl e \<Rightarrow> (h, Inl e)
                     | Inr shards \<Rightarrow>
                         (h\<lparr>hb_data := (hb_data h)(rid \<mapsto>
                              \<lparr>dz_content_sha = rd_content_sha rd, dz_plan_sha = rd_plan_sha rd,
                               dz_dataset_label = dataset_label (dr_dataset ref) (rd_content_sha rd)\<rparr>)\<rparr>,
                          Inr (Some \<lparr>ds_content_sha = rd_content_sha rd, ds_plan_sha = rd_plan_sha rd,
                                     ds_shards = shards\<rparr>))))))"

definition resume_staging_of :: "run_id \<Rightarrow> checkpoint_info option \<Rightarrow> resume_staging option" where
  "resume_staging_of rid latest =
     map_option (\<lambda>c. \<lparr>rg_model_uri = checkpoint_file rid (ck_step c) CHECKPOINT_MODEL_FILE,
                      rg_meta_uri = checkpoint_file rid (ck_step c) CHECKPOINT_META_FILE\<rparr>) latest"

definition resume_state_of :: "checkpoint_info option \<Rightarrow> resume_state" where
  "resume_state_of latest =
     (case latest of
        Some c \<Rightarrow> \<lparr>rz_from_step = ck_step c, rz_base_slices = cm_slices (ck_meta c)\<rparr>
      | None \<Rightarrow> default_resume_state)"

definition note_resumed :: "unix_seconds \<Rightarrow> run_id \<Rightarrow> checkpoint_info option \<Rightarrow> store \<Rightarrow> store" where
  "note_resumed now rid latest s =
     (case latest of
        Some c \<Rightarrow> add_event now rid EvResumed (JObj [(''from_step'', JInt (int (ck_step c)))]) s
      | None \<Rightarrow> s)"

definition assemble_train_job ::
  "hub_env \<Rightarrow> unix_seconds \<Rightarrow> run_id \<Rightarrow> train_spec \<Rightarrow> hub \<Rightarrow> hub \<times> job result" where
  "assemble_train_job env now rid tr h =
     (case store_code_unit (cr_name (tr_code tr)) (cr_sha (tr_code tr)) (hb_store h) of
        None \<Rightarrow> (h, Inl (''code unit '' @ code_ref_display (tr_code tr) @ '' not registered''))
      | Some unit \<Rightarrow>
          (case entrypoint (cu_manifest unit) (tr_entrypoint tr) of
             None \<Rightarrow> (h, Inl (''entrypoint '' @ debug_str (tr_entrypoint tr) @ '' not in unit manifest''))
           | Some cmd \<Rightarrow>
               (let (h1, token) = mint_grant env now rid (tr_code tr) h;
                    latest = latest_checkpoint rid (hb_store h1);
                    h2 = h1\<lparr>hb_resume := (hb_resume h1)(rid \<mapsto> resume_state_of latest)\<rparr>;
                    h3 = on_store (note_resumed now rid latest) h2;
                    (h4, staged) = resolve_data env rid (tr_data tr) h3
                in case staged of
                     Inl e \<Rightarrow> (h4, Inl e)
                   | Inr data \<Rightarrow>
                       (h4, Inr (train_job (ev_show_json env) rid tr
                          \<lparr>ts_entrypoint_cmd = cmd,
                           ts_code_unit_uri = code_unit_tarball (cr_name (tr_code tr)) (cr_sha (tr_code tr)),
                           ts_grant = token, ts_resume = resume_staging_of rid latest,
                           ts_data = data\<rparr>)))))"

definition assemble_job ::
  "hub_env \<Rightarrow> unix_seconds \<Rightarrow> run_id \<Rightarrow> run_spec \<Rightarrow> hub \<Rightarrow> hub \<times> job result" where
  "assemble_job env now rid spec h =
     (case spec of
        Shell sh \<Rightarrow> (h, Inr (shell_job rid sh))
      | Train tr \<Rightarrow> assemble_train_job env now rid tr h)"

subsection \<open>The pump\<close>

definition reason_json :: "string \<Rightarrow> json" where
  "reason_json reason = JObj [(''reason'', JStr reason)]"

text \<open>One assignment of a run to a linked worker: \<open>True\<close> when the worker's channel took the job.\<close>

definition assign_run ::
  "unix_seconds \<Rightarrow> worker_id \<Rightarrow> run_id \<Rightarrow> job \<Rightarrow> hub \<Rightarrow> hub \<times> bool" where
  "assign_run now w rid job h =
     (let h1 = on_store (transition now rid Assigned (Some w) None JNull) h;
          h2 = on_store (set_worker_run w (Some rid)) h1;
          (h3, sent) = send_to w (AssignJob job) h2
      in if sent then (h3, True)
         else
           (let h4 = revoke_grants rid h3;
                h5 = on_store (transition now rid Queued None None (reason_json ''send_failed'')) h4;
                h6 = on_store (set_worker_run w None) h5
            in (h6, False)))"

fun pump_links ::
  "hub_env \<Rightarrow> unix_seconds \<Rightarrow> worker_id list \<Rightarrow> worker_id list \<Rightarrow> hub \<Rightarrow> hub \<times> worker_id list result"
  where
  "pump_links env now [] dead h = (h, Inr dead)"
| "pump_links env now (w # ws) dead h =
     (case store_worker now w (hb_store h) of
        None \<Rightarrow> pump_links env now ws dead h
      | Some wk \<Rightarrow>
          if \<not> eligible_for_assignment wk HEARTBEAT_TIMEOUT then pump_links env now ws dead h
          else
            (case next_assignable_queued (hb_store h) of
               None \<Rightarrow> (h, Inr dead)
             | Some run \<Rightarrow>
                 (case assemble_job env now (rs_id (rr_summary run)) (rr_spec run) h of
                    (h1, Inl e) \<Rightarrow> (h1, Inl e)
                  | (h1, Inr job) \<Rightarrow>
                      (case assign_run now w (rs_id (rr_summary run)) job h1 of
                         (h2, sent) \<Rightarrow>
                           pump_links env now ws (if sent then dead else dead @ [w]) h2))))"

definition drop_links :: "worker_id list \<Rightarrow> hub \<Rightarrow> hub" where
  "drop_links dead h = h\<lparr>hb_links := filter (\<lambda>(w, _). w \<notin> set dead) (hb_links h)\<rparr>"

definition pump :: "hub_env \<Rightarrow> unix_seconds \<Rightarrow> hub \<Rightarrow> hub \<times> unit result" where
  "pump env now h =
     (case pump_links env now (map fst (hb_links h)) [] h of
        (h', Inl e) \<Rightarrow> (h', Inl e)
      | (h', Inr dead) \<Rightarrow> (drop_links dead h', Inr ()))"

subsection \<open>Assignments that were never confirmed\<close>

definition assigned_query :: run_query where
  "assigned_query = default_run_query\<lparr>rq_state := Some Assigned\<rparr>"

definition requeue_stuck :: "unix_seconds \<Rightarrow> run_summary \<Rightarrow> hub \<Rightarrow> hub" where
  "requeue_stuck now r h =
     (let h1 = revoke_grants (rs_id r) h;
          h2 = (case rs_worker_id r of
                  Some w \<Rightarrow> on_store (set_worker_run w None) h1 | None \<Rightarrow> h1)
      in on_store (transition now (rs_id r) Queued None None (reason_json ''assignment_timed_out'')) h2)"

definition reap_stuck_assignments_older_than ::
  "hub_env \<Rightarrow> unix_seconds \<Rightarrow> real \<Rightarrow> hub \<Rightarrow> hub \<times> unit result" where
  "reap_stuck_assignments_older_than env now max_age_s h =
     (let cutoff = now - max_age_s;
          stuck = filter (\<lambda>r. \<not> cutoff < rs_updated_at r)
                    (store_runs assigned_query QUEUE_SCAN_LIMIT (hb_store h))
      in pump env now (fold (requeue_stuck now) stuck h))"

definition reap_stuck_assignments :: "hub_env \<Rightarrow> unix_seconds \<Rightarrow> hub \<Rightarrow> hub \<times> unit result" where
  "reap_stuck_assignments env now h =
     reap_stuck_assignments_older_than env now ASSIGNMENT_STUCK_TIMEOUT h"

end
