(* ===== verification/Control.thy ===== *)
theory Control
  imports Schedule
begin

text \<open>
  Run lifecycle control (\<open>hub/control.rs\<close>): cancel, resume, and the evaluation of a run's gates
  with the stop path of a tripped watchdog.
\<close>

definition cancel_now ::
  "hub_env \<Rightarrow> unix_seconds \<Rightarrow> run_id \<Rightarrow> worker_id option \<Rightarrow> hub \<Rightarrow> hub \<times> unit result" where
  "cancel_now env now rid wid h =
     (let h1 = revoke_grants rid h;
          h2 = on_store (transition now rid Cancelled None (Some EXIT_CODE_CANCELLED)
                           (reason_json ''operator_cancel'')) h1;
          h3 = mirror_state env rid Cancelled h2;
          h4 = h3\<lparr>hb_resume := (hb_resume h3)(rid := None)\<rparr>;
          h5 = (case wid of Some w \<Rightarrow> on_store (set_worker_run w None) h4 | None \<Rightarrow> h4)
      in pump env now h5)"

definition stop_run :: "hub_env \<Rightarrow> unix_seconds \<Rightarrow> run_id \<Rightarrow> hub \<Rightarrow> hub \<times> unit result" where
  "stop_run env now rid h =
     (case store_run rid (hb_store h) of
        None \<Rightarrow> (h, Inl (''no such run: '' @ rid))
      | Some run \<Rightarrow>
          if is_terminal (rs_state (rr_summary run))
          then (h, Inl (''run '' @ rid @ '' is already '' @ run_state_str (rs_state (rr_summary run)) @
                        '' - nothing to cancel''))
          else
            (case rs_worker_id (rr_summary run) of
               None \<Rightarrow> cancel_now env now rid None h
             | Some w \<Rightarrow>
                 (case send_to w (Cancel rid) h of
                    (h1, True) \<Rightarrow> (h1, Inr ())
                  | (h1, False) \<Rightarrow> cancel_now env now rid (Some w) h1)))"

definition resume_run :: "hub_env \<Rightarrow> unix_seconds \<Rightarrow> run_id \<Rightarrow> hub \<Rightarrow> hub \<times> unit result" where
  "resume_run env now rid h =
     (case store_run rid (hb_store h) of
        None \<Rightarrow> (h, Inl (''no such run: '' @ rid))
      | Some run \<Rightarrow>
          if \<not> is_terminal (rs_state (rr_summary run))
          then (h, Inl (''run '' @ rid @ '' is '' @ run_state_str (rs_state (rr_summary run)) @
                        '' - only a terminal run can be resumed''))
          else pump env now
                 (on_store (transition now rid Queued None None (reason_json ''operator_resume'')) h))"

definition gate_event :: "gate_info \<Rightarrow> string \<Rightarrow> json" where
  "gate_event info detail =
     JObj [(''action'', JStr (gate_action_str (ga_action info))), (''detail'', JStr detail),
           (''expr'', JStr (ga_expr info)), (''gate'', JStr (ga_name info)), (''tripped'', JBool True)]"

definition run_live :: "run_id \<Rightarrow> store \<Rightarrow> bool" where
  "run_live rid s \<longleftrightarrow>
     (case store_run rid s of Some run \<Rightarrow> \<not> is_terminal (rs_state (rr_summary run)) | None \<Rightarrow> False)"

text \<open>One iteration of the loop over the run's gates: the hub after it and the refreshed row.\<close>

definition evaluate_one_gate ::
  "hub_env \<Rightarrow> unix_seconds \<Rightarrow> run_id \<Rightarrow> gate_info \<Rightarrow> hub \<Rightarrow> hub \<times> gate_info" where
  "evaluate_one_gate env now rid info h =
     (case parse_gate (ga_expr info) of
        Inl _ \<Rightarrow> (h, info)
      | Inr expr \<Rightarrow>
          (let history = metric_history rid (gate_metric_key expr) (hb_store h);
               v = evaluate_gate (ev_fmt env) expr history now;
               newly_tripped = (ve_tripped v \<and> ga_tripped info \<noteq> Some True);
               h1 = on_store (record_gate_result GATE_SCOPE_RUN rid (ga_name info) (ve_tripped v)
                                (ve_last_value v) (ve_detail v) now) h;
               h2 = (if newly_tripped
                     then on_store (add_event now rid EvGateEvaluated (gate_event info (ve_detail v))) h1
                     else h1);
               h3 = (if ve_tripped v \<and> ga_action info = StopRun \<and> run_live rid (hb_store h2)
                     then fst (stop_run env now rid h2) else h2)
           in (h3, info\<lparr>ga_tripped := Some (ve_tripped v), ga_last_value := ve_last_value v,
                        ga_evaluated_at := Some now, ga_detail := Some (ve_detail v)\<rparr>)))"

fun evaluate_gates_loop ::
  "hub_env \<Rightarrow> unix_seconds \<Rightarrow> run_id \<Rightarrow> gate_info list \<Rightarrow> hub \<Rightarrow> hub \<times> gate_info list" where
  "evaluate_gates_loop env now rid [] h = (h, [])"
| "evaluate_gates_loop env now rid (info # gates) h =
     (let (h1, info') = evaluate_one_gate env now rid info h;
          (h2, rest) = evaluate_gates_loop env now rid gates h1
      in (h2, info' # rest))"

definition evaluate_gates ::
  "hub_env \<Rightarrow> unix_seconds \<Rightarrow> run_id \<Rightarrow> hub \<Rightarrow> hub \<times> gate_info list" where
  "evaluate_gates env now rid h =
     evaluate_gates_loop env now rid (store_gates GATE_SCOPE_RUN rid (hb_store h)) h"

end
