(* ===== verification/Connection.thy ===== *)
theory Connection
  imports Control
begin

text \<open>
  Worker connection lifecycle (\<open>hub/connection.rs\<close>): attach on the handshake, detach on a
  disconnect, and the heartbeat reaper.
\<close>

definition attach ::
  "hub_env \<Rightarrow> unix_seconds \<Rightarrow> worker_id \<Rightarrow> link \<Rightarrow> string list \<Rightarrow> hardware \<Rightarrow> hub \<Rightarrow> hub \<times> unit result"
  where
  "attach env now w tx labels hw h =
     (let h1 = on_store (worker_joined now w labels hw) h;
          h2 = h1\<lparr>hb_links := alist_put w tx (hb_links h1)\<rparr>
      in pump env now h2)"

text \<open>What \<open>detach\<close> does to the run the worker held: it goes back to the queue.\<close>

definition requeue_current :: "unix_seconds \<Rightarrow> worker_id \<Rightarrow> hub \<Rightarrow> hub" where
  "requeue_current now w h =
     (case store_worker now w (hb_store h) of
        None \<Rightarrow> h
      | Some wk \<Rightarrow>
          (case wi_current_run wk of
             None \<Rightarrow> h
           | Some rid \<Rightarrow>
               (let h1 = revoke_grants rid h;
                    h2 = on_store (transition now rid Queued None None
                                     (reason_json ''worker_disconnected'')) h1
                in on_store (set_worker_run w None) h2)))"

definition detach ::
  "hub_env \<Rightarrow> unix_seconds \<Rightarrow> worker_id \<Rightarrow> worker_class \<Rightarrow> hub \<Rightarrow> hub \<times> unit result" where
  "detach env now w cls h =
     (let h1 = h\<lparr>hb_links := alist_del w (hb_links h)\<rparr>;
          h2 = on_store (worker_left w) h1
      in if cls = Persistent then pump env now h2 else pump env now (requeue_current now w h2))"

definition should_reap :: "worker_info \<Rightarrow> real \<Rightarrow> bool" where
  "should_reap wk preempt_after_s \<longleftrightarrow>
     wi_state wk = Connected \<and> preempt_after_s \<le> wi_heartbeat_age_s wk"

fun reap_loop ::
  "hub_env \<Rightarrow> unix_seconds \<Rightarrow> real \<Rightarrow> worker_info list \<Rightarrow> hub \<Rightarrow> hub \<times> unit result" where
  "reap_loop env now preempt_after_s [] h = (h, Inr ())"
| "reap_loop env now preempt_after_s (wk # wks) h =
     (if \<not> should_reap wk preempt_after_s then reap_loop env now preempt_after_s wks h
      else
        (let cls = (if worker_is_persistent (wi_id wk) (hb_store h) then Persistent else Leased)
         in case detach env now (wi_id wk) cls h of
              (h1, Inl e) \<Rightarrow> (h1, Inl e)
            | (h1, Inr _) \<Rightarrow> reap_loop env now preempt_after_s wks h1))"

definition reap_stale_workers_older_than ::
  "hub_env \<Rightarrow> unix_seconds \<Rightarrow> real \<Rightarrow> hub \<Rightarrow> hub \<times> unit result" where
  "reap_stale_workers_older_than env now preempt_after_s h =
     reap_loop env now preempt_after_s (fleet now (hb_store h)) h"

definition reap_stale_workers :: "hub_env \<Rightarrow> unix_seconds \<Rightarrow> hub \<Rightarrow> hub \<times> unit result" where
  "reap_stale_workers env now h = reap_stale_workers_older_than env now HEARTBEAT_PREEMPT_TIMEOUT h"

text \<open>One tick of the reaper loop: both sweeps, the second whatever the first answered.\<close>

definition reaper_tick :: "hub_env \<Rightarrow> unix_seconds \<Rightarrow> hub \<Rightarrow> hub" where
  "reaper_tick env now h =
     fst (reap_stuck_assignments env now (fst (reap_stale_workers env now h)))"

end
