(* ===== verification/Messages.thy ===== *)
theory Messages
  imports Connection
begin

text \<open>
  Messages from workers (\<open>hub/messages.rs\<close>): the dispatcher with its replay filter, terminal
  state handling, and the ingestion of a checkpoint with the completion of its lineage.
\<close>

definition ARTIFACT_CHECKPOINT :: string where [simp]: "ARTIFACT_CHECKPOINT = ''checkpoint''"

fun event_seq :: "worker_to_cp \<Rightarrow> nat option" where
  "event_seq (JobStarted seq _) = Some seq"
| "event_seq (JobExited seq _ _) = Some seq"
| "event_seq (JobKilled seq _ _) = Some seq"
| "event_seq (ServiceReady seq _ _) = Some seq"
| "event_seq (Log seq _ _) = Some seq"
| "event_seq (Artifact seq _ _ _ _ _ _) = Some seq"
| "event_seq (Metric seq (Some _) _ _) = Some seq"
| "event_seq (Metric _ None _ _) = None"
| "event_seq (Hello _ _ _ _ _ _) = None"
| "event_seq Heartbeat = None"
| "event_seq Drained = None"

fun kill_reason_state :: "kill_reason \<Rightarrow> run_state \<times> int" where
  "kill_reason_state Cancel_reason = (Cancelled, EXIT_CODE_CANCELLED)"
| "kill_reason_state _ = (Failed, EXIT_CODE_AGENT_ERROR)"

definition finish_run ::
  "hub_env \<Rightarrow> unix_seconds \<Rightarrow> worker_id \<Rightarrow> run_id \<Rightarrow> run_state \<Rightarrow> int \<Rightarrow> hub \<Rightarrow> hub \<times> unit result" where
  "finish_run env now w rid state code h =
     (let h1 = revoke_grants rid h;
          h2 = on_store (transition now rid state (Some w) (Some code) JNull) h1;
          h3 = mirror_state env rid state h2;
          h4 = h3\<lparr>hb_resume := (hb_resume h3)(rid := None)\<rparr>;
          h5 = on_store (set_worker_run w None) h4
      in pump env now h5)"

subsection \<open>Checkpoints\<close>

definition fill_from_spec :: "run_record option \<Rightarrow> checkpoint_meta \<Rightarrow> checkpoint_meta" where
  "fill_from_spec run meta =
     (case run of
        Some r \<Rightarrow>
          (case rr_spec r of
             Train tr \<Rightarrow>
               meta\<lparr>cm_code := (case cm_code meta of None \<Rightarrow> Some (tr_code tr) | c \<Rightarrow> c),
                    cm_seed := (case cm_seed meta of None \<Rightarrow> run_seed tr | v \<Rightarrow> v),
                    cm_arch := (case cm_arch meta of None \<Rightarrow> tr_arch tr | a \<Rightarrow> a)\<rparr>
           | Shell _ \<Rightarrow> meta)
      | None \<Rightarrow> meta)"

definition fill_parent :: "run_id \<Rightarrow> nat \<Rightarrow> checkpoint_info option \<Rightarrow> checkpoint_meta \<Rightarrow> checkpoint_meta" where
  "fill_parent rid step latest meta =
     (if cm_parent_checkpoint meta = None
      then (case latest of
              Some prev \<Rightarrow>
                if ck_step prev < step
                then meta\<lparr>cm_parent_checkpoint := Some (checkpoint_dir rid (ck_step prev))\<rparr>
                else meta
            | None \<Rightarrow> meta)
      else meta)"

definition complete_meta :: "hub_env \<Rightarrow> run_id \<Rightarrow> nat \<Rightarrow> hub \<Rightarrow> checkpoint_meta" where
  "complete_meta env rid step h =
     (let raw = (case fs_get (checkpoint_file rid step CHECKPOINT_META_FILE) (hb_blobs h) of
                   Inr bytes \<Rightarrow> (case ev_meta_parse env bytes of
                                  Some m \<Rightarrow> m | None \<Rightarrow> default_checkpoint_meta)
                 | Inl _ \<Rightarrow> default_checkpoint_meta);
          m1 = raw\<lparr>cm_step := step, cm_run_id := Some rid\<rparr>;
          m2 = fill_from_spec (store_run rid (hb_store h)) m1;
          m3 = fill_parent rid step (latest_checkpoint rid (hb_store h)) m2;
          rs = (case hb_resume h rid of Some r \<Rightarrow> r | None \<Rightarrow> default_resume_state);
          m4 = m3\<lparr>cm_slices := rz_base_slices rs @ [(rz_from_step rs, step)]\<rparr>
      in case hb_data h rid of
           Some d \<Rightarrow> m4\<lparr>cm_dataset_sha := Some (dz_content_sha d), cm_plan_sha := dz_plan_sha d,
                       cm_datasets := [dz_dataset_label d]\<rparr>
         | None \<Rightarrow> m4)"

definition checkpoint_event :: "nat \<Rightarrow> string \<Rightarrow> string \<Rightarrow> json" where
  "checkpoint_event step uri model_hash =
     JObj [(''model_hash'', JStr model_hash), (''step'', JInt (int step)), (''uri'', JStr uri)]"

definition ingest_checkpoint ::
  "hub_env \<Rightarrow> unix_seconds \<Rightarrow> run_id \<Rightarrow> string \<Rightarrow> hub \<Rightarrow> hub \<times> unit result" where
  "ingest_checkpoint env now rid uri0 h =
     (case step_from_uri uri0 of
        None \<Rightarrow> (h, Inr ())
      | Some step \<Rightarrow>
          (case fs_get (checkpoint_file rid step CHECKPOINT_MODEL_FILE) (hb_blobs h) of
             Inl _ \<Rightarrow> (h, Inl (''reading checkpoint step_'' @ show_nat step @ '' model''))
           | Inr model \<Rightarrow>
               (let model_hash = ev_sha256 env model;
                    meta = complete_meta env rid step h;
                    (b, put) = fs_put (ev_root env) (checkpoint_file rid step CHECKPOINT_META_FILE)
                                 (ev_meta_render env meta) (hb_blobs h);
                    h1 = h\<lparr>hb_blobs := b\<rparr>
                in case put of
                     Inl e \<Rightarrow> (h1, Inl e)
                   | Inr _ \<Rightarrow>
                       (let uri = fs_uri (ev_root env) (checkpoint_dir rid step);
                            h2 = on_store (record_checkpoint now rid step uri model_hash meta) h1;
                            h3 = on_store (add_event now rid EvCheckpoint
                                             (checkpoint_event step uri model_hash)) h2;
                            h4 = mirror_checkpoint env rid step uri meta h3
                        in (h4, Inr ())))))"

subsection \<open>The dispatcher\<close>

text \<open>\<open>Hello\<close>, \<open>Heartbeat\<close>, \<open>ServiceReady\<close> and \<open>Drained\<close> are only logged.\<close>

fun dispatch :: "hub_env \<Rightarrow> unix_seconds \<Rightarrow> worker_id \<Rightarrow> worker_to_cp \<Rightarrow> hub \<Rightarrow> hub \<times> unit result" where
  "dispatch env now w (Hello _ _ _ _ _ _) h = (h, Inr ())"
| "dispatch env now w Heartbeat h = (h, Inr ())"
| "dispatch env now w (Log _ job_id line) h = (on_store (append_log now job_id line) h, Inr ())"
| "dispatch env now w (Metric _ (Some job_id) (Some step) values) h =
     (fst (evaluate_gates env now job_id (on_store (append_metrics now job_id step values) h)), Inr ())"
| "dispatch env now w (Metric _ (Some job_id) None values) h = (h, Inr ())"
| "dispatch env now w (Metric _ None _ values) h =
     (if values \<noteq> [] then on_store (record_worker_samples now w values) h else h, Inr ())"
| "dispatch env now w (Artifact _ job_id cls uri _ _ _) h =
     (if cls = ARTIFACT_CHECKPOINT then ingest_checkpoint env now job_id uri h else (h, Inr ()))"
| "dispatch env now w (JobStarted _ job_id) h =
     (let (s, applied) = transition_if_live now job_id Running (Some w) (hb_store h);
          h1 = h\<lparr>hb_store := s\<rparr>
      in (if applied then mirror_state env job_id Running h1 else h1, Inr ()))"
| "dispatch env now w (JobExited _ job_id code) h =
     finish_run env now w job_id (if code = 0 then Completed else Failed) code h"
| "dispatch env now w (JobKilled _ job_id reason) h =
     (let (state, code) = kill_reason_state reason in finish_run env now w job_id state code h)"
| "dispatch env now w (ServiceReady _ _ _) h = (h, Inr ())"
| "dispatch env now w Drained h = (h, Inr ())"

definition is_replay :: "worker_id \<Rightarrow> worker_to_cp \<Rightarrow> hub \<Rightarrow> bool" where
  "is_replay w msg h \<longleftrightarrow>
     (case event_seq msg of
        None \<Rightarrow> False
      | Some seq \<Rightarrow> (case hb_high_water h w of Some cur \<Rightarrow> seq \<le> cur | None \<Rightarrow> False))"

definition note_seq :: "worker_id \<Rightarrow> worker_to_cp \<Rightarrow> hub \<Rightarrow> hub" where
  "note_seq w msg h =
     (case event_seq msg of
        None \<Rightarrow> h | Some seq \<Rightarrow> h\<lparr>hb_high_water := (hb_high_water h)(w \<mapsto> seq)\<rparr>)"

definition on_message ::
  "hub_env \<Rightarrow> unix_seconds \<Rightarrow> worker_id \<Rightarrow> worker_to_cp \<Rightarrow> hub \<Rightarrow> hub \<times> unit result" where
  "on_message env now w msg h =
     (let h1 = on_store (worker_seen now w) h
      in if is_replay w msg h1 then (h1, Inr ())
         else dispatch env now w msg (note_seq w msg h1))"

end
