(* ===== verification/Submit.thy ===== *)
theory Submit
  imports Messages
begin

text \<open>
  Run submission (\<open>hub/submit.rs\<close>): single runs, sweeps, and the status of a sweep. Building a
  spec from an experiments-server run is network work and left out.
\<close>

definition submit ::
  "hub_env \<Rightarrow> unix_seconds \<Rightarrow> string \<Rightarrow> run_spec \<Rightarrow> string option \<Rightarrow> string option \<Rightarrow> hub \<Rightarrow>
   hub \<times> run_id result" where
  "submit env now name spec experiment_ref created_by h =
     (case create_run now name spec experiment_ref created_by None (hb_store h) of
        (s, Inl e) \<Rightarrow> (h\<lparr>hb_store := s\<rparr>, Inl e)
      | (s, Inr rid) \<Rightarrow>
          (let h1 = mirror_created env rid spec experiment_ref (h\<lparr>hb_store := s\<rparr>)
           in case pump env now h1 of
                (h2, Inl e) \<Rightarrow> (h2, Inl e)
              | (h2, Inr _) \<Rightarrow> (h2, Inr rid)))"

fun create_children ::
  "unix_seconds \<Rightarrow> string \<Rightarrow> string \<Rightarrow> string option \<Rightarrow> nat \<Rightarrow> train_spec list \<Rightarrow> store \<Rightarrow>
   store \<times> run_id list result" where
  "create_children now name sid created_by i [] s = (s, Inr [])"
| "create_children now name sid created_by i (spec # specs) s =
     (case create_run now (name @ ''-'' @ show_pad 3 i) (Train spec) None created_by (Some sid) s of
        (s1, Inl e) \<Rightarrow> (s1, Inl e)
      | (s1, Inr rid) \<Rightarrow>
          (case create_children now name sid created_by (i + 1) specs s1 of
             (s2, Inl e) \<Rightarrow> (s2, Inl e)
           | (s2, Inr rids) \<Rightarrow> (s2, Inr (rid # rids))))"

definition submit_sweep ::
  "hub_env \<Rightarrow> unix_seconds \<Rightarrow> string \<Rightarrow> sweep_spec \<Rightarrow> string option \<Rightarrow> hub \<Rightarrow>
   hub \<times> (string \<times> run_id list) result" where
  "submit_sweep env now name spec created_by h =
     (case expand_sweep (ev_show_json env) (sw_template spec) (sw_axes spec) of
        Inl e \<Rightarrow> (h, Inl e)
      | Inr children \<Rightarrow>
          (case create_sweep now name (sw_template spec) (sw_axes spec) (sw_concurrency spec) created_by
                  (hb_store h) of
             (s1, Inl e) \<Rightarrow> (h\<lparr>hb_store := s1\<rparr>, Inl e)
           | (s1, Inr sid) \<Rightarrow>
               (case create_children now name sid created_by 0 (map snd children) s1 of
                  (s2, Inl e) \<Rightarrow> (h\<lparr>hb_store := s2\<rparr>, Inl e)
                | (s2, Inr rids) \<Rightarrow>
                    (case pump env now (h\<lparr>hb_store := s2\<rparr>) of
                       (h3, Inl e) \<Rightarrow> (h3, Inl e)
                     | (h3, Inr _) \<Rightarrow> (h3, Inr (sid, rids))))))"

definition sweep_query :: "string \<Rightarrow> run_query" where
  "sweep_query sid = default_run_query\<lparr>rq_sweep_id := Some sid\<rparr>"

definition sweep_child_of :: "store \<Rightarrow> axes \<Rightarrow> run_summary \<Rightarrow> sweep_child" where
  "sweep_child_of s axes r =
     \<lparr>sc_run_id = rs_id r, sc_state = rs_state r,
      sc_assignment = (case store_run (rs_id r) s of
                         Some run \<Rightarrow> (case rr_spec run of
                                        Train tr \<Rightarrow> assignment_of tr axes | Shell _ \<Rightarrow> [])
                       | None \<Rightarrow> [])\<rparr>"

definition sweep_status :: "string \<Rightarrow> string \<Rightarrow> store \<Rightarrow> sweep_status_rec option" where
  "sweep_status sid key s =
     (case store_sweep sid s of
        None \<Rightarrow> None
      | Some row \<Rightarrow>
          (let summaries = rev (store_runs (sweep_query sid) MAX_SWEEP_CHILDREN s);
               series = filter (\<lambda>p. p \<noteq> [])
                 (map (\<lambda>r. metric_series (rs_id r) (Some [key]) 0 0 s key) summaries)
           in Some \<lparr>ss_sweep_id = sx_id row, ss_name = sx_name row, ss_concurrency = sx_concurrency row,
                    ss_children = map (sweep_child_of s (sx_axes row)) summaries, ss_key = key,
                    ss_aggregate = aggregate series\<rparr>))"

end
