(* ===== verification/Pump.thy ===== *)
theory Pump
  imports Submit
begin

text \<open>
  Properties of the scheduler: which run it picks (oldest first), that it never idles a worker
  that could take a run, that it keeps every sweep within its concurrency, and that it moves
  no run except from the queue to one worker. The rule \<open>pump_invariant\<close> carries them.
\<close>

definition run_state_of :: "store \<Rightarrow> run_id \<Rightarrow> run_state option" where
  "run_state_of s k = map_option (\<lambda>r. rs_state (ru_summary r)) (row_of run_key k (st_runs s))"

definition current_run_of :: "store \<Rightarrow> worker_id \<Rightarrow> run_id option" where
  "current_run_of s w = (case row_of wr_id w (st_workers s) of
     Some r \<Rightarrow> wr_current_run r | None \<Rightarrow> None)"

lemma run_state_transition [simp]:
  "run_state_of (transition now r st w c d s) k =
     (if k = r then map_option (\<lambda>_. st) (run_state_of s k) else run_state_of s k)"
proof (cases "row_of run_key k (st_runs s)")
  case (Some x)
  then have "run_key x = k" by (auto dest: row_of_SomeD)
  with Some show ?thesis by (auto simp: run_state_of_def row_of_transition simp del: transition_frame)
qed (auto simp: run_state_of_def row_of_transition simp del: transition_frame)

lemma run_state_set_worker_run [simp]: "run_state_of (set_worker_run w r s) k = run_state_of s k"
  by (simp add: run_state_of_def)

lemma run_state_add_event [simp]: "run_state_of (add_event t r e d s) k = run_state_of s k"
  by (simp add: run_state_of_def)

subsection \<open>The run that is picked\<close>

lemma store_runs_set:
  "r \<in> set (store_runs q n s) \<Longrightarrow> \<exists>x\<in>set (st_runs s). ru_summary x = r \<and> run_matches q x"
  by (auto simp: store_runs_def dest!: in_set_takeD in_set_dropD)

lemma run_matches_queued [simp]:
  "run_matches queued_query x \<longleftrightarrow> rs_state (ru_summary x) = Queued"
  by (auto simp: run_matches_def queued_query_def default_run_query_def)

lemma next_assignable_SomeD:
  assumes "next_assignable_queued s = Some run" "pk run_key (st_runs s)"
  shows "\<exists>row. row_of run_key (rs_id (rr_summary run)) (st_runs s) = Some row \<and> run = run_of_row row \<and>
     rs_state (ru_summary row) = Queued \<and> \<not> held_back s (ru_summary row)"
proof -
  from assms(1) obtain r where f: "find (\<lambda>r. \<not> held_back s r) (rev (store_runs queued_query 500 s)) = Some r"
    and run: "store_run (rs_id r) s = Some run"
    by (auto simp: next_assignable_queued_def split: option.splits)
  from f have "r \<in> set (rev (store_runs queued_query 500 s))" and nh: "\<not> held_back s r"
    unfolding find_Some_iff by (metis nth_mem)+
  then have "r \<in> set (store_runs queued_query 500 s)" by simp
  then obtain x where x: "x \<in> set (st_runs s)" "ru_summary x = r" "rs_state (ru_summary x) = Queued"
    by (auto dest!: store_runs_set)
  from pk_row_of [OF assms(2) x(1)] x(2) have "row_of run_key (rs_id r) (st_runs s) = Some x" by simp
  with run x nh show ?thesis by (auto simp: store_run_def run_of_row_def)
qed

definition queue_key :: "run_row \<Rightarrow> real \<times> run_id" where
  "queue_key r = (rs_created_at (ru_summary r), run_key r)"

definition queue_of :: "store \<Rightarrow> run_row list" where
  "queue_of s = order_by queue_key (filter (\<lambda>r. rs_state (ru_summary r) = Queued) (st_runs s))"

lemma store_runs_queued:
  "store_runs queued_query n s = map ru_summary (take n (rev (queue_of s)))"
proof -
  have "run_matches queued_query = (\<lambda>r. rs_state (ru_summary r) = Queued)" by (simp add: fun_eq_iff)
  moreover have "rq_offset queued_query = 0" by (simp add: queued_query_def default_run_query_def)
  ultimately show ?thesis
    by (simp add: store_runs_def queue_of_def queue_key_def [abs_def] order_by_def order_by_desc_def)
qed

lemma queue_window:
  "rev (store_runs queued_query n s) = map ru_summary (drop (length (queue_of s) - n) (queue_of s))"
  by (simp add: store_runs_queued rev_map rev_take)

lemma find_map_conv: "find p (map f xs) = map_option f (find (\<lambda>x. p (f x)) xs)"
  by (induction xs) auto

lemma find_SomeD: "find p xs = Some x \<Longrightarrow> x \<in> set xs \<and> p x"
  by (induction xs) (auto split: if_splits)

lemma next_assignable_find:
  assumes "pk run_key (st_runs s)"
  shows "next_assignable_queued s = map_option run_of_row
     (find (\<lambda>r. \<not> held_back s (ru_summary r)) (drop (length (queue_of s) - 500) (queue_of s)))"
proof -
  let ?w = "drop (length (queue_of s) - 500) (queue_of s)"
  have f: "find (\<lambda>r. \<not> held_back s r) (map ru_summary ?w) =
      map_option ru_summary (find (\<lambda>r. \<not> held_back s (ru_summary r)) ?w)"
    by (simp add: find_map_conv)
  show ?thesis
  proof (cases "find (\<lambda>r. \<not> held_back s (ru_summary r)) ?w")
    case None
    with f show ?thesis
      by (simp add: next_assignable_queued_def queue_window)
  next
    case (Some x)
    then have "x \<in> set ?w" by (auto dest: find_SomeD)
    then have "x \<in> set (st_runs s)"
      by (auto simp: queue_of_def dest!: in_set_dropD)
    from pk_row_of [OF assms this] Some f show ?thesis
      by (simp add: next_assignable_queued_def queue_window store_run_def)
  qed
qed

lemma sorted_find_minimal:
  assumes "sorted (map key xs)" "find p xs = Some x" "y \<in> set xs" "p y"
  shows "key x \<le> key y"
  using assms by (induction xs) (auto split: if_splits)

lemma set_queue_of: "set (queue_of s) = {r \<in> set (st_runs s). rs_state (ru_summary r) = Queued}"
  by (auto simp: queue_of_def)

lemma sorted_queue: "sorted (map queue_key (queue_of s))"
  by (simp add: queue_of_def)

text \<open>C8: First come, first served. While at most 500 runs are queued, the run the scheduler
  picks is a queued run that its sweep does not hold back, and no other such run was created
  before it; it picks none exactly when every queued run is held back by its sweep.\<close>

theorem next_assignable_fifo:
  assumes "pk run_key (st_runs s)" and "length (queue_of s) \<le> 500"
  shows "case next_assignable_queued s of
     None \<Rightarrow> \<forall>r\<in>set (st_runs s). rs_state (ru_summary r) = Queued \<longrightarrow> held_back s (ru_summary r)
   | Some run \<Rightarrow> \<exists>x\<in>set (st_runs s). run = run_of_row x \<and> rs_state (ru_summary x) = Queued \<and>
        \<not> held_back s (ru_summary x) \<and>
        (\<forall>y\<in>set (st_runs s). rs_state (ru_summary y) = Queued \<and> \<not> held_back s (ru_summary y) \<longrightarrow>
           rs_created_at (ru_summary x) \<le> rs_created_at (ru_summary y))"
proof -
  let ?p = "\<lambda>r. \<not> held_back s (ru_summary r)"
  have n: "next_assignable_queued s = map_option run_of_row (find ?p (queue_of s))"
    using next_assignable_find [OF assms(1)] assms(2) by simp
  show ?thesis
  proof (cases "find ?p (queue_of s)")
    case None
    then have "next_assignable_queued s = None" using n by simp
    moreover have "\<forall>r\<in>set (queue_of s). \<not> ?p r"
      using None unfolding find_None_iff by blast
    ultimately show ?thesis by (simp add: set_queue_of)
  next
    case (Some x)
    have "queue_key x \<le> queue_key y" if "y \<in> set (queue_of s)" "?p y" for y
      by (rule sorted_find_minimal [OF sorted_queue Some that])
    then have "rs_created_at (ru_summary x) \<le> rs_created_at (ru_summary y)"
      if "y \<in> set (queue_of s)" "?p y" for y
      using that by (fastforce simp: queue_key_def)
    with Some n find_SomeD [OF Some] show ?thesis by (auto simp: set_queue_of)
  qed
qed

text \<open>Beyond the scan window the order inverts: with more than 500 queued runs and none of
  them held back, the run picked is the 500th newest, never the oldest, so a backlog that
  stays above 500 starves its oldest runs.\<close>

theorem deep_backlog_skips_oldest:
  assumes "pk run_key (st_runs s)" and "500 < length (queue_of s)"
    and "\<And>r. r \<in> set (queue_of s) \<Longrightarrow> \<not> held_back s (ru_summary r)"
  shows "\<exists>run. next_assignable_queued s = Some run \<and>
     run = run_of_row (queue_of s ! (length (queue_of s) - 500)) \<and>
     rs_id (rr_summary run) \<noteq> run_key (hd (queue_of s)) \<and>
     rs_created_at (ru_summary (hd (queue_of s))) \<le> rs_created_at (rr_summary run)"
proof -
  let ?q = "queue_of s" let ?i = "length ?q - 500"
  have i: "0 < ?i" "?i < length ?q" and nz: "0 < length ?q" "?q \<noteq> []" using assms(2) by auto
  then have drop: "drop ?i ?q = ?q ! ?i # drop (Suc ?i) ?q" by (simp add: Cons_nth_drop_Suc)
  have nth: "?q ! ?i \<in> set ?q" using i by simp
  have pick: "next_assignable_queued s = Some (run_of_row (?q ! ?i))"
    using assms(3) [OF nth] drop by (simp add: next_assignable_find [OF assms(1)])
  have hd: "hd ?q = ?q ! 0" using nz by (simp add: hd_conv_nth)
  have "pk run_key (filter (\<lambda>r. rs_state (ru_summary r) = Queued) (st_runs s))"
    using assms(1) by (simp add: pk_def distinct_map_filter)
  then have "distinct (map run_key ?q)"
    by (metis (no_types, lifting) distinct_map distinct_sort order_by_def pk_def queue_of_def set_sort)
  then have "run_key (?q ! ?i) \<noteq> run_key (?q ! 0)"
    using nth_eq_iff_index_eq [of "map run_key ?q" ?i 0] i by (simp add: nz)
  moreover have "queue_key (?q ! 0) \<le> queue_key (?q ! ?i)"
    using sorted_nth_mono [OF sorted_queue [of s], of 0 ?i] i nz by simp
  then have "rs_created_at (ru_summary (?q ! 0)) \<le> rs_created_at (ru_summary (?q ! ?i))"
    unfolding queue_key_def by (auto simp: less_eq_prod_def)
  ultimately show ?thesis
    unfolding hd pick by (intro exI [of _ "run_of_row (?q ! ?i)"]) (simp add: run_of_row_def)
qed

subsection \<open>What a pump can change\<close>

lemma assemble_job_frame:
  assumes "assemble_job env now rid spec h = (h', r)"
  shows "hb_links h' = hb_links h \<and> hb_blobs h' = hb_blobs h \<and>
    hb_high_water h' = hb_high_water h \<and> hb_mirror h' = hb_mirror h \<and>
    (\<exists>ev. hb_store h' = (hb_store h)\<lparr>st_events := ev\<rparr>) \<and>
    (hb_grants h' = hb_grants h \<or>
     (\<exists>token g. hb_grants h' = alist_put token g (hb_grants h) \<and> gr_run_id g = rid))"
proof -
  have same: "\<exists>ev. s = s\<lparr>st_events := ev\<rparr>" for s :: store
    by (rule exI [of _ "st_events s"]) simp
  have nr: "\<exists>ev. note_resumed now rid latest s = s\<lparr>st_events := ev\<rparr>" for latest s
    by (cases latest) (auto simp: note_resumed_def add_event_def Let_def same)
  have rd: "hb_links (fst (resolve_data env rid d k)) = hb_links k \<and>
      hb_blobs (fst (resolve_data env rid d k)) = hb_blobs k \<and>
      hb_high_water (fst (resolve_data env rid d k)) = hb_high_water k \<and>
      hb_mirror (fst (resolve_data env rid d k)) = hb_mirror k \<and>
      hb_store (fst (resolve_data env rid d k)) = hb_store k \<and>
      hb_grants (fst (resolve_data env rid d k)) = hb_grants k" for d k
    by (auto simp: resolve_data_def split: option.splits sum.splits)
  show ?thesis
  proof (cases spec)
    case (Shell sh)
    with assms show ?thesis by (simp add: assemble_job_def same)
  next
    case (Train tr)
    with assms have a: "assemble_train_job env now rid tr h = (h', r)"
      by (simp add: assemble_job_def)
    show ?thesis
    proof (cases "store_code_unit (cr_name (tr_code tr)) (cr_sha (tr_code tr)) (hb_store h)")
      case None
      with a show ?thesis by (simp add: assemble_train_job_def same)
    next
      case (Some u)
      show ?thesis
      proof (cases "entrypoint (cu_manifest u) (tr_entrypoint tr)")
        case None
        with a Some show ?thesis by (simp add: assemble_train_job_def same)
      next
        case (Some cmd)
        define h1 where "h1 = fst (mint_grant env now rid (tr_code tr) h)"
        define h3 where "h3 = (h1\<lparr>hb_resume := (hb_resume h1)(rid \<mapsto>
            resume_state_of (latest_checkpoint rid (hb_store h1)))\<rparr>)
            \<lparr>hb_store := note_resumed now rid (latest_checkpoint rid (hb_store h1)) (hb_store h1)\<rparr>"
        have "h' = fst (resolve_data env rid (tr_data tr) h3)"
          using a \<open>store_code_unit _ _ _ = Some u\<close> Some
          by (auto simp: assemble_train_job_def Let_def h3_def h1_def split: prod.splits sum.splits)
        moreover have "hb_links h3 = hb_links h" "hb_blobs h3 = hb_blobs h"
          "hb_high_water h3 = hb_high_water h" "hb_mirror h3 = hb_mirror h"
          "hb_store h3 = note_resumed now rid (latest_checkpoint rid (hb_store h)) (hb_store h)"
          "hb_grants h3 = alist_put (''grant-'' @ ev_uuid env (hb_uuids h))
             \<lparr>gr_run_id = rid, gr_code = tr_code tr, gr_expires = now + UPLOAD_GRANT_TTL\<rparr> (hb_grants h)"
          by (simp_all add: h3_def h1_def mint_grant_def grant_mint_def Let_def split: prod.splits)
        moreover have "gr_run_id \<lparr>gr_run_id = rid, gr_code = tr_code tr,
            gr_expires = now + UPLOAD_GRANT_TTL\<rparr> = rid" by simp
        ultimately show ?thesis
          using rd [of "tr_data tr" h3] nr by metis
      qed
    qed
  qed
qed

lemma pump_links_invariant:
  assumes "P h"
    and "\<And>h h1 w wk run e. P h \<Longrightarrow> next_assignable_queued (hb_store h) = Some run \<Longrightarrow>
           assemble_job env now (rs_id (rr_summary run)) (rr_spec run) h = (h1, Inl e) \<Longrightarrow> P h1"
    and "\<And>h h1 w wk run job. P h \<Longrightarrow> store_worker now w (hb_store h) = Some wk \<Longrightarrow>
           eligible_for_assignment wk HEARTBEAT_TIMEOUT \<Longrightarrow>
           next_assignable_queued (hb_store h) = Some run \<Longrightarrow>
           assemble_job env now (rs_id (rr_summary run)) (rr_spec run) h = (h1, Inr job) \<Longrightarrow>
           P (fst (assign_run now w (rs_id (rr_summary run)) job h1))"
  shows "P (fst (pump_links env now ws dead h))"
  using assms(1)
proof (induction ws arbitrary: dead h)
  case Nil
  then show ?case by simp
next
  case (Cons w ws)
  then show ?case
    by (auto split: option.splits prod.splits sum.splits dest: assms(2) assms(3))
qed

lemma pump_invariant:
  assumes "P h" and "\<And>h dead. P h \<Longrightarrow> P (drop_links dead h)"
    and "\<And>h h1 run e. P h \<Longrightarrow> next_assignable_queued (hb_store h) = Some run \<Longrightarrow>
           assemble_job env now (rs_id (rr_summary run)) (rr_spec run) h = (h1, Inl e) \<Longrightarrow> P h1"
    and "\<And>h h1 w wk run job. P h \<Longrightarrow> store_worker now w (hb_store h) = Some wk \<Longrightarrow>
           eligible_for_assignment wk HEARTBEAT_TIMEOUT \<Longrightarrow>
           next_assignable_queued (hb_store h) = Some run \<Longrightarrow>
           assemble_job env now (rs_id (rr_summary run)) (rr_spec run) h = (h1, Inr job) \<Longrightarrow>
           P (fst (assign_run now w (rs_id (rr_summary run)) job h1))"
  shows "P (fst (pump env now h))"
proof -
  have "P (fst (pump_links env now (map fst (hb_links h)) [] h))"
    by (rule pump_links_invariant [of P]) (use assms in blast)+
  then show ?thesis
    by (auto simp: pump_def split: prod.splits sum.splits intro: assms(2))
qed

lemma drop_links_frame [simp]:
  "hb_store (drop_links d h) = hb_store h" "hb_grants (drop_links d h) = hb_grants h"
  "hb_blobs (drop_links d h) = hb_blobs h" "hb_high_water (drop_links d h) = hb_high_water h"
  by (simp_all add: drop_links_def)

definition assign_store :: "unix_seconds \<Rightarrow> worker_id \<Rightarrow> run_id \<Rightarrow> bool \<Rightarrow> store \<Rightarrow> store" where
  "assign_store now w rid sent s =
     (let s1 = set_worker_run w (Some rid) (transition now rid Assigned (Some w) None JNull s)
      in if sent then s1
         else set_worker_run w None
                (transition now rid Queued None None (reason_json ''send_failed'') s1))"

lemma assign_run_frame:
  "hb_store (fst (assign_run now w rid job h)) =
     assign_store now w rid (snd (assign_run now w rid job h)) (hb_store h)"
  "hb_grants (fst (assign_run now w rid job h)) =
     (if snd (assign_run now w rid job h) then hb_grants h else grant_revoke_run rid (hb_grants h))"
  "hb_blobs (fst (assign_run now w rid job h)) = hb_blobs h"
  "hb_high_water (fst (assign_run now w rid job h)) = hb_high_water h"
  by (auto simp: assign_run_def assign_store_def Let_def send_to_def split: option.splits prod.splits)

lemma fst_alist_put: "fst ` set (alist_put k v m) = insert k (fst ` set m)"
  by (induction k v m rule: alist_put.induct) auto

lemma distinct_send_to:
  "distinct (map fst (hb_links h)) \<Longrightarrow> distinct (map fst (hb_links (fst (send_to w m h))))"
  by (auto simp: send_to_def distinct_alist_put split: option.splits)

lemma send_to_keys: "fst ` set (hb_links (fst (send_to w m h))) = fst ` set (hb_links h)"
proof (cases "map_of (hb_links h) w")
  case (Some lk)
  then have "w \<in> fst ` set (hb_links h)" by (auto dest: map_of_SomeD intro: rev_image_eqI)
  with Some show ?thesis by (simp add: send_to_def fst_alist_put insert_absorb)
qed (simp add: send_to_def)

lemma assign_run_links:
  "hb_links (fst (assign_run now w rid job h)) =
     hb_links (fst (send_to w (AssignJob job) h))"
  by (auto simp: assign_run_def Let_def send_to_def split: option.splits prod.splits)

lemma wf_assign_store [simp]: "wf_store (assign_store now w rid sent s) = wf_store s"
  by (simp add: assign_store_def Let_def)

lemma wf_store_events [simp]: "wf_store (s\<lparr>st_events := ev\<rparr>) = wf_store s"
  by (simp add: wf_store_def seq_now_def)

lemma run_state_events [simp]: "run_state_of (s\<lparr>st_events := ev\<rparr>) k = run_state_of s k"
  by (simp add: run_state_of_def)

lemma run_state_assign_store:
  "run_state_of (assign_store now w rid sent s) k =
     (if k = rid then map_option (\<lambda>_. if sent then Assigned else Queued) (run_state_of s k)
      else run_state_of s k)"
  by (auto simp: assign_store_def Let_def option.map_comp comp_def)

text \<open>No grant names a run that has ended or that does not exist.\<close>

definition run_live_in :: "store \<Rightarrow> run_id \<Rightarrow> bool" where
  "run_live_in s k \<longleftrightarrow> (\<exists>st. run_state_of s k = Some st \<and> \<not> is_terminal st)"

definition hub_ok :: "hub \<Rightarrow> bool" where
  "hub_ok h \<longleftrightarrow> wf_store (hb_store h) \<and> distinct (map fst (hb_links h)) \<and>
     distinct (map fst (hb_grants h)) \<and>
     (\<forall>(token, g)\<in>set (hb_grants h). run_live_in (hb_store h) (gr_run_id g))"

lemma hub_ok_new: "wf_store s \<Longrightarrow> hub_ok (new_hub s b)"
  by (simp add: hub_ok_def new_hub_def)

lemma set_revoke: "x \<in> set (grant_revoke_run r t) \<longleftrightarrow> x \<in> set t \<and> gr_run_id (snd x) \<noteq> r"
  by (auto simp: grant_revoke_run_def)

lemma distinct_revoke: "distinct (map fst t) \<Longrightarrow> distinct (map fst (grant_revoke_run r t))"
  unfolding grant_revoke_run_def by (induction t) (auto simp: image_iff)

lemma run_live_assign_store:
  "run_live_in (assign_store now w rid sent s) k \<longleftrightarrow>
     (if k = rid then run_state_of s k \<noteq> None else run_live_in s k)"
  by (auto simp: run_live_in_def run_state_assign_store)

lemma hub_ok_assemble:
  assumes "hub_ok h" "next_assignable_queued (hb_store h) = Some run"
    "assemble_job env now (rs_id (rr_summary run)) (rr_spec run) h = (h1, r)"
  shows "hub_ok h1 \<and> run_state_of (hb_store h1) (rs_id (rr_summary run)) = Some Queued"
proof -
  from assms(1,2) have q: "run_state_of (hb_store h) (rs_id (rr_summary run)) = Some Queued"
    using next_assignable_SomeD by (fastforce simp: hub_ok_def wf_store_def run_state_of_def)
  note f = assemble_job_frame [OF assms(3)]
  then obtain ev where ev: "hb_store h1 = (hb_store h)\<lparr>st_events := ev\<rparr>" by blast
  have live: "run_live_in (hb_store h1) k = run_live_in (hb_store h) k" for k
    by (simp add: ev run_live_in_def)
  have "run_live_in (hb_store h) (rs_id (rr_summary run))" using q by (simp add: run_live_in_def)
  then have "\<forall>(token, g)\<in>set (hb_grants h1). run_live_in (hb_store h1) (gr_run_id g)"
    using f assms(1) unfolding live hub_ok_def by (auto dest!: set_alist_put)
  moreover have "distinct (map fst (hb_grants h1))"
    using f assms(1) unfolding hub_ok_def by (auto simp: distinct_alist_put)
  ultimately show ?thesis using f assms(1) q by (auto simp: hub_ok_def ev)
qed

lemma hub_ok_assign:
  assumes "hub_ok h" "run_state_of (hb_store h) rid = Some Queued"
  shows "hub_ok (fst (assign_run now w rid job h))"
proof -
  have "distinct (map fst (hb_links (fst (assign_run now w rid job h))))"
    using assms(1) by (simp add: assign_run_links distinct_send_to hub_ok_def)
  then show ?thesis
    using assms by (auto simp: hub_ok_def assign_run_frame run_live_assign_store distinct_revoke set_revoke)
qed

lemma hub_ok_pump: "hub_ok h \<Longrightarrow> hub_ok (fst (pump env now h))"
proof (rule pump_invariant [of hub_ok])
  fix h dead assume "hub_ok h"
  then show "hub_ok (drop_links dead h)"
    by (auto simp: hub_ok_def) (auto simp: drop_links_def distinct_map_filter)
next
  fix h h1 w wk run job
  assume "hub_ok h" "next_assignable_queued (hb_store h) = Some run"
    "assemble_job env now (rs_id (rr_summary run)) (rr_spec run) h = (h1, Inr job)"
  from hub_ok_assemble [OF this]
  show "hub_ok (fst (assign_run now w (rs_id (rr_summary run)) job h1))"
    by (blast intro: hub_ok_assign)
qed (use hub_ok_assemble in blast)+

subsection \<open>Only the queue is drained\<close>

lemma pump_states:
  assumes "hub_ok h"
  shows "run_state_of (hb_store (fst (pump env now h))) k = run_state_of (hb_store h) k \<or>
     (run_state_of (hb_store h) k = Some Queued \<and>
      run_state_of (hb_store (fst (pump env now h))) k = Some Assigned)"
proof -
  let ?P = "\<lambda>h'. hub_ok h' \<and> (run_state_of (hb_store h') k = run_state_of (hb_store h) k \<or>
     (run_state_of (hb_store h) k = Some Queued \<and> run_state_of (hb_store h') k = Some Assigned))"
  have "?P (fst (pump env now h))"
  proof (rule pump_invariant [of ?P])
    show "?P h" using assms by simp
  next
    fix h1 dead assume "?P h1"
    then show "?P (drop_links dead h1)"
      by (auto simp: hub_ok_def) (auto simp: drop_links_def distinct_map_filter)
  next
    fix h1 h2 run e
    assume p: "?P h1" and n: "next_assignable_queued (hb_store h1) = Some run"
      and a: "assemble_job env now (rs_id (rr_summary run)) (rr_spec run) h1 = (h2, Inl e)"
    from assemble_job_frame [OF a] obtain ev where "hb_store h2 = (hb_store h1)\<lparr>st_events := ev\<rparr>" by blast
    with p hub_ok_assemble [OF _ n a] show "?P h2" by simp
  next
    fix h1 h2 w wk run job
    assume p: "?P h1" and n: "next_assignable_queued (hb_store h1) = Some run"
      and a: "assemble_job env now (rs_id (rr_summary run)) (rr_spec run) h1 = (h2, Inr job)"
    from assemble_job_frame [OF a] obtain ev where ev: "hb_store h2 = (hb_store h1)\<lparr>st_events := ev\<rparr>" by blast
    from p hub_ok_assemble [OF _ n a] have q: "hub_ok h2"
      "run_state_of (hb_store h1) (rs_id (rr_summary run)) = Some Queued" by (simp_all add: ev)
    show "?P (fst (assign_run now w (rs_id (rr_summary run)) job h2))"
      using p q hub_ok_assign [of h2 "rs_id (rr_summary run)" now w job]
      by (auto simp: assign_run_frame run_state_assign_store ev)
  qed
  then show ?thesis by blast
qed

lemma run_live_pump: "hub_ok h \<Longrightarrow> run_live_in (hb_store (fst (pump env now h))) k = run_live_in (hb_store h) k"
  by (drule pump_states [of h env now k], unfold run_live_in_def, elim disjE) simp_all

subsection \<open>Sweep concurrency\<close>

definition sweeps_capped :: "store \<Rightarrow> bool" where
  "sweeps_capped s \<longleftrightarrow>
     (\<forall>sid row. store_sweep sid s = Some row \<longrightarrow> 0 < sx_concurrency row \<longrightarrow>
        sweep_active_children sid s \<le> sx_concurrency row)"

lemma active_transition:
  assumes "pk run_key (st_runs s)" "row_of run_key r (st_runs s) = Some x"
  shows "sweep_active_children sid (transition t r st w c d s) +
      (if rs_sweep_id (ru_summary x) = Some sid \<and> rs_state (ru_summary x) \<in> {Assigned, Running} then 1 else 0) =
    sweep_active_children sid s +
      (if rs_sweep_id (ru_summary x) = Some sid \<and> st \<in> {Assigned, Running} then 1 else 0)"
  using affected_update_row [OF assms, of "set_run_columns t st w c"
      "\<lambda>r. rs_sweep_id (ru_summary r) = Some sid \<and>
           (rs_state (ru_summary r) = Assigned \<or> rs_state (ru_summary r) = Running)"]
  by (simp add: sweep_active_children_def)

lemma sweep_frame [simp]:
  "store_sweep sid (transition t r st w c d s) = store_sweep sid s"
  "store_sweep sid (set_worker_run w' r' s) = store_sweep sid s"
  "sweep_active_children sid (set_worker_run w' r' s) = sweep_active_children sid s"
  by (simp_all add: store_sweep_def sweep_active_children_def)

lemma capped_assign_store:
  assumes "wf_store s" "sweeps_capped s" "row_of run_key rid (st_runs s) = Some x"
    "rs_state (ru_summary x) = Queued" "\<not> held_back s (ru_summary x)"
  shows "sweeps_capped (assign_store now w rid sent s)"
proof -
  let ?s1 = "set_worker_run w (Some rid) (transition now rid Assigned (Some w) None JNull s)"
  have pk: "pk run_key (st_runs s)" using assms(1) by (simp add: wf_store_def)
  have one: "sweep_active_children sid ?s1 = sweep_active_children sid s +
      (if rs_sweep_id (ru_summary x) = Some sid then 1 else 0)" for sid
    using active_transition [OF pk assms(3), of sid now Assigned "Some w" None JNull] assms(4) by simp
  have pk1: "pk run_key (st_runs ?s1)" using pk by (simp add: pk_update_where)
  have x1: "row_of run_key rid (st_runs ?s1) =
      Some (set_run_columns now Assigned (Some w) None x)"
    using assms(3) row_of_SomeD [OF assms(3)] by (simp add: row_of_update_where)
  have two: "sweep_active_children sid
      (set_worker_run w None (transition now rid Queued None None (reason_json ''send_failed'') ?s1)) =
      sweep_active_children sid s" for sid
    using active_transition [OF pk1 x1, of sid now Queued None None "reason_json ''send_failed''"] one [of sid]
    by (auto split: if_splits)
  have cap: "sweep_active_children sid ?s1 \<le> sx_concurrency row"
    if "store_sweep sid s = Some row" "0 < sx_concurrency row" for sid row
    using assms(2,5) that one [of sid] by (auto simp: sweeps_capped_def held_back_def)
  show ?thesis
    using cap two assms(2) by (auto simp: sweeps_capped_def assign_store_def Let_def)
qed

lemma capped_events [simp]: "sweeps_capped (s\<lparr>st_events := ev\<rparr>) = sweeps_capped s"
  by (simp add: sweeps_capped_def store_sweep_def sweep_active_children_def)

lemma held_back_events [simp]: "held_back (s\<lparr>st_events := ev\<rparr>) r = held_back s r"
  by (simp add: held_back_def store_sweep_def sweep_active_children_def split: option.splits)


subsection \<open>Work conservation\<close>

definition worker_idle :: "unix_seconds \<Rightarrow> worker_id \<Rightarrow> store \<Rightarrow> bool" where
  "worker_idle now w s \<longleftrightarrow>
     (case store_worker now w s of
        Some wk \<Rightarrow> eligible_for_assignment wk HEARTBEAT_TIMEOUT | None \<Rightarrow> False)"

lemma store_worker_cong:
  "row_of wr_id w (st_workers s) = row_of wr_id w (st_workers s') \<Longrightarrow> st_leases s = st_leases s' \<Longrightarrow>
   store_worker now w s = store_worker now w s'"
  by (simp add: store_worker_def store_lease_def)

lemma worker_idle_cong:
  "row_of wr_id w (st_workers s) = row_of wr_id w (st_workers s') \<Longrightarrow> st_leases s = st_leases s' \<Longrightarrow>
   worker_idle now w s = worker_idle now w s'"
  unfolding worker_idle_def using store_worker_cong [of w s s' now] by presburger

lemma row_of_set_worker_run:
  "row_of wr_id w' (st_workers (set_worker_run w r s)) =
     map_option (\<lambda>x. if w' = w then x\<lparr>wr_current_run := r\<rparr> else x) (row_of wr_id w' (st_workers s))"
proof (cases "row_of wr_id w' (st_workers s)")
  case (Some x)
  then have "wr_id x = w'" by (auto dest: row_of_SomeD)
  with Some show ?thesis by (simp add: row_of_update_where)
qed (simp add: row_of_update_where)

lemma row_of_assign_store:
  "row_of wr_id w' (st_workers (assign_store now w rid sent s)) =
     map_option (\<lambda>x. if w' = w then x\<lparr>wr_current_run := if sent then Some rid else None\<rparr> else x)
       (row_of wr_id w' (st_workers s))"
  by (cases "row_of wr_id w' (st_workers s)")
    (auto simp: assign_store_def Let_def row_of_set_worker_run simp del: set_worker_run_frame(10))

lemma leases_assign_store [simp]: "st_leases (assign_store now w rid sent s) = st_leases s"
  by (simp add: assign_store_def Let_def)

text \<open>The four ways one iteration of the pump goes.\<close>

lemma pump_links_Cons:
  obtains (skip) "\<not> worker_idle now w (hb_store h)"
      "pump_links env now (w # ws) dead h = pump_links env now ws dead h"
    | (stop) "next_assignable_queued (hb_store h) = None"
      "pump_links env now (w # ws) dead h = (h, Inr dead)"
    | (fail) run h1 e where "next_assignable_queued (hb_store h) = Some run"
      "assemble_job env now (rs_id (rr_summary run)) (rr_spec run) h = (h1, Inl e)"
      "pump_links env now (w # ws) dead h = (h1, Inl e)"
    | (go) run h1 job h2 sent where "worker_idle now w (hb_store h)"
      "next_assignable_queued (hb_store h) = Some run"
      "assemble_job env now (rs_id (rr_summary run)) (rr_spec run) h = (h1, Inr job)"
      "assign_run now w (rs_id (rr_summary run)) job h1 = (h2, sent)"
      "pump_links env now (w # ws) dead h =
         pump_links env now ws (if sent then dead else dead @ [w]) h2"
proof (cases "store_worker now w (hb_store h)")
  case None
  then show thesis by (intro skip) (simp_all add: worker_idle_def)
next
  case (Some wk)
  show thesis
  proof (cases "eligible_for_assignment wk HEARTBEAT_TIMEOUT")
    case False
    with Some show thesis by (intro skip) (simp_all add: worker_idle_def)
  next
    case elig: True
    show thesis
    proof (cases "next_assignable_queued (hb_store h)")
      case None
      with Some elig show thesis by (intro stop) simp_all
    next
      case nx: (Some run)
      obtain h1 r where a: "assemble_job env now (rs_id (rr_summary run)) (rr_spec run) h = (h1, r)"
        by (metis surj_pair)
      show thesis
      proof (cases r)
        case (Inl e)
        with Some elig nx a show thesis by (intro fail) simp_all
      next
        case (Inr job)
        obtain h2 sent where "assign_run now w (rs_id (rr_summary run)) job h1 = (h2, sent)"
          by (metis surj_pair)
        with Some elig nx a Inr show thesis by (intro go) (simp_all add: worker_idle_def)
      qed
    qed
  qed
qed

declare pump_links.simps(2) [simp del]

lemma go_frame:
  assumes "assemble_job env now (rs_id (rr_summary run)) (rr_spec run) h = (h1, Inr job)"
    "assign_run now w (rs_id (rr_summary run)) job h1 = (h2, sent)"
  shows "row_of wr_id w' (st_workers (hb_store h2)) =
      map_option (\<lambda>x. if w' = w then x\<lparr>wr_current_run := if sent then Some (rs_id (rr_summary run)) else None\<rparr>
                     else x) (row_of wr_id w' (st_workers (hb_store h))) \<and>
    st_leases (hb_store h2) = st_leases (hb_store h)"
proof -
  from assemble_job_frame [OF assms(1)] obtain ev where ev: "hb_store h1 = (hb_store h)\<lparr>st_events := ev\<rparr>"
    by blast
  have "hb_store h2 = assign_store now w (rs_id (rr_summary run)) sent (hb_store h1)"
    using assign_run_frame(1) [of now w "rs_id (rr_summary run)" job h1] assms(2) by simp
  then show ?thesis by (simp add: row_of_assign_store ev)
qed

lemma pump_links_other_worker:
  assumes "w' \<notin> set ws"
  shows "row_of wr_id w' (st_workers (hb_store (fst (pump_links env now ws dead h)))) =
      row_of wr_id w' (st_workers (hb_store h)) \<and>
    st_leases (hb_store (fst (pump_links env now ws dead h))) = st_leases (hb_store h)"
  using assms
proof (induction ws arbitrary: dead h)
  case (Cons w ws)
  show ?case
  proof (cases rule: pump_links_Cons [of now w h env ws dead])
    case (fail run h1 e)
    from assemble_job_frame [OF fail(2)] obtain ev where "hb_store h1 = (hb_store h)\<lparr>st_events := ev\<rparr>"
      by blast
    with fail show ?thesis by simp
  next
    case (go run h1 job h2 sent)
    from go_frame [OF go(3,4), of w'] Cons.prems Cons.IH [of _ h2] show ?thesis
      unfolding go(5) by (simp add: option.map_id [unfolded id_def])
  qed (use Cons in simp_all)
qed simp

text \<open>A linked worker the pump came by is, afterwards, dead, busy or out of work.\<close>

lemma pump_links_served:
  assumes "distinct ws" "pump_links env now ws dead h = (h', Inr dead')" "w \<in> set ws"
  shows "w \<in> set dead' \<or> \<not> worker_idle now w (hb_store h') \<or> next_assignable_queued (hb_store h') = None"
  using assms
proof (induction ws arbitrary: dead h)
  case (Cons v ws)
  have mono: "set d \<subseteq> set dead'" if "pump_links env now us d k = (h', Inr dead')" for us d k
    using that
  proof (induction us arbitrary: d k)
    case (Cons u us)
    show ?case
    proof (cases rule: pump_links_Cons [of now u k env us d])
      case (go run h1 job h2 sent)
      with Cons.prems have "pump_links env now us (if sent then d else d @ [u]) h2 = (h', Inr dead')" by simp
      from Cons.IH [OF this] show ?thesis by (auto split: if_splits)
    qed (use Cons in auto)
  qed simp
  have v: "v \<notin> set ws" "distinct ws" using Cons.prems(1) by auto
  show ?case
  proof (cases rule: pump_links_Cons [of now v h env ws dead])
    case skip
    show ?thesis
    proof (cases "w = v")
      case True
      have rest: "pump_links env now ws dead h = (h', Inr dead')" using Cons.prems(2) skip(2) by simp
      have "worker_idle now v (hb_store h') = worker_idle now v (hb_store h)"
        using pump_links_other_worker [OF v(1), of env now dead h]
        by (intro worker_idle_cong) (simp_all add: rest)
      with True skip(1) show ?thesis by simp
    next
      case False
      with Cons skip v show ?thesis by auto
    qed
  next
    case (go run h1 job h2 sent)
    with Cons.prems(2) have rest: "pump_links env now ws (if sent then dead else dead @ [v]) h2 = (h', Inr dead')"
      by simp
    show ?thesis
    proof (cases "w = v")
      case True
      show ?thesis
      proof (cases sent)
        case False
        with mono [OF rest] True show ?thesis by auto
      next
        case sent: True
        from go(1) obtain x where x: "row_of wr_id v (st_workers (hb_store h)) = Some x"
          by (auto simp: worker_idle_def store_worker_def split: option.splits)
        have rest': "pump_links env now ws dead h2 = (h', Inr dead')" using rest sent by simp
        have "worker_idle now v (hb_store h') = worker_idle now v (hb_store h2)"
          using pump_links_other_worker [OF v(1), of env now dead h2]
          by (intro worker_idle_cong) (simp_all add: rest')
        moreover have "\<not> worker_idle now v (hb_store h2)"
          using go_frame [OF go(3,4), of v] x sent
          by (simp add: worker_idle_def store_worker_def eligible_for_assignment_def worker_of_row_def)
        ultimately show ?thesis using True by simp
      qed
    next
      case False
      with Cons.IH [OF v(2) rest] Cons.prems(3) show ?thesis by auto
    qed
  qed (use Cons.prems in simp_all)
qed simp

text \<open>C11: Work conservation. When a pump finishes without error, no worker that still has a
  link is idle (free, reachable and not draining) unless there is no run left that may be
  assigned.\<close>

theorem pump_work_conserving:
  assumes "distinct (map fst (hb_links h))" and "pump env now h = (h', Inr ())"
    and "w \<in> fst ` set (hb_links h')" and "worker_idle now w (hb_store h')"
  shows "next_assignable_queued (hb_store h') = None"
proof -
  from assms(2) obtain h1 dead where
    p: "pump_links env now (map fst (hb_links h)) [] h = (h1, Inr dead)" and h': "h' = drop_links dead h1"
    by (auto simp: pump_def split: prod.splits sum.splits)
  have "fst ` set (hb_links (fst (pump_links env now (map fst (hb_links h)) [] h))) = fst ` set (hb_links h)"
    by (rule pump_links_invariant [of "\<lambda>k. fst ` set (hb_links k) = fst ` set (hb_links h)"])
       (simp_all add: assign_run_links send_to_keys assemble_job_frame)
  with p have "fst ` set (hb_links h1) = fst ` set (hb_links h)" by simp
  with assms(3) h' have "w \<in> set (map fst (hb_links h))" "w \<notin> set dead"
    by (auto simp: drop_links_def)
  with pump_links_served [OF assms(1) p] assms(4) h' show ?thesis by fastforce
qed

subsection \<open>The properties at concrete inputs\<close>

definition demo_run :: "run_id \<Rightarrow> run_state \<Rightarrow> string option \<Rightarrow> unix_seconds \<Rightarrow> run_row" where
  "demo_run rid st sweep t =
     \<lparr>ru_summary = \<lparr>rs_id = rid, rs_name = ''demo'', rs_kind = ''shell'', rs_state = st, rs_worker_id = None,
        rs_exit_code = None, rs_experiment_ref = None, rs_sweep_id = sweep, rs_created_by = None,
        rs_created_at = t, rs_updated_at = t\<rparr>,
      ru_spec = Shell \<lparr>sh_command = ''true'', sh_timeout_s = 60\<rparr>, ru_experiments_run_id = None\<rparr>"

lemma demo_run_simps [simp]:
  "run_key (demo_run rid st sweep t) = rid" "rs_state (ru_summary (demo_run rid st sweep t)) = st"
  "rs_sweep_id (ru_summary (demo_run rid st sweep t)) = sweep"
  "rs_created_at (ru_summary (demo_run rid st sweep t)) = t"
  by (simp_all add: demo_run_def)

definition demo_backlog :: "nat \<Rightarrow> store" where
  "demo_backlog n = empty_store\<lparr>st_runs :=
     map (\<lambda>i. demo_run (replicate i (CHR ''R'')) Queued None (real i)) [0..<n]\<rparr>"

lemma demo_backlog_pk: "pk run_key (st_runs (demo_backlog n))"
proof -
  have "inj (\<lambda>i. replicate i (CHR ''R''))" by (rule injI) (metis length_replicate)
  then show ?thesis by (simp add: demo_backlog_def pk_def comp_def distinct_map inj_on_subset [OF _ subset_UNIV])
qed

lemma demo_backlog_queue: "queue_of (demo_backlog n) = st_runs (demo_backlog n)"
proof -
  have "sorted (map queue_key (st_runs (demo_backlog n)))"
    by (auto simp: demo_backlog_def queue_key_def [abs_def] comp_def sorted_iff_nth_mono less_eq_prod_def
        le_less)
  moreover have "filter (\<lambda>r. rs_state (ru_summary r) = Queued) (st_runs (demo_backlog n)) = st_runs (demo_backlog n)"
    by (simp add: demo_backlog_def filter_id_conv)
  ultimately show ?thesis by (simp add: queue_of_def order_by_def sorted_sort_id sort_key_id_if_sorted)
qed

lemma demo_backlog_free: "r \<in> set (st_runs (demo_backlog n)) \<Longrightarrow> \<not> held_back s (ru_summary r)"
  by (auto simp: demo_backlog_def held_back_def)

lemma next_assignable_fifo_witness:
  "\<exists>run. next_assignable_queued (demo_backlog 3) = Some run \<and> rs_created_at (rr_summary run) \<le> 0"
proof -
  have len: "length (queue_of (demo_backlog 3)) \<le> 500"
    unfolding demo_backlog_queue by (simp add: demo_backlog_def)
  have x: "demo_run [] Queued None 0 \<in> set (st_runs (demo_backlog 3))"
    by (auto simp: demo_backlog_def intro!: image_eqI [of _ _ 0])
  show ?thesis
  proof (cases "next_assignable_queued (demo_backlog 3)")
    case None
    with next_assignable_fifo [OF demo_backlog_pk len] x demo_backlog_free [OF x]
    show ?thesis by fastforce
  next
    case (Some run)
    with next_assignable_fifo [OF demo_backlog_pk len] x demo_backlog_free [OF x]
    show ?thesis by (fastforce simp: run_of_row_def)
  qed
qed

lemma deep_backlog_skips_oldest_witness:
  "\<exists>run. next_assignable_queued (demo_backlog 501) = Some run \<and> rs_created_at (rr_summary run) = 1"
proof -
  have len: "500 < length (queue_of (demo_backlog 501))"
    unfolding demo_backlog_queue by (simp add: demo_backlog_def)
  have nth: "st_runs (demo_backlog 501) ! 1 = demo_run ''R'' Queued None 1"
    by (simp add: demo_backlog_def del: upt_Suc)
  have "length (st_runs (demo_backlog 501)) - 500 = 1" by (simp add: demo_backlog_def)
  with deep_backlog_skips_oldest [OF demo_backlog_pk len, unfolded demo_backlog_queue,
      OF demo_backlog_free] nth
  show ?thesis by (auto simp: run_of_row_def)
qed

text \<open>A sweep of concurrency one with one child running and one queued, and a free worker.\<close>

definition demo_sweep_store :: store where
  "demo_sweep_store = empty_store\<lparr>st_run_seq := Some 2,
     st_runs := [demo_run (new_run_id 0 1) Running (Some ''S'') 0, demo_run (new_run_id 0 2) Queued (Some ''S'') 1],
     st_sweeps := [\<lparr>sx_id = ''S'', sx_name = ''lr'', sx_template = undefined, sx_axes = [], sx_concurrency = 1,
       sx_created_at = 0, sx_created_by = None\<rparr>],
     st_workers := [\<lparr>wr_id = ''w'', wr_labels = [], wr_hardware = undefined, wr_connected = True,
       wr_current_run = None, wr_joined_at = 0, wr_last_seen = 10\<rparr>]\<rparr>"

definition demo_sweep_hub :: hub where
  "demo_sweep_hub = (new_hub demo_sweep_store Map.empty)\<lparr>hb_links :=
     [(''w'', \<lparr>lk_session = 0, lk_open = True, lk_sent = []\<rparr>)]\<rparr>"

lemma demo_sweep_ok: "hub_ok demo_sweep_hub" "sweeps_capped (hb_store demo_sweep_hub)"
proof -
  have ne: "new_run_id 0 1 \<noteq> new_run_id 0 2"
    using stamped_id_inj [of EXEC_ID_PREFIX 0 1 EXEC_ID_PREFIX 0 2] by (auto simp: new_run_id_def)
  have "run_id_minted 2 (new_run_id 0 1)" "run_id_minted 2 (new_run_id 0 2)"
    unfolding run_id_minted_def by (rule exI [of _ 0], rule exI [of _ 1], simp, rule exI [of _ 0], rule exI [of _ 2], simp)
  then show "hub_ok demo_sweep_hub"
    by (simp add: hub_ok_def demo_sweep_hub_def demo_sweep_store_def new_hub_def wf_store_def pk_def ne
        empty_store_def seq_now_def)
  show "sweeps_capped (hb_store demo_sweep_hub)"
    by (auto simp: sweeps_capped_def demo_sweep_hub_def demo_sweep_store_def new_hub_def empty_store_def
        store_sweep_def sweep_active_children_def affected_def row_of_def split: if_splits)
qed

lemma demo_sweep_none: "next_assignable_queued demo_sweep_store = None"
  by (simp add: next_assignable_queued_def store_runs_def run_matches_def queued_query_def
      default_run_query_def demo_sweep_store_def held_back_def store_sweep_def sweep_active_children_def
      affected_def row_of_def order_by_desc_def order_by_def empty_store_def)

definition demo_env :: hub_env where
  "demo_env = \<lparr>ev_uuid = show_nat, ev_datasets = None, ev_experiments = False, ev_sha256 = (\<lambda>_. ''0''),
     ev_meta_parse = (\<lambda>_. None), ev_meta_render = (\<lambda>_. ''{}''), ev_show_json = (\<lambda>_. ''null''),
     ev_fmt = (\<lambda>_. ''x''), ev_root = ''data''\<rparr>"

lemma demo_sweep_pump: "pump demo_env 10 demo_sweep_hub = (demo_sweep_hub, Inr ())"
proof -
  have w: "store_worker 10 ''w'' demo_sweep_store \<noteq> None"
    by (simp add: store_worker_def demo_sweep_store_def row_of_def)
  have st: "hb_store demo_sweep_hub = demo_sweep_store"
    and links: "map fst (hb_links demo_sweep_hub) = [''w'']"
    by (simp_all add: demo_sweep_hub_def new_hub_def)
  have "pump_links demo_env 10 [''w''] [] demo_sweep_hub = (demo_sweep_hub, Inr [])"
    using w by (auto simp: pump_links.simps st demo_sweep_none split: option.splits)
  moreover have "drop_links [] demo_sweep_hub = demo_sweep_hub"
    by (simp add: drop_links_def demo_sweep_hub_def)
  ultimately show ?thesis unfolding pump_def links by simp
qed


lemma pump_work_conserving_witness: "next_assignable_queued (hb_store demo_sweep_hub) = None"
proof (rule pump_work_conserving [OF _ demo_sweep_pump])
  show "distinct (map fst (hb_links demo_sweep_hub))" by (simp add: demo_sweep_hub_def)
  show "''w'' \<in> fst ` set (hb_links demo_sweep_hub)" by (simp add: demo_sweep_hub_def)
  show "worker_idle 10 ''w'' (hb_store demo_sweep_hub)"
    by (simp add: worker_idle_def store_worker_def demo_sweep_hub_def demo_sweep_store_def new_hub_def row_of_def
        eligible_for_assignment_def worker_of_row_def store_lease_def empty_store_def round_half_away_def
        HEARTBEAT_TIMEOUT_def)
qed

end
