(* ===== verification/HubInv.thy ===== *)
theory HubInv
  imports Pump
begin

text \<open>
  The hub's invariants, preserved by every handler: the store's keys are distinct, grants name
  live runs only, links have distinct owners (\<open>hub_ok\<close>), and every recorded checkpoint's slice
  history is a contiguous chain from step 0 to the checkpoint's step (\<open>lineage_ok\<close>).
\<close>

subsection \<open>Store operations that leave the runs alone\<close>

lemma wf_store_frames [simp]:
  "wf_store (append_log t r l s) = wf_store s"
  "wf_store (append_metrics t r k v s) = wf_store s"
  "wf_store (record_worker_samples t w v s) = wf_store s"
  "wf_store (worker_seen t w s) = wf_store s"
  "wf_store (worker_left w s) = wf_store s"
  "wf_store (record_gate_result a b c d e f g s) = wf_store s"
  "wf_store (register_gate t a b c nm act s) = wf_store s"
  "wf_store (register_code_unit t cr mf u s) = wf_store s"
  "wf_store (set_lease_state w st s) = wf_store s"
  "wf_store (ledger_append le s) = wf_store s"
  "wf_store (set_budget bu s) = wf_store s"
  by (simp_all add: wf_store_def seq_now_def append_log_def append_metrics_def
      record_worker_samples_def worker_seen_def worker_left_def record_gate_result_def
      register_gate_def register_code_unit_def set_lease_state_def ledger_append_def set_budget_def
      Let_def pk_update_where)

lemma wf_store_upserts [simp]:
  "wf_store s \<Longrightarrow> wf_store (worker_joined t w ls hw s)"
  "wf_store s \<Longrightarrow> wf_store (record_checkpoint t r k u mh m s)"
  "wf_store s \<Longrightarrow> wf_store (create_lease l s)"
  by (simp_all add: wf_store_def seq_now_def worker_joined_def record_checkpoint_def
      create_lease_def pk_upsert)

lemma runs_frames [simp]:
  "st_runs (append_log t r l s) = st_runs s"
  "st_runs (append_metrics t r k v s) = st_runs s"
  "st_runs (record_worker_samples t w v s) = st_runs s"
  "st_runs (worker_seen t w s) = st_runs s"
  "st_runs (worker_left w s) = st_runs s"
  "st_runs (record_gate_result a b c d e f g s) = st_runs s"
  "st_runs (register_gate t a b c nm act s) = st_runs s"
  "st_runs (register_code_unit t cr mf u s) = st_runs s"
  "st_runs (set_lease_state w st s) = st_runs s"
  "st_runs (ledger_append le s) = st_runs s"
  "st_runs (set_budget bu s) = st_runs s"
  "st_runs (worker_joined t w ls hw s) = st_runs s"
  "st_runs (record_checkpoint t r k u mh m' s) = st_runs s"
  "st_runs (create_lease ls' s) = st_runs s"
  by (simp_all add: append_log_def append_metrics_def record_worker_samples_def worker_seen_def
      worker_left_def record_gate_result_def register_gate_def register_code_unit_def
      set_lease_state_def ledger_append_def set_budget_def worker_joined_def record_checkpoint_def
      create_lease_def Let_def)

lemma run_live_cong: "st_runs s' = st_runs s \<Longrightarrow> run_live_in s' k = run_live_in s k"
  by (simp add: run_live_in_def run_state_of_def)

lemma run_live_frames [simp]:
  "run_live_in (add_event t r e d s) k = run_live_in s k"
  "run_live_in (set_worker_run w r' s) k = run_live_in s k"
  by (simp_all add: run_live_in_def)

lemma run_live_transition:
  "run_live_in (transition t r st w c d s) k \<longleftrightarrow>
     (if k = r then run_state_of s k \<noteq> None \<and> \<not> is_terminal st else run_live_in s k)"
  by (auto simp: run_live_in_def)

lemma run_state_transition_if_live:
  assumes "wf_store s"
  shows "run_state_of (fst (transition_if_live t r st w s)) k =
     (if k = r \<and> run_live_in s r then Some st else run_state_of s k)"
proof (cases "row_of run_key r (st_runs s)")
  case None
  then have "\<not> run_live_in s r" by (simp add: run_live_in_def run_state_of_def)
  with None show ?thesis by (simp add: transition_if_live_spec [OF assms])
next
  case (Some x)
  then have live: "run_live_in s r \<longleftrightarrow> \<not> is_terminal (rs_state (ru_summary x))"
    and ex: "run_state_of s r \<noteq> None"
    by (simp_all add: run_live_in_def run_state_of_def)
  show ?thesis
  proof (cases "is_terminal (rs_state (ru_summary x))")
    case True
    with Some live show ?thesis by (simp add: transition_if_live_spec [OF assms] del: is_terminal.simps)
  next
    case False
    then have "fst (transition_if_live t r st w s) = transition t r st w None JNull s"
      using Some by (simp add: transition_if_live_spec [OF assms] del: is_terminal.simps)
    with False live ex show ?thesis by auto
  qed
qed

lemma wf_transition_if_live: "wf_store s \<Longrightarrow> wf_store (fst (transition_if_live t r st w s))"
  by (simp add: transition_if_live_spec split: option.splits)

lemma wf_create_run: "wf_store s \<Longrightarrow> wf_store (fst (create_run now name spec er cb sid s))"
  using create_run_ok [of s now name spec er cb sid] by auto

lemma run_state_create_run:
  assumes "wf_store s"
  shows "run_state_of (fst (create_run now name spec er cb sid s)) k =
     (if k = new_run_id now (seq_now s + 1) then Some Queued else run_state_of s k)"
proof -
  have "row_of run_key (new_run_id now (seq_now s + 1)) (st_runs s) = None"
    using assms by (intro run_id_fresh) (auto simp: wf_store_def)
  with create_run_ok [OF assms, of now name spec er cb sid] show ?thesis
    by (auto simp: run_state_of_def split: option.splits)
qed

subsection \<open>\<open>hub_ok\<close>\<close>

lemma hub_ok_store:
  assumes "hub_ok h" "wf_store s" "\<And>k. run_live_in (hb_store h) k \<Longrightarrow> run_live_in s k"
  shows "hub_ok (h\<lparr>hb_store := s\<rparr>)"
  using assms by (fastforce simp: hub_ok_def)

lemma hub_ok_frame [simp]:
  "hub_ok (h\<lparr>hb_resume := x\<rparr>) = hub_ok h" "hub_ok (h\<lparr>hb_blobs := b\<rparr>) = hub_ok h"
  "hub_ok (h\<lparr>hb_high_water := y\<rparr>) = hub_ok h" "hub_ok (h\<lparr>hb_mirror := m\<rparr>) = hub_ok h"
  "hub_ok (mirror_state e r st h) = hub_ok h" "hub_ok (mirror_created e r sp er h) = hub_ok h"
  "hub_ok (mirror_checkpoint e r k u mt h) = hub_ok h"
  by (simp_all add: hub_ok_def)

lemma hub_ok_same_runs:
  "hub_ok h \<Longrightarrow> wf_store s \<Longrightarrow> st_runs s = st_runs (hb_store h) \<Longrightarrow> hub_ok (h\<lparr>hb_store := s\<rparr>)"
  by (rule hub_ok_store) (simp_all add: run_live_cong [of s "hb_store h"])

text \<open>Revoking a run's grants and then moving it anywhere keeps the invariant.\<close>

lemma hub_ok_revoke_transition:
  assumes "hub_ok h"
  shows "hub_ok (on_store (transition now rid st w c d) (revoke_grants rid h))"
  using assms by (auto simp: hub_ok_def set_revoke distinct_revoke run_live_transition)

lemma hub_ok_set_worker_run: "hub_ok h \<Longrightarrow> hub_ok (on_store (set_worker_run w r) h)"
  by (simp add: hub_ok_same_runs wf_store_def seq_now_def hub_ok_def pk_update_where)

lemma hub_ok_send: "hub_ok h \<Longrightarrow> hub_ok (fst (send_to w m h))"
  by (simp add: hub_ok_def distinct_send_to)

lemma hub_ok_cancel_now: "hub_ok h \<Longrightarrow> hub_ok (fst (cancel_now env now rid w h))"
  unfolding cancel_now_def Let_def
  by (intro hub_ok_pump)
     (auto simp: hub_ok_def set_revoke distinct_revoke run_live_transition split: option.splits)

lemma hub_ok_stop_run: "hub_ok h \<Longrightarrow> hub_ok (fst (stop_run env now rid h))"
  using hub_ok_send [of h] hub_ok_cancel_now
  by (auto simp: stop_run_def split: option.splits prod.splits bool.splits) (metis fst_conv)+

lemma hub_ok_finish_run: "hub_ok h \<Longrightarrow> hub_ok (fst (finish_run env now w rid st c h))"
  unfolding finish_run_def Let_def
  by (intro hub_ok_pump) (auto simp: hub_ok_def set_revoke distinct_revoke run_live_transition)

lemma store_run_state:
  "store_run rid s = Some run \<Longrightarrow> run_state_of s rid = Some (rs_state (rr_summary run))"
  by (auto simp: store_run_def run_state_of_def run_of_row_def)

lemma hub_ok_resume_run:
  assumes "hub_ok h"
  shows "hub_ok (fst (resume_run env now rid h))"
proof (cases "store_run rid (hb_store h)")
  case (Some run)
  show ?thesis
  proof (cases "is_terminal (rs_state (rr_summary run))")
    case True
    have "hub_ok (on_store (transition now rid Queued None None (reason_json ''operator_resume'')) h)"
      using assms store_run_state [OF Some]
      by (intro hub_ok_store) (auto simp: hub_ok_def run_live_transition run_live_in_def)
    with Some True show ?thesis by (simp add: resume_run_def hub_ok_pump del: transition_frame)
  qed (use assms Some in \<open>simp add: resume_run_def\<close>)
qed (use assms in \<open>simp add: resume_run_def\<close>)

lemma hub_ok_evaluate_one_gate:
  assumes "hub_ok h"
  shows "hub_ok (fst (evaluate_one_gate env now rid info h))"
proof (cases "parse_gate (ga_expr info)")
  case (Inr expr)
  define v where "v = evaluate_gate (ev_fmt env) expr
      (metric_history rid (gate_metric_key expr) (hb_store h)) now"
  define h1 where "h1 = on_store (record_gate_result GATE_SCOPE_RUN rid (ga_name info) (ve_tripped v)
      (ve_last_value v) (ve_detail v) now) h"
  define h2 where "h2 = (if ve_tripped v \<and> ga_tripped info \<noteq> Some True
      then on_store (add_event now rid EvGateEvaluated (gate_event info (ve_detail v))) h1 else h1)"
  have h1: "hub_ok h1" unfolding h1_def using assms by (intro hub_ok_same_runs) (simp_all add: hub_ok_def)
  then have h2: "hub_ok h2" unfolding h2_def by (auto intro!: hub_ok_same_runs simp: hub_ok_def)
  have "fst (evaluate_one_gate env now rid info h) =
      (if ve_tripped v \<and> ga_action info = StopRun \<and> run_live rid (hb_store h2)
       then fst (stop_run env now rid h2) else h2)"
    unfolding evaluate_one_gate_def Inr sum.case Let_def fst_conv h2_def h1_def v_def by (rule refl)
  with h2 show ?thesis by (simp add: hub_ok_stop_run)
qed (use assms in \<open>simp add: evaluate_one_gate_def\<close>)

lemma hub_ok_evaluate_gates: "hub_ok h \<Longrightarrow> hub_ok (fst (evaluate_gates env now rid h))"
proof -
  have "hub_ok h \<Longrightarrow> hub_ok (fst (evaluate_gates_loop env now rid gs h))" for gs
  proof (induction gs arbitrary: h)
    case (Cons info gs)
    from Cons.IH [OF hub_ok_evaluate_one_gate [OF Cons.prems, of env now rid info]] show ?case
      by (simp add: Let_def case_prod_beta)
  qed simp
  then show "hub_ok h \<Longrightarrow> hub_ok (fst (evaluate_gates env now rid h))"
    by (simp add: evaluate_gates_def)
qed

lemma hub_ok_attach: "hub_ok h \<Longrightarrow> hub_ok (fst (attach env now w tx ls hw h))"
  unfolding attach_def Let_def
  by (intro hub_ok_pump)
     (auto simp: hub_ok_def distinct_alist_put run_live_cong [of "worker_joined _ _ _ _ _"])

lemma hub_ok_requeue_current: "hub_ok h \<Longrightarrow> hub_ok (requeue_current now w h)"
  unfolding requeue_current_def Let_def
  by (auto simp: hub_ok_def set_revoke distinct_revoke run_live_transition split: option.splits)

lemma hub_ok_detach:
  assumes "hub_ok h"
  shows "hub_ok (fst (detach env now w cls h))"
proof -
  have "hub_ok (on_store (worker_left w) (h\<lparr>hb_links := alist_del w (hb_links h)\<rparr>))"
    using assms by (auto simp: hub_ok_def distinct_alist_del run_live_cong [of "worker_left _ _"])
  then show ?thesis
    unfolding detach_def Let_def by (auto intro!: hub_ok_pump hub_ok_requeue_current)
qed

lemma hub_ok_reap_loop: "hub_ok h \<Longrightarrow> hub_ok (fst (reap_loop env now a wks h))"
proof (induction wks arbitrary: h)
  case (Cons wk wks)
  show ?case
  proof (cases "should_reap wk a")
    case True
    let ?cls = "if worker_is_persistent (wi_id wk) (hb_store h) then Persistent else Leased"
    have "hub_ok (fst (detach env now (wi_id wk) ?cls h))" using Cons.prems by (rule hub_ok_detach)
    with True Cons.IH show ?thesis
      by (cases "detach env now (wi_id wk) ?cls h"; cases "snd (detach env now (wi_id wk) ?cls h)")
         (auto simp: Let_def)
  qed (use Cons in simp)
qed simp

lemma hub_ok_requeue_stuck: "hub_ok h \<Longrightarrow> hub_ok (requeue_stuck now r h)"
  unfolding requeue_stuck_def Let_def
  by (auto simp: hub_ok_def set_revoke distinct_revoke run_live_transition split: option.splits)

lemma hub_ok_reap_stuck: "hub_ok h \<Longrightarrow> hub_ok (fst (reap_stuck_assignments_older_than env now a h))"
proof -
  have "hub_ok h \<Longrightarrow> hub_ok (fold (requeue_stuck now) rs h)" for rs
    by (induction rs arbitrary: h) (auto intro: hub_ok_requeue_stuck)
  then show "hub_ok h \<Longrightarrow> hub_ok (fst (reap_stuck_assignments_older_than env now a h))"
    by (simp add: reap_stuck_assignments_older_than_def Let_def hub_ok_pump)
qed

lemma hub_ok_ingest: "hub_ok h \<Longrightarrow> hub_ok (fst (ingest_checkpoint env now rid uri h))"
  unfolding ingest_checkpoint_def Let_def
  by (auto simp: hub_ok_def run_live_cong [of "record_checkpoint _ _ _ _ _ _ _"] case_prod_beta
      split: option.splits sum.splits)

lemma hub_ok_dispatch:
  assumes "hub_ok h"
  shows "hub_ok (fst (dispatch env now w msg h))"
proof -
  have ev: "hub_ok (fst (evaluate_gates env now j (on_store (append_metrics now j k v) h)))" for j k v
    using assms by (intro hub_ok_evaluate_gates hub_ok_same_runs) (simp_all add: hub_ok_def)
  have js: "hub_ok (h\<lparr>hb_store := fst (transition_if_live now j Running (Some w) (hb_store h))\<rparr>)" for j
    using assms by (intro hub_ok_store)
      (auto simp: wf_transition_if_live run_state_transition_if_live run_live_in_def hub_ok_def)
  show ?thesis
    using assms ev js
    by (cases "(env, now, w, msg, h)" rule: dispatch.cases)
       (auto simp: hub_ok_finish_run hub_ok_ingest case_prod_beta Let_def
         intro: hub_ok_same_runs simp: hub_ok_def [of h])
qed

lemma hub_ok_note_seq [simp]: "hub_ok (note_seq w msg h) = hub_ok h"
  by (simp add: note_seq_def split: option.splits)

lemma hub_ok_on_message:
  assumes "hub_ok h"
  shows "hub_ok (fst (on_message env now w msg h))"
proof -
  have "hub_ok (on_store (worker_seen now w) h)"
    using assms by (intro hub_ok_same_runs) (simp_all add: hub_ok_def)
  then show ?thesis by (simp add: on_message_def Let_def hub_ok_dispatch)
qed

lemma create_run_frame:
  "st_sweeps (fst (create_run now n sp er cb sid s)) = st_sweeps s"
  "st_checkpoints (fst (create_run now n sp er cb sid s)) = st_checkpoints s"
  "st_workers (fst (create_run now n sp er cb sid s)) = st_workers s"
  by (auto simp: create_run_def next_run_seq_eq Let_def add_event_def)

lemma run_live_create_run:
  "wf_store s \<Longrightarrow> run_live_in s k \<Longrightarrow> run_live_in (fst (create_run now n sp er cb sid s)) k"
  by (auto simp: run_live_in_def run_state_create_run)

lemma hub_ok_submit:
  assumes "hub_ok h"
  shows "hub_ok (fst (submit env now n sp er cb h))"
proof -
  obtain s rid where c: "create_run now n sp er cb None (hb_store h) = (s, Inr rid)"
    using create_run_ok [of "hb_store h" now n sp er cb None] assms by (auto simp: hub_ok_def)
  have "hub_ok (h\<lparr>hb_store := s\<rparr>)"
    using assms wf_create_run [of "hb_store h" now n sp er cb None]
      run_live_create_run [of "hb_store h" _ now n sp er cb None] c
    by (intro hub_ok_store) (auto simp: hub_ok_def)
  then have "hub_ok (mirror_created env rid sp er (h\<lparr>hb_store := s\<rparr>))" by simp
  from hub_ok_pump [OF this, of env now] show ?thesis
    by (auto simp: submit_def c Let_def split: prod.splits sum.splits)
qed

lemma create_sweep_ok:
  assumes "wf_store s"
  shows "wf_store (fst (create_sweep now n t ax c cb s))"
    "run_state_of (fst (create_sweep now n t ax c cb s)) k = run_state_of s k"
proof -
  have "\<forall>r\<in>set (st_runs s). run_id_minted (seq_now s + 1) (run_key r)"
    using assms by (auto simp: wf_store_def intro: run_id_minted_mono)
  then show "wf_store (fst (create_sweep now n t ax c cb s))"
    using assms by (auto simp: create_sweep_def next_run_seq_eq Let_def wf_store_def seq_now_def)
  show "run_state_of (fst (create_sweep now n t ax c cb s)) k = run_state_of s k"
    by (auto simp: create_sweep_def next_run_seq_eq Let_def run_state_of_def)
qed

lemma create_children_ok:
  assumes "wf_store s"
  shows "wf_store (fst (create_children now n sid cb i specs s)) \<and>
    (run_live_in s k \<longrightarrow> run_live_in (fst (create_children now n sid cb i specs s)) k)"
  using assms
proof (induction specs arbitrary: i s)
  case (Cons sp specs)
  let ?c = "create_run now (n @ ''-'' @ show_pad 3 i) (Train sp) None cb (Some sid) s"
  obtain s1 rid where c: "?c = (s1, Inr rid)"
    using create_run_ok [OF Cons.prems, of now "n @ ''-'' @ show_pad 3 i" "Train sp" None cb "Some sid"]
    by auto
  have w: "wf_store s1" "run_live_in s k \<longrightarrow> run_live_in s1 k"
    using wf_create_run [OF Cons.prems] run_live_create_run [OF Cons.prems, of k] c by (metis fst_conv)+
  from Cons.IH [OF w(1), of "i + 1"] w(2) c show ?case
    by (auto split: prod.splits sum.splits)
qed simp

lemma hub_ok_submit_sweep:
  assumes "hub_ok h"
  shows "hub_ok (fst (submit_sweep env now n spec cb h))"
proof (cases "expand_sweep (ev_show_json env) (sw_template spec) (sw_axes spec)")
  case (Inr children)
  have wf: "wf_store (hb_store h)" using assms by (simp add: hub_ok_def)
  define c where "c = create_sweep now n (sw_template spec) (sw_axes spec) (sw_concurrency spec) cb (hb_store h)"
  have c: "wf_store (fst c)" "run_live_in (fst c) k = run_live_in (hb_store h) k" for k
    using create_sweep_ok [OF wf] unfolding c_def run_live_in_def by simp_all
  then have ok1: "hub_ok (h\<lparr>hb_store := fst c\<rparr>)" using assms by (intro hub_ok_store) simp_all
  show ?thesis
  proof (cases "snd c")
    case (Inl e)
    with ok1 Inr show ?thesis by (auto simp: submit_sweep_def c_def split: prod.splits sum.splits)
  next
    case sid: (Inr sid)
    define d where "d = create_children now n sid cb 0 (map snd children) (fst c)"
    have "wf_store (fst d)" "run_live_in (fst c) k \<Longrightarrow> run_live_in (fst d) k" for k
      using create_children_ok [OF c(1), of now n sid cb 0 "map snd children"] by (simp_all add: d_def)
    then have "hub_ok (h\<lparr>hb_store := fst d\<rparr>)" using assms c by (intro hub_ok_store) simp_all
    with hub_ok_pump [OF this, of env now] Inr sid show ?thesis
      by (auto simp: submit_sweep_def c_def [symmetric] d_def [symmetric] case_prod_beta
          split: sum.splits)
  qed
qed (use assms in \<open>simp add: submit_sweep_def\<close>)

end
