(* ===== verification/Lineage.thy ===== *)
theory Lineage
  imports HubInv
begin

text \<open>
  Checkpoint lineage: the slice history the hub completes a checkpoint's sidecar with. The
  invariant says that every recorded checkpoint, and every remembered resume point, carries a
  contiguous chain of slices that starts at step 0 and ends at its step.
\<close>

fun chain :: "nat \<Rightarrow> (nat \<times> nat) list \<Rightarrow> nat \<Rightarrow> bool" where
  "chain a [] b \<longleftrightarrow> a = b"
| "chain a ((x, y) # r) b \<longleftrightarrow> x = a \<and> chain y r b"

lemma chain_snoc: "chain a (xs @ [(x, y)]) b \<longleftrightarrow> chain a xs x \<and> y = b"
  by (induction xs arbitrary: a) auto

definition ckpt_ok :: "checkpoint_info \<Rightarrow> bool" where
  "ckpt_ok c \<longleftrightarrow> chain 0 (cm_slices (ck_meta c)) (ck_step c)"

definition lineage_ok :: "hub \<Rightarrow> bool" where
  "lineage_ok h \<longleftrightarrow>
     (\<forall>c\<in>set (st_checkpoints (hb_store h)). ckpt_ok (cx_info c)) \<and>
     (\<forall>rid rs. hb_resume h rid = Some rs \<longrightarrow> chain 0 (rz_base_slices rs) (rz_from_step rs))"

lemma lineage_ok_cong:
  "st_checkpoints (hb_store h') = st_checkpoints (hb_store h) \<Longrightarrow>
   (\<And>r. hb_resume h' r = hb_resume h r \<or> hb_resume h' r = None) \<Longrightarrow> lineage_ok h \<Longrightarrow> lineage_ok h'"
  unfolding lineage_ok_def by (metis option.distinct(1))

lemma latest_checkpoint_mem:
  "latest_checkpoint rid s = Some c \<Longrightarrow> \<exists>x\<in>set (st_checkpoints s). cx_info x = c"
proof -
  assume a: "latest_checkpoint rid s = Some c"
  let ?l = "map cx_info (filter (\<lambda>c. ck_run_id (cx_info c) = rid) (st_checkpoints s))"
  from a obtain cs where "order_by_desc ck_step ?l = c # cs"
    by (auto simp: latest_checkpoint_def split: list.splits)
  then have "c \<in> set ?l" by (metis list.set_intros(1) set_order_by_desc)
  then show ?thesis by auto
qed

lemma assemble_job_resume:
  assumes "assemble_job env now rid spec h = (h', r)"
  shows "hb_resume h' = hb_resume h \<or>
    hb_resume h' = (hb_resume h)(rid \<mapsto> resume_state_of (latest_checkpoint rid (hb_store h)))"
proof -
  have rd: "hb_resume (fst (resolve_data env rid d k)) = hb_resume k" for d k
    by (auto simp: resolve_data_def split: option.splits sum.splits)
  have mg: "hb_resume (fst (mint_grant env now rid c h)) = hb_resume h"
    "hb_store (fst (mint_grant env now rid c h)) = hb_store h" for c
    by (simp_all add: mint_grant_def split: prod.splits)
  have "h' = fst (assemble_job env now rid spec h)" using assms by simp
  then show ?thesis
    using rd mg
    by (auto simp: assemble_job_def assemble_train_job_def Let_def case_prod_beta
        split: run_spec.splits option.splits sum.splits)
qed

lemma lineage_ok_assemble:
  assumes "lineage_ok h" "assemble_job env now rid spec h = (h', r)"
  shows "lineage_ok h'"
proof -
  have rs: "chain 0 (rz_base_slices (resume_state_of l)) (rz_from_step (resume_state_of l))"
    if "l = latest_checkpoint rid (hb_store h)" for l
  proof (cases l)
    case (Some c)
    with that latest_checkpoint_mem obtain x where "x \<in> set (st_checkpoints (hb_store h))" "cx_info x = c"
      by metis
    with assms(1) Some show ?thesis
      by (auto simp: lineage_ok_def ckpt_ok_def resume_state_of_def)
  qed (simp add: resume_state_of_def default_resume_state_def)
  from assemble_job_frame [OF assms(2)] obtain ev where "hb_store h' = (hb_store h)\<lparr>st_events := ev\<rparr>"
    by blast
  then have "st_checkpoints (hb_store h') = st_checkpoints (hb_store h)" by simp
  with assemble_job_resume [OF assms(2)] rs assms(1) show ?thesis
    by (auto simp: lineage_ok_def split: if_splits)
qed

lemma assign_run_resume: "hb_resume (fst (assign_run now w rid job h)) = hb_resume h"
  by (auto simp: assign_run_def Let_def send_to_def revoke_grants_def split: option.splits prod.splits)

lemma assign_run_checkpoints:
  "st_checkpoints (hb_store (fst (assign_run now w rid job h))) = st_checkpoints (hb_store h)"
  by (simp add: assign_run_frame assign_store_def Let_def)

lemma lineage_ok_pump: "lineage_ok h \<Longrightarrow> lineage_ok (fst (pump env now h))"
proof (rule pump_invariant [of lineage_ok])
  fix h1 dead assume "lineage_ok h1"
  then show "lineage_ok (drop_links dead h1)" by (simp add: lineage_ok_def drop_links_def)
next
  fix h1 h2 w wk run job
  assume l: "lineage_ok h1" and
    a: "assemble_job env now (rs_id (rr_summary run)) (rr_spec run) h1 = (h2, Inr job)"
  show "lineage_ok (fst (assign_run now w (rs_id (rr_summary run)) job h2))"
    by (rule lineage_ok_cong [OF _ _ lineage_ok_assemble [OF l a]])
       (simp_all add: assign_run_resume assign_run_checkpoints)
qed (blast intro: lineage_ok_assemble)+

subsection \<open>The handlers\<close>

lemma checkpoints_frames [simp]:
  "st_checkpoints (append_log t r l s) = st_checkpoints s"
  "st_checkpoints (append_metrics t r k v s) = st_checkpoints s"
  "st_checkpoints (record_worker_samples t w v s) = st_checkpoints s"
  "st_checkpoints (worker_seen t w s) = st_checkpoints s"
  "st_checkpoints (worker_left w s) = st_checkpoints s"
  "st_checkpoints (worker_joined t w ls hw s) = st_checkpoints s"
  "st_checkpoints (record_gate_result a b c d e f g s) = st_checkpoints s"
  "st_checkpoints (fst (transition_if_live t r st w' s)) = st_checkpoints s"
  "st_checkpoints (fst (create_sweep t n tm ax cc cb s)) = st_checkpoints s"
  by (simp_all add: append_log_def append_metrics_def record_worker_samples_def worker_seen_def
      worker_left_def worker_joined_def record_gate_result_def transition_if_live_def
      create_sweep_def next_run_seq_eq add_event_def Let_def split: option.splits)

lemma lineage_ok_frame [simp]:
  "lineage_ok (h\<lparr>hb_blobs := b\<rparr>) = lineage_ok h" "lineage_ok (h\<lparr>hb_grants := g\<rparr>) = lineage_ok h"
  "lineage_ok (h\<lparr>hb_links := k\<rparr>) = lineage_ok h" "lineage_ok (h\<lparr>hb_high_water := y\<rparr>) = lineage_ok h"
  "lineage_ok (mirror_state e r st h) = lineage_ok h" "lineage_ok (mirror_created e r sp er h) = lineage_ok h"
  "lineage_ok (mirror_checkpoint e r s u m h) = lineage_ok h"
  "lineage_ok (revoke_grants r h) = lineage_ok h" "lineage_ok (note_seq w' m' h) = lineage_ok h"
  by (simp_all add: lineage_ok_def mirror_state_def mirror_created_def mirror_checkpoint_def
      revoke_grants_def note_seq_def split: option.splits)

lemma lineage_ok_store [simp]:
  "st_checkpoints s = st_checkpoints (hb_store h) \<Longrightarrow> lineage_ok (h\<lparr>hb_store := s\<rparr>) = lineage_ok h"
  by (simp add: lineage_ok_def)

lemma lineage_ok_forget: "lineage_ok h \<Longrightarrow> lineage_ok (h\<lparr>hb_resume := (hb_resume h)(r := None)\<rparr>)"
  by (rule lineage_ok_cong [of _ h]) auto

lemma lineage_ok_send: "lineage_ok (fst (send_to w m h)) = lineage_ok h"
  by (auto simp: send_to_def split: option.splits)

lemma lineage_ok_cancel_now: "lineage_ok h \<Longrightarrow> lineage_ok (fst (cancel_now env now rid w h))"
  unfolding cancel_now_def Let_def
  by (intro lineage_ok_pump) (auto intro!: lineage_ok_forget split: option.splits)

lemma lineage_ok_finish_run: "lineage_ok h \<Longrightarrow> lineage_ok (fst (finish_run env now w rid st c h))"
  unfolding finish_run_def Let_def
  by (intro lineage_ok_pump) (auto intro!: lineage_ok_forget)

lemma lineage_ok_stop_run: "lineage_ok h \<Longrightarrow> lineage_ok (fst (stop_run env now rid h))"
  using lineage_ok_send [of _ _ h] lineage_ok_cancel_now
  by (auto simp: stop_run_def split: option.splits prod.splits bool.splits) (metis fst_conv)+

lemma lineage_ok_resume_run: "lineage_ok h \<Longrightarrow> lineage_ok (fst (resume_run env now rid h))"
  by (auto simp: resume_run_def intro!: lineage_ok_pump split: option.splits)

lemma lineage_ok_evaluate_gates: "lineage_ok h \<Longrightarrow> lineage_ok (fst (evaluate_gates env now rid h))"
proof -
  have one: "lineage_ok h \<Longrightarrow> lineage_ok (fst (evaluate_one_gate env now rid info h))" for info h
    unfolding evaluate_one_gate_def Let_def
    by (auto intro!: lineage_ok_stop_run split: sum.splits)
  have "lineage_ok h \<Longrightarrow> lineage_ok (fst (evaluate_gates_loop env now rid gs h))" for gs
    by (induction gs arbitrary: h) (auto simp: Let_def case_prod_beta intro: one)
  then show "lineage_ok h \<Longrightarrow> lineage_ok (fst (evaluate_gates env now rid h))"
    by (simp add: evaluate_gates_def)
qed

lemma lineage_ok_attach: "lineage_ok h \<Longrightarrow> lineage_ok (fst (attach env now w tx ls hw h))"
  unfolding attach_def Let_def by (intro lineage_ok_pump) simp

lemma lineage_ok_detach: "lineage_ok h \<Longrightarrow> lineage_ok (fst (detach env now w cls h))"
  unfolding detach_def Let_def requeue_current_def
  by (auto intro!: lineage_ok_pump split: option.splits)

lemma lineage_ok_reap_loop: "lineage_ok h \<Longrightarrow> lineage_ok (fst (reap_loop env now a wks h))"
proof (induction wks arbitrary: h)
  case (Cons wk wks)
  let ?cls = "if worker_is_persistent (wi_id wk) (hb_store h) then Persistent else Leased"
  from Cons.prems have "lineage_ok (fst (detach env now (wi_id wk) ?cls h))" by (rule lineage_ok_detach)
  with Cons show ?case
    by (cases "detach env now (wi_id wk) ?cls h"; cases "snd (detach env now (wi_id wk) ?cls h)")
       (auto simp: Let_def)
qed simp

lemma lineage_ok_reap_stuck:
  "lineage_ok h \<Longrightarrow> lineage_ok (fst (reap_stuck_assignments_older_than env now a h))"
proof -
  have "lineage_ok h \<Longrightarrow> lineage_ok (requeue_stuck now r h)" for r h
    unfolding requeue_stuck_def Let_def by (auto split: option.splits)
  then have "lineage_ok h \<Longrightarrow> lineage_ok (fold (requeue_stuck now) rs h)" for rs
    by (induction rs arbitrary: h) auto
  then show "lineage_ok h \<Longrightarrow> lineage_ok (fst (reap_stuck_assignments_older_than env now a h))"
    by (simp add: reap_stuck_assignments_older_than_def Let_def lineage_ok_pump)
qed

lemma complete_meta_slices:
  "cm_slices (complete_meta env rid step h) =
     (case hb_resume h rid of Some r \<Rightarrow> rz_base_slices r @ [(rz_from_step r, step)] | None \<Rightarrow> [(0, step)])"
  by (auto simp: complete_meta_def Let_def default_resume_state_def split: option.splits)

lemma set_upsert: "x \<in> set (upsert key new f rows) \<Longrightarrow> x = new \<or> x \<in> set rows \<or> (\<exists>r\<in>set rows. x = f r \<and> key r = key new)"
  by (auto simp: upsert_def set_update_where split: if_splits)

lemma lineage_ok_ingest:
  assumes "lineage_ok h"
  shows "lineage_ok (fst (ingest_checkpoint env now rid uri h))"
proof (cases "step_from_uri uri")
  case (Some step)
  let ?m = "complete_meta env rid step h"
  have ch: "chain 0 (cm_slices ?m) step"
    using assms by (auto simp: complete_meta_slices lineage_ok_def chain_snoc split: option.splits)
  have rec: "\<forall>c\<in>set (st_checkpoints (record_checkpoint now rid step u mh ?m s)). ckpt_ok (cx_info c)"
    if "\<forall>c\<in>set (st_checkpoints s). ckpt_ok (cx_info c)" for u mh s
    using that ch by (auto simp: record_checkpoint_def ckpt_ok_def dest!: set_upsert)
  then have "lineage_ok (h\<lparr>hb_blobs := b,
      hb_store := add_event t r e d (record_checkpoint now rid step u mh ?m (hb_store h))\<rparr>)"
    for b u mh t r e d
    using assms rec [of "hb_store h" u mh] by (simp add: lineage_ok_def)
  with assms Some show ?thesis
    by (auto simp: ingest_checkpoint_def Let_def case_prod_beta split: sum.splits)
qed (use assms in \<open>simp add: ingest_checkpoint_def\<close>)

lemma lineage_ok_dispatch: "lineage_ok h \<Longrightarrow> lineage_ok (fst (dispatch env now w msg h))"
  by (cases "(env, now, w, msg, h)" rule: dispatch.cases)
     (auto simp: lineage_ok_finish_run lineage_ok_ingest case_prod_beta Let_def
       intro!: lineage_ok_evaluate_gates)

lemma lineage_ok_on_message: "lineage_ok h \<Longrightarrow> lineage_ok (fst (on_message env now w msg h))"
  by (simp add: on_message_def Let_def lineage_ok_dispatch)

lemma lineage_ok_submit: "lineage_ok h \<Longrightarrow> lineage_ok (fst (submit env now n sp er cb h))"
proof -
  assume l: "lineage_ok h"
  obtain s r where c: "create_run now n sp er cb None (hb_store h) = (s, r)" by (metis surj_pair)
  have "st_checkpoints s = st_checkpoints (hb_store h)"
    using create_run_frame(2) [of now n sp er cb None "hb_store h"] c by simp
  then have "lineage_ok (h\<lparr>hb_store := s\<rparr>)" using l by simp
  then show ?thesis
    using lineage_ok_pump [of "mirror_created env _ sp er (h\<lparr>hb_store := s\<rparr>)" env now]
    by (auto simp: submit_def c Let_def split: prod.splits sum.splits)
      (metis fst_conv lineage_ok_frame(6))+
qed

lemma lineage_ok_submit_sweep: "lineage_ok h \<Longrightarrow> lineage_ok (fst (submit_sweep env now n spec cb h))"
proof -
  have cc: "st_checkpoints (fst (create_children now n sid cb i specs s)) = st_checkpoints s" for sid i specs s
  proof (induction specs arbitrary: i s)
    case (Cons sp specs)
    let ?c = "create_run now (n @ ''-'' @ show_pad 3 i) (Train sp) None cb (Some sid) s"
    have "st_checkpoints (fst ?c) = st_checkpoints s" by (rule create_run_frame)
    with Cons show ?case by (auto split: prod.splits sum.splits) (metis fst_conv)+
  qed simp
  show "lineage_ok h \<Longrightarrow> lineage_ok (fst (submit_sweep env now n spec cb h))"
    unfolding submit_sweep_def
    by (auto split: sum.splits simp: case_prod_beta cc intro!: lineage_ok_pump)
qed

end
