(* ===== verification/HubSystem.thy ===== *)
theory HubSystem
  imports Lineage
begin

text \<open>
  The hub as a transition system: one step per handler call, in any order and with any
  arguments, interleaved with the websocket tasks closing their channels, the transfer
  endpoints, and the writes other components make to the store. Invariants of all reachable
  states follow by rule induction.
\<close>

text \<open>Writes to the store that do not go through the hub: the API and the lease manager.\<close>

inductive side_write :: "store \<Rightarrow> store \<Rightarrow> bool" where
  Register_unit: "side_write s (register_code_unit now code manifest uri s)"
| Register_gate: "side_write s (register_gate now scope scope_id name expr action s)"
| Create_lease: "side_write s (create_lease l s)"
| Lease_state: "side_write s (set_lease_state w st s)"
| Extend_lease: "side_write s (fst (store_extend_lease w ext s))"
| Ledger: "side_write s (ledger_append e s)"
| Set_budget: "side_write s (set_budget b s)"
| Pin: "side_write s (fst (pin_checkpoint rid step name s))"
| Locate: "side_write s (set_checkpoint_location rid step loc s)"
| Archive: "side_write s (mark_checkpoint_archived rid step ids ts s)"
| Token: "create_worker_token now kid w name prefix hash s = Inr s' \<Longrightarrow> side_write s s'"
| Revoke_token: "side_write s (fst (revoke_worker_token now kid s))"
| Touch_token: "side_write s (touch_worker_token kid ts s)"
| Create_join: "create_join_token now tid w hash expires s = Inr s' \<Longrightarrow> side_write s s'"
| Use_join: "side_write s (fst (resolve_join_token hash ts s))"
| Delete_budget: "side_write s (fst (delete_budget scope s))"
| Ensure_team: "side_write s (ensure_team now tid name s)"
| Upsert_user: "side_write s (upsert_user now email tid r s)"
| Remove_user: "side_write s (remove_user email s)"
| Experiments_key: "side_write s (set_user_experiments_key now email enc s)"
| Create_key: "create_api_key now kid tid creator name prefix hash r s = Inr s' \<Longrightarrow> side_write s s'"
| Revoke_key: "side_write s (fst (revoke_api_key now kid s))"
| Touch_key: "side_write s (touch_api_key kid ts s)"
| Worker_gone: "side_write s (worker_left w s)"
| Outbox_add: "side_write s (fst (enqueue_outbox_event rid kind payload ts s))"
| Outbox_done: "side_write s (mark_outbox_event_done now i s)"
| Outbox_failed: "side_write s (mark_outbox_event_failed i err next s)"

definition close_link :: "worker_id \<Rightarrow> hub \<Rightarrow> hub" where
  "close_link w h =
     h\<lparr>hb_links := map (\<lambda>(v, l). (v, if v = w then l\<lparr>lk_open := False\<rparr> else l)) (hb_links h)\<rparr>"

definition fresh_link :: "nat \<Rightarrow> link" where
  "fresh_link session = \<lparr>lk_session = session, lk_open = True, lk_sent = []\<rparr>"

definition hub_upload ::
  "hub_env \<Rightarrow> unix_seconds \<Rightarrow> string option \<Rightarrow> string \<Rightarrow> string \<Rightarrow> hub \<Rightarrow> hub \<times> response" where
  "hub_upload env now header key body h =
     (case upload now (ev_root env) header key body (hb_grants h) (hb_blobs h) of
        ((t, b), resp) \<Rightarrow> (h\<lparr>hb_grants := t, hb_blobs := b\<rparr>, resp))"

definition hub_fetch ::
  "unix_seconds \<Rightarrow> string option \<Rightarrow> string \<Rightarrow> hub \<Rightarrow> hub \<times> response" where
  "hub_fetch now header key h =
     (case fetch now header key (hb_grants h) (hb_blobs h) of
        (t, resp) \<Rightarrow> (h\<lparr>hb_grants := t\<rparr>, resp))"

inductive hub_step :: "hub_env \<Rightarrow> hub \<Rightarrow> hub \<Rightarrow> bool" for env where
  Attach: "hub_step env h (fst (attach env now w (fresh_link n) labels hw h))"
| Close: "hub_step env h (close_link w h)"
| Detach: "hub_step env h (fst (detach env now w cls h))"
| Message: "hub_step env h (fst (on_message env now w msg h))"
| Submit: "hub_step env h (fst (submit env now name spec er cb h))"
| Submit_sweep: "hub_step env h (fst (submit_sweep env now name sw cb h))"
| Stop: "hub_step env h (fst (stop_run env now rid h))"
| Resume: "hub_step env h (fst (resume_run env now rid h))"
| Check_gates: "hub_step env h (fst (evaluate_gates env now rid h))"
| Pump: "hub_step env h (fst (pump env now h))"
| Reap_stale: "hub_step env h (fst (reap_stale_workers env now h))"
| Reap_stuck: "hub_step env h (fst (reap_stuck_assignments env now h))"
| Upload: "hub_step env h (fst (hub_upload env now header key body h))"
| Fetch: "hub_step env h (fst (hub_fetch now header key h))"
| Uuid: "hub_step env h (h\<lparr>hb_uuids := n\<rparr>)"
| Drain_worker: "hub_step env h (fst (send_to w (Drain deadline) h))"
| Put_blob: "hub_step env h (h\<lparr>hb_blobs := fst (fs_put (ev_root env) key body (hb_blobs h))\<rparr>)"
| Copy_blob: "hub_step env h (h\<lparr>hb_blobs := fst (fs_copy from to (hb_blobs h))\<rparr>)"
| Mirrored: "hub_step env h (on_store (set_experiments_run_id rid ext) h)"
| Side: "side_write (hb_store h) s \<Longrightarrow> hub_step env h (h\<lparr>hb_store := s\<rparr>)"

inductive_cases side_writeE: "side_write s s'"
inductive_cases hub_stepE: "hub_step env h h'"

definition hub_init :: hub where
  "hub_init = new_hub empty_store Map.empty"

inductive hub_reach :: "hub_env \<Rightarrow> hub \<Rightarrow> bool" for env where
  Init: "hub_reach env hub_init"
| Step: "hub_reach env h \<Longrightarrow> hub_step env h h' \<Longrightarrow> hub_reach env h'"

subsection \<open>The invariants hold in every reachable state\<close>

lemmas side_defs = store_extend_lease_def pin_checkpoint_def set_checkpoint_location_def
  mark_checkpoint_archived_def create_worker_token_def revoke_worker_token_def Let_def
  touch_worker_token_def create_join_token_def resolve_join_token_def delete_budget_def
  ensure_team_def upsert_user_def remove_user_def set_user_experiments_key_def create_api_key_def
  revoke_api_key_def touch_api_key_def register_code_unit_def register_gate_def create_lease_def
  set_lease_state_def ledger_append_def set_budget_def worker_left_def enqueue_outbox_event_def
  mark_outbox_event_done_def mark_outbox_event_failed_def

lemma side_write_runs: "side_write s s' \<Longrightarrow> st_runs s' = st_runs s"
  by (erule side_writeE) (auto simp: side_defs split: option.splits if_splits)

lemma side_write_wf: "side_write s s' \<Longrightarrow> wf_store s \<Longrightarrow> wf_store s'"
  by (erule side_writeE)
     (auto simp: side_defs wf_store_def seq_now_def pk_update_where pk_upsert
       split: option.splits if_splits)

lemma side_write_lineage:
  assumes "side_write s s'" "\<forall>c\<in>set (st_checkpoints s). ckpt_ok (cx_info c)"
  shows "\<forall>c\<in>set (st_checkpoints s'). ckpt_ok (cx_info c)"
  using assms
  by (elim side_writeE)
     (auto simp: side_defs set_update_where ckpt_ok_def split: option.splits if_splits)

lemma hub_ok_grants_subset:
  assumes "hub_ok h" "set t \<subseteq> set (hb_grants h)" "distinct (map fst t)"
  shows "hub_ok (h\<lparr>hb_grants := t\<rparr>)"
  using assms by (auto simp: hub_ok_def)

lemma authorize_subset: "set (fst (authorize now hd' t)) \<subseteq> set t"
  by (auto simp: authorize_def grant_resolve_def alist_del_def split: option.splits)

lemma distinct_authorize:
  "distinct (map fst t) \<Longrightarrow> distinct (map fst (fst (authorize now hd' t)))"
  by (auto simp: authorize_def grant_resolve_def distinct_alist_del split: option.splits)

lemma upload_grants: "fst (fst (upload now dir hd' key body t b)) = fst (authorize now hd' t)"
  by (auto simp: upload_def split: prod.splits option.splits sum.splits)

lemma fetch_grants: "fst (fetch now hd' key t b) = fst (authorize now hd' t)"
  by (auto simp: fetch_def split: prod.splits option.splits)

lemma hub_ok_hub_upload: "hub_ok h \<Longrightarrow> hub_ok (fst (hub_upload env now hd' key body h))"
proof -
  assume h: "hub_ok h"
  have "fst (hub_upload env now hd' key body h) = (h\<lparr>hb_grants := fst (authorize now hd' (hb_grants h))\<rparr>)
      \<lparr>hb_blobs := snd (fst (upload now (ev_root env) hd' key body (hb_grants h) (hb_blobs h)))\<rparr>"
    using upload_grants [of now "ev_root env" hd' key body "hb_grants h" "hb_blobs h"]
    by (simp add: hub_upload_def case_prod_beta)
  with hub_ok_grants_subset [OF h authorize_subset distinct_authorize] h show ?thesis
    by (simp add: hub_ok_def [of h])
qed

lemma hub_ok_hub_fetch: "hub_ok h \<Longrightarrow> hub_ok (fst (hub_fetch now hd' key h))"
  using hub_ok_grants_subset [OF _ authorize_subset distinct_authorize, of h]
  by (simp add: hub_fetch_def case_prod_beta fetch_grants hub_ok_def [of h])

lemma run_state_set_experiments [simp]: "run_state_of (set_experiments_run_id rid ext s) = run_state_of s"
  by (rule ext) (auto simp: run_state_of_def set_experiments_run_id_def row_of_update_where option.map_comp comp_def
      intro!: map_option_cong)

lemma run_live_set_experiments [simp]: "run_live_in (set_experiments_run_id rid ext s) = run_live_in s"
  by (rule ext) (simp add: run_live_in_def)

lemma hub_ok_mirrored: "hub_ok h \<Longrightarrow> hub_ok (on_store (set_experiments_run_id rid ext) h)"
proof (rule hub_ok_store)
  assume h: "hub_ok h"
  then show "wf_store (set_experiments_run_id rid ext (hb_store h))"
    by (auto simp: hub_ok_def wf_store_def set_experiments_run_id_def seq_now_def set_update_where pk_update_where)
qed simp_all

lemma hub_ok_step:
  assumes "hub_step env h h'" "hub_ok h"
  shows "hub_ok h'"
  using assms(1)
proof (cases rule: hub_step.cases)
  case (Close w)
  have "map fst (hb_links (close_link w h)) = map fst (hb_links h)"
    by (simp add: close_link_def comp_def case_prod_beta)
  with assms(2) Close show ?thesis by (auto simp: hub_ok_def) (auto simp: close_link_def)
next
  case (Side s)
  have "run_live_in s = run_live_in (hb_store h)"
    by (simp add: fun_eq_iff run_live_in_def run_state_of_def side_write_runs [OF Side(2)])
  with assms(2) Side show ?thesis by (auto simp: hub_ok_def dest: side_write_wf)
next
  case (Uuid n)
  with assms(2) show ?thesis by (simp add: hub_ok_def)
qed (use assms(2) in \<open>simp_all add: hub_ok_attach hub_ok_detach hub_ok_on_message hub_ok_submit
      hub_ok_submit_sweep hub_ok_stop_run hub_ok_resume_run hub_ok_evaluate_gates hub_ok_pump
      reap_stale_workers_def reap_stale_workers_older_than_def hub_ok_reap_loop
      reap_stuck_assignments_def hub_ok_reap_stuck hub_ok_hub_upload hub_ok_hub_fetch
      hub_ok_send hub_ok_mirrored\<close>)

lemma lineage_ok_step:
  assumes "hub_step env h h'" "lineage_ok h"
  shows "lineage_ok h'"
  using assms(1)
proof (cases rule: hub_step.cases)
  case (Side s)
  with assms(2) show ?thesis by (auto simp: lineage_ok_def dest: side_write_lineage)
next
  case (Uuid n)
  with assms(2) show ?thesis by (simp add: lineage_ok_def)
next
  case (Mirrored rid ext)
  with assms(2) show ?thesis by (simp add: lineage_ok_def set_experiments_run_id_def)
qed (use assms(2) in \<open>simp_all add: lineage_ok_attach lineage_ok_detach lineage_ok_on_message
      lineage_ok_submit lineage_ok_submit_sweep lineage_ok_stop_run lineage_ok_resume_run
      lineage_ok_evaluate_gates lineage_ok_pump reap_stale_workers_def
      reap_stale_workers_older_than_def lineage_ok_reap_loop reap_stuck_assignments_def
      lineage_ok_reap_stuck hub_upload_def hub_fetch_def close_link_def case_prod_beta
      lineage_ok_send lineage_ok_frame\<close>)

lemma reach_hub_ok: "hub_reach env h \<Longrightarrow> hub_ok h"
proof (induction rule: hub_reach.induct)
  case Init
  show ?case unfolding hub_init_def by (rule hub_ok_new [OF wf_empty_store])
qed (rule hub_ok_step)

lemma reach_lineage_ok: "hub_reach env h \<Longrightarrow> lineage_ok h"
proof (induction rule: hub_reach.induct)
  case Init
  show ?case by (simp add: lineage_ok_def hub_init_def new_hub_def empty_store_def)
qed (rule lineage_ok_step)

lemma hub_ok_grants_sound: "hub_ok h \<Longrightarrow> grants_sound (hb_grants h)"
proof -
  assume h: "hub_ok h"
  have "CHR ''/'' \<notin> set k" if "run_live_in (hb_store h) k" for k
  proof -
    from that obtain x where "x \<in> set (st_runs (hb_store h))" "run_key x = k"
      by (auto simp: run_live_in_def run_state_of_def dest: row_of_SomeD)
    with h have "run_id_minted (seq_now (hb_store h)) k" by (auto simp: hub_ok_def wf_store_def)
    then show ?thesis
      using slash_notin_stamped_id by (auto simp: run_id_minted_def new_run_id_def)
  qed
  with h show ?thesis by (auto simp: hub_ok_def grants_sound_def)
qed

end
