(* ===== verification/RunLife.thy ===== *)
theory RunLife
  imports HubSystem
begin

text \<open>
  The life of a run across the hub's handlers: once a run has ended, which operations can change
  its state at all. The \<open>kept\<close> lemmas say that a handler leaves every ended run's state alone;
  \<open>hub_step_revives\<close> lists the only ways back to a live state.
\<close>

definition ended :: "hub \<Rightarrow> run_id \<Rightarrow> bool" where
  "ended h k \<longleftrightarrow> (\<exists>st. run_state_of (hb_store h) k = Some st \<and> is_terminal st)"

definition kept :: "hub \<Rightarrow> hub \<Rightarrow> run_id \<Rightarrow> bool" where
  "kept h h' k \<longleftrightarrow> (ended h k \<longrightarrow> run_state_of (hb_store h') k = run_state_of (hb_store h) k)"

named_theorems kept_intros

lemma ended_kept: "ended h k \<Longrightarrow> kept h h' k \<Longrightarrow> ended h' k"
  by (auto simp: ended_def kept_def)

lemma kept_refl [simp]: "kept h h k"
  by (simp add: kept_def)

lemma kept_trans: "kept h h1 k \<Longrightarrow> kept h1 h2 k \<Longrightarrow> kept h h2 k"
  by (auto simp: kept_def ended_def)

lemma kept_same:
  "run_state_of (hb_store h') k = run_state_of (hb_store h) k \<Longrightarrow> kept h h' k"
  by (simp add: kept_def)

lemma run_state_cong: "st_runs s' = st_runs s \<Longrightarrow> run_state_of s' k = run_state_of s k"
  by (simp add: run_state_of_def)

lemma kept_same_runs: "st_runs (hb_store h') = st_runs (hb_store h) \<Longrightarrow> kept h h' k"
  by (rule kept_same) (rule run_state_cong)

lemma kept_pump: "hub_ok h \<Longrightarrow> kept h (fst (pump env now h)) k"
  using pump_states [of h env now k] by (auto simp: kept_def ended_def)

lemma kept_pump_after: "kept h h1 k \<Longrightarrow> hub_ok h1 \<Longrightarrow> kept h (fst (pump env now h1)) k"
  by (rule kept_trans [OF _ kept_pump])

subsection \<open>Handlers that leave ended runs alone\<close>

lemma cancel_now_state:
  assumes "hub_ok h"
  shows "k \<noteq> rid \<Longrightarrow> kept h (fst (cancel_now env now rid w h)) k"
    and "run_state_of (hb_store h) rid \<noteq> None \<Longrightarrow>
      run_state_of (hb_store (fst (cancel_now env now rid w h))) rid = Some Cancelled"
proof -
  define h5 where "h5 = (let h1 = revoke_grants rid h;
          h2 = on_store (transition now rid Cancelled None (Some EXIT_CODE_CANCELLED)
                           (reason_json ''operator_cancel'')) h1;
          h3 = mirror_state env rid Cancelled h2;
          h4 = h3\<lparr>hb_resume := (hb_resume h3)(rid := None)\<rparr>
      in case w of Some w \<Rightarrow> on_store (set_worker_run w None) h4 | None \<Rightarrow> h4)"
  have c: "cancel_now env now rid w h = pump env now h5"
    by (simp add: cancel_now_def h5_def Let_def)
  have ok: "hub_ok h5" using assms unfolding h5_def Let_def
    by (auto simp: hub_ok_def set_revoke distinct_revoke run_live_transition split: option.splits)
  have st: "run_state_of (hb_store h5) k =
      (if k = rid then map_option (\<lambda>_. Cancelled) (run_state_of (hb_store h) k)
       else run_state_of (hb_store h) k)" for k
    by (simp add: h5_def Let_def split: option.splits)
  show "kept h (fst (cancel_now env now rid w h)) k" if "k \<noteq> rid"
    unfolding c by (rule kept_pump_after [OF _ ok]) (simp add: kept_def st that)
  show "run_state_of (hb_store (fst (cancel_now env now rid w h))) rid = Some Cancelled"
    if "run_state_of (hb_store h) rid \<noteq> None"
    using pump_states [OF ok, of env now rid] that unfolding c by (auto simp: st)
qed

lemma finish_run_state:
  assumes "hub_ok h"
  shows "k \<noteq> rid \<Longrightarrow> kept h (fst (finish_run env now w rid st c h)) k"
    and "run_state_of (hb_store h) rid \<noteq> None \<Longrightarrow> is_terminal st \<Longrightarrow>
      run_state_of (hb_store (fst (finish_run env now w rid st c h))) rid = Some st"
proof -
  define h5 where "h5 = (let h1 = revoke_grants rid h;
          h2 = on_store (transition now rid st (Some w) (Some c) JNull) h1;
          h3 = mirror_state env rid st h2;
          h4 = h3\<lparr>hb_resume := (hb_resume h3)(rid := None)\<rparr>
      in on_store (set_worker_run w None) h4)"
  have f: "finish_run env now w rid st c h = pump env now h5"
    by (simp add: finish_run_def h5_def Let_def)
  have ok: "hub_ok h5" using assms unfolding h5_def Let_def
    by (auto simp: hub_ok_def set_revoke distinct_revoke run_live_transition)
  have s5: "run_state_of (hb_store h5) k =
      (if k = rid then map_option (\<lambda>_. st) (run_state_of (hb_store h) k)
       else run_state_of (hb_store h) k)" for k
    by (simp add: h5_def Let_def)
  show "kept h (fst (finish_run env now w rid st c h)) k" if "k \<noteq> rid"
    unfolding f by (rule kept_pump_after [OF _ ok]) (simp add: kept_def s5 that)
  show "run_state_of (hb_store (fst (finish_run env now w rid st c h))) rid = Some st"
    if "run_state_of (hb_store h) rid \<noteq> None" "is_terminal st"
    using pump_states [OF ok, of env now rid] that unfolding f by (auto simp: s5)
qed

lemma kept_send: "kept h (fst (send_to w m h)) k"
  by (simp add: kept_def)

lemma kept_stop_run:
  assumes "hub_ok h"
  shows "kept h (fst (stop_run env now rid h)) k"
proof (cases "store_run rid (hb_store h)")
  case (Some run)
  show ?thesis
  proof (cases "is_terminal (rs_state (rr_summary run))")
    case False
    have "kept h (fst (cancel_now env now rid w h')) k"
      if "hub_ok h'" "hb_store h' = hb_store h" for w h'
    proof (cases "k = rid")
      case True
      with False store_run_state [OF Some] show ?thesis by (simp add: kept_def ended_def)
    next
      case False
      have "kept h h' k" by (simp add: kept_def that)
      then show ?thesis by (rule kept_trans) (rule cancel_now_state(1) [OF that(1) False])
    qed
    with assms hub_ok_send [OF assms] kept_send [of h] False Some show ?thesis
      by (auto simp: stop_run_def split: option.splits prod.splits bool.splits)
         (metis fst_conv send_to_frame(1))+
  qed (simp add: stop_run_def Some)
qed (simp add: stop_run_def)

lemma kept_evaluate_one_gate:
  assumes "hub_ok h"
  shows "kept h (fst (evaluate_one_gate env now rid info h)) k"
proof (cases "parse_gate (ga_expr info)")
  case (Inr expr)
  define v where "v = evaluate_gate (ev_fmt env) expr
      (metric_history rid (gate_metric_key expr) (hb_store h)) now"
  define h1 where "h1 = on_store (record_gate_result GATE_SCOPE_RUN rid (ga_name info) (ve_tripped v)
      (ve_last_value v) (ve_detail v) now) h"
  define h2 where "h2 = (if ve_tripped v \<and> ga_tripped info \<noteq> Some True
      then on_store (add_event now rid EvGateEvaluated (gate_event info (ve_detail v))) h1 else h1)"
  have ok: "hub_ok h2" using assms unfolding h2_def h1_def
    by (auto intro!: hub_ok_same_runs simp: hub_ok_def [of h] run_live_cong [of "record_gate_result _ _ _ _ _ _ _ _"])
  have "kept h h2 k" unfolding h2_def h1_def by (rule kept_same_runs) simp
  then have "kept h (fst (stop_run env now rid h2)) k" by (rule kept_trans) (rule kept_stop_run [OF ok])
  moreover have "fst (evaluate_one_gate env now rid info h) =
      (if ve_tripped v \<and> ga_action info = StopRun \<and> run_live rid (hb_store h2)
       then fst (stop_run env now rid h2) else h2)"
    unfolding evaluate_one_gate_def Inr sum.case Let_def fst_conv h2_def h1_def v_def by (rule refl)
  ultimately show ?thesis using \<open>kept h h2 k\<close> by simp
qed (simp add: evaluate_one_gate_def)

lemma kept_evaluate_gates: "hub_ok h \<Longrightarrow> kept h (fst (evaluate_gates env now rid h)) k"
proof -
  have "hub_ok h \<Longrightarrow> kept h (fst (evaluate_gates_loop env now rid gs h)) k" for gs
  proof (induction gs arbitrary: h)
    case (Cons info gs)
    have "kept h (fst (evaluate_gates_loop env now rid gs (fst (evaluate_one_gate env now rid info h)))) k"
      by (rule kept_trans [OF kept_evaluate_one_gate Cons.IH])
         (simp_all add: Cons.prems hub_ok_evaluate_one_gate)
    then show ?case by (simp add: Let_def case_prod_beta)
  qed simp
  then show "hub_ok h \<Longrightarrow> kept h (fst (evaluate_gates env now rid h)) k"
    by (simp add: evaluate_gates_def)
qed

lemma kept_ingest: "kept h (fst (ingest_checkpoint env now rid uri h)) k"
  by (rule kept_same_runs)
     (simp add: ingest_checkpoint_def Let_def case_prod_beta split: option.splits sum.splits)

lemma kept_attach:
  assumes "hub_ok h"
  shows "kept h (fst (attach env now w tx ls hw h)) k"
proof -
  have ok: "hub_ok ((on_store (worker_joined now w ls hw) h)\<lparr>hb_links := alist_put w tx (hb_links h)\<rparr>)"
    using assms by (auto simp: hub_ok_def distinct_alist_put run_live_cong [of "worker_joined _ _ _ _ _"])
  show ?thesis unfolding attach_def Let_def
    by (rule kept_pump_after) (use ok in \<open>simp_all add: kept_same_runs\<close>)
qed

lemma kept_submit:
  assumes "hub_ok h"
  shows "kept h (fst (submit env now n sp er cb h)) k"
proof -
  have wf: "wf_store (hb_store h)" using assms by (simp add: hub_ok_def)
  obtain s rid where c: "create_run now n sp er cb None (hb_store h) = (s, Inr rid)"
    using create_run_ok [OF wf, of now n sp er cb None] by auto
  have st: "run_state_of s j = (if j = new_run_id now (seq_now (hb_store h) + 1) then Some Queued
      else run_state_of (hb_store h) j)" for j
    using run_state_create_run [OF wf, of now n sp er cb None j] c by simp
  have fresh: "run_state_of (hb_store h) (new_run_id now (seq_now (hb_store h) + 1)) = None"
    using wf run_id_fresh [of "st_runs (hb_store h)" "seq_now (hb_store h)" now]
    by (simp add: run_state_of_def wf_store_def)
  have ok: "hub_ok (mirror_created env rid sp er (h\<lparr>hb_store := s\<rparr>))"
    using assms wf_create_run [OF wf, of now n sp er cb None] run_live_create_run [OF wf, of _ now n sp er cb None] c
    by (auto intro: hub_ok_store)
  have "kept h (mirror_created env rid sp er (h\<lparr>hb_store := s\<rparr>)) k"
    using fresh by (auto simp: kept_def ended_def st)
  from kept_pump_after [OF this ok, of env now] show ?thesis
    by (auto simp: submit_def c Let_def split: prod.splits sum.splits)
qed

lemma create_children_kept:
  assumes "wf_store s" "run_state_of s k \<noteq> None"
  shows "run_state_of (fst (create_children now n sid cb i specs s)) k = run_state_of s k"
  using assms
proof (induction specs arbitrary: i s)
  case (Cons sp specs)
  let ?c = "create_run now (n @ ''-'' @ show_pad 3 i) (Train sp) None cb (Some sid) s"
  obtain s1 rid where c: "?c = (s1, Inr rid)"
    using create_run_ok [OF Cons.prems(1), of now "n @ ''-'' @ show_pad 3 i" "Train sp" None cb "Some sid"]
    by auto
  have "run_state_of s (new_run_id now (seq_now s + 1)) = None"
    using Cons.prems(1) run_id_fresh [of "st_runs s" "seq_now s" now]
    by (simp add: run_state_of_def wf_store_def)
  then have "run_state_of s1 k = run_state_of s k"
    using Cons.prems run_state_create_run [OF Cons.prems(1), of now "n @ ''-'' @ show_pad 3 i"
        "Train sp" None cb "Some sid" k] c by auto
  moreover have "wf_store s1" using wf_create_run [OF Cons.prems(1)] c by (metis fst_conv)
  ultimately show ?case using Cons.IH [of s1 "i + 1"] Cons.prems c
    by (auto split: prod.splits sum.splits)
qed simp

lemma kept_submit_sweep:
  assumes "hub_ok h"
  shows "kept h (fst (submit_sweep env now n spec cb h)) k"
proof (cases "expand_sweep (ev_show_json env) (sw_template spec) (sw_axes spec)")
  case (Inr children)
  have wf: "wf_store (hb_store h)" using assms by (simp add: hub_ok_def)
  define c where "c = create_sweep now n (sw_template spec) (sw_axes spec) (sw_concurrency spec) cb (hb_store h)"
  have c: "wf_store (fst c)" "run_state_of (fst c) j = run_state_of (hb_store h) j" for j
    using create_sweep_ok [OF wf] unfolding c_def by simp_all
  show ?thesis
  proof (cases "snd c")
    case (Inl e)
    with c Inr show ?thesis
      by (auto simp: submit_sweep_def c_def kept_def split: prod.splits sum.splits)
  next
    case sid: (Inr sid)
    define d where "d = create_children now n sid cb 0 (map snd children) (fst c)"
    have live: "run_live_in (fst c) j \<Longrightarrow> run_live_in (fst d) j" and wfd: "wf_store (fst d)" for j
      using create_children_ok [OF c(1), of now n sid cb 0 "map snd children"] by (simp_all add: d_def)
    have ok: "hub_ok (h\<lparr>hb_store := fst d\<rparr>)"
      using assms wfd live by (intro hub_ok_store) (simp_all add: run_live_in_def c(2))
    have "kept h (h\<lparr>hb_store := fst d\<rparr>) k"
      using create_children_kept [OF c(1), of k now n sid cb 0 "map snd children"] c(2)
      by (auto simp: kept_def ended_def d_def)
    from kept_pump_after [OF this ok, of env now] \<open>kept h (h\<lparr>hb_store := fst d\<rparr>) k\<close> Inr sid show ?thesis
      by (auto simp: submit_sweep_def c_def [symmetric] d_def [symmetric] case_prod_beta
          split: sum.splits)
  qed
qed (simp add: submit_sweep_def)

subsection \<open>Messages\<close>

text \<open>The run a message reports the end of.\<close>

fun ends_run :: "worker_to_cp \<Rightarrow> run_id option" where
  "ends_run (JobExited _ job_id _) = Some job_id"
| "ends_run (JobKilled _ job_id _) = Some job_id"
| "ends_run _ = None"

lemma kill_reason_terminal: "is_terminal (fst (kill_reason_state r))"
  by (cases r) simp_all

lemma dispatch_ended:
  assumes "hub_ok h" "ended h k"
  shows "ended (fst (dispatch env now w msg h)) k \<and>
    (ends_run msg \<noteq> Some k \<longrightarrow> kept h (fst (dispatch env now w msg h)) k)"
proof -
  have js: "kept h (h\<lparr>hb_store := fst (transition_if_live now j Running (Some w) (hb_store h))\<rparr>) k" for j
    using assms by (auto simp: kept_def ended_def run_state_transition_if_live hub_ok_def run_live_in_def)
  have ev: "kept h (fst (evaluate_gates env now j (on_store (append_metrics now j st v) h))) k" for j st v
  proof (rule kept_trans [OF kept_same_runs kept_evaluate_gates])
    show "hub_ok (on_store (append_metrics now j st v) h)"
      using assms(1) by (intro hub_ok_same_runs) (simp_all add: hub_ok_def)
  qed simp
  have fin: "ended (fst (finish_run env now w j st c h)) k \<and>
      (j \<noteq> k \<longrightarrow> kept h (fst (finish_run env now w j st c h)) k)" if "is_terminal st" for j st c
  proof (cases "j = k")
    case True
    with finish_run_state(2) [OF assms(1)] assms(2) that show ?thesis
      by (force simp: ended_def)
  next
    case False
    with finish_run_state(1) [OF assms(1), of k j env now w st c] ended_kept [OF assms(2)] show ?thesis by auto
  qed
  have keep: "ended h' k \<and> (ends_run msg \<noteq> Some k \<longrightarrow> kept h h' k)" if "kept h h' k" for h'
    using that ended_kept [OF assms(2)] by simp
  show ?thesis
  proof (cases "(env, now, w, msg, h)" rule: dispatch.cases)
    case (8 env' now' w' seq job_id h')
    then show ?thesis using js [of job_id] keep by (simp add: Let_def case_prod_beta kept_def)
  next
    case (9 env' now' w' seq job_id code h')
    then show ?thesis using fin [of "if code = 0 then Completed else Failed" job_id code] by simp
  next
    case (10 env' now' w' seq job_id reason h')
    then show ?thesis
      using fin [of "fst (kill_reason_state reason)" job_id "snd (kill_reason_state reason)"]
        kill_reason_terminal [of reason]
      by (simp add: case_prod_beta)
  qed (auto simp: assms(2) intro!: ended_kept [OF assms(2)] kept_same_runs kept_ingest ev)
qed


lemma note_seq_store [simp]: "hb_store (note_seq w msg h) = hb_store h"
  by (simp add: note_seq_def split: option.splits)

lemma on_message_ended:
  assumes "hub_ok h" "ended h k"
  shows "ended (fst (on_message env now w msg h)) k \<and>
    (ends_run msg \<noteq> Some k \<longrightarrow> kept h (fst (on_message env now w msg h)) k)"
proof -
  let ?h1 = "on_store (worker_seen now w) h"
  have ok: "hub_ok ?h1" using assms(1) by (intro hub_ok_same_runs) (simp_all add: hub_ok_def)
  have k1: "kept h (note_seq w msg ?h1) k" "kept h ?h1 k" by (simp_all add: kept_same_runs)
  have e1: "ended (note_seq w msg ?h1) k" by (rule ended_kept [OF assms(2) k1(1)])
  have "hub_ok (note_seq w msg ?h1)" using ok by simp
  from dispatch_ended [OF this e1, of env now w msg] kept_trans [OF k1(1)]
  show ?thesis using k1(2) ended_kept [OF assms(2) k1(2)] by (auto simp: on_message_def Let_def)
qed

subsection \<open>Every step\<close>

lemma detach_revives_current:
  assumes "hub_ok h" "ended h k" "current_run_of (hb_store h) w \<noteq> Some k \<or> cls = Persistent"
  shows "kept h (fst (detach env now w cls h)) k"
proof -
  let ?h2 = "on_store (worker_left w) (h\<lparr>hb_links := alist_del w (hb_links h)\<rparr>)"
  have ok: "hub_ok ?h2"
    using assms(1) by (auto simp: hub_ok_def distinct_alist_del run_live_cong [of "worker_left _ _"])
  have k2: "kept h ?h2 k" by (simp add: kept_same_runs)
  have cur: "current_run_of (hb_store ?h2) w = current_run_of (hb_store h) w"
    by (auto simp: current_run_of_def worker_left_def row_of_update_where split: option.splits)
  show ?thesis
  proof (cases "cls = Persistent")
    case True
    with kept_pump_after [OF k2 ok] show ?thesis by (simp add: detach_def)
  next
    case False
    with assms(3) cur have "current_run_of (hb_store ?h2) w \<noteq> Some k" by simp
    then have "kept ?h2 (requeue_current now w ?h2) k"
      by (auto simp: requeue_current_def Let_def kept_def current_run_of_def store_worker_def
          worker_of_row_def split: option.splits)
    from kept_pump_after [OF kept_trans [OF k2 this] hub_ok_requeue_current [OF ok]] False
    show ?thesis by (simp add: detach_def)
  qed
qed

lemma kept_requeue_stuck: "hub_ok h \<Longrightarrow> k \<noteq> rs_id r \<Longrightarrow> kept h (requeue_stuck now r h) k"
  by (auto simp: requeue_stuck_def Let_def kept_def split: option.splits)

lemma kept_reap_stuck:
  assumes "hub_ok h"
  shows "kept h (fst (reap_stuck_assignments env now h)) k"
proof (cases "ended h k")
  case True
  let ?rs = "filter (\<lambda>r. \<not> now - ASSIGNMENT_STUCK_TIMEOUT < rs_updated_at r)
      (store_runs assigned_query QUEUE_SCAN_LIMIT (hb_store h))"
  have pk: "pk run_key (st_runs (hb_store h))" using assms by (simp add: hub_ok_def wf_store_def)
  have ne: "rs_id r \<noteq> k" if r: "r \<in> set (store_runs assigned_query n (hb_store h))" for r n
  proof -
    from store_runs_set [OF r] obtain x where x: "x \<in> set (st_runs (hb_store h))" "ru_summary x = r"
      "run_matches assigned_query x" by blast
    then have "rs_state r = Assigned"
      by (auto simp: run_matches_def assigned_query_def default_run_query_def)
    with pk_row_of [OF pk x(1)] x(2) have "run_state_of (hb_store h) (rs_id r) = Some Assigned"
      by (simp add: run_state_of_def)
    with True show ?thesis by (auto simp: ended_def)
  qed
  have "hub_ok h' \<Longrightarrow> (\<forall>r\<in>set rs. rs_id r \<noteq> k) \<Longrightarrow>
      kept h' (fold (requeue_stuck now) rs h') k \<and> hub_ok (fold (requeue_stuck now) rs h')" for rs h'
  proof (induction rs arbitrary: h')
    case (Cons r rs)
    from Cons.prems have "kept h' (requeue_stuck now r h') k" by (auto intro: kept_requeue_stuck)
    with Cons.IH [OF hub_ok_requeue_stuck [OF Cons.prems(1)], of now r] Cons.prems show ?case
      by (auto intro: kept_trans)
  qed simp
  from this [OF assms, of ?rs] ne
  have "kept h (fold (requeue_stuck now) ?rs h) k \<and> hub_ok (fold (requeue_stuck now) ?rs h)" by auto
  then show ?thesis
    unfolding reap_stuck_assignments_def reap_stuck_assignments_older_than_def Let_def
    by (intro kept_pump_after) simp_all
qed (simp add: kept_def)

lemma kept_resume:
  assumes "hub_ok h" "k \<noteq> rid"
  shows "kept h (fst (resume_run env now rid h)) k"
proof (cases "store_run rid (hb_store h)")
  case (Some run)
  show ?thesis
  proof (cases "is_terminal (rs_state (rr_summary run))")
    case True
    let ?h = "on_store (transition now rid Queued None None (reason_json ''operator_resume'')) h"
    have "hub_ok ?h"
      using assms store_run_state [OF Some]
      by (intro hub_ok_store) (auto simp: hub_ok_def run_live_transition run_live_in_def)
    moreover have "kept h ?h k" using assms(2) by (simp add: kept_def)
    ultimately show ?thesis
      using True Some by (simp add: resume_run_def kept_pump_after del: transition_frame)
  qed (simp add: resume_run_def Some)
qed (simp add: resume_run_def)

text \<open>C3: An ended run stays ended. From a consistent state, the only steps of the whole
  control plane after which an ended run is live again are an operator's resume of exactly
  that run, the disconnect of a non-persistent worker still recorded as holding it, and the
  reaper that disconnects stale workers.\<close>

theorem hub_step_revives:
  assumes "hub_ok h" and "hub_step env h h'" and "ended h k" and "\<not> ended h' k"
  shows "(\<exists>now. h' = fst (resume_run env now k h)) \<or>
    (\<exists>now w. h' = fst (detach env now w Leased h) \<and> current_run_of (hb_store h) w = Some k) \<or>
    (\<exists>now. h' = fst (reap_stale_workers env now h))"
proof -
  have notkept: "\<not> kept h h' k" using assms(3,4) ended_kept by blast
  show ?thesis
    using assms(2)
  proof (cases rule: hub_step.cases)
    case (Detach now w cls)
    with detach_revives_current [OF assms(1,3), of w cls env now] notkept show ?thesis
      by (cases cls) auto
  next
    case (Message now w msg)
    with on_message_ended [OF assms(1,3), of env now w msg] assms(4) show ?thesis by simp
  next
    case (Resume now rid)
    with kept_resume [OF assms(1), of k rid env now] notkept show ?thesis by auto
  next
    case (Close w)
    with notkept show ?thesis by (simp add: close_link_def kept_def)
  next
    case (Upload now hd' key body)
    with notkept show ?thesis by (simp add: hub_upload_def case_prod_beta kept_def)
  next
    case (Fetch now hd' key)
    with notkept show ?thesis by (simp add: hub_fetch_def case_prod_beta kept_def)
  next
    case (Uuid n)
    with notkept show ?thesis by (simp add: kept_def)
  next
    case (Side s)
    with notkept side_write_runs [OF Side(2)] show ?thesis by (simp add: kept_same_runs)
  next
    case (Mirrored rid ext)
    with notkept show ?thesis by (simp add: kept_def)
  next
    case (Put_blob key body)
    with notkept show ?thesis by (simp add: kept_def)
  next
    case (Copy_blob src dst)
    with notkept show ?thesis by (simp add: kept_def)
  next
    case (Drain_worker v deadline)
    with notkept kept_send show ?thesis by blast
  qed (use notkept assms(1) kept_attach kept_submit kept_submit_sweep kept_stop_run
       kept_evaluate_gates kept_pump kept_reap_stuck in \<open>auto simp: kept_attach\<close>)
qed

definition demo_done_hub :: hub where
  "demo_done_hub = new_hub (empty_store\<lparr>st_run_seq := Some 1,
     st_runs := [demo_run (new_run_id 0 1) Completed None 0]\<rparr>) Map.empty"

lemma demo_done_ok: "hub_ok demo_done_hub"
proof -
  have "run_id_minted 1 (new_run_id 0 1)"
    unfolding run_id_minted_def by (rule exI [of _ 0], rule exI [of _ 1]) simp
  then show ?thesis
    by (simp add: hub_ok_def demo_done_hub_def new_hub_def wf_store_def pk_def empty_store_def seq_now_def)
qed

lemma hub_step_revives_witness:
  "\<exists>h'. hub_step demo_env demo_done_hub h' \<and> run_state_of (hb_store h') (new_run_id 0 1) = Some Queued \<and>
    ((\<exists>now. h' = fst (resume_run demo_env now (new_run_id 0 1) demo_done_hub)) \<or>
     (\<exists>now w. h' = fst (detach demo_env now w Leased demo_done_hub) \<and>
        current_run_of (hb_store demo_done_hub) w = Some (new_run_id 0 1)) \<or>
     (\<exists>now. h' = fst (reap_stale_workers demo_env now demo_done_hub)))"
proof -
  let ?k = "new_run_id 0 1" let ?h' = "fst (resume_run demo_env 5 (new_run_id 0 1) demo_done_hub)"
  have run: "run_state_of (hb_store demo_done_hub) ?k = Some Completed"
    by (simp add: demo_done_hub_def new_hub_def run_state_of_def)
  then obtain run where sr: "store_run ?k (hb_store demo_done_hub) = Some run" "rs_state (rr_summary run) = Completed"
    by (auto simp: run_state_of_def store_run_def run_of_row_def)
  have links: "hb_links demo_done_hub = []" by (simp add: demo_done_hub_def new_hub_def)
  have q: "run_state_of (hb_store ?h') ?k = Some Queued"
    using run by (simp add: resume_run_def sr pump_def links drop_links_def del: transition_frame)
  have step: "hub_step demo_env demo_done_hub ?h'" by (rule hub_step.Resume)
  have e: "ended demo_done_hub ?k" using run by (simp add: ended_def)
  have ne: "\<not> ended ?h' ?k" using q by (simp add: ended_def)
  from hub_step_revives [OF demo_done_ok step e ne] step q show ?thesis by blast
qed

subsection \<open>Reports that are not fenced\<close>

lemma on_message_dispatch:
  "\<not> is_replay w msg h \<Longrightarrow>
   on_message env now w msg h = dispatch env now w msg (note_seq w msg (on_store (worker_seen now w) h))"
  by (auto simp: on_message_def is_replay_def Let_def split: option.splits)

lemma hub_ok_noted: "hub_ok h \<Longrightarrow> hub_ok (note_seq w msg (on_store (worker_seen now w) h))"
  by (simp, intro hub_ok_same_runs) (simp_all add: hub_ok_def)

text \<open>C10: Exit reports are not fenced by assignment. A fresh \<open>JobExited\<close> from any worker, for
  any known run, in whatever state it is (already completed, cancelled, queued again or being
  executed by another worker), decides that run's state, and the run's grants are revoked.\<close>

theorem exit_report_unfenced:
  assumes "hub_ok h" and "run_state_of (hb_store h) rid \<noteq> None"
    and "\<not> is_replay w (JobExited seq rid code) h"
  shows "run_state_of (hb_store (fst (on_message env now w (JobExited seq rid code) h))) rid =
      Some (if code = 0 then Completed else Failed) \<and>
    rid \<notin> (gr_run_id \<circ> snd) ` set (hb_grants (fst (on_message env now w (JobExited seq rid code) h)))"
proof -
  let ?h = "note_seq w (JobExited seq rid code) (on_store (worker_seen now w) h)"
  let ?h' = "fst (on_message env now w (JobExited seq rid code) h)"
  have ok: "hub_ok ?h" by (rule hub_ok_noted [OF assms(1)])
  have st: "run_state_of (hb_store ?h) rid \<noteq> None"
    using assms(2) run_state_cong [of "worker_seen now w (hb_store h)" "hb_store h" rid] by simp
  have e: "?h' = fst (finish_run env now w rid (if code = 0 then Completed else Failed) code ?h)"
    by (simp add: on_message_dispatch [OF assms(3)])
  have s: "run_state_of (hb_store ?h') rid = Some (if code = 0 then Completed else Failed)"
    unfolding e by (rule finish_run_state(2) [OF ok st]) simp
  have "hub_ok ?h'" by (rule hub_ok_on_message [OF assms(1)])
  then have "\<forall>x\<in>set (hb_grants ?h'). run_live_in (hb_store ?h') (gr_run_id (snd x))"
    by (auto simp: hub_ok_def case_prod_beta)
  moreover have "\<not> run_live_in (hb_store ?h') rid" using s by (simp add: run_live_in_def)
  ultimately show ?thesis using s by (auto simp: comp_def)
qed

lemma exit_report_unfenced_witness:
  "run_state_of (hb_store demo_done_hub) (new_run_id 0 1) = Some Completed \<and>
   run_state_of (hb_store (fst (on_message demo_env 9 ''other'' (JobExited 0 (new_run_id 0 1) 1) demo_done_hub)))
     (new_run_id 0 1) = Some Failed"
proof -
  have run: "run_state_of (hb_store demo_done_hub) (new_run_id 0 1) = Some Completed"
    by (simp add: demo_done_hub_def new_hub_def run_state_of_def)
  have "\<not> is_replay ''other'' (JobExited 0 (new_run_id 0 1) 1) demo_done_hub"
    by (simp add: is_replay_def demo_done_hub_def new_hub_def)
  from exit_report_unfenced [OF demo_done_ok _ this, of demo_env 9] run show ?thesis by simp
qed

text \<open>A run is stranded when it counts as running although no worker is recorded as holding it.\<close>

definition stranded :: "hub \<Rightarrow> run_id \<Rightarrow> bool" where
  "stranded h k \<longleftrightarrow> run_state_of (hb_store h) k = Some Running \<and>
     (\<forall>w. current_run_of (hb_store h) w \<noteq> Some k)"

lemma current_run_frames [simp]:
  "current_run_of (transition now r st x c d s) w = current_run_of s w"
  "current_run_of (add_event t r e dt s) w = current_run_of s w"
  "current_run_of (s\<lparr>st_events := ev\<rparr>) w = current_run_of s w"
  by (simp_all add: current_run_of_def)

lemma current_run_set [simp]:
  "current_run_of (set_worker_run v r s) w =
     (if v = w \<and> row_of wr_id w (st_workers s) \<noteq> None then r else current_run_of s w)"
  using row_of_set_worker_run [of w v r s]
  by (cases "row_of wr_id w (st_workers s)") (auto simp: current_run_of_def simp del: set_worker_run_frame)

lemma stranded_pump:
  assumes "hub_ok h" "stranded h k"
  shows "stranded (fst (pump env now h)) k"
proof -
  let ?P = "\<lambda>h'. hub_ok h' \<and> stranded h' k"
  have "?P (fst (pump env now h))"
  proof (rule pump_invariant [of ?P])
    show "?P h" using assms by simp
  next
    fix h1 dead assume "?P h1"
    then show "?P (drop_links dead h1)"
      by (auto simp: hub_ok_def stranded_def) (auto simp: drop_links_def distinct_map_filter)
  next
    fix h1 h2 run e
    assume p: "?P h1" and n: "next_assignable_queued (hb_store h1) = Some run"
      and a: "assemble_job env now (rs_id (rr_summary run)) (rr_spec run) h1 = (h2, Inl e)"
    from assemble_job_frame [OF a] obtain ev where "hb_store h2 = (hb_store h1)\<lparr>st_events := ev\<rparr>" by blast
    with p hub_ok_assemble [OF _ n a] show "?P h2" by (simp add: stranded_def)
  next
    fix h1 h2 w wk job and run :: run_record
    let ?r = "rs_id (rr_summary run)"
    assume p: "?P h1" and n: "next_assignable_queued (hb_store h1) = Some run"
      and a: "assemble_job env now ?r (rr_spec run) h1 = (h2, Inr job)"
    from assemble_job_frame [OF a] obtain ev where ev: "hb_store h2 = (hb_store h1)\<lparr>st_events := ev\<rparr>" by blast
    from p hub_ok_assemble [OF _ n a] have q: "hub_ok h2" "run_state_of (hb_store h1) ?r = Some Queued"
      by (simp_all add: ev)
    have "?r \<noteq> k" using q(2) p by (auto simp: stranded_def)
    then show "?P (fst (assign_run now w ?r job h2))"
      using p q hub_ok_assign [of h2 ?r now w job]
      by (auto simp: assign_run_frame run_state_assign_store ev stranded_def assign_store_def Let_def)
  qed
  then show ?thesis ..
qed

lemma stranded_attach:
  assumes "hub_ok h" "stranded h k"
  shows "stranded (fst (attach env now w tx ls hw h)) k"
proof -
  have ok: "hub_ok ((on_store (worker_joined now w ls hw) h)\<lparr>hb_links := alist_put w tx (hb_links h)\<rparr>)"
    using assms(1) by (auto simp: hub_ok_def distinct_alist_put run_live_cong [of "worker_joined _ _ _ _ _"])
  have "current_run_of (worker_joined now w ls hw (hb_store h)) v = current_run_of (hb_store h) v" for v
    by (auto simp: current_run_of_def worker_joined_def row_of_upsert split: option.splits)
  then have "stranded ((on_store (worker_joined now w ls hw) h)\<lparr>hb_links := alist_put w tx (hb_links h)\<rparr>) k"
    using assms(2) run_state_cong [of "worker_joined now w ls hw (hb_store h)" "hb_store h" k]
    by (simp add: stranded_def)
  from stranded_pump [OF ok this] show ?thesis by (simp add: attach_def)
qed

lemma stranded_detach:
  assumes "hub_ok h" "stranded h k"
  shows "stranded (fst (detach env now w cls h)) k"
proof -
  let ?h2 = "on_store (worker_left w) (h\<lparr>hb_links := alist_del w (hb_links h)\<rparr>)"
  have ok: "hub_ok ?h2"
    using assms(1) by (auto simp: hub_ok_def distinct_alist_del run_live_cong [of "worker_left _ _"])
  have cur: "current_run_of (hb_store ?h2) v = current_run_of (hb_store h) v" for v
    by (auto simp: current_run_of_def worker_left_def row_of_update_where split: option.splits)
  then have s2: "stranded ?h2 k"
    using assms(2) run_state_cong [of "worker_left w (hb_store h)" "hb_store h" k] by (simp add: stranded_def)
  have "stranded (requeue_current now w ?h2) k"
  proof (cases "store_worker now w (hb_store ?h2)")
    case (Some wk)
    then have "current_run_of (hb_store ?h2) w = wi_current_run wk"
      by (auto simp: current_run_of_def store_worker_def worker_of_row_def)
    with s2 have "wi_current_run wk \<noteq> Some k" by (auto simp: stranded_def)
    with s2 Some show ?thesis
      by (auto simp: requeue_current_def Let_def stranded_def simp del: transition_frame split: option.splits)
  qed (use s2 in \<open>simp add: requeue_current_def\<close>)
  with stranded_pump [OF ok s2] stranded_pump [OF hub_ok_requeue_current [OF ok]] show ?thesis
    by (simp add: detach_def Let_def)
qed

text \<open>A replayed start strands a run. When a worker's \<open>JobStarted\<close> arrives after the run was
  put back in the queue (the worker lost its session before the report was delivered and
  replays its outbox on reconnect), the queued run becomes Running while nobody is recorded
  as holding it, and what the control plane does by itself does not bring it back: neither a
  pump, nor a join, nor the disconnect of any worker puts it back in the queue.\<close>

theorem replayed_start_strands:
  assumes "hub_ok h" and "run_state_of (hb_store h) k = Some Queued"
    and "k \<notin> {r. \<exists>w. current_run_of (hb_store h) w = Some r}" and "\<not> is_replay w (JobStarted seq k) h"
  shows "let h' = fst (on_message env now w (JobStarted seq k) h) in
    stranded h' k \<and> stranded (fst (pump env t h')) k \<and> stranded (fst (attach env t v tx ls hw h')) k \<and>
    stranded (fst (detach env t v cls h')) k"
proof -
  let ?h = "note_seq w (JobStarted seq k) (on_store (worker_seen now w) h)"
  let ?h' = "fst (on_message env now w (JobStarted seq k) h)"
  have ok: "hub_ok ?h" by (rule hub_ok_noted [OF assms(1)])
  have q: "run_state_of (hb_store ?h) k = Some Queued"
    using assms(2) run_state_cong [of "worker_seen now w (hb_store h)" "hb_store h" k] by simp
  have cur: "current_run_of (hb_store ?h) v = current_run_of (hb_store h) v" for v
    by (auto simp: current_run_of_def worker_seen_def row_of_update_where split: option.splits)
  have t: "hb_store ?h' = fst (transition_if_live now k Running (Some w) (hb_store ?h))"
    by (simp add: on_message_dispatch [OF assms(4)] case_prod_beta Let_def)
  have wf: "wf_store (hb_store ?h)" using ok by (simp add: hub_ok_def)
  have "run_state_of (hb_store ?h') k = Some Running"
    using q unfolding t run_state_transition_if_live [OF wf] by (simp add: run_live_in_def)
  moreover have "current_run_of (hb_store ?h') v = current_run_of (hb_store ?h) v" for v
    unfolding t transition_if_live_spec [OF wf] by (simp split: option.splits del: transition_frame)
  ultimately have s: "stranded ?h' k" using assms(3) cur by (auto simp: stranded_def)
  have ok': "hub_ok ?h'" by (rule hub_ok_on_message [OF assms(1)])
  show ?thesis
    unfolding Let_def by (intro conjI s stranded_pump stranded_attach stranded_detach ok')
qed

definition demo_queued_hub :: hub where
  "demo_queued_hub = new_hub (empty_store\<lparr>st_run_seq := Some 1,
     st_runs := [demo_run (new_run_id 0 1) Queued None 0]\<rparr>) Map.empty"

lemma demo_queued_ok: "hub_ok demo_queued_hub"
proof -
  have "run_id_minted 1 (new_run_id 0 1)"
    unfolding run_id_minted_def by (rule exI [of _ 0], rule exI [of _ 1]) simp
  then show ?thesis
    by (simp add: hub_ok_def demo_queued_hub_def new_hub_def wf_store_def pk_def empty_store_def seq_now_def)
qed

lemma replayed_start_strands_witness:
  "stranded (fst (detach demo_env 8 ''w'' Leased
     (fst (on_message demo_env 7 ''w'' (JobStarted 0 (new_run_id 0 1)) demo_queued_hub)))) (new_run_id 0 1)"
proof -
  have q: "run_state_of (hb_store demo_queued_hub) (new_run_id 0 1) = Some Queued"
    by (simp add: demo_queued_hub_def new_hub_def run_state_of_def)
  have c: "new_run_id 0 1 \<notin> {r. \<exists>w. current_run_of (hb_store demo_queued_hub) w = Some r}"
    by (simp add: demo_queued_hub_def new_hub_def current_run_of_def empty_store_def)
  have f: "\<not> is_replay ''w'' (JobStarted 0 (new_run_id 0 1)) demo_queued_hub"
    by (simp add: is_replay_def demo_queued_hub_def new_hub_def)
  from replayed_start_strands [OF demo_queued_ok q c f] show ?thesis by (simp add: Let_def)
qed

end
