(* ===== verification/Scenario.thy ===== *)
theory Scenario
  imports RunLife
begin

text \<open>
  A concrete execution of the control plane, from the empty database: a code unit is
  registered, a training run submitted, a worker joins and gets it, uploads a checkpoint and
  reports it. The properties of reachable states are applied to it.
\<close>

definition demo_train :: train_spec where
  "demo_train = \<lparr>tr_code = demo_code, tr_entrypoint = ''main'', tr_config = None,
     tr_overrides = JNull, tr_artifacts_in = [], tr_data = None, tr_checkpoint = default_checkpoint_policy,
     tr_seed = None, tr_arch = None, tr_timeout_s = 60, tr_links = []\<rparr>"

definition demo_manifest :: code_unit_manifest_rec where
  "demo_manifest = \<lparr>mf_name = ''unit'', mf_version = ''1'', mf_entrypoints = [(''main'', ''python main.py'')],
     mf_python = None, mf_requires = undefined\<rparr>"

definition demo_unit :: hub where
  "demo_unit = hub_init\<lparr>hb_store := register_code_unit 0 demo_code demo_manifest ''u'' (hb_store hub_init)\<rparr>"

definition demo_submitted :: hub where
  "demo_submitted = fst (submit demo_env 1 ''train'' (Train demo_train) None None demo_unit)"

definition demo_attached :: hub where
  "demo_attached = fst (attach demo_env 2 ''w'' (fresh_link 0) [] undefined demo_submitted)"

abbreviation demo_id :: run_id where
  "demo_id \<equiv> ''EXEC-19700101-000001-00001''"

definition demo_uploaded :: hub where
  "demo_uploaded = fst (hub_upload demo_env 3 (Some ''Bearer grant-0'')
     ''ckpt-hot/EXEC-19700101-000001-00001/step_10/model.safetensors'' ''weights'' demo_attached)"

definition demo_checkpointed :: hub where
  "demo_checkpointed = fst (on_message demo_env 4 ''w''
     (Artifact 0 demo_id ''checkpoint'' ''ckpt-hot/EXEC-19700101-000001-00001/step_10'' None None JNull) demo_uploaded)"

lemma demo_reach_attached: "hub_reach demo_env demo_attached"
proof -
  have "hub_reach demo_env demo_unit"
    unfolding demo_unit_def by (rule hub_reach.Step [OF hub_reach.Init hub_step.Side [OF side_write.Register_unit]])
  then have "hub_reach demo_env demo_submitted"
    unfolding demo_submitted_def by (rule hub_reach.Step [OF _ hub_step.Submit])
  then show ?thesis
    unfolding demo_attached_def by (rule hub_reach.Step [OF _ hub_step.Attach])
qed

lemma demo_reach: "hub_reach demo_env demo_checkpointed"
proof -
  from demo_reach_attached have "hub_reach demo_env demo_uploaded"
    unfolding demo_uploaded_def by (rule hub_reach.Step [OF _ hub_step.Upload])
  then show ?thesis
    unfolding demo_checkpointed_def by (rule hub_reach.Step [OF _ hub_step.Message])
qed

subsection \<open>Evaluation\<close>

lemma demo_pads:
  "utc_parts 1 = (1970, 1, 1, 0, 0, 1)" "show_pad_int 4 1970 = ''1970''" "show_pad 2 (Suc 0) = ''01''"
  "show_pad 2 0 = ''00''" "show_pad_int 5 1 = ''00001''" "show_nat 0 = ''0''"
  by code_simp+

lemma demo_id_eq: "new_run_id 1 1 = demo_id"
  by (simp add: new_run_id_def stamped_id_def trunc_to_int_def demo_pads)

lemmas demo_steps = submit_def demo_unit_def hub_init_def new_hub_def empty_store_def register_code_unit_def
  create_run_def next_run_seq_eq Let_def add_event_def seq_now_def pump_def drop_links_def mirror_created_def
  upsert_def demo_env_def row_of_def affected_def attach_def worker_joined_def store_worker_def
  worker_of_row_def eligible_for_assignment_def store_lease_def round_half_away_def HEARTBEAT_TIMEOUT_def
  pump_links.simps next_assignable_queued_def store_runs_def queued_query_def default_run_query_def
  run_matches_def held_back_def order_by_desc_def order_by_def store_run_def run_of_row_def
  assemble_job_def assemble_train_job_def store_code_unit_def demo_train_def demo_manifest_def entrypoint_def
  mint_grant_def grant_mint_def latest_checkpoint_def resume_state_of_def note_resumed_def resolve_data_def
  fresh_link_def assign_run_def send_to_def transition_def set_worker_run_def demo_code_def

lemma demo_attached_parts:
  "hb_grants demo_attached = [(''grant-0'', \<lparr>gr_run_id = demo_id, gr_code = demo_code, gr_expires = 86402\<rparr>)]"
  "hb_blobs demo_attached = Map.empty"
  "hb_resume demo_attached = [demo_id \<mapsto> default_resume_state]"
  "hb_data demo_attached = Map.empty"
  "st_checkpoints (hb_store demo_attached) = []"
  "hb_high_water demo_attached = Map.empty"
  unfolding demo_attached_def demo_submitted_def
  by (simp_all add: demo_steps demo_id_eq demo_pads)

abbreviation demo_dir :: string where
  "demo_dir \<equiv> ''ckpt-hot/EXEC-19700101-000001-00001/step_10''"

lemma demo_upload_created:
  "hub_upload demo_env 3 (Some ''Bearer grant-0'') (demo_dir @ ''/model.safetensors'') ''weights'' demo_attached =
     (demo_attached\<lparr>hb_blobs := [demo_dir @ ''/model.safetensors'' \<mapsto> ''weights'']\<rparr>, Created)"
  by (simp add: hub_upload_def upload_def authorize_def grant_resolve_def grant_is_valid_def
      demo_attached_parts may_write_def run_prefixes_def starts_with_def is_safe_key_def fs_put_def fs_resolve_def)

lemma demo_uploaded_eq: "demo_uploaded = demo_attached\<lparr>hb_blobs := [demo_dir @ ''/model.safetensors'' \<mapsto> ''weights'']\<rparr>"
  using demo_upload_created by (simp add: demo_uploaded_def)

lemma demo_checkpoint_file: "checkpoint_file demo_id 10 f = demo_dir @ ''/'' @ f" "checkpoint_dir demo_id 10 = demo_dir"
proof -
  have "show_nat 10 = ''10''" by code_simp
  then show "checkpoint_file demo_id 10 f = demo_dir @ ''/'' @ f" "checkpoint_dir demo_id 10 = demo_dir"
    by (simp_all add: checkpoint_file_def checkpoint_dir_def)
qed

lemma demo_step: "step_from_uri demo_dir = Some 10"
  using step_from_uri_checkpoint_dir [of 10 "[]" demo_id] by (simp add: demo_checkpoint_file)

lemma demo_checkpointed_rows:
  "map (\<lambda>c. (ckpt_key c, cm_slices (ck_meta (cx_info c)))) (st_checkpoints (hb_store demo_checkpointed)) =
     [((demo_id, 10), [(0, 10)])]"
  and demo_checkpointed_grants: "demo_id \<in> gr_run_id ` snd ` set (hb_grants demo_checkpointed)"
proof -
  let ?h = "demo_uploaded\<lparr>hb_store := worker_seen 4 ''w'' (hb_store demo_uploaded), hb_high_water := [''w'' \<mapsto> 0]\<rparr>"
  have slices: "cm_slices (complete_meta demo_env demo_id 10 ?h) = [(0, 10)]"
    by (simp add: complete_meta_slices demo_uploaded_eq demo_attached_parts default_resume_state_def)
  have eq: "demo_checkpointed = fst (ingest_checkpoint demo_env 4 demo_id demo_dir ?h)"
    by (simp add: demo_checkpointed_def on_message_def Let_def is_replay_def note_seq_def demo_uploaded_eq
        demo_attached_parts)
  show "demo_id \<in> gr_run_id ` snd ` set (hb_grants demo_checkpointed)"
    unfolding eq
    by (simp add: ingest_checkpoint_def demo_step demo_checkpoint_file fs_get_def fs_put_def fs_resolve_def
        starts_with_def result_bind_def is_safe_key_def Let_def demo_uploaded_eq demo_attached_parts)
  show "map (\<lambda>c. (ckpt_key c, cm_slices (ck_meta (cx_info c)))) (st_checkpoints (hb_store demo_checkpointed)) =
     [((demo_id, 10), [(0, 10)])]"
    unfolding eq using slices
    by (simp add: ingest_checkpoint_def demo_step demo_checkpoint_file fs_get_def fs_put_def fs_resolve_def
        starts_with_def result_bind_def is_safe_key_def Let_def record_checkpoint_def upsert_def
        demo_uploaded_eq demo_attached_parts)
qed

end
