(* ===== verification/Join.thy ===== *)
theory Join
  imports Config Scenario
begin

text \<open>
  Worker admission: token generation (\<open>apikey.rs\<close>), the resolution of a \<open>Hello\<close> token to an
  identity and class, the version gate and the handshake of a websocket session (\<open>ws.rs\<close>). The
  worker binaries served for self-update are a parameter, target to checksum.
\<close>

definition hash_token :: "hub_env \<Rightarrow> string \<Rightarrow> string" where
  "hash_token env token = ev_sha256 env token"

text \<open>\<open>(plaintext, display prefix, hash)\<close> from the next two UUIDs.\<close>

definition generate_with_prefix :: "hub_env \<Rightarrow> string \<Rightarrow> hub \<Rightarrow> hub \<times> string \<times> string \<times> string" where
  "generate_with_prefix env prefix h =
     (let random = ev_uuid env (hb_uuids h) @ ev_uuid env (hb_uuids h + 1);
          plaintext = prefix @ random;
          display_prefix = take (length prefix + 8) plaintext
      in (h\<lparr>hb_uuids := hb_uuids h + 2\<rparr>, plaintext, display_prefix, hash_token env plaintext))"

definition generate :: "hub_env \<Rightarrow> hub \<Rightarrow> hub \<times> string \<times> string \<times> string" where
  "generate env h = generate_with_prefix env API_KEY_PREFIX h"

definition generate_worker_token :: "hub_env \<Rightarrow> hub \<Rightarrow> hub \<times> string \<times> string \<times> string" where
  "generate_worker_token env h = generate_with_prefix env WORKER_TOKEN_PREFIX h"

definition generate_join_token :: "hub_env \<Rightarrow> hub \<Rightarrow> hub \<times> string \<times> string \<times> string" where
  "generate_join_token env h = generate_with_prefix env JOIN_TOKEN_PREFIX h"

definition fresh_uuid :: "hub_env \<Rightarrow> hub \<Rightarrow> hub \<times> string" where
  "fresh_uuid env h = (h\<lparr>hb_uuids := hb_uuids h + 1\<rparr>, ev_uuid env (hb_uuids h))"

definition mint_join_token :: "hub_env \<Rightarrow> unix_seconds \<Rightarrow> worker_id \<Rightarrow> hub \<Rightarrow> hub \<times> string result" where
  "mint_join_token env now wid h =
     (let (h1, plaintext, _, hash) = generate_join_token env h;
          (h2, tid) = fresh_uuid env h1
      in case create_join_token now tid wid hash (now + JOIN_TOKEN_TTL) (hb_store h2) of
           Inl e \<Rightarrow> (h2, Inl e)
         | Inr s \<Rightarrow> (h2\<lparr>hb_store := s\<rparr>, Inr plaintext))"

subsection \<open>Admission\<close>

definition WORKER_ID_PREFIX :: string where [simp]: "WORKER_ID_PREFIX = ''w-''"
definition REJECT_BAD_TOKEN :: string where [simp]: "REJECT_BAD_TOKEN = ''bad join token''"
definition REJECT_NOT_HELLO :: string where [simp]: "REJECT_NOT_HELLO = ''first message must be hello''"
definition BYTES_PER_MB :: nat where [simp]: "BYTES_PER_MB = 1048576"

definition admit_join_token ::
  "(worker_id \<times> bool) option \<Rightarrow> resume option \<Rightarrow> (worker_id \<times> worker_class) option" where
  "admit_join_token resolved resume =
     (case resolved of
        Some (wid, True) \<Rightarrow> Some (wid, Leased)
      | Some (wid, False) \<Rightarrow>
          (case resume of
             Some r \<Rightarrow> if re_worker_id r = wid then Some (wid, Leased) else None
           | None \<Rightarrow> None)
      | None \<Rightarrow> None)"

definition resolve_join ::
  "hub_env \<Rightarrow> config \<Rightarrow> unix_seconds \<Rightarrow> string \<Rightarrow> resume option \<Rightarrow> hub \<Rightarrow>
   hub \<times> (worker_id \<times> worker_class) option" where
  "resolve_join env cfg now token resume h =
     (if starts_with JOIN_TOKEN_PREFIX token
      then (let (s, resolved) = resolve_join_token (hash_token env token) now (hb_store h)
            in (h\<lparr>hb_store := s\<rparr>, admit_join_token resolved resume))
      else if token = cf_join_token cfg
      then (case resume of
              Some r \<Rightarrow> (h, Some (re_worker_id r, Leased))
            | None \<Rightarrow> (let (h1, u) = fresh_uuid env h
                       in (h1, Some (WORKER_ID_PREFIX @ take 8 u, Leased))))
      else (case resolve_worker_token (hash_token env token) (hb_store h) of
              Some info \<Rightarrow> (on_store (touch_worker_token (wk_id info) now) h,
                            Some (wk_worker_id info, Persistent))
            | None \<Rightarrow> (h, None)))"

definition reject :: "string \<Rightarrow> cp_to_worker" where
  "reject reason = HelloReject reason PROTOCOL_VERSION None None"

definition version_reject ::
  "(string \<Rightarrow> string option) \<Rightarrow> config \<Rightarrow> worker_class \<Rightarrow> string \<Rightarrow> cp_to_worker" where
  "version_reject binary_sha cfg cls target =
     (let mn = cf_min_protocol cfg;
          reason = ''worker protocol below the minimum ('' @ show_nat mn @ '')''
      in case (if cls = Persistent then binary_sha target else None) of
           Some sha \<Rightarrow> HelloReject reason mn
              (Some (trim_end_slashes (cf_public_url cfg) @ ''/agent/'' @ target)) (Some sha)
         | None \<Rightarrow> HelloReject reason mn None None)"

definition labels_of :: "capabilities \<Rightarrow> string list" where
  "labels_of caps = map (\<lambda>(k, v). if v = [] then k else k @ ''='' @ v) (cp_labels caps)"

definition hardware_of :: "capabilities \<Rightarrow> hardware" where
  "hardware_of caps =
     (let (gpu, vram, driver) =
        (case cp_accelerator caps of
           Cuda (d # _) \<Rightarrow> (Some (gi_name d), Some (gi_vram_bytes d div BYTES_PER_MB), gi_driver_version d)
         | Mps chip mem \<Rightarrow> (Some chip, Some (mem div BYTES_PER_MB), None)
         | _ \<Rightarrow> (None, None, None))
      in \<lparr>hw_host = cp_os caps @ ''-'' @ cp_arch caps, hw_os = cp_os caps, hw_gpu = gpu,
          hw_vram_mb = vram, hw_driver = driver\<rparr>)"

text \<open>The handshake: what the session answers to the first message (\<open>None\<close>: closed or timed out)
  and, when it acknowledges, the attach that follows on the session's channel. A failed attach
  ends the session task, which drops the receiving half of that channel.\<close>

definition handshake ::
  "hub_env \<Rightarrow> config \<Rightarrow> (string \<Rightarrow> string option) \<Rightarrow> unix_seconds \<Rightarrow> nat \<Rightarrow> worker_to_cp option \<Rightarrow> hub \<Rightarrow>
   hub \<times> cp_to_worker option \<times> (worker_id \<times> worker_class) option" where
  "handshake env cfg binary_sha now session first h =
     (case first of
        Some (Hello version _ target token caps resume) \<Rightarrow>
          (case resolve_join env cfg now token resume h of
             (h1, None) \<Rightarrow> (h1, Some (reject REJECT_BAD_TOKEN), None)
           | (h1, Some (wid, cls)) \<Rightarrow>
               if version < cf_min_protocol cfg
               then (h1, Some (version_reject binary_sha cfg cls target), None)
               else (let ack = HelloAck wid cls default_telemetry None (resume_high_water wid h1)
                     in case attach env now wid (fresh_link session) (labels_of caps) (hardware_of caps) h1 of
                          (h2, Inr _) \<Rightarrow> (h2, Some ack, Some (wid, cls))
                        | (h2, Inl _) \<Rightarrow> (close_link wid h2, Some ack, None)))
      | Some _ \<Rightarrow> (h, Some (reject REJECT_NOT_HELLO), None)
      | None \<Rightarrow> (h, None, None))"

subsection \<open>Join tokens admit one identity\<close>

text \<open>The tokens with a given hash: minted once, so there is one row.\<close>

definition join_row :: "string \<Rightarrow> store \<Rightarrow> join_token_row option" where
  "join_row hash s = row_of jt_token_hash hash (st_join_tokens s)"

lemma find_cong': "(\<And>x. x \<in> set xs \<Longrightarrow> p x = q x) \<Longrightarrow> find p xs = find q xs"
  by (induction xs) auto

lemma pk_find_key:
  assumes "pk key rows" "\<And>x. p x \<Longrightarrow> key x = k"
  shows "find p rows = (case row_of key k rows of Some r \<Rightarrow> if p r then Some r else None | None \<Rightarrow> None)"
proof (cases "row_of key k rows")
  case None
  then have "\<forall>x\<in>set rows. \<not> p x" using assms(2) by (auto simp: row_of_None_iff)
  with None show ?thesis by (simp add: find_None_iff)
next
  case (Some r)
  then have r: "r \<in> set rows" "key r = k" by (auto dest: row_of_SomeD)
  have uniq: "x = r" if "x \<in> set rows" "p x" for x
    using pk_row_of [OF assms(1) that(1)] assms(2) [OF that(2)] Some by simp
  show ?thesis
  proof (cases "find p rows")
    case None
    with r Some show ?thesis by (auto simp: find_None_iff)
  next
    case (Some x)
    then have "x \<in> set rows" "p x" by (auto dest: find_SomeD)
    with uniq Some \<open>row_of key k rows = Some r\<close> show ?thesis by auto
  qed
qed

lemma resolve_join_token_row:
  assumes "pk jt_token_hash (st_join_tokens s)"
  shows "resolve_join_token hash ts s =
     (case join_row hash s of
        None \<Rightarrow> (s, None)
      | Some t \<Rightarrow>
          if jt_used_at t = None \<and> ts < jt_expires_at t
          then (s\<lparr>st_join_tokens := update_where (\<lambda>t. jt_token_hash t = hash) (\<lambda>t. t\<lparr>jt_used_at := Some ts\<rparr>)
                                      (st_join_tokens s)\<rparr>, Some (jt_worker_id t, True))
          else (s, if jt_used_at t = None then None else Some (jt_worker_id t, False)))"
proof -
  let ?fresh = "\<lambda>t. jt_token_hash t = hash \<and> jt_used_at t = None \<and> ts < jt_expires_at t"
  have f: "find ?fresh (st_join_tokens s) =
      (case join_row hash s of Some r \<Rightarrow> if ?fresh r then Some r else None | None \<Rightarrow> None)"
    unfolding join_row_def by (rule pk_find_key [OF assms]) simp
  have row: "join_row hash s = Some t \<Longrightarrow> jt_token_hash t = hash \<and> t \<in> set (st_join_tokens s)" for t
    by (auto simp: join_row_def dest: row_of_SomeD)
  have uniq: "x = t" if "join_row hash s = Some t" "x \<in> set (st_join_tokens s)" "jt_token_hash x = hash" for x t
    using pk_row_of [OF assms that(2)] that by (simp add: join_row_def)
  have none: "join_row hash s = None \<Longrightarrow> x \<in> set (st_join_tokens s) \<Longrightarrow> jt_token_hash x \<noteq> hash" for x
    by (auto simp: join_row_def row_of_None_iff)
  show ?thesis
  proof (cases "join_row hash s")
    case None
    have u: "update_where ?fresh g (st_join_tokens s) = st_join_tokens s" for g
      using none [OF None] by (auto simp: update_where_def intro!: map_idI)
    have "find (\<lambda>t. jt_token_hash t = hash \<and> jt_used_at t \<noteq> None) (st_join_tokens s) = None"
      using none [OF None] by (auto simp: find_None_iff)
    with None f u show ?thesis by (simp add: resolve_join_token_def Let_def)
  next
    case (Some t)
    show ?thesis
    proof (cases "jt_used_at t = None \<and> ts < jt_expires_at t")
      case True
      have "update_where ?fresh g (st_join_tokens s) = update_where (\<lambda>t. jt_token_hash t = hash) g (st_join_tokens s)" for g
        using uniq [OF Some] True by (auto simp: update_where_def)
      with True f Some row [OF Some] show ?thesis by (simp add: resolve_join_token_def Let_def)
    next
      case False
      have u: "update_where ?fresh g (st_join_tokens s) = st_join_tokens s" for g
        using uniq [OF Some] False by (auto simp: update_where_def intro!: map_idI)
      have "find (\<lambda>t. jt_token_hash t = hash \<and> jt_used_at t \<noteq> None) (st_join_tokens s) =
          (case join_row hash s of Some r \<Rightarrow> if jt_token_hash r = hash \<and> jt_used_at r \<noteq> None then Some r else None | None \<Rightarrow> None)"
        unfolding join_row_def by (rule pk_find_key [OF assms]) simp
      then have g: "find (\<lambda>t. jt_token_hash t = hash \<and> jt_used_at t \<noteq> None) (st_join_tokens s) =
          (if jt_used_at t = None then None else Some t)"
        using row [OF Some] by (simp add: Some)
      have f0: "find ?fresh (st_join_tokens s) = None" using f False by (simp add: Some)
      have s: "s\<lparr>st_join_tokens := st_join_tokens s\<rparr> = s" by simp
      show ?thesis
        unfolding resolve_join_token_def Let_def u f0 Some option.case s g using False by auto
    qed
  qed
qed

text \<open>Successive \<open>Hello\<close> messages presenting one token: the answers, in order.\<close>

fun join_attempts ::
  "hub_env \<Rightarrow> config \<Rightarrow> string \<Rightarrow> (unix_seconds \<times> resume option) list \<Rightarrow> hub \<Rightarrow>
   (worker_id \<times> worker_class) option list" where
  "join_attempts env cfg token [] h = []"
| "join_attempts env cfg token ((now, resume) # rest) h =
     (let (h1, r) = resolve_join env cfg now token resume h
      in r # join_attempts env cfg token rest h1)"

definition names :: "resume option \<Rightarrow> worker_id \<Rightarrow> bool" where
  "names resume wid \<longleftrightarrow> (case resume of Some r \<Rightarrow> re_worker_id r = wid | None \<Rightarrow> False)"

text \<open>The answers a row gives: the specification of admission by join token.\<close>

fun row_answers ::
  "join_token_row \<Rightarrow> (unix_seconds \<times> resume option) list \<Rightarrow> (worker_id \<times> worker_class) option list" where
  "row_answers t [] = []"
| "row_answers t ((now, resume) # rest) =
     (if jt_used_at t = None
      then if now < jt_expires_at t
           then Some (jt_worker_id t, Leased) # row_answers (t\<lparr>jt_used_at := Some now\<rparr>) rest
           else None # row_answers t rest
      else (if names resume (jt_worker_id t) then Some (jt_worker_id t, Leased) else None) # row_answers t rest)"

lemma join_row_used:
  assumes "join_row hash s = Some t" "pk jt_token_hash (st_join_tokens s)"
  shows "join_row hash (s\<lparr>st_join_tokens := update_where (\<lambda>t. jt_token_hash t = hash)
      (\<lambda>t. t\<lparr>jt_used_at := Some ts\<rparr>) (st_join_tokens s)\<rparr>) = Some (t\<lparr>jt_used_at := Some ts\<rparr>)"
  using assms row_of_SomeD [of jt_token_hash hash "st_join_tokens s" t]
  by (simp add: join_row_def row_of_update_where)

lemma join_attempts_row:
  assumes "starts_with JOIN_TOKEN_PREFIX token" "pk jt_token_hash (st_join_tokens (hb_store h))"
  shows "join_attempts env cfg token attempts h =
     (case join_row (hash_token env token) (hb_store h) of
        None \<Rightarrow> map (\<lambda>_. None) attempts | Some t \<Rightarrow> row_answers t attempts)"
  using assms(2)
proof (induction attempts arbitrary: h)
  case (Cons a rest)
  note join_prefix = assms(1)[simplified]
  obtain now resume where a: "a = (now, resume)" by (cases a)
  let ?hash = "hash_token env token" let ?s = "hb_store h"
  show ?case
  proof (cases "join_row ?hash ?s")
    case None
    with Cons show ?thesis
      by (simp add: a resolve_join_def join_prefix resolve_join_token_row admit_join_token_def)
  next
    case (Some t)
    show ?thesis
    proof (cases "jt_used_at t = None \<and> now < jt_expires_at t")
      case True
      let ?s1 = "?s\<lparr>st_join_tokens := update_where (\<lambda>t. jt_token_hash t = ?hash)
          (\<lambda>t. t\<lparr>jt_used_at := Some now\<rparr>) (st_join_tokens ?s)\<rparr>"
      have "pk jt_token_hash (st_join_tokens ?s1)" using Cons.prems by (simp add: pk_update_where)
      with Cons.IH [of "h\<lparr>hb_store := ?s1\<rparr>"] join_row_used [OF Some Cons.prems, of now] True Some Cons.prems
      show ?thesis
        by (simp add: a resolve_join_def join_prefix resolve_join_token_row admit_join_token_def)
    next
      case False
      with Cons Some show ?thesis
        by (auto simp: a resolve_join_def join_prefix resolve_join_token_row admit_join_token_def names_def
            split: option.splits)
    qed
  qed
qed (simp split: option.split)

lemma row_answers_used:
  "jt_used_at t \<noteq> None \<Longrightarrow>
   row_answers t attempts =
     map (\<lambda>a. if names (snd a) (jt_worker_id t) then Some (jt_worker_id t, Leased) else None) attempts"
  by (induction attempts) auto

lemma set_row_answers: "set (row_answers t attempts) \<subseteq> {None, Some (jt_worker_id t, Leased)}"
  by (induction t attempts rule: row_answers.induct) auto

definition enrolments ::
  "worker_id \<Rightarrow> (unix_seconds \<times> resume option) list \<Rightarrow> (worker_id \<times> worker_class) option list \<Rightarrow> nat" where
  "enrolments wid attempts answers =
     length (filter (\<lambda>(a, ans). ans \<noteq> None \<and> \<not> names (snd a) wid) (zip attempts answers))"

lemma enrolments_used:
  "jt_used_at t \<noteq> None \<Longrightarrow> enrolments (jt_worker_id t) attempts (row_answers t attempts) = 0"
  by (auto simp: row_answers_used enrolments_def filter_empty_conv in_set_zip split: if_splits)

lemma enrolments_row: "enrolments (jt_worker_id t) attempts (row_answers t attempts) \<le> 1"
proof (induction t attempts rule: row_answers.induct)
  case (2 t now resume rest)
  show ?case
  proof (cases "jt_used_at t = None \<and> now < jt_expires_at t")
    case True
    then have "enrolments (jt_worker_id t) rest (row_answers (t\<lparr>jt_used_at := Some now\<rparr>) rest) = 0"
      using enrolments_used [of "t\<lparr>jt_used_at := Some now\<rparr>" rest] by simp
    with True show ?thesis by (simp add: enrolments_def)
  next
    case False
    with 2 show ?thesis by (auto simp: enrolments_def)
  qed
qed (simp add: enrolments_def)

text \<open>C12: A provision join token is single use and carries one identity. Whatever sequence of
  joins presents it, every admission is for the worker id it was minted for and as a leased
  worker; at most one admission is of a worker that does not already claim that id; and a
  token nobody used before its expiry admits nobody.\<close>

theorem join_token_single_identity:
  assumes "starts_with JOIN_TOKEN_PREFIX token" and "pk jt_token_hash (st_join_tokens (hb_store h))"
    and "join_row (hash_token env token) (hb_store h) = Some t"
  shows "set (join_attempts env cfg token attempts h) \<subseteq> {None, Some (jt_worker_id t, Leased)} \<and>
    enrolments (jt_worker_id t) attempts (join_attempts env cfg token attempts h) \<le> 1 \<and>
    (jt_used_at t = None \<longrightarrow> (\<forall>(now, _)\<in>set attempts. jt_expires_at t \<le> now) \<longrightarrow>
       set (join_attempts env cfg token attempts h) \<subseteq> {None})"
proof -
  have r: "join_attempts env cfg token attempts h = row_answers t attempts"
    by (simp add: join_attempts_row [OF assms(1,2)] assms(3))
  have "set (row_answers t attempts) \<subseteq> {None}"
    if "jt_used_at t = None" "\<forall>(now, _)\<in>set attempts. jt_expires_at t \<le> now"
    using that by (induction attempts) auto
  then show ?thesis unfolding r using set_row_answers enrolments_row by auto
qed

definition demo_join_hub :: hub where
  "demo_join_hub = hub_init\<lparr>hb_store := empty_store\<lparr>st_join_tokens :=
     [\<lparr>jt_id = ''t'', jt_worker_id = ''w-1'', jt_token_hash = ''0'', jt_created_at = 0,
       jt_expires_at = 100, jt_used_at = None\<rparr>]\<rparr>\<rparr>"

lemma join_token_single_identity_witness:
  "\<forall>cfg. set (join_attempts demo_env cfg ''cj_x'' [(1, None), (2, None)] demo_join_hub)
            \<subseteq> {None, Some (''w-1'', Leased)} \<and>
     enrolments ''w-1'' [(1, None), (2, None)]
       (join_attempts demo_env cfg ''cj_x'' [(1, None), (2, None)] demo_join_hub) \<le> 1"
proof
  fix cfg
  show "set (join_attempts demo_env cfg ''cj_x'' [(1, None), (2, None)] demo_join_hub)
            \<subseteq> {None, Some (''w-1'', Leased)} \<and>
     enrolments ''w-1'' [(1, None), (2, None)]
       (join_attempts demo_env cfg ''cj_x'' [(1, None), (2, None)] demo_join_hub) \<le> 1"
    using join_token_single_identity [of "''cj_x''" demo_join_hub demo_env
        "the (join_row ''0'' (hb_store demo_join_hub))" cfg "[(1, None), (2, None)]"]
    by (simp add: demo_join_hub_def hub_init_def new_hub_def pk_def join_row_def hash_token_def demo_env_def
        starts_with_def)
qed

text \<open>A minted token enrols its worker until it expires. A fresh worker that presents the token
  of a provision is admitted under the worker id the token was minted for exactly when half an hour
  has not passed, provided the token's hash was not already in the table.\<close>

theorem minted_token_enrols:
  assumes "mint_join_token env now wid h = (h', Inr token)"
    and "join_row (hash_token env token) (hb_store h) = None"
  shows "snd (resolve_join env cfg t token None h') =
    (if t < now + JOIN_TOKEN_TTL then Some (wid, Leased) else None)"
proof -
  have st: "starts_with ''cj_'' token"
    and tok: "\<exists>kid. st_join_tokens (hb_store h') = st_join_tokens (hb_store h) @
      [\<lparr>jt_id = kid, jt_worker_id = wid, jt_token_hash = hash_token env token, jt_created_at = now,
        jt_expires_at = now + JOIN_TOKEN_TTL, jt_used_at = None\<rparr>]"
    using assms(1)
    by (auto simp: mint_join_token_def generate_join_token_def generate_with_prefix_def fresh_uuid_def
        create_join_token_def Let_def starts_with_def strip_prefix_append [of "''cj_''", simplified]
        split: if_splits sum.splits)
  then obtain kid where rows: "st_join_tokens (hb_store h') = st_join_tokens (hb_store h) @
      [\<lparr>jt_id = kid, jt_worker_id = wid, jt_token_hash = hash_token env token, jt_created_at = now,
        jt_expires_at = now + JOIN_TOKEN_TTL, jt_used_at = None\<rparr>]" by blast
  have none: "\<forall>x\<in>set (st_join_tokens (hb_store h)). jt_token_hash x \<noteq> hash_token env token"
    using assms(2) by (auto simp: join_row_def row_of_None_iff)
  have fapp: "find p (xs @ [x]) = (if p x then Some x else None)" if "\<forall>y\<in>set xs. \<not> p y"
    for p and xs :: "join_token_row list" and x
    using that by (induction xs) auto
  have upd: "update_where p f (xs @ [x]) = xs @ [if p x then f x else x]" if "\<forall>y\<in>set xs. \<not> p y"
    for p f and xs :: "join_token_row list" and x
    using that by (induction xs) auto
  show ?thesis
    using st none by (auto simp: resolve_join_def resolve_join_token_def rows Let_def fapp upd admit_join_token_def)
qed

lemma minted_token_enrols_witness:
  "\<forall>cfg. \<exists>h' token. mint_join_token demo_env 0 ''w-9'' hub_init = (h', Inr token) \<and>
     snd (resolve_join demo_env cfg 10 token None h') = Some (''w-9'', Leased)"
proof
  fix cfg
  obtain h' token where m: "mint_join_token demo_env 0 ''w-9'' hub_init = (h', Inr token)"
    by (simp add: mint_join_token_def generate_join_token_def generate_with_prefix_def fresh_uuid_def
        create_join_token_def Let_def hub_init_def new_hub_def empty_store_def)
  have "join_row (hash_token demo_env token) (hb_store hub_init) = None"
    by (simp add: join_row_def hub_init_def new_hub_def empty_store_def)
  from minted_token_enrols [OF m this, of cfg 10] m 
  show "\<exists>h' token. mint_join_token demo_env 0 ''w-9'' hub_init = (h', Inr token) \<and>
     snd (resolve_join demo_env cfg 10 token None h') = Some (''w-9'', Leased)"
    by (auto simp: JOIN_TOKEN_TTL_def)
qed

subsection \<open>Persistent workers\<close>

lemma resolve_join_Persistent:
  assumes "resolve_join env cfg now token resume h = (h', Some (wid, Persistent))"
  shows "\<not> starts_with JOIN_TOKEN_PREFIX token \<and> token \<noteq> cf_join_token cfg \<and>
    (\<exists>info. resolve_worker_token (hash_token env token) (hb_store h) = Some info \<and> wk_worker_id info = wid)"
  using assms
  by (auto simp: resolve_join_def admit_join_token_def Let_def split: if_splits prod.splits option.splits bool.splits)

text \<open>Revoking a worker token ends its enrolment and nobody else's. After the revocation
  no token admits as a persistent worker under the revoked row, and every token that admitted a
  persistent worker under another row still admits the same one.\<close>

theorem revoked_worker_token_rejected:
  assumes "worker_tokens_sound (hb_store h)"
    and "resolve_worker_token (hash_token env token) (hb_store h) = Some info"
    and "\<not> starts_with JOIN_TOKEN_PREFIX token" and "token \<noteq> cf_join_token cfg"
  shows "snd (resolve_join env cfg now token resume (on_store (\<lambda>s. fst (revoke_worker_token ts kid s)) h)) =
    (if wk_id info = kid then None else Some (wk_worker_id info, Persistent))"
proof -
  have "resolve_worker_token (hash_token env token) (fst (revoke_worker_token ts kid (hb_store h))) =
      (if wk_id info = kid then None else Some info)"
    using worker_tokens.lookup_revoke [OF assms(1), where r = kid and now = ts and k = "hash_token env token"] assms(2) by simp
  with assms(3,4) show ?thesis by (simp add: resolve_join_def)
qed

definition demo_token_hub :: hub where
  "demo_token_hub = hub_init\<lparr>hb_store := empty_store\<lparr>st_worker_tokens :=
     [\<lparr>kx_info = \<lparr>wk_id = ''k'', wk_worker_id = ''w-1'', wk_name = ''n'', wk_prefix = ''cw_'', wk_created_at = 0,
       wk_last_used_at = None, wk_revoked_at = None\<rparr>, kx_token_hash = ''0''\<rparr>]\<rparr>\<rparr>"

lemma revoked_worker_token_rejected_witness:
  "snd (resolve_join demo_env (demo_base_config\<lparr>cf_join_token := ''j''\<rparr>) 5 ''cw_x'' None
     (on_store (\<lambda>s. fst (revoke_worker_token 4 ''k'' s)) demo_token_hub)) = None"
  using revoked_worker_token_rejected [of demo_token_hub demo_env "''cw_x''"
      "kx_info (hd (st_worker_tokens (hb_store demo_token_hub)))" "demo_base_config\<lparr>cf_join_token := ''j''\<rparr>" 5 None 4 "''k''"]
  by (simp add: demo_token_hub_def hub_init_def new_hub_def worker_tokens_sound_def pk_def hash_token_def
      demo_env_def resolve_worker_token_def starts_with_def)

subsection \<open>Handshakes are steps of the control plane\<close>

lemma resolve_join_reach:
  assumes "hub_reach env h" "resolve_join env cfg now token resume h = (h', r)"
  shows "hub_reach env h'"
proof -
  have side: "hub_reach env (h\<lparr>hb_store := s\<rparr>)" if "side_write (hb_store h) s" for s
    by (rule hub_reach.Step [OF assms(1) hub_step.Side [OF that]])
  have "hub_reach env (h\<lparr>hb_uuids := n\<rparr>)" for n
    by (rule hub_reach.Step [OF assms(1) hub_step.Uuid])
  with assms(2) show ?thesis
    using side [OF side_write.Use_join] side [OF side_write.Touch_token] assms(1)
    by (auto simp: resolve_join_def fresh_uuid_def Let_def case_prod_beta split: if_splits option.splits)
qed

lemma handshake_reach:
  assumes "hub_reach env h"
  shows "hub_reach env (fst (handshake env cfg bin now n first h))"
proof (cases "\<exists>version x target token caps resume. first = Some (Hello version x target token caps resume)")
  case True
  then obtain version x target token caps resume
    where f: "first = Some (Hello version x target token caps resume)" by blast
  obtain h1 r where r: "resolve_join env cfg now token resume h = (h1, r)" by fastforce
  with assms have h1: "hub_reach env h1" by (rule resolve_join_reach)
  show ?thesis
  proof (cases r)
    case (Some wc)
    let ?at = "attach env now (fst wc) (fresh_link n) (labels_of caps) (hardware_of caps) h1"
    have "hub_reach env (fst ?at)" by (rule hub_reach.Step [OF h1 hub_step.Attach])
    moreover from this have "hub_reach env (close_link (fst wc) (fst ?at))"
      by (rule hub_reach.Step [OF _ hub_step.Close])
    ultimately show ?thesis
      using h1 by (auto simp: handshake_def f r Some Let_def split: prod.splits sum.splits if_splits)
  qed (simp add: handshake_def f r h1)
qed (use assms in \<open>auto simp: handshake_def split: option.splits worker_to_cp.splits\<close>)

subsection \<open>A queue whose head cannot be assembled\<close>

lemma pump_links_stalled:
  assumes "next_assignable_queued (hb_store h) = Some run"
    and "assemble_job env now (rs_id (rr_summary run)) (rr_spec run) h = (h, Inl e)"
  shows "pump_links env now ws dead h =
    (h, if \<exists>w\<in>set ws. worker_idle now w (hb_store h) then Inl e else Inr dead)"
proof (induction ws)
  case (Cons w ws)
  show ?case
  proof (cases "worker_idle now w (hb_store h)")
    case True
    then obtain wk where "store_worker now w (hb_store h) = Some wk"
      "eligible_for_assignment wk HEARTBEAT_TIMEOUT"
      by (auto simp: worker_idle_def split: option.splits)
    with assms True show ?thesis by (simp add: pump_links.simps)
  next
    case False
    then have "pump_links env now (w # ws) dead h = pump_links env now ws dead h"
      by (auto simp: pump_links.simps worker_idle_def split: option.splits)
    with Cons False show ?thesis by simp
  qed
qed simp

lemma pump_stalled:
  assumes "next_assignable_queued (hb_store h) = Some run"
    and "assemble_job env now (rs_id (rr_summary run)) (rr_spec run) h = (h, Inl e)"
  shows "pump env now h =
    (h, if \<exists>w\<in>fst ` set (hb_links h). worker_idle now w (hb_store h) then Inl e else Inr ())"
  using pump_links_stalled [OF assms, of "map fst (hb_links h)" "[]"]
  by (auto simp: pump_def drop_links_def)

definition unit_missing :: "store \<Rightarrow> run_record \<Rightarrow> bool" where
  "unit_missing s run =
     (case rr_spec run of
        Train tr \<Rightarrow> store_code_unit (cr_name (tr_code tr)) (cr_sha (tr_code tr)) s = None
      | Shell _ \<Rightarrow> False)"

lemma assemble_unit_missing:
  "unit_missing (hb_store h) run \<Longrightarrow>
   \<exists>e. assemble_job env now (rs_id (rr_summary run)) (rr_spec run) h = (h, Inl e)"
  by (cases "rr_spec run") (simp_all add: unit_missing_def assemble_job_def assemble_train_job_def)

lemma next_assignable_worker_joined [simp]:
  "next_assignable_queued (worker_joined now w labels hw s) = next_assignable_queued s"
  by (simp add: next_assignable_queued_def store_runs_def held_back_def [abs_def] store_sweep_def
      sweep_active_children_def store_run_def worker_joined_def cong: option.case_cong)

lemma idle_after_join:
  assumes "row_of wr_id w (st_workers s) = None" "store_lease w s = None"
  shows "worker_idle now w (worker_joined now w labels hw s)"
  using assms
  by (simp add: worker_idle_def store_worker_def worker_joined_def row_of_upsert worker_of_row_def
      eligible_for_assignment_def store_lease_def round_half_away_def HEARTBEAT_TIMEOUT_def)


definition demo_poison_hub :: hub where
  "demo_poison_hub = hub_init\<lparr>hb_store := empty_store\<lparr>st_run_seq := Some 1,
     st_runs := [(demo_run (new_run_id 0 1) Queued None 0)\<lparr>ru_spec := Train demo_train\<rparr>]\<rparr>\<rparr>"


end
