(* ===== verification/Session.thy ===== *)
theory Session
  imports Join
begin

text \<open>
  Dashboard sign-in (\<open>auth.rs\<close>): the signed cookies, the Google OAuth flow and the email of a
  session. The HMAC, base64 and hex codecs are parameters, the record \<open>cookie_crypto\<close>; what
  the flow needs of them is \<open>codec_ok\<close>. Google's two endpoints are parameters too. The clock
  is in whole seconds.
\<close>

record cookie_crypto =
  cc_hmac :: "string \<Rightarrow> string \<Rightarrow> string"
  cc_hex :: "string \<Rightarrow> string"
  cc_unhex :: "string \<Rightarrow> string option"
  cc_b64 :: "string \<Rightarrow> string"
  cc_unb64 :: "string \<Rightarrow> string option"

record headers =
  hd_authorization :: "string option"
  hd_cookie :: "string option"

text \<open>\<open>i64::from_str\<close>: an optional sign, at least one digit, no overflow.\<close>

definition parse_i64 :: "string \<Rightarrow> int option" where
  "parse_i64 s =
     (let (neg, body) =
        (case s of c # cs \<Rightarrow> if c = CHR ''-'' then (True, cs) else if c = CHR ''+'' then (False, cs) else (False, s)
         | [] \<Rightarrow> (False, []))
      in if body = [] then None
         else (case parse_digits 0 body of
                 Some n \<Rightarrow> (let i = (if neg then - int n else int n)
                            in if - (2 ^ 63) \<le> i \<and> i < 2 ^ 63 then Some i else None)
               | None \<Rightarrow> None))"

definition SESSION_COOKIE :: string where [simp]: "SESSION_COOKIE = ''chuk_session''"
definition STATE_COOKIE :: string where [simp]: "STATE_COOKIE = ''chuk_oauth_state''"
definition SESSION_TTL :: int where [simp]: "SESSION_TTL = 604800"
definition STATE_TTL_SECS :: int where [simp]: "STATE_TTL_SECS = 600"
definition GOOGLE_AUTH_URL :: string where
  "GOOGLE_AUTH_URL = ''https://accounts.google.com/o/oauth2/v2/auth''"
definition GOOGLE_TOKEN_URL :: string where "GOOGLE_TOKEN_URL = ''https://oauth2.googleapis.com/token''"
definition GOOGLE_USERINFO_URL :: string where
  "GOOGLE_USERINFO_URL = ''https://openidconnect.googleapis.com/v1/userinfo''"

definition hmac_hex :: "cookie_crypto \<Rightarrow> string \<Rightarrow> string \<Rightarrow> string" where
  "hmac_hex cc key data = cc_hex cc (cc_hmac cc key data)"

definition hmac_ok :: "cookie_crypto \<Rightarrow> string \<Rightarrow> string \<Rightarrow> string \<Rightarrow> bool" where
  "hmac_ok cc key data sig_hex =
     (case cc_unhex cc sig_hex of None \<Rightarrow> False | Some sig \<Rightarrow> sig = cc_hmac cc key data)"

definition sign :: "cookie_crypto \<Rightarrow> string \<Rightarrow> string \<Rightarrow> string" where
  "sign cc key payload = cc_b64 cc payload @ ''.'' @ hmac_hex cc key payload"

definition unsign :: "cookie_crypto \<Rightarrow> string \<Rightarrow> string \<Rightarrow> string option" where
  "unsign cc key token =
     (case split_once ''.'' token of
        None \<Rightarrow> None
      | Some (b64, sig) \<Rightarrow>
          (case cc_unb64 cc b64 of
             None \<Rightarrow> None
           | Some payload \<Rightarrow> if hmac_ok cc key payload sig then Some payload else None))"

fun find_cookie :: "string \<Rightarrow> string list \<Rightarrow> string option" where
  "find_cookie name [] = None"
| "find_cookie name (kv # rest) =
     (case split_once ''='' (trim kv) of
        Some (k, v) \<Rightarrow> if k = name then Some v else find_cookie name rest
      | None \<Rightarrow> find_cookie name rest)"

definition cookie_from :: "headers \<Rightarrow> string \<Rightarrow> string option" where
  "cookie_from hs name =
     (case hd_cookie hs of None \<Rightarrow> None | Some c \<Rightarrow> find_cookie name (split_on (CHR '';'') c))"

definition set_cookie :: "string \<Rightarrow> string \<Rightarrow> int \<Rightarrow> string" where
  "set_cookie name value max_age =
     name @ ''='' @ value @ ''; HttpOnly; Secure; SameSite=Lax; Path=/; Max-Age='' @ show_int max_age"

definition is_allowed :: "config \<Rightarrow> string \<Rightarrow> bool" where
  "is_allowed cfg email \<longleftrightarrow> to_lower email \<in> set (cf_allowed_emails cfg)"

definition session_email :: "cookie_crypto \<Rightarrow> config \<Rightarrow> int \<Rightarrow> headers \<Rightarrow> string option" where
  "session_email cc cfg now hs =
     (case cookie_from hs SESSION_COOKIE of
        None \<Rightarrow> None
      | Some raw \<Rightarrow>
          (case unsign cc (cf_api_token cfg) raw of
             None \<Rightarrow> None
           | Some payload \<Rightarrow>
               (case split_once ''|'' payload of
                  None \<Rightarrow> None
                | Some (email, expiry) \<Rightarrow>
                    (case parse_i64 expiry of
                       None \<Rightarrow> None
                     | Some e \<Rightarrow> if e < now then None
                                 else if is_allowed cfg email then Some email else None))))"

subsection \<open>Handlers\<close>

text \<open>A plain-text answer, or a redirect that sets one cookie (its name, value and age).\<close>

datatype auth_reply = Plain nat string | Redirect_to string "string \<times> string \<times> int"

definition hex_upper :: "nat \<Rightarrow> char" where
  "hex_upper d = (if d < 10 then char_of (48 + d) else char_of (55 + d))"

definition urlencode :: "string \<Rightarrow> string" where
  "urlencode s =
     concat (map (\<lambda>b. let n = of_char b :: nat in
        if 65 \<le> n \<and> n \<le> 90 \<or> 97 \<le> n \<and> n \<le> 122 \<or> 48 \<le> n \<and> n \<le> 57 \<or> b \<in> set ''-_.~'' then [b]
        else [CHR ''%'', hex_upper (n div 16), hex_upper (n mod 16)]) s)"

definition callback_uri :: "config \<Rightarrow> string" where
  "callback_uri cfg = trim_end_slashes (cf_public_url cfg) @ ''/auth/callback''"

text \<open>\<open>nonce\<close> is the fresh UUID of the attempt.\<close>

definition login :: "cookie_crypto \<Rightarrow> config \<Rightarrow> int \<Rightarrow> string \<Rightarrow> auth_reply" where
  "login cc cfg now nonce =
     (case cf_google_client_id cfg of
        None \<Rightarrow> Plain 404 ''sign-in not configured''
      | Some client_id \<Rightarrow>
          (let state_token = sign cc (cf_api_token cfg) (nonce @ ''|'' @ show_int (now + STATE_TTL_SECS));
               auth_url = GOOGLE_AUTH_URL @ ''?client_id='' @ urlencode client_id @ ''&redirect_uri='' @
                 urlencode (callback_uri cfg) @ ''&response_type=code&scope=openid%20email&state='' @ nonce @
                 ''&access_type=online&prompt=select_account''
           in Redirect_to auth_url (STATE_COOKIE, state_token, STATE_TTL_SECS)))"

record google =
  gg_token :: "(string \<times> string) list \<Rightarrow> string result"
  gg_userinfo :: "string \<Rightarrow> (string \<times> bool) result"

text \<open>The code exchange: the form posted to the token endpoint, then the userinfo of its token.\<close>

definition exchange_and_identify ::
  "google \<Rightarrow> string \<Rightarrow> string \<Rightarrow> string \<Rightarrow> string \<Rightarrow> string result" where
  "exchange_and_identify g client_id client_secret code redirect_uri =
     result_bind (gg_token g [(''code'', code), (''client_id'', client_id),
        (''client_secret'', client_secret), (''redirect_uri'', redirect_uri),
        (''grant_type'', ''authorization_code'')]) (\<lambda>token.
     result_bind (gg_userinfo g token) (\<lambda>(email, verified).
     if verified then Inr email else Inl ''email not verified by Google''))"

definition state_ok :: "cookie_crypto \<Rightarrow> config \<Rightarrow> int \<Rightarrow> headers \<Rightarrow> string option \<Rightarrow> bool" where
  "state_ok cc cfg now hs state \<longleftrightarrow>
     (case (state, case cookie_from hs STATE_COOKIE of
                     None \<Rightarrow> None | Some c \<Rightarrow> unsign cc (cf_api_token cfg) c) of
        (Some nonce, Some payload) \<Rightarrow>
          (case split_once ''|'' payload of
             None \<Rightarrow> False
           | Some (n, expiry) \<Rightarrow>
               n = nonce \<and> now \<le> (case parse_i64 expiry of Some e \<Rightarrow> e | None \<Rightarrow> 0))
      | _ \<Rightarrow> False)"

definition complete ::
  "cookie_crypto \<Rightarrow> config \<Rightarrow> google \<Rightarrow> int \<Rightarrow> headers \<Rightarrow> string option \<Rightarrow> string option \<Rightarrow> auth_reply" where
  "complete cc cfg g now hs code state =
     (case (cf_google_client_id cfg, cf_google_client_secret cfg) of
        (Some client_id, Some client_secret) \<Rightarrow>
          (case code of
             None \<Rightarrow> Plain 400 ''missing code''
           | Some c \<Rightarrow>
               if \<not> state_ok cc cfg now hs state then Plain 400 ''bad oauth state''
               else
                 (case exchange_and_identify g client_id client_secret c (callback_uri cfg) of
                    Inl _ \<Rightarrow> Plain 502 ''sign-in failed''
                  | Inr email \<Rightarrow>
                      if \<not> is_allowed cfg email then Plain 403 (email @ '' is not permitted'')
                      else
                        (let session = sign cc (cf_api_token cfg) (email @ ''|'' @ show_int (now + SESSION_TTL))
                         in Redirect_to ''/'' (SESSION_COOKIE, session, SESSION_TTL))))
      | _ \<Rightarrow> Plain 404 ''sign-in not configured'')"

definition logout :: auth_reply where
  "logout = Redirect_to ''/'' (SESSION_COOKIE, [], 0)"

subsection \<open>What the codecs must provide\<close>

definition token_char :: "char \<Rightarrow> bool" where
  "token_char c \<longleftrightarrow> \<not> is_space c \<and> c \<notin> set ''.;=|''"

definition codec_ok :: "cookie_crypto \<Rightarrow> bool" where
  "codec_ok cc \<longleftrightarrow>
     (\<forall>x. cc_unhex cc (cc_hex cc x) = Some x) \<and> (\<forall>x. cc_unb64 cc (cc_b64 cc x) = Some x) \<and>
     (\<forall>x. \<forall>c\<in>set (cc_hex cc x) \<union> set (cc_b64 cc x). token_char c)"

lemma unsign_sign: "codec_ok cc \<Longrightarrow> unsign cc key (sign cc key payload) = Some payload"
proof -
  assume ok: "codec_ok cc"
  then have "CHR ''.'' \<notin> set (cc_b64 cc payload)"
    unfolding codec_ok_def token_char_def by force
  then have "split_once ''.'' (sign cc key payload) = Some (cc_b64 cc payload, hmac_hex cc key payload)"
    using split_once_char by (simp add: sign_def)
  with ok show ?thesis by (simp add: unsign_def codec_ok_def hmac_ok_def hmac_hex_def)
qed

lemma sign_chars: "codec_ok cc \<Longrightarrow> c \<in> set (sign cc key p) \<Longrightarrow> c = CHR ''.'' \<or> token_char c"
  by (auto simp: codec_ok_def sign_def hmac_hex_def)

lemma find_one_cookie:
  assumes "codec_ok cc" "name \<noteq> []" "\<forall>c\<in>set name. token_char c"
  shows "cookie_from \<lparr>hd_authorization = a, hd_cookie = Some (name @ ''='' @ sign cc key p)\<rparr> name = Some (sign cc key p)"
proof -
  let ?kv = "name @ CHR ''='' # sign cc key p"
  have last: "last ?kv \<in> set (sign cc key p)"
    by (simp add: sign_def)
  have nosp: "\<not> is_space c \<and> c \<noteq> CHR '';''" if "c \<in> set (sign cc key p)" for c
    using sign_chars [OF assms(1) that] by (auto simp: token_char_def is_space_def)
  have "hd ?kv = hd name" "hd name \<in> set name" using assms(2) by simp_all
  with assms(3) have "\<not> is_space (hd ?kv)" by (auto simp: token_char_def)
  then have "trim ?kv = ?kv" using nosp [OF last] by (intro trim_id) simp_all
  moreover have "CHR '';'' \<notin> set ?kv" using nosp assms(3) by (auto simp: token_char_def)
  moreover have "split_once ''='' ?kv = Some (name, sign cc key p)"
    using assms(3) by (intro split_once_char) (auto simp: token_char_def)
  ultimately show ?thesis by (simp add: cookie_from_def split_on_no_sep)
qed

lemma digit_neq: "is_digit c \<Longrightarrow> c \<noteq> CHR ''+'' \<and> c \<noteq> CHR ''-'' \<and> c \<noteq> CHR ''|''"
  by (auto simp: is_digit_def)

lemma parse_digits_show: "parse_digits 0 (show_nat n) = Some n"
  using parse_digits_show_pad [of 0 n] by (simp add: show_pad_def pad_left_def)

lemma parse_i64_show_int:
  assumes "- (2 ^ 63) \<le> i" "i < 2 ^ 63"
  shows "parse_i64 (show_int i) = Some i"
proof (cases "i < 0")
  case True
  with assms show ?thesis by (simp add: parse_i64_def show_int_def parse_digits_show)
next
  case False
  obtain c cs where s: "show_nat (nat i) = c # cs" using show_nat_nonempty by (metis neq_Nil_conv)
  then have "is_digit c" using show_nat_digits [of "nat i"] by simp
  with False assms s show ?thesis
    using parse_digits_show [of "nat i"] digit_neq [of c] by (simp add: parse_i64_def show_int_def)
qed

text \<open>A signed \<open>value|expiry\<close> payload reads back its two halves.\<close>

lemma split_payload:
  "CHR ''|'' \<notin> set v \<Longrightarrow> split_once ''|'' (v @ ''|'' @ show_int e) = Some (v, show_int e)"
  using split_once_char by simp

lemma session_email_signed:
  assumes "codec_ok cc" "CHR ''|'' \<notin> set email" "- (2 ^ 63) \<le> e" "e < 2 ^ 63"
  shows "session_email cc cfg t \<lparr>hd_authorization = a, hd_cookie = Some
      (SESSION_COOKIE @ ''='' @ sign cc (cf_api_token cfg) (email @ ''|'' @ show_int e))\<rparr> =
    (if t \<le> e \<and> is_allowed cfg email then Some email else None)"
  using assms find_one_cookie [OF assms(1), of SESSION_COOKIE a "cf_api_token cfg" "email @ ''|'' @ show_int e"]
  by (simp add: session_email_def unsign_sign parse_i64_show_int split_payload [simplified]
      token_char_def is_space_def)

subsection \<open>Properties\<close>

lemma complete_Redirect:
  assumes "complete cc cfg g now hs code state = Redirect_to url (n, v, a)"
  obtains cid secret c email where
    "cf_google_client_id cfg = Some cid" "cf_google_client_secret cfg = Some secret"
    "state_ok cc cfg now hs state"
    "exchange_and_identify g cid secret c (callback_uri cfg) = Inr email" "is_allowed cfg email"
    "n = SESSION_COOKIE" "v = sign cc (cf_api_token cfg) (email @ ''|'' @ show_int (now + SESSION_TTL))"
  using assms
  by (auto simp: complete_def Let_def split: option.splits if_splits sum.splits)

text \<open>C14: The sign-in cookie reads back the identity it was issued for. When the OAuth callback
  sets a session cookie, Google verified an email that is on the allowlist, and a request that
  returns the cookie is that user until exactly seven days later and nobody afterwards.\<close>

theorem sign_in_roundtrip:
  assumes "codec_ok cc" and "0 \<le> now" and "now < 2 ^ 62"
    and "complete cc cfg g now hs code state = Redirect_to url (n, v, age)"
  shows "\<exists>email c. exchange_and_identify g (the (cf_google_client_id cfg)) (the (cf_google_client_secret cfg)) c
      (callback_uri cfg) = Inr email \<and> to_lower email \<in> set (cf_allowed_emails cfg) \<and>
    (CHR ''|'' \<in> set email \<or>
     (\<forall>t. session_email cc cfg t \<lparr>hd_authorization = None, hd_cookie = Some (n @ ''='' @ v)\<rparr> =
        (if t \<le> now + 604800 then Some email else None)))"
proof -
  from assms(4) obtain cid secret c email where c:
    "cf_google_client_id cfg = Some cid" "cf_google_client_secret cfg = Some secret"
    "exchange_and_identify g cid secret c (callback_uri cfg) = Inr email" "is_allowed cfg email"
    "n = SESSION_COOKIE" "v = sign cc (cf_api_token cfg) (email @ ''|'' @ show_int (now + SESSION_TTL))"
    by (rule complete_Redirect)
  have "session_email cc cfg t \<lparr>hd_authorization = None, hd_cookie = Some (n @ ''='' @ v)\<rparr> =
      (if t \<le> now + 604800 then Some email else None)" if "CHR ''|'' \<notin> set email" for t
    using session_email_signed [OF assms(1) that, of "now + SESSION_TTL" cfg t None] assms(2,3) c(4)
    by (simp add: c(5,6))
  with c show ?thesis by (auto simp: is_allowed_def)
qed

text \<open>A session is never granted without the server's signature. Whatever the cookie header
  says, an email comes out only if it is on the allowlist and the cookie carries the HMAC, under
  the API token, of that email with an expiry that has not passed.\<close>

theorem session_needs_signature:
  assumes "session_email cc cfg now hs = Some email"
  shows "to_lower email \<in> set (cf_allowed_emails cfg) \<and>
    (\<exists>b64 sig expiry e. cookie_from hs SESSION_COOKIE = Some (b64 @ ''.'' @ sig) \<and>
       cc_unhex cc sig = Some (cc_hmac cc (cf_api_token cfg) (email @ ''|'' @ expiry)) \<and>
       parse_i64 expiry = Some e \<and> now \<le> e)"
proof -
  from assms obtain b64 sig payload expiry e where
    "cookie_from hs SESSION_COOKIE = Some (b64 @ ''.'' @ sig)" "payload = email @ ''|'' @ expiry"
    "cc_unhex cc sig = Some (cc_hmac cc (cf_api_token cfg) payload)"
    "parse_i64 expiry = Some e" "now \<le> e" "is_allowed cfg email"
    by (auto simp: session_email_def unsign_def hmac_ok_def split_once_char_iff
        split: option.splits if_splits)
  then show ?thesis unfolding is_allowed_def by blast
qed

text \<open>The OAuth state is bound to the attempt. A callback passes the CSRF check with the
  cookie its login set exactly when it presents that login's nonce within ten minutes.\<close>

theorem login_state_checked:
  assumes "codec_ok cc" and "CHR ''|'' \<notin> set nonce" and "0 \<le> now" and "now < 2 ^ 62"
    and "login cc cfg now nonce = Redirect_to url (n, v, age)"
  shows "state_ok cc cfg t \<lparr>hd_authorization = None, hd_cookie = Some (n @ ''='' @ v)\<rparr> state \<longleftrightarrow>
    state = Some nonce \<and> t \<le> now + 600"
proof -
  have n: "n = STATE_COOKIE"
    "v = sign cc (cf_api_token cfg) (nonce @ ''|'' @ show_int (now + STATE_TTL_SECS))"
    using assms(5) by (auto simp: login_def Let_def split: option.splits)
  have "cookie_from \<lparr>hd_authorization = None, hd_cookie = Some (n @ ''='' @ v)\<rparr> STATE_COOKIE = Some v"
    using find_one_cookie [OF assms(1), of STATE_COOKIE None "cf_api_token cfg"
        "nonce @ ''|'' @ show_int (now + STATE_TTL_SECS)"]
    by (simp add: n token_char_def is_space_def)
  then show ?thesis
    using assms(3,4) unsign_sign [OF assms(1)]
    by (auto simp: state_ok_def n(2) split_payload [OF assms(2), simplified] parse_i64_show_int
        split: option.splits)
qed

subsection \<open>A concrete sign-in\<close>

text \<open>A codec that satisfies the hypotheses: two letters per character for the encodings, and a
  keyed concatenation for the HMAC.\<close>

definition demo_hex :: "string \<Rightarrow> string" where
  "demo_hex s = concat (map (\<lambda>c. let n = of_char c :: nat in
     [char_of (65 + n div 16), char_of (65 + n mod 16)]) s)"

fun demo_unhex :: "string \<Rightarrow> string option" where
  "demo_unhex [] = Some []"
| "demo_unhex [c] = None"
| "demo_unhex (a # b # rest) =
     (case demo_unhex rest of
        None \<Rightarrow> None
      | Some r \<Rightarrow> Some (char_of ((of_char a - 65) * 16 + (of_char b - 65 :: nat)) # r))"

definition demo_crypto :: cookie_crypto where
  "demo_crypto = \<lparr>cc_hmac = (\<lambda>k d. k @ d), cc_hex = demo_hex, cc_unhex = demo_unhex,
     cc_b64 = demo_hex, cc_unb64 = demo_unhex\<rparr>"

lemma demo_nibble: "(n::nat) < 16 \<Longrightarrow> of_char (char_of (65 + n) :: char) = 65 + n"
  by simp

lemma demo_unhex_hex: "demo_unhex (demo_hex s) = Some s"
proof (induction s)
  case (Cons c s)
  have lt: "(of_char c :: nat) < 256" by simp
  then have "(of_char c :: nat) div 16 < 16" by (simp add: less_mult_imp_div_less)
  then have "of_char (char_of (65 + (of_char c :: nat) div 16) :: char) - 65 = (of_char c :: nat) div 16"
    "of_char (char_of (65 + (of_char c :: nat) mod 16) :: char) - 65 = (of_char c :: nat) mod 16"
    by (simp_all add: demo_nibble del: of_char_of)
  with Cons show ?case by (simp add: demo_hex_def Let_def del: of_char_of)
qed (simp add: demo_hex_def)

lemma demo_hex_chars: "c \<in> set (demo_hex s) \<Longrightarrow> token_char c"
proof -
  assume "c \<in> set (demo_hex s)"
  then obtain d :: char where "c = char_of (65 + (of_char d :: nat) div 16) \<or> c = char_of (65 + (of_char d :: nat) mod 16)"
    by (auto simp: demo_hex_def Let_def)
  moreover have "(of_char d :: nat) div 16 < 16" "(of_char d :: nat) mod 16 < 16"
    using nat_of_char_less_256 [of d] by (simp_all add: less_mult_imp_div_less)
  ultimately obtain n :: nat where "n < 16" "c = char_of (65 + n)" by metis
  then have "(of_char c :: nat) = 65 + n" by simp
  with \<open>n < 16\<close> show ?thesis by (auto simp: token_char_def is_space_def)
qed

lemma demo_codec_ok: "codec_ok demo_crypto"
  unfolding codec_ok_def using demo_hex_chars by (auto simp: demo_crypto_def demo_unhex_hex)

definition demo_config :: config where
  "demo_config = demo_base_config\<lparr>cf_api_token := ''k'', cf_join_token := ''j'', cf_public_url := ''https://h'',
     cf_min_protocol := 1, cf_google_client_id := Some ''i'', cf_google_client_secret := Some ''s'',
     cf_allowed_emails := [''a@b'']\<rparr>"

definition demo_google :: google where
  "demo_google = \<lparr>gg_token = (\<lambda>_. Inr ''t''), gg_userinfo = (\<lambda>_. Inr (''A@b'', True))\<rparr>"

definition demo_state_header :: headers where
  "demo_state_header = \<lparr>hd_authorization = None, hd_cookie = Some
     (STATE_COOKIE @ ''='' @ sign demo_crypto ''k'' (''n'' @ ''|'' @ show_int (0 + STATE_TTL_SECS)))\<rparr>"

lemma demo_login: "login demo_crypto demo_config 0 ''n'' =
    Redirect_to (case login demo_crypto demo_config 0 ''n'' of Redirect_to u _ \<Rightarrow> u | Plain _ _ \<Rightarrow> [])
      (STATE_COOKIE, sign demo_crypto ''k'' (''n'' @ ''|'' @ show_int (0 + STATE_TTL_SECS)), STATE_TTL_SECS)"
  by (simp add: login_def demo_config_def Let_def)

lemma demo_state_ok: "state_ok demo_crypto demo_config 100 demo_state_header (Some ''n'')"
proof -
  have "cookie_from demo_state_header STATE_COOKIE =
      Some (sign demo_crypto ''k'' (''n'' @ ''|'' @ show_int (0 + STATE_TTL_SECS)))"
    unfolding demo_state_header_def
    by (rule find_one_cookie [OF demo_codec_ok]) (simp_all add: token_char_def is_space_def)
  then show ?thesis
    using unsign_sign [OF demo_codec_ok, of "''k''" "''n'' @ ''|'' @ show_int (0 + STATE_TTL_SECS)"]
      split_payload [of "''n''" "0 + STATE_TTL_SECS"]
    by (simp add: state_ok_def demo_config_def parse_i64_show_int del: STATE_COOKIE_def)
qed

lemma demo_lower: "to_lower ''A@b'' = ''a@b''"
  by code_simp

lemma demo_complete:
  "complete demo_crypto demo_config demo_google 100 demo_state_header (Some ''c'') (Some ''n'') =
   Redirect_to ''/'' (SESSION_COOKIE, sign demo_crypto ''k'' (''A@b'' @ ''|'' @ show_int (100 + SESSION_TTL)), SESSION_TTL)"
  using demo_state_ok
  by (simp add: complete_def exchange_and_identify_def result_bind_def demo_google_def is_allowed_def
      demo_config_def demo_lower Let_def)

lemma login_state_checked_witness:
  "state_ok demo_crypto demo_config 100 demo_state_header (Some ''n'') \<and>
   \<not> state_ok demo_crypto demo_config 601 demo_state_header (Some ''n'')"
  using login_state_checked [OF demo_codec_ok _ _ _ demo_login, of 100 "Some ''n''"]
    login_state_checked [OF demo_codec_ok _ _ _ demo_login, of 601 "Some ''n''"]
  by (simp add: demo_state_header_def del: STATE_TTL_SECS_def STATE_COOKIE_def)

lemma sign_in_roundtrip_witness:
  "\<exists>email c. exchange_and_identify demo_google ''i'' ''s'' c (callback_uri demo_config) = Inr email \<and>
     to_lower email \<in> set (cf_allowed_emails demo_config)"
  using sign_in_roundtrip [OF demo_codec_ok _ _ demo_complete] by (auto simp: demo_config_def)

lemma session_needs_signature_witness:
  "\<exists>b64 sig expiry. sign demo_crypto ''k'' (''A@b'' @ ''|'' @ show_int 5) = b64 @ ''.'' @ sig \<and>
     demo_unhex sig = Some (''k'' @ ''A@b'' @ ''|'' @ expiry)"
proof -
  let ?hs = "\<lparr>hd_authorization = None, hd_cookie = Some
      (SESSION_COOKIE @ ''='' @ sign demo_crypto ''k'' (''A@b'' @ ''|'' @ show_int 5))\<rparr>"
  have "cf_api_token demo_config = ''k''" "is_allowed demo_config ''A@b''"
    by (simp_all add: demo_config_def is_allowed_def demo_lower)
  then have "session_email demo_crypto demo_config 5 ?hs = Some ''A@b''"
    using session_email_signed [OF demo_codec_ok, of "''A@b''" 5 demo_config 5 None] by simp
  from session_needs_signature [OF this] obtain b64 sig expiry
    where got: "cookie_from ?hs SESSION_COOKIE = Some (b64 @ ''.'' @ sig)"
      "demo_unhex sig = Some (''k'' @ ''A@b'' @ ''|'' @ expiry)"
    by (auto simp: demo_crypto_def demo_config_def)
  have "cookie_from ?hs SESSION_COOKIE = Some (sign demo_crypto ''k'' (''A@b'' @ ''|'' @ show_int 5))"
    by (rule find_one_cookie [OF demo_codec_ok]) (simp_all add: token_char_def is_space_def)
  with got(1) have "sign demo_crypto ''k'' (''A@b'' @ ''|'' @ show_int 5) = b64 @ ''.'' @ sig"
    by (metis option.inject)
  with got(2) show ?thesis by blast
qed

end
