(* ===== verification/Access.thy ===== *)
theory Access
  imports Session
begin

text \<open>
  Authentication and role-based access: the request context (\<open>apikey.rs\<close>), the bearer middleware
  and the reply helpers (\<open>api/mod.rs\<close>), the sealed experiments keys (\<open>crypto.rs\<close>) and the
  handlers for users, API keys and worker tokens (\<open>api/access.rs\<close>). A handler's reply is a value
  or an HTTP status with its message.
\<close>

type_synonym 'a reply = "(nat \<times> string) + 'a"

record auth_context =
  ac_role :: role
  ac_team_id :: string
  ac_subject :: string
  ac_owner_email :: string

definition may :: "auth_context \<Rightarrow> role \<Rightarrow> bool" where
  "may ctx min_role \<longleftrightarrow> min_role \<le> ac_role ctx"

definition MASTER_TOKEN_SENTINEL :: string where [simp]: "MASTER_TOKEN_SENTINEL = ''master-token''"
definition BEARER_PREFIX :: string where [simp]: "BEARER_PREFIX = ''Bearer ''"
definition ERR_UNAUTHORIZED :: string where "ERR_UNAUTHORIZED = ''bad or missing bearer token''"
definition ERR_RUN_NOT_FOUND :: string where "ERR_RUN_NOT_FOUND = ''no such run''"
definition ERR_CKPT_NOT_FOUND :: string where "ERR_CKPT_NOT_FOUND = ''no such checkpoint''"
definition ERR_INTERNAL :: string where "ERR_INTERNAL = ''internal error''"

definition internal :: "'a reply" where "internal = Inl (500, ERR_INTERNAL)"
definition not_found :: "'a reply" where "not_found = Inl (404, ERR_RUN_NOT_FOUND)"
definition bad_request :: "string \<Rightarrow> 'a reply" where "bad_request m = Inl (400, m)"
definition forbidden :: "string \<Rightarrow> 'a reply" where "forbidden m = Inl (403, m)"
definition service_unavailable :: "string \<Rightarrow> 'a reply" where "service_unavailable m = Inl (503, m)"

definition requires :: "role \<Rightarrow> 'a reply" where
  "requires r = Inl (403, ''requires '' @ role_str r @ '' role'')"

definition require_role :: "auth_context \<Rightarrow> role \<Rightarrow> unit reply" where
  "require_role ctx min_role = (if may ctx min_role then Inr () else requires min_role)"

subsection \<open>The bearer middleware\<close>

definition master_context :: auth_context where
  "master_context = \<lparr>ac_role = Sysadmin, ac_team_id = DEFAULT_TEAM_ID,
     ac_subject = MASTER_TOKEN_SENTINEL, ac_owner_email = MASTER_TOKEN_SENTINEL\<rparr>"

definition key_context :: "api_key_info \<Rightarrow> auth_context" where
  "key_context info = \<lparr>ac_role = ak_role info, ac_team_id = ak_team_id info,
     ac_subject = ak_prefix info, ac_owner_email = ak_created_by info\<rparr>"

definition session_context :: "string \<Rightarrow> store \<Rightarrow> auth_context" where
  "session_context email s =
     (let (r, team) = (case get_user email s of
                         Some u \<Rightarrow> (us_role u, us_team_id u) | None \<Rightarrow> (Read, DEFAULT_TEAM_ID))
      in \<lparr>ac_role = r, ac_team_id = team, ac_subject = email, ac_owner_email = email\<rparr>)"

definition resolve_auth ::
  "hub_env \<Rightarrow> cookie_crypto \<Rightarrow> config \<Rightarrow> unix_seconds \<Rightarrow> headers \<Rightarrow> hub \<Rightarrow> hub \<times> auth_context option" where
  "resolve_auth env cc cfg now hs h =
     (let session =
        (if auth_enabled cfg
         then map_option (\<lambda>email. session_context email (hb_store h)) (session_email cc cfg \<lfloor>now\<rfloor> hs)
         else None)
      in case (case hd_authorization hs of None \<Rightarrow> None | Some v \<Rightarrow> strip_prefix BEARER_PREFIX v) of
           None \<Rightarrow> (h, session)
         | Some token \<Rightarrow>
             if token = cf_api_token cfg then (h, Some master_context)
             else (case resolve_api_key (hash_token env token) (hb_store h) of
                     Some info \<Rightarrow> (on_store (touch_api_key (ak_id info) now) h, Some (key_context info))
                   | None \<Rightarrow> (h, session)))"

definition require_bearer ::
  "hub_env \<Rightarrow> cookie_crypto \<Rightarrow> config \<Rightarrow> unix_seconds \<Rightarrow> headers \<Rightarrow> hub \<Rightarrow> hub \<times> auth_context reply" where
  "require_bearer env cc cfg now hs h =
     (case resolve_auth env cc cfg now hs h of
        (h1, None) \<Rightarrow> (h1, Inl (401, ERR_UNAUTHORIZED))
      | (h1, Some ctx) \<Rightarrow> (h1, Inr ctx))"

subsection \<open>Sealed secrets (\<open>crypto.rs\<close>)\<close>

text \<open>The AEAD cipher and the base64 codec are parameters. A \<open>None\<close> of \<open>sl_open\<close> is a failed tag
  check, \<open>sl_utf8\<close> the validity test of the opened bytes.\<close>

record seal =
  sl_seal :: "string \<Rightarrow> string \<Rightarrow> string \<Rightarrow> string"
  sl_open :: "string \<Rightarrow> string \<Rightarrow> string \<Rightarrow> string option"
  sl_encode :: "string \<Rightarrow> string"
  sl_decode :: "string \<Rightarrow> string option"
  sl_utf8 :: "string \<Rightarrow> bool"

definition key_from_env :: "seal \<Rightarrow> (string \<Rightarrow> string option) \<Rightarrow> string option" where
  "key_from_env sl env =
     (case env ''CHUK_EXPERIMENTS_KEY_ENCRYPTION_KEY'' of
        None \<Rightarrow> None
      | Some raw \<Rightarrow> (case sl_decode sl (trim raw) of
                       None \<Rightarrow> None
                     | Some bytes \<Rightarrow> if length bytes = 32 then Some bytes else None))"

definition encrypt :: "seal \<Rightarrow> string \<Rightarrow> string \<Rightarrow> string \<Rightarrow> string" where
  "encrypt sl nonce key plaintext = sl_encode sl (nonce @ sl_seal sl key nonce plaintext)"

definition decrypt :: "seal \<Rightarrow> string \<Rightarrow> string \<Rightarrow> string result" where
  "decrypt sl key blob =
     (case sl_decode sl blob of
        None \<Rightarrow> Inl ''base64 decode''
      | Some raw \<Rightarrow>
          if length raw < 12 then Inl ''ciphertext too short to contain a nonce''
          else (case sl_open sl key (take 12 raw) (drop 12 raw) of
                  None \<Rightarrow> Inl ''decryption failed (wrong key or corrupt ciphertext)''
                | Some plain \<Rightarrow> if sl_utf8 sl plain then Inr plain
                                else Inl ''decrypted bytes were not valid utf-8''))"

subsection \<open>Users\<close>

definition api_list_users :: "auth_context \<Rightarrow> hub \<Rightarrow> user list reply" where
  "api_list_users ctx h =
     (if may ctx Admin then Inr (list_users (ac_team_id ctx) (hb_store h)) else requires Admin)"

definition api_upsert_user ::
  "unix_seconds \<Rightarrow> auth_context \<Rightarrow> string \<Rightarrow> role \<Rightarrow> hub \<Rightarrow> hub \<times> unit reply" where
  "api_upsert_user now ctx email r h =
     (if \<not> may ctx Admin then (h, requires Admin)
      else if ac_role ctx < r then (h, bad_request ''cannot grant a role above your own'')
      else
        (let email = to_lower (trim email)
         in if email = [] then (h, bad_request ''email required'')
            else (on_store (upsert_user now email (ac_team_id ctx) r) h, Inr ())))"

definition api_remove_user :: "auth_context \<Rightarrow> string \<Rightarrow> hub \<Rightarrow> hub \<times> unit reply" where
  "api_remove_user ctx email h =
     (if \<not> may ctx Admin then (h, requires Admin)
      else
        (let email = to_lower (trim email)
         in if email = ac_subject ctx then (h, bad_request ''cannot remove yourself'')
            else (on_store (remove_user email) h, Inr ())))"

subsection \<open>API keys\<close>

definition api_list_api_keys :: "auth_context \<Rightarrow> hub \<Rightarrow> api_key_info list reply" where
  "api_list_api_keys ctx h =
     (let ks = list_api_keys (ac_team_id ctx) (hb_store h)
      in Inr (if may ctx Admin then ks else filter (\<lambda>k. ak_created_by k = ac_subject ctx) ks))"

definition api_create_api_key ::
  "hub_env \<Rightarrow> unix_seconds \<Rightarrow> auth_context \<Rightarrow> string \<Rightarrow> role \<Rightarrow> hub \<Rightarrow>
   hub \<times> (string \<times> api_key_info) reply" where
  "api_create_api_key env now ctx name r h =
     (if ac_role ctx < r then (h, forbidden ''cannot grant a key a role above your own'')
      else
        (let name = trim name
         in if name = [] then (h, bad_request ''key name required'')
            else
              (let (h1, plaintext, prefix, hash) = generate env h;
                   (h2, kid) = fresh_uuid env h1
               in case create_api_key now kid (ac_team_id ctx) (ac_subject ctx) name prefix hash r (hb_store h2) of
                    Inl _ \<Rightarrow> (h2, internal)
                  | Inr s \<Rightarrow>
                      (h2\<lparr>hb_store := s\<rparr>,
                       Inr (plaintext, \<lparr>ak_id = kid, ak_team_id = ac_team_id ctx, ak_created_by = ac_subject ctx,
                              ak_name = name, ak_prefix = prefix, ak_role = r, ak_created_at = now,
                              ak_last_used_at = None, ak_revoked_at = None\<rparr>)))))"

definition api_revoke_api_key ::
  "unix_seconds \<Rightarrow> auth_context \<Rightarrow> string \<Rightarrow> hub \<Rightarrow> hub \<times> unit reply" where
  "api_revoke_api_key now ctx kid h =
     (case find (\<lambda>k. ak_id k = kid) (list_api_keys (ac_team_id ctx) (hb_store h)) of
        None \<Rightarrow> (h, not_found)
      | Some key \<Rightarrow>
          if \<not> may ctx Admin \<and> ak_created_by key \<noteq> ac_subject ctx
          then (h, forbidden ''you can only revoke keys you created'')
          else (case revoke_api_key now kid (hb_store h) of
                  (s, ok) \<Rightarrow> (h\<lparr>hb_store := s\<rparr>, if ok then Inr () else not_found)))"

subsection \<open>Worker tokens\<close>

definition api_list_worker_tokens :: "auth_context \<Rightarrow> hub \<Rightarrow> worker_token_info list reply" where
  "api_list_worker_tokens ctx h =
     (if may ctx Admin then Inr (list_worker_tokens (hb_store h)) else requires Admin)"

definition api_create_worker_token ::
  "hub_env \<Rightarrow> unix_seconds \<Rightarrow> auth_context \<Rightarrow> string \<Rightarrow> hub \<Rightarrow> hub \<times> (string \<times> worker_token_info) reply" where
  "api_create_worker_token env now ctx name h =
     (if \<not> may ctx Admin then (h, requires Admin)
      else
        (let name = trim name
         in if name = [] then (h, bad_request ''worker token name required'')
            else
              (let (h1, plaintext, prefix, hash) = generate_worker_token env h;
                   (h2, u) = fresh_uuid env h1;
                   wid = ''w-'' @ take 8 u;
                   (h3, kid) = fresh_uuid env h2
               in case create_worker_token now kid wid name prefix hash (hb_store h3) of
                    Inl _ \<Rightarrow> (h3, internal)
                  | Inr s \<Rightarrow>
                      (h3\<lparr>hb_store := s\<rparr>,
                       Inr (plaintext, \<lparr>wk_id = kid, wk_worker_id = wid, wk_name = name, wk_prefix = prefix,
                              wk_created_at = now, wk_last_used_at = None, wk_revoked_at = None\<rparr>)))))"

definition api_revoke_worker_token ::
  "unix_seconds \<Rightarrow> auth_context \<Rightarrow> string \<Rightarrow> hub \<Rightarrow> hub \<times> unit reply" where
  "api_revoke_worker_token now ctx kid h =
     (if \<not> may ctx Admin then (h, requires Admin)
      else (case revoke_worker_token now kid (hb_store h) of
              (s, ok) \<Rightarrow> (h\<lparr>hb_store := s\<rparr>, if ok then Inr () else not_found)))"

subsection \<open>Identity and the linked experiments key\<close>

record whoami_reply =
  wh_role :: string
  wh_team_id :: string
  wh_subject :: string
  wh_experiments_key_set :: bool

definition whoami :: "auth_context \<Rightarrow> hub \<Rightarrow> whoami_reply reply" where
  "whoami ctx h =
     Inr \<lparr>wh_role = role_str (ac_role ctx), wh_team_id = ac_team_id ctx, wh_subject = ac_subject ctx,
          wh_experiments_key_set = (user_experiments_key (ac_owner_email ctx) (hb_store h) \<noteq> None)\<rparr>"

definition NO_USER_IDENTITY :: string where
  "NO_USER_IDENTITY =
     ''the shared master token has no per-user identity to link a key against '' @
     [CHR 0xE2, CHR 0x80, CHR 0x94] @ '' sign in or use a scoped API key''"

definition set_experiments_key ::
  "seal \<Rightarrow> string option \<Rightarrow> string \<Rightarrow> unix_seconds \<Rightarrow> auth_context \<Rightarrow> string \<Rightarrow> hub \<Rightarrow> hub \<times> bool reply" where
  "set_experiments_key sl key nonce now ctx api_key h =
     (case key of
        None \<Rightarrow> (h, service_unavailable ''CHUK_EXPERIMENTS_KEY_ENCRYPTION_KEY not configured'')
      | Some k \<Rightarrow>
          if ac_owner_email ctx = MASTER_TOKEN_SENTINEL then (h, bad_request NO_USER_IDENTITY)
          else
            (let raw = trim api_key
             in if raw = [] then (h, bad_request ''api_key required'')
                else (on_store (set_user_experiments_key now (ac_owner_email ctx)
                                  (Some (encrypt sl nonce k raw))) h, Inr True)))"

definition clear_experiments_key ::
  "string option \<Rightarrow> unix_seconds \<Rightarrow> auth_context \<Rightarrow> hub \<Rightarrow> hub \<times> bool reply" where
  "clear_experiments_key key now ctx h =
     (if key = None then (h, service_unavailable ''CHUK_EXPERIMENTS_KEY_ENCRYPTION_KEY not configured'')
      else if ac_owner_email ctx = MASTER_TOKEN_SENTINEL then (h, bad_request NO_USER_IDENTITY)
      else (on_store (set_user_experiments_key now (ac_owner_email ctx) None) h, Inr False))"

subsection \<open>Requests that change credentials\<close>

datatype access_op =
    Op_upsert_user string role
  | Op_remove_user string
  | Op_create_key string role
  | Op_revoke_key string
  | Op_create_token string
  | Op_revoke_token string
  | Op_set_experiments string
  | Op_clear_experiments

text \<open>One request of the access API by a caller whose context the middleware resolved; \<open>sl\<close>,
  \<open>key\<close> and \<open>nonce\<close> belong to the sealed experiments keys.\<close>

fun access_step ::
  "hub_env \<Rightarrow> seal \<Rightarrow> string option \<Rightarrow> string \<Rightarrow> unix_seconds \<times> auth_context \<times> access_op \<Rightarrow> hub \<Rightarrow> hub" where
  "access_step env sl key nonce (now, ctx, Op_upsert_user email r) h = fst (api_upsert_user now ctx email r h)"
| "access_step env sl key nonce (now, ctx, Op_remove_user email) h = fst (api_remove_user ctx email h)"
| "access_step env sl key nonce (now, ctx, Op_create_key name r) h = fst (api_create_api_key env now ctx name r h)"
| "access_step env sl key nonce (now, ctx, Op_revoke_key kid) h = fst (api_revoke_api_key now ctx kid h)"
| "access_step env sl key nonce (now, ctx, Op_create_token name) h = fst (api_create_worker_token env now ctx name h)"
| "access_step env sl key nonce (now, ctx, Op_revoke_token kid) h = fst (api_revoke_worker_token now ctx kid h)"
| "access_step env sl key nonce (now, ctx, Op_set_experiments raw) h = fst (set_experiments_key sl key nonce now ctx raw h)"
| "access_step env sl key nonce (now, ctx, Op_clear_experiments) h = fst (clear_experiments_key key now ctx h)"

lemmas access_defs = api_upsert_user_def api_remove_user_def api_create_api_key_def api_revoke_api_key_def
  api_create_worker_token_def api_revoke_worker_token_def set_experiments_key_def clear_experiments_key_def
  generate_def generate_worker_token_def generate_with_prefix_def fresh_uuid_def

lemma create_api_key_Inr:
  "create_api_key now kid team creator name prefix hash r s = Inr s' \<Longrightarrow>
   st_users s' = st_users s \<and> st_worker_tokens s' = st_worker_tokens s \<and> (\<exists>x. st_api_keys s' = st_api_keys s @ [x] \<and>
     ak_role (ax_info x) = r \<and> ak_team_id (ax_info x) = team \<and> ax_key_hash x = hash)"
  by (auto simp: create_api_key_def split: if_splits)

lemma create_worker_token_Inr:
  "create_worker_token now kid w name prefix hash s = Inr s' \<Longrightarrow>
   st_users s' = st_users s \<and> st_api_keys s' = st_api_keys s"
  by (auto simp: create_worker_token_def split: if_splits)

lemma revoke_api_key_rows:
  "k \<in> set (st_api_keys (fst (revoke_api_key now kid s))) \<Longrightarrow>
   \<exists>k0\<in>set (st_api_keys s). ax_key_hash k0 = ax_key_hash k \<and> ak_role (ax_info k0) = ak_role (ax_info k)"
  by (auto simp: revoke_api_key_def Let_def set_update_where split: if_splits)

lemma user_frames [simp]:
  "st_users (fst (revoke_api_key now kid s)) = st_users s"
  "st_users (fst (revoke_worker_token now kid s)) = st_users s"
  "st_api_keys (fst (revoke_worker_token now kid s)) = st_api_keys s"
  "st_api_keys (upsert_user now email team r s) = st_api_keys s"
  "st_api_keys (remove_user email s) = st_api_keys s"
  "st_api_keys (set_user_experiments_key now email enc s) = st_api_keys s"
  by (simp_all add: revoke_api_key_def revoke_worker_token_def upsert_user_def remove_user_def
      set_user_experiments_key_def Let_def)

lemma access_step_keys:
  assumes "k \<in> set (st_api_keys (hb_store (access_step env sl key nonce (now, ctx, op) h)))"
  shows "(\<exists>k0\<in>set (st_api_keys (hb_store h)). ax_key_hash k0 = ax_key_hash k \<and>
      ak_role (ax_info k0) = ak_role (ax_info k)) \<or> ak_role (ax_info k) \<le> ac_role ctx"
proof (cases op)
  case (Op_create_key name r)
  with assms show ?thesis
    by (auto simp: access_defs Let_def not_less split: if_splits sum.splits dest!: create_api_key_Inr)
next
  case (Op_create_token name)
  with assms show ?thesis
    by (auto simp: access_defs Let_def split: if_splits sum.splits dest!: create_worker_token_Inr)
next
  case (Op_revoke_key kid)
  with assms show ?thesis
    by (auto simp: access_defs case_prod_beta split: if_splits option.splits dest!: revoke_api_key_rows)
qed (use assms in \<open>auto simp: access_defs Let_def case_prod_beta split: if_splits option.splits\<close>)

lemma upsert_rows:
  "x \<in> set (upsert key new f rows) \<Longrightarrow> x \<in> set rows \<or> x = new \<or> (\<exists>y\<in>set rows. key y = key new \<and> x = f y)"
  by (auto simp: upsert_def set_update_where split: if_splits)

lemma access_step_users:
  assumes "u \<in> set (st_users (hb_store (access_step env sl key nonce (now, ctx, op) h)))"
  shows "(\<exists>u0\<in>set (st_users (hb_store h)). us_email (ux_user u0) = us_email (ux_user u) \<and>
      us_role (ux_user u0) = us_role (ux_user u)) \<or> us_role (ux_user u) \<le> ac_role ctx"
proof -
  have low: "Read \<le> ac_role ctx" by (simp add: less_eq_role_def)
  show ?thesis
  proof (cases op)
    case (Op_upsert_user email r)
    with assms show ?thesis
      by (auto simp: access_defs Let_def upsert_user_def not_less split: if_splits dest!: upsert_rows)
  next
    case (Op_create_key name r)
    with assms show ?thesis
      by (auto simp: access_defs Let_def split: if_splits sum.splits dest!: create_api_key_Inr)
  next
    case (Op_create_token name)
    with assms show ?thesis
      by (auto simp: access_defs Let_def split: if_splits sum.splits dest!: create_worker_token_Inr)
  next
    case (Op_set_experiments raw)
    with assms low show ?thesis
      by (auto simp: access_defs Let_def set_user_experiments_key_def
          split: if_splits option.splits dest!: upsert_rows)
  next
    case Op_clear_experiments
    with assms low show ?thesis
      by (auto simp: access_defs Let_def set_user_experiments_key_def split: if_splits dest!: upsert_rows)
  qed (use assms in \<open>auto simp: access_defs Let_def case_prod_beta remove_user_def
        split: if_splits option.splits\<close>)
qed

text \<open>C15: No privilege escalation. However many requests of the access API are made by callers
  of at most a given role, every API key and every user above that role was already there with
  that role before: nobody can mint a credential or promote a user beyond their own role.\<close>

theorem no_privilege_escalation:
  assumes "\<forall>(now, ctx, op)\<in>set reqs. ac_role ctx \<le> r"
  shows "(\<forall>k\<in>set (st_api_keys (hb_store (fold (access_step env sl key nonce) reqs h))).
      r < ak_role (ax_info k) \<longrightarrow>
      (\<exists>k0\<in>set (st_api_keys (hb_store h)). ax_key_hash k0 = ax_key_hash k \<and>
         ak_role (ax_info k0) = ak_role (ax_info k))) \<and>
    (\<forall>u\<in>set (st_users (hb_store (fold (access_step env sl key nonce) reqs h))).
      r < us_role (ux_user u) \<longrightarrow>
      (\<exists>u0\<in>set (st_users (hb_store h)). us_email (ux_user u0) = us_email (ux_user u) \<and>
         us_role (ux_user u0) = us_role (ux_user u)))"
  using assms
proof (induction reqs arbitrary: h)
  case (Cons req reqs)
  obtain now ctx op where req: "req = (now, ctx, op)" by (cases req)
  let ?h = "access_step env sl key nonce req h"
  have r: "ac_role ctx \<le> r" using Cons.prems by (simp add: req)
  have ks: "\<exists>k0\<in>set (st_api_keys (hb_store h)). ax_key_hash k0 = ax_key_hash k \<and>
      ak_role (ax_info k0) = ak_role (ax_info k)"
    if "k \<in> set (st_api_keys (hb_store ?h))" "r < ak_role (ax_info k)" for k
    using access_step_keys [of k env sl key nonce now ctx op h] that r by (force simp: req)
  have us: "\<exists>u0\<in>set (st_users (hb_store h)). us_email (ux_user u0) = us_email (ux_user u) \<and>
      us_role (ux_user u0) = us_role (ux_user u)"
    if "u \<in> set (st_users (hb_store ?h))" "r < us_role (ux_user u)" for u
    using access_step_users [of u env sl key nonce now ctx op h] that r by (force simp: req)
  have "\<forall>(now, ctx, op)\<in>set reqs. ac_role ctx \<le> r" using Cons.prems by simp
  note Cons.IH [OF this, of ?h]
  with ks us show ?case by simp metis
qed auto

text \<open>Revoking an API key ends exactly that key. After a successful revocation a request with
  the revoked key is unauthenticated, and one with any other key has the context it had.\<close>

theorem revoked_key_unauthenticated:
  assumes "api_keys_sound (hb_store h)"
    and "resolve_api_key (hash_token env token) (hb_store h) = Some info"
    and "token \<noteq> cf_api_token cfg"
    and "api_revoke_api_key now ctx kid h = (h', Inr ())"
  shows "snd (resolve_auth env cc cfg t \<lparr>hd_authorization = Some (BEARER_PREFIX @ token), hd_cookie = None\<rparr> h') =
    (if ak_id info = kid then None else Some (key_context info))"
proof -
  have "hb_store h' = fst (revoke_api_key now kid (hb_store h))"
    using assms(4)
    by (auto simp: api_revoke_api_key_def case_prod_beta not_found_def forbidden_def
        split: option.splits if_splits)
  then have "resolve_api_key (hash_token env token) (hb_store h') = (if ak_id info = kid then None else Some info)"
    using api_keys.lookup_revoke [OF assms(1), where r = kid and now = now and k = "hash_token env token"] assms(2)
    by simp
  with assms(3) show ?thesis
    by (simp add: resolve_auth_def session_email_def cookie_from_def strip_prefix_append [of "''Bearer ''", simplified])
qed

subsection \<open>Users and sessions\<close>

lemma row_of_user_upsert:
  "row_of (\<lambda>u. us_email (ux_user u)) email (st_users (upsert_user now email team r s)) =
     (case row_of (\<lambda>u. us_email (ux_user u)) email (st_users s) of
        Some u \<Rightarrow> Some (u\<lparr>ux_user := (ux_user u)\<lparr>us_team_id := team, us_role := r\<rparr>\<rparr>)
      | None \<Rightarrow> Some \<lparr>ux_user = \<lparr>us_email = email, us_team_id = team, us_role = r, us_created_at = now\<rparr>,
                       ux_experiments_key = None\<rparr>)"
  by (simp add: upsert_user_def row_of_upsert split: option.splits)

text \<open>An upsert takes the named user over. An admin who grants a role not above their own
  puts the user into the admin's team with that role, whatever team and role, higher ones
  included, the user had before; the next request of that user's session has the new role.\<close>

lemma upsert_user_takes_over:
  assumes "may ctx Admin" and "r \<le> ac_role ctx" and "to_lower (trim email) = e" and "e \<noteq> []"
  shows "snd (api_upsert_user now ctx email r h) = Inr () \<and>
    ac_role (session_context e (hb_store (fst (api_upsert_user now ctx email r h)))) = r \<and>
    ac_team_id (session_context e (hb_store (fst (api_upsert_user now ctx email r h)))) = ac_team_id ctx"
  using assms leD [OF assms(2)]
  by (simp add: api_upsert_user_def session_context_def get_user_def row_of_user_upsert Let_def
      split: option.splits)

definition roles_lower :: "store \<Rightarrow> bool" where
  "roles_lower s \<longleftrightarrow> (\<forall>u\<in>set (st_users s). us_role (ux_user u) = Read \<or>
     us_email (ux_user u) = to_lower (us_email (ux_user u)))"

lemma to_lower_idem [simp]: "to_lower (to_lower s) = to_lower s"
proof -
  have "to_lower_char (to_lower_char c) = to_lower_char c" for c
    by (auto simp: to_lower_char_def)
  then show ?thesis by (simp add: to_lower_def)
qed

lemma roles_lower_step:
  assumes "roles_lower (hb_store h)"
  shows "roles_lower (hb_store (access_step env sl key nonce (now, ctx, op) h))"
proof (cases op)
  case (Op_upsert_user email r)
  with assms show ?thesis
    by (auto simp: roles_lower_def access_defs Let_def upsert_user_def dest!: upsert_rows)
next
  case (Op_create_key name r)
  with assms show ?thesis
    by (auto simp: roles_lower_def access_defs Let_def split: sum.splits dest!: create_api_key_Inr)
next
  case (Op_create_token name)
  with assms show ?thesis
    by (auto simp: roles_lower_def access_defs Let_def split: sum.splits dest!: create_worker_token_Inr)
next
  case (Op_set_experiments raw)
  with assms show ?thesis
    by (auto simp: roles_lower_def access_defs Let_def set_user_experiments_key_def
        split: option.splits dest!: upsert_rows)
next
  case Op_clear_experiments
  with assms show ?thesis
    by (auto simp: roles_lower_def access_defs Let_def set_user_experiments_key_def dest!: upsert_rows)
qed (use assms in \<open>auto simp: roles_lower_def access_defs Let_def case_prod_beta remove_user_def
      split: option.splits\<close>)

lemma roles_lower_fold: "roles_lower (hb_store h) \<Longrightarrow> roles_lower (hb_store (fold (access_step env sl key nonce) reqs h))"
proof (induction reqs arbitrary: h)
  case (Cons req reqs)
  then show ?case by (cases req) (simp add: roles_lower_step)
qed simp

text \<open>A Google address with capitals never has the role it was granted. User rows are keyed
  by lower-cased address but a session keeps the address as Google spelled it, so whatever the
  access API is asked to do, such a session only ever has the \<open>read\<close> role.\<close>

theorem capitalised_session_reads_only:
  assumes "roles_lower (hb_store h)" and "auth_enabled cfg" and "hd_authorization hs = None"
    and "session_email cc cfg \<lfloor>now\<rfloor> hs = Some email" and "to_lower email \<noteq> email"
  shows "\<exists>ctx. resolve_auth env cc cfg now hs (fold (access_step env sl key nonce) reqs h) =
      (fold (access_step env sl key nonce) reqs h, Some ctx) \<and> ac_role ctx = Read"
proof -
  let ?s = "hb_store (fold (access_step env sl key nonce) reqs h)"
  have "us_role u = Read" if "get_user email ?s = Some u" for u
    using that assms(5) roles_lower_fold [OF assms(1), of env sl key nonce reqs]
    by (auto simp: get_user_def roles_lower_def dest!: row_of_SomeD)
  then have "ac_role (session_context email ?s) = Read"
    by (simp add: session_context_def Let_def split: option.splits)
  with assms(2-4) show ?thesis by (simp add: resolve_auth_def)
qed

subsection \<open>Sealed keys\<close>

definition seal_ok :: "seal \<Rightarrow> bool" where
  "seal_ok sl \<longleftrightarrow> (\<forall>x. sl_decode sl (sl_encode sl x) = Some x) \<and>
     (\<forall>k n p. sl_open sl k n (sl_seal sl k n p) = Some p)"

text \<open>A sealed key opens to itself: decryption under the same key returns the plaintext,
  and a blob too short to hold the nonce is an error, not a panic.\<close>

lemma sealed_key_roundtrip:
  assumes "seal_ok sl" and "length nonce = 12" and "sl_utf8 sl plain"
  shows "decrypt sl key (encrypt sl nonce key plain) = Inr plain \<and>
    (\<forall>raw. length raw < 12 \<longrightarrow> decrypt sl key (sl_encode sl raw) = Inl ''ciphertext too short to contain a nonce'')"
  using assms by (simp add: decrypt_def encrypt_def seal_ok_def)

subsection \<open>Witnesses\<close>

definition demo_seal :: seal where
  "demo_seal = \<lparr>sl_seal = (\<lambda>k n p. p), sl_open = (\<lambda>k n c. Some c), sl_encode = (\<lambda>x. x),
     sl_decode = Some, sl_utf8 = (\<lambda>_. True)\<rparr>"

definition demo_admin :: auth_context where
  "demo_admin = \<lparr>ac_role = Admin, ac_team_id = ''t'', ac_subject = ''a@b'', ac_owner_email = ''a@b''\<rparr>"

definition demo_key_hub :: hub where
  "demo_key_hub = hub_init\<lparr>hb_store := empty_store\<lparr>st_api_keys :=
     [\<lparr>ax_info = \<lparr>ak_id = ''k'', ak_team_id = ''t'', ak_created_by = ''a@b'', ak_name = ''n'', ak_prefix = ''ck_'',
       ak_role = Write, ak_created_at = 0, ak_last_used_at = None, ak_revoked_at = None\<rparr>, ax_key_hash = ''0''\<rparr>]\<rparr>\<rparr>"

lemma no_privilege_escalation_witness:
  "\<not> (\<exists>k\<in>set (st_api_keys (hb_store (fold (access_step demo_env demo_seal None [])
       [(1, demo_admin, Op_create_key ''x'' Admin), (2, demo_admin, Op_create_key ''y'' Sysadmin)] hub_init))).
       Admin < ak_role (ax_info k))"
  using no_privilege_escalation [of "[(1, demo_admin, Op_create_key ''x'' Admin), (2, demo_admin, Op_create_key ''y'' Sysadmin)]"
      Admin demo_env demo_seal None "[]" hub_init]
  by (auto simp: demo_admin_def hub_init_def new_hub_def empty_store_def)

lemma demo_revoke: "\<exists>h'. api_revoke_api_key 5 demo_admin ''k'' demo_key_hub = (h', Inr ())"
  by (simp add: api_revoke_api_key_def demo_key_hub_def list_api_keys_def demo_admin_def may_def
      order_by_desc_def revoke_api_key_def affected_def empty_store_def)

lemma revoked_key_unauthenticated_witness:
  "\<exists>h'. api_revoke_api_key 5 demo_admin ''k'' demo_key_hub = (h', Inr ()) \<and>
     snd (resolve_auth demo_env demo_crypto demo_config 6
       \<lparr>hd_authorization = Some (BEARER_PREFIX @ ''ck_x''), hd_cookie = None\<rparr> h') = None"
proof -
  obtain h' where h': "api_revoke_api_key 5 demo_admin ''k'' demo_key_hub = (h', Inr ())"
    using demo_revoke by blast
  have "api_keys_sound (hb_store demo_key_hub)"
    "resolve_api_key (hash_token demo_env ''ck_x'') (hb_store demo_key_hub) =
       Some (ax_info (hd (st_api_keys (hb_store demo_key_hub))))"
    "''ck_x'' \<noteq> cf_api_token demo_config"
    by (simp_all add: api_keys_sound_def pk_def demo_key_hub_def resolve_api_key_def hash_token_def
        demo_env_def demo_config_def)
  from revoked_key_unauthenticated [OF this h', of demo_crypto 6] h' show ?thesis
    by (auto simp: demo_key_hub_def)
qed

lemma upsert_user_takes_over_witness:
  "ac_role (session_context ''a@b'' (hb_store (fst (api_upsert_user 5 demo_admin ''A@b'' Read hub_init)))) = Read"
proof -
  have "to_lower (trim ''A@b'') = ''a@b''" by code_simp
  from upsert_user_takes_over [OF _ _ this, of demo_admin Read 5 hub_init] show ?thesis
    by (simp add: may_def demo_admin_def less_eq_role_def)
qed

lemma capitalised_session_reads_only_witness:
  "\<exists>ctx. resolve_auth demo_env demo_crypto demo_config 5 \<lparr>hd_authorization = None, hd_cookie = Some
      (SESSION_COOKIE @ ''='' @ sign demo_crypto (cf_api_token demo_config) (''A@b'' @ ''|'' @ show_int 5))\<rparr>
      (access_step demo_env demo_seal None [] (1, demo_admin, Op_upsert_user ''A@b'' Admin) hub_init) =
      (access_step demo_env demo_seal None [] (1, demo_admin, Op_upsert_user ''A@b'' Admin) hub_init, Some ctx) \<and>
    ac_role ctx = Read"
proof -
  let ?hs = "\<lparr>hd_authorization = None, hd_cookie = Some
      (SESSION_COOKIE @ ''='' @ sign demo_crypto (cf_api_token demo_config) (''A@b'' @ ''|'' @ show_int 5))\<rparr>"
  have "is_allowed demo_config ''A@b''" by (simp add: demo_config_def is_allowed_def demo_lower)
  then have "session_email demo_crypto demo_config \<lfloor>5 :: real\<rfloor> ?hs = Some ''A@b''"
    using session_email_signed [OF demo_codec_ok, of "''A@b''" 5 demo_config 5 None] by simp
  moreover have "roles_lower (hb_store hub_init)" "auth_enabled demo_config"
    by (simp_all add: roles_lower_def hub_init_def new_hub_def empty_store_def auth_enabled_def demo_config_def)
  ultimately show ?thesis
    using capitalised_session_reads_only [of hub_init demo_config ?hs demo_crypto 5 "''A@b''" demo_env demo_seal None "[]"
        "[(1, demo_admin, Op_upsert_user ''A@b'' Admin)]"]
    by (simp add: demo_lower)
qed

lemma sealed_key_roundtrip_witness:
  "decrypt demo_seal ''k'' (encrypt demo_seal ''123456789012'' ''k'' ''p'') = Inr ''p''"
  using sealed_key_roundtrip [of demo_seal "''123456789012''" "''p''" "''k''"]
  by (simp add: seal_ok_def demo_seal_def)

end
