(* ===== verification/Provider.thy ===== *)
theory Provider
  imports Config
begin

text \<open>
  Provider drivers (\<open>provider/\<close>): the adapter trait as a record of operations over the state of
  the outside world, the mock provider, and the Vast driver with its HTTP client and JSON
  decoders as parameters. The locale \<open>provider_contract\<close> states what the lease manager relies on; the
  mock provider is shown to promise it.
\<close>

record provision_context =
  px_ws_url :: string
  px_join_token :: string
  px_worker_id :: string
  px_drain_window_min :: f64

record 'w provider_ops =
  pd_name :: string
  pd_offers :: "string option \<Rightarrow> real option \<Rightarrow> 'w \<Rightarrow> 'w \<times> offer list result"
  pd_provision :: "provision_request \<Rightarrow> provision_context \<Rightarrow> 'w \<Rightarrow> 'w \<times> instance_rec result"
  pd_destroy :: "string \<Rightarrow> 'w \<Rightarrow> 'w \<times> unit result"
  pd_status :: "string \<Rightarrow> 'w \<Rightarrow> 'w \<times> instance_status result"
  pd_list :: "'w \<Rightarrow> 'w \<times> instance_rec list result"

type_synonym 'w providers = "(string \<times> 'w provider_ops) list"

definition provider_get :: "'w providers \<Rightarrow> string \<Rightarrow> 'w provider_ops option" where
  "provider_get ps name = map_of ps name"

definition provider_all :: "'w providers \<Rightarrow> 'w provider_ops list" where
  "provider_all ps = map snd ps"

definition provider_names :: "'w providers \<Rightarrow> string list" where
  "provider_names ps = sort (map fst ps)"

subsection \<open>Text helpers of the drivers\<close>

fun contains_str :: "string \<Rightarrow> string \<Rightarrow> bool" where
  "contains_str needle [] = (needle = [])"
| "contains_str needle (c # cs) = (starts_with needle (c # cs) \<or> contains_str needle cs)"

text \<open>\<open>str::replace\<close> for a non-empty pattern.\<close>

function replace_all :: "string \<Rightarrow> string \<Rightarrow> string \<Rightarrow> string" where
  "replace_all pat to s =
     (if pat = [] then s
      else (case strip_prefix pat s of
              Some rest \<Rightarrow> to @ replace_all pat to rest
            | None \<Rightarrow> (case s of [] \<Rightarrow> [] | c # cs \<Rightarrow> c # replace_all pat to cs)))"
  by pat_completeness auto
termination
  by (relation "measure (\<lambda>(pat, to, s). length s)") (auto simp: strip_prefix_Some_iff)

declare replace_all.simps [simp del]

text \<open>\<open>str::trim_end_matches\<close> for a non-empty pattern.\<close>

function trim_end_matches :: "string \<Rightarrow> string \<Rightarrow> string" where
  "trim_end_matches pat s =
     (if pat = [] then s
      else (case strip_suffix pat s of Some rest \<Rightarrow> trim_end_matches pat rest | None \<Rightarrow> s))"
  by pat_completeness auto
termination
  by (relation "measure (\<lambda>(pat, s). length s)") (auto simp: strip_suffix_Some_iff)

declare trim_end_matches.simps [simp del]

subsection \<open>The mock provider (\<open>mock.rs\<close>)\<close>

text \<open>A child process as \<open>try_wait\<close> sees it: still running, exited, or not observable.\<close>

datatype child_state = Child_running | Child_exited | Child_error

record mock_instance =
  mi_child :: child_state
  mi_gpu :: string
  mi_price_hr :: real

text \<open>The driver's table, its configured binary, and what it takes from the machine: the sibling
  binary next to the executable, whether spawning works, and the fresh UUIDs.\<close>

record mock_state =
  mk_agent_bin :: "string option"
  mk_sibling :: "string option"
  mk_spawn_ok :: bool
  mk_uuid :: "nat \<Rightarrow> string"
  mk_next :: nat
  mk_instances :: "(string \<times> mock_instance) list"
  mk_argv :: "string list list"

definition MOCK_NAME :: string where [simp]: "MOCK_NAME = ''mock''"
definition MOCK_OFFERS :: "(string \<times> real \<times> nat) list" where
  "MOCK_OFFERS = [(''mock-t4'', 1 / 10, 16), (''mock-a6000'', 4 / 10, 48)]"

definition agent_binary :: "mock_state \<Rightarrow> string result" where
  "agent_binary m =
     (case mk_agent_bin m of
        Some path \<Rightarrow> Inr path
      | None \<Rightarrow> ok_or (mk_sibling m) ''agent binary not found; set CHUK_TRAIN_AGENT_BIN'')"

definition mock_offers :: "string option \<Rightarrow> real option \<Rightarrow> mock_state \<Rightarrow> mock_state \<times> offer list result" where
  "mock_offers gpu max_price m =
     (m, Inr (map (\<lambda>(name, price, vram).
           \<lparr>of_id = MOCK_NAME @ '':'' @ name, of_provider = MOCK_NAME, of_gpu = name, of_price_hr = price,
            of_vram_gb = Some vram, of_region = Some ''local''\<rparr>)
        (filter (\<lambda>(name, price, _).
             (case gpu of None \<Rightarrow> True | Some g \<Rightarrow> contains_str g name) \<and>
             (case max_price of None \<Rightarrow> True | Some p \<Rightarrow> price \<le> p)) MOCK_OFFERS)))"

text \<open>\<open>fmt\<close> prints an \<open>f64\<close>.\<close>

definition mock_argv ::
  "(f64 \<Rightarrow> string) \<Rightarrow> string \<Rightarrow> provision_request \<Rightarrow> provision_context \<Rightarrow> string list" where
  "mock_argv fmt agent req px =
     [agent, ''--url'', px_ws_url px, ''--token'', px_join_token px, ''--worker-id'', px_worker_id px,
      ''--labels'', MOCK_NAME @ '',gpu'', ''--lease-min'', fmt (Fin (pr_lease_min req)),
      ''--drain-window-min'', fmt (px_drain_window_min px)]"

definition mock_provision ::
  "(f64 \<Rightarrow> string) \<Rightarrow> provision_request \<Rightarrow> provision_context \<Rightarrow> mock_state \<Rightarrow> mock_state \<times> instance_rec result"
  where
  "mock_provision fmt req px m =
     (case agent_binary m of
        Inl e \<Rightarrow> (m, Inl e)
      | Inr agent \<Rightarrow>
          (let iid = MOCK_NAME @ ''-'' @ mk_uuid m (mk_next m);
               m1 = m\<lparr>mk_next := mk_next m + 1\<rparr>;
               gpu = (case pr_gpu req of Some g \<Rightarrow> g | None \<Rightarrow> fst (hd MOCK_OFFERS));
               price = (case pr_max_price_hr req of Some p \<Rightarrow> p | None \<Rightarrow> fst (snd (hd MOCK_OFFERS)))
           in if \<not> mk_spawn_ok m1 then (m1, Inl (''launching mock agent '' @ agent))
              else (m1\<lparr>mk_argv := mk_argv m1 @ [mock_argv fmt agent req px],
                       mk_instances := (iid, \<lparr>mi_child = Child_running, mi_gpu = gpu, mi_price_hr = price\<rparr>)
                          # filter (\<lambda>(i, _). i \<noteq> iid) (mk_instances m1)\<rparr>,
                    Inr \<lparr>in_id = iid, in_provider = MOCK_NAME, in_gpu = gpu, in_price_hr = price\<rparr>)))"

definition mock_destroy :: "string \<Rightarrow> mock_state \<Rightarrow> mock_state \<times> unit result" where
  "mock_destroy iid m = (m\<lparr>mk_instances := filter (\<lambda>(i, _). i \<noteq> iid) (mk_instances m)\<rparr>, Inr ())"

definition mock_status :: "string \<Rightarrow> mock_state \<Rightarrow> mock_state \<times> instance_status result" where
  "mock_status iid m =
     (case map_of (mk_instances m) iid of
        None \<Rightarrow> (m, Inr Gone)
      | Some x \<Rightarrow>
          (case mi_child x of
             Child_exited \<Rightarrow>
               (m\<lparr>mk_instances := filter (\<lambda>(i, _). i \<noteq> iid) (mk_instances m)\<rparr>, Inr Gone)
           | Child_running \<Rightarrow> (m, Inr InstRunning)
           | Child_error \<Rightarrow> (m, Inr Unknown)))"

definition mock_list_instances :: "mock_state \<Rightarrow> mock_state \<times> instance_rec list result" where
  "mock_list_instances m =
     (let live = filter (\<lambda>(_, x). mi_child x \<noteq> Child_exited) (mk_instances m)
      in (m\<lparr>mk_instances := live\<rparr>,
          Inr (map (\<lambda>(i, x). \<lparr>in_id = i, in_provider = MOCK_NAME, in_gpu = mi_gpu x,
                             in_price_hr = mi_price_hr x\<rparr>) live)))"

subsection \<open>The Vast driver (\<open>vast.rs\<close>)\<close>

text \<open>The HTTP client (a status and a body, or a transport error) and the JSON decoders.\<close>

record 'v vast_http =
  vh_get :: "string \<Rightarrow> 'v \<Rightarrow> 'v \<times> (nat \<times> string) result"
  vh_put :: "string \<Rightarrow> string \<Rightarrow> 'v \<Rightarrow> 'v \<times> (nat \<times> string) result"
  vh_delete :: "string \<Rightarrow> 'v \<Rightarrow> 'v \<times> (nat \<times> string) result"

record vast_bundle =
  bn_id :: nat
  bn_gpu_name :: string
  bn_dph_total :: real
  bn_gpu_ram :: "real option"
  bn_geolocation :: "string option"

record running =
  rn_id :: nat
  rn_gpu_name :: "string option"
  rn_dph_total :: "real option"

record vast_json =
  vj_bundles :: "string \<Rightarrow> vast_bundle list option"
  vj_created :: "string \<Rightarrow> nat option"
  vj_record :: "string \<Rightarrow> json option option"
  vj_listing :: "string \<Rightarrow> running list option"

definition VAST_NAME :: string where [simp]: "VAST_NAME = ''vast''"
definition API_BASE :: string where "API_BASE = ''https://console.vast.ai/api/v0''"
definition ONSTART_TEMPLATE :: string where
  "ONSTART_TEMPLATE =
     ''curl -fsSL '' @ [CHR 0x27] @ ''{cp_url}/install.sh'' @ [CHR 0x27] @ '' | sh -s -- --cp '' @
     [CHR 0x27] @ ''{cp_url}'' @ [CHR 0x27] @ '' --token '' @ [CHR 0x27] @ ''{join_token}'' @ [CHR 0x27] @
     '' --worker-id '' @ [CHR 0x27] @ ''{worker_id}'' @ [CHR 0x27] @
     '' --lease-min {lease_min} --drain-window-min {drain_window_min}''"

definition vast_key :: "string option \<Rightarrow> string result" where
  "vast_key api_key = ok_or api_key ''CHUK_TRAIN_VAST_API_KEY not set''"

definition vast_url :: "string option \<Rightarrow> string \<Rightarrow> string result" where
  "vast_url api_key path = result_bind (vast_key api_key) (\<lambda>k. Inr (API_BASE @ path @ ''?api_key='' @ k))"

definition parse_offer_id :: "string option \<Rightarrow> nat result" where
  "parse_offer_id offer_id =
     ok_or (case offer_id of
              None \<Rightarrow> None
            | Some x \<Rightarrow> parse_u64 (case strip_prefix ''vast:'' x of Some r \<Rightarrow> r | None \<Rightarrow> x))
       ''vast provision needs an offer_id from provider_offers''"

definition derive_cp_url :: "string \<Rightarrow> string" where
  "derive_cp_url ws_url =
     trim_end_matches AGENT_WS_PATH
       (replace_all ''ws://'' ''http://'' (replace_all ''wss://'' ''https://'' ws_url))"

definition render_onstart ::
  "(f64 \<Rightarrow> string) \<Rightarrow> string \<Rightarrow> string \<Rightarrow> string \<Rightarrow> f64 \<Rightarrow> f64 \<Rightarrow> string" where
  "render_onstart fmt cp_url join_token wid lease_min drain_window_min =
     replace_all ''{drain_window_min}'' (fmt drain_window_min)
       (replace_all ''{lease_min}'' (fmt lease_min)
         (replace_all ''{worker_id}'' wid
           (replace_all ''{join_token}'' join_token
             (replace_all ''{cp_url}'' cp_url ONSTART_TEMPLATE))))"

definition parse_offers ::
  "vast_json \<Rightarrow> string \<Rightarrow> string option \<Rightarrow> real option \<Rightarrow> offer list result" where
  "parse_offers vj body gpu max_price =
     (case vj_bundles vj body of
        None \<Rightarrow> Inl ''parsing vast bundles''
      | Some bs \<Rightarrow>
          Inr (map (\<lambda>b. \<lparr>of_id = VAST_NAME @ '':'' @ show_nat (bn_id b), of_provider = VAST_NAME,
                       of_gpu = bn_gpu_name b, of_price_hr = bn_dph_total b,
                       of_vram_gb = map_option (\<lambda>g. nat \<lfloor>g / 1024\<rfloor>) (bn_gpu_ram b),
                       of_region = bn_geolocation b\<rparr>)
            (filter (\<lambda>b. (case gpu of None \<Rightarrow> True
                          | Some g \<Rightarrow> contains_str (to_lower g) (to_lower (bn_gpu_name b))) \<and>
                        (case max_price of None \<Rightarrow> True | Some m \<Rightarrow> bn_dph_total b \<le> m)) bs)))"

definition parse_created_instance :: "vast_json \<Rightarrow> string \<Rightarrow> string \<Rightarrow> real \<Rightarrow> instance_rec result" where
  "parse_created_instance vj body gpu price =
     (case vj_created vj body of
        None \<Rightarrow> Inl ''creating vast instance''
      | Some c \<Rightarrow> Inr \<lparr>in_id = show_nat c, in_provider = VAST_NAME, in_gpu = gpu, in_price_hr = price\<rparr>)"

definition is_success :: "nat \<Rightarrow> bool" where "is_success status \<longleftrightarrow> 200 \<le> status \<and> status < 300"

definition destroy_outcome :: "nat \<Rightarrow> unit result" where
  "destroy_outcome status =
     (if is_success status \<or> status = 404 then Inr () else Inl (''vast destroy failed: '' @ show_nat status))"

definition parse_status_response :: "vast_json \<Rightarrow> string \<Rightarrow> instance_status result" where
  "parse_status_response vj body =
     (case vj_record vj body of
        None \<Rightarrow> Inl ''parsing vast instance status''
      | Some (Some v) \<Rightarrow> Inr (if v = JNull then Gone else InstRunning)
      | Some None \<Rightarrow> Inr Gone)"

definition parse_instance_list :: "vast_json \<Rightarrow> string \<Rightarrow> instance_rec list result" where
  "parse_instance_list vj body =
     (case vj_listing vj body of
        None \<Rightarrow> Inl ''parsing vast instance list''
      | Some rs \<Rightarrow>
          Inr (map (\<lambda>r. \<lparr>in_id = show_nat (rn_id r), in_provider = VAST_NAME,
                       in_gpu = (case rn_gpu_name r of Some g \<Rightarrow> g | None \<Rightarrow> []),
                       in_price_hr = (case rn_dph_total r of Some p \<Rightarrow> p | None \<Rightarrow> 0)\<rparr>) rs))"

text \<open>\<open>error_for_status\<close>: the body of any answer that is not a client or server error.\<close>

definition error_for_status :: "(nat \<times> string) result \<Rightarrow> string result" where
  "error_for_status r =
     (case r of
        Inl e \<Rightarrow> Inl e
      | Inr (status, body) \<Rightarrow> if 400 \<le> status \<and> status < 600 then Inl (show_nat status) else Inr body)"

definition vast_offers ::
  "'v vast_http \<Rightarrow> vast_json \<Rightarrow> string option \<Rightarrow> string option \<Rightarrow> real option \<Rightarrow> 'v \<Rightarrow> 'v \<times> offer list result" where
  "vast_offers vh vj api_key gpu max_price w =
     (case vast_url api_key ''/bundles/'' of
        Inl e \<Rightarrow> (w, Inl e)
      | Inr url \<Rightarrow>
          (case vh_get vh url w of
             (w1, r) \<Rightarrow> (w1, result_bind (error_for_status r) (\<lambda>body. parse_offers vj body gpu max_price))))"

definition vast_provision ::
  "'v vast_http \<Rightarrow> vast_json \<Rightarrow> (f64 \<Rightarrow> string) \<Rightarrow> string option \<Rightarrow> provision_request \<Rightarrow> provision_context \<Rightarrow>
   'v \<Rightarrow> 'v \<times> instance_rec result" where
  "vast_provision vh vj fmt api_key req px w =
     (case parse_offer_id (pr_offer_id req) of
        Inl e \<Rightarrow> (w, Inl e)
      | Inr offer_id \<Rightarrow>
          (let onstart = render_onstart fmt (derive_cp_url (px_ws_url px)) (px_join_token px)
                 (px_worker_id px) (Fin (pr_lease_min req)) (px_drain_window_min px)
           in case vast_url api_key (''/asks/'' @ show_nat offer_id @ ''/'') of
                Inl e \<Rightarrow> (w, Inl e)
              | Inr url \<Rightarrow>
                  (case vh_put vh url onstart w of
                     (w1, r) \<Rightarrow>
                       (w1, result_bind (error_for_status r) (\<lambda>body.
                          parse_created_instance vj body
                            (case pr_gpu req of Some g \<Rightarrow> g | None \<Rightarrow> [])
                            (case pr_max_price_hr req of Some p \<Rightarrow> p | None \<Rightarrow> 0))))))"

definition vast_destroy :: "'v vast_http \<Rightarrow> string option \<Rightarrow> string \<Rightarrow> 'v \<Rightarrow> 'v \<times> unit result" where
  "vast_destroy vh api_key iid w =
     (case vast_url api_key (''/instances/'' @ iid @ ''/'') of
        Inl e \<Rightarrow> (w, Inl e)
      | Inr url \<Rightarrow>
          (case vh_delete vh url w of
             (w1, Inl e) \<Rightarrow> (w1, Inl e)
           | (w1, Inr (status, _)) \<Rightarrow> (w1, destroy_outcome status)))"

definition vast_status ::
  "'v vast_http \<Rightarrow> vast_json \<Rightarrow> string option \<Rightarrow> string \<Rightarrow> 'v \<Rightarrow> 'v \<times> instance_status result" where
  "vast_status vh vj api_key iid w =
     (case vast_url api_key (''/instances/'' @ iid @ ''/'') of
        Inl e \<Rightarrow> (w, Inl e)
      | Inr url \<Rightarrow>
          (case vh_get vh url w of
             (w1, Inl e) \<Rightarrow> (w1, Inl e)
           | (w1, Inr (status, body)) \<Rightarrow>
               if status = 404 then (w1, Inr Gone)
               else (w1, result_bind (error_for_status (Inr (status, body))) (parse_status_response vj))))"

definition vast_list_instances ::
  "'v vast_http \<Rightarrow> vast_json \<Rightarrow> string option \<Rightarrow> 'v \<Rightarrow> 'v \<times> instance_rec list result" where
  "vast_list_instances vh vj api_key w =
     (case vast_url api_key ''/instances/'' of
        Inl e \<Rightarrow> (w, Inl e)
      | Inr url \<Rightarrow>
          (case vh_get vh url w of
             (w1, r) \<Rightarrow> (w1, result_bind (error_for_status r) (parse_instance_list vj))))"

subsection \<open>The registry (\<open>mod.rs\<close>)\<close>

text \<open>The world a control plane with both drivers acts on.\<close>

record 'v cloud =
  cl_mock :: mock_state
  cl_vast :: 'v

definition on_mock :: "(mock_state \<Rightarrow> mock_state \<times> 'a) \<Rightarrow> 'v cloud \<Rightarrow> 'v cloud \<times> 'a" where
  "on_mock f c = (case f (cl_mock c) of (m, r) \<Rightarrow> (c\<lparr>cl_mock := m\<rparr>, r))"

definition on_vast :: "('v \<Rightarrow> 'v \<times> 'a) \<Rightarrow> 'v cloud \<Rightarrow> 'v cloud \<times> 'a" where
  "on_vast f c = (case f (cl_vast c) of (v, r) \<Rightarrow> (c\<lparr>cl_vast := v\<rparr>, r))"

definition mock_provider :: "(f64 \<Rightarrow> string) \<Rightarrow> 'v cloud provider_ops" where
  "mock_provider fmt =
     \<lparr>pd_name = MOCK_NAME,
      pd_offers = (\<lambda>g p. on_mock (mock_offers g p)),
      pd_provision = (\<lambda>req px. on_mock (mock_provision fmt req px)),
      pd_destroy = (\<lambda>i. on_mock (mock_destroy i)),
      pd_status = (\<lambda>i. on_mock (mock_status i)),
      pd_list = on_mock mock_list_instances\<rparr>"

definition vast_provider ::
  "'v vast_http \<Rightarrow> vast_json \<Rightarrow> (f64 \<Rightarrow> string) \<Rightarrow> string option \<Rightarrow> 'v cloud provider_ops" where
  "vast_provider vh vj fmt api_key =
     \<lparr>pd_name = VAST_NAME,
      pd_offers = (\<lambda>g p. on_vast (vast_offers vh vj api_key g p)),
      pd_provision = (\<lambda>req px. on_vast (vast_provision vh vj fmt api_key req px)),
      pd_destroy = (\<lambda>i. on_vast (vast_destroy vh api_key i)),
      pd_status = (\<lambda>i. on_vast (vast_status vh vj api_key i)),
      pd_list = on_vast (vast_list_instances vh vj api_key)\<rparr>"

fun add_provider ::
  "'v vast_http \<Rightarrow> vast_json \<Rightarrow> (f64 \<Rightarrow> string) \<Rightarrow> string option \<Rightarrow> string \<Rightarrow>
   'v cloud providers \<Rightarrow> 'v cloud providers" where
  "add_provider vh vj fmt api_key name ps =
     (if name = MOCK_NAME then (name, mock_provider fmt) # filter (\<lambda>(n, _). n \<noteq> name) ps
      else if name = VAST_NAME then (name, vast_provider vh vj fmt api_key) # filter (\<lambda>(n, _). n \<noteq> name) ps
      else ps)"

definition build_providers ::
  "'v vast_http \<Rightarrow> vast_json \<Rightarrow> (f64 \<Rightarrow> string) \<Rightarrow> string \<Rightarrow> string option \<Rightarrow> 'v cloud providers" where
  "build_providers vh vj fmt selection api_key =
     fold (add_provider vh vj fmt api_key)
       (filter (\<lambda>s. s \<noteq> []) (map trim (split_on (CHR '','') selection))) []"

subsection \<open>What the lease manager relies on\<close>

text \<open>The contract of the trait's doc comments. \<open>alive w\<close> are the ids of the instances that run,
  and bill, in a world; \<open>sound\<close> is the driver's own invariant.\<close>

locale provider_contract =
  fixes p :: "'w provider_ops"
    and sound :: "'w \<Rightarrow> bool"
    and alive :: "'w \<Rightarrow> string set"
  assumes sound_destroy: "sound w \<Longrightarrow> pd_destroy p i w = (w', u) \<Longrightarrow> sound w'"
    and sound_status: "sound w \<Longrightarrow> pd_status p i w = (w', st) \<Longrightarrow> sound w'"
    and sound_list: "sound w \<Longrightarrow> pd_list p w = (w', r) \<Longrightarrow> sound w'"
    and sound_provision: "sound w \<Longrightarrow> pd_provision p req px w = (w', r') \<Longrightarrow> sound w'"
    and destroy_frame: "sound w \<Longrightarrow> pd_destroy p i w = (w', u) \<Longrightarrow>
      alive w - {i} \<subseteq> alive w' \<and> alive w' \<subseteq> alive w"
    and status_frame: "sound w \<Longrightarrow> pd_status p i w = (w', st) \<Longrightarrow> alive w' = alive w"
    and status_gone: "sound w \<Longrightarrow> pd_status p i w = (w', Inr Gone) \<Longrightarrow> i \<notin> alive w"
    and list_frame: "sound w \<Longrightarrow> pd_list p w = (w', r) \<Longrightarrow> alive w' = alive w"
    and list_ok: "sound w \<Longrightarrow> pd_list p w = (w', Inr xs) \<Longrightarrow> in_id ` set xs = alive w"
    and provision_ok: "sound w \<Longrightarrow> pd_provision p req px w = (w', Inr x) \<Longrightarrow> alive w' = insert (in_id x) (alive w)"
    and provision_err: "sound w \<Longrightarrow> pd_provision p req px w = (w', Inl e) \<Longrightarrow> alive w' = alive w"

text \<open>A provider whose destroy never fails and has taken effect when it returns.\<close>

locale prompt_provider = provider_contract +
  assumes destroy_prompt: "sound w \<Longrightarrow> pd_destroy p i w = (w', u) \<Longrightarrow> u = Inr () \<and> i \<notin> alive w'"
begin

lemma destroy_exact: "sound w \<Longrightarrow> pd_destroy p i w = (w', u) \<Longrightarrow> u = Inr () \<and> alive w' = alive w - {i}"
  using destroy_frame destroy_prompt by blast

end

definition mock_sound :: "'v cloud \<Rightarrow> bool" where
  "mock_sound c \<longleftrightarrow> distinct (map fst (mk_instances (cl_mock c)))"

definition mock_alive :: "'v cloud \<Rightarrow> string set" where
  "mock_alive c = {i. \<exists>x. (i, x) \<in> set (mk_instances (cl_mock c)) \<and> mi_child x \<noteq> Child_exited}"

lemma distinct_filter_fst: "distinct (map fst xs) \<Longrightarrow> distinct (map fst (filter P xs))"
  by (induction xs) auto

lemma filter_key_fst: "iid \<notin> fst ` set (filter (\<lambda>(i, _). i \<noteq> iid) xs)"
  by auto

lemmas mock_defs = mock_provider_def on_mock_def mock_destroy_def mock_status_def mock_list_instances_def
  mock_provision_def mock_sound_def mock_alive_def Let_def

interpretation mock: prompt_provider "mock_provider fmt" mock_sound mock_alive for fmt
proof unfold_locales
  fix w w' :: "'v cloud" and i st assume "mock_sound w" "pd_status (mock_provider fmt) i w = (w', st)"
  then show "mock_sound w'"
    by (auto simp: mock_defs distinct_filter_fst split: option.splits child_state.splits)
next
  fix w w' :: "'v cloud" and i st
  assume "mock_sound w" "pd_status (mock_provider fmt) i w = (w', st)"
  then show "mock_alive w' = mock_alive w"
    by (auto simp: mock_defs split: option.splits child_state.splits dest!: map_of_SomeD)
       (metis eq_key_imp_eq_value)+
next
  fix w w' :: "'v cloud" and i
  assume "mock_sound w" "pd_status (mock_provider fmt) i w = (w', Inr Gone)"
  then show "i \<notin> mock_alive w"
    by (auto simp: mock_defs map_of_eq_None_iff image_iff split: option.splits child_state.splits
        dest!: map_of_SomeD) (metis eq_key_imp_eq_value)
next
  fix w w' :: "'v cloud" and req px x
  assume "mock_sound w" "pd_provision (mock_provider fmt) req px w = (w', Inr x)"
  then show "mock_alive w' = insert (in_id x) (mock_alive w)"
    by (auto simp: mock_defs split: sum.splits if_splits)
       (metis child_state.distinct(1) mock_instance.select_convs(1))
qed (auto simp: mock_defs distinct_filter_fst image_iff split: sum.splits if_splits)

subsection \<open>Vast\<close>

lemma vast_price_is_request:
  assumes "vast_provision vh vj fmt key req px w = (w', Inr x)"
  shows "in_price_hr x = (case pr_max_price_hr req of Some p \<Rightarrow> p | None \<Rightarrow> 0)"
proof -
  from assms obtain body where "parse_created_instance vj body (case pr_gpu req of Some g \<Rightarrow> g | None \<Rightarrow> [])
      (case pr_max_price_hr req of Some p \<Rightarrow> p | None \<Rightarrow> 0) = Inr x"
    by (auto simp: vast_provision_def Let_def result_bind_Inr split: sum.splits prod.splits)
  then show ?thesis by (auto simp: parse_created_instance_def split: option.splits)
qed

text \<open>An offer can be rented. Every offer the Vast driver lists satisfies the filters asked
  for and carries an id that provisioning parses back to the ask it came from.\<close>

lemma vast_offers_roundtrip:
  assumes "parse_offers vj body gpu max_price = Inr os" and "vj_bundles vj body = Some bs"
    and "\<forall>b\<in>set bs. bn_id b < 2 ^ 64" and "x \<in> set os"
  shows "\<exists>b\<in>set bs. parse_offer_id (Some (of_id x)) = Inr (bn_id b) \<and> of_price_hr x = bn_dph_total b \<and>
    (case max_price of None \<Rightarrow> True | Some m \<Rightarrow> of_price_hr x \<le> m) \<and>
    (case gpu of None \<Rightarrow> True | Some g \<Rightarrow> contains_str (to_lower g) (to_lower (of_gpu x)))"
proof -
  from assms(1,2,4) obtain b where b: "b \<in> set bs"
    "x = \<lparr>of_id = VAST_NAME @ '':'' @ show_nat (bn_id b), of_provider = VAST_NAME, of_gpu = bn_gpu_name b,
       of_price_hr = bn_dph_total b, of_vram_gb = map_option (\<lambda>g. nat \<lfloor>g / 1024\<rfloor>) (bn_gpu_ram b),
       of_region = bn_geolocation b\<rparr>"
    "case max_price of None \<Rightarrow> True | Some m \<Rightarrow> bn_dph_total b \<le> m"
    "case gpu of None \<Rightarrow> True | Some g \<Rightarrow> contains_str (to_lower g) (to_lower (bn_gpu_name b))"
    by (auto simp: parse_offers_def)
  have "parse_offer_id (Some (''vast:'' @ show_nat (bn_id b))) = Inr (bn_id b)"
    using parse_u64_show_nat [of "bn_id b"] assms(3) b(1)
    by (simp only: parse_offer_id_def option.case strip_prefix_append) simp
  with b show ?thesis by (intro bexI [of _ b]) (simp_all split: option.splits)
qed

definition demo_vast_json :: vast_json where
  "demo_vast_json = \<lparr>vj_bundles = (\<lambda>_. Some [\<lparr>bn_id = 7, bn_gpu_name = ''T4'', bn_dph_total = 1 / 5,
       bn_gpu_ram = Some 16384, bn_geolocation = None\<rparr>]),
     vj_created = (\<lambda>_. Some 9), vj_record = (\<lambda>_. Some None), vj_listing = (\<lambda>_. Some [])\<rparr>"

lemma vast_offers_roundtrip_witness:
  "\<exists>x. parse_offers demo_vast_json [] None (Some 1) = Inr [x] \<and> parse_offer_id (Some (of_id x)) = Inr 7"
proof -
  obtain x where x: "parse_offers demo_vast_json [] None (Some 1) = Inr [x]"
    by (simp add: parse_offers_def demo_vast_json_def)
  from vast_offers_roundtrip [OF x, of "the (vj_bundles demo_vast_json [])" x] x show ?thesis
    by (auto simp: demo_vast_json_def)
qed

end
