(* ===== verification/LeaseMgr.thy ===== *)
theory LeaseMgr
  imports Provider Join
begin

text \<open>
  The lease manager (\<open>lease.rs\<close>): provisioning under budgets, extension, teardown with verified
  destruction, the lease clock, the idle reaper and the reconcile loop, over the hub, the
  providers' world and the idle table. An operation reads the clock once; the polls of a
  verification are \<open>mg_poll\<close> apart (at least one tick of the clock) and the provider does not
  change by itself between them.
\<close>

record 'w manager =
  mg_env :: hub_env
  mg_cfg :: config
  mg_providers :: "'w providers"
  mg_fmt2 :: "real \<Rightarrow> string"
  mg_timeout :: nat
  mg_poll :: nat

record 'w lm =
  lm_hub :: hub
  lm_world :: 'w
  lm_idle :: "worker_id \<Rightarrow> unix_seconds option"

definition DESTROY_VERIFY_TIMEOUT :: nat where "DESTROY_VERIFY_TIMEOUT = 120"
definition DESTROY_VERIFY_POLL :: nat where "DESTROY_VERIFY_POLL = 2"

abbreviation lm_store :: "'w lm \<Rightarrow> store" where "lm_store lm \<equiv> hb_store (lm_hub lm)"

definition lm_on_store :: "(store \<Rightarrow> store) \<Rightarrow> 'w lm \<Rightarrow> 'w lm" where
  "lm_on_store f lm = lm\<lparr>lm_hub := on_store f (lm_hub lm)\<rparr>"

definition lm_provider :: "'w manager \<Rightarrow> string \<Rightarrow> 'w provider_ops result" where
  "lm_provider mg name =
     ok_or (provider_get (mg_providers mg) name)
       (''unknown provider '' @ debug_str name @ ''; configured: ['' @
        concat (map debug_str (provider_names (mg_providers mg))) @ '']'')"

definition lm_offers ::
  "'w manager \<Rightarrow> string \<Rightarrow> string option \<Rightarrow> real option \<Rightarrow> 'w lm \<Rightarrow> 'w lm \<times> offer list result" where
  "lm_offers mg name gpu max_price lm =
     (case lm_provider mg name of
        Inl e \<Rightarrow> (lm, Inl e)
      | Inr p \<Rightarrow> (case pd_offers p gpu max_price (lm_world lm) of (w, r) \<Rightarrow> (lm\<lparr>lm_world := w\<rparr>, r)))"

definition budget_check ::
  "'w manager \<Rightarrow> unix_seconds \<Rightarrow> string \<Rightarrow> real \<Rightarrow> store \<Rightarrow> unit result" where
  "budget_check mg now provider candidate_cost s =
     (case evaluate_budgets (store_budgets s) (st_ledger s) (live_leases s) provider candidate_cost now of
        Some b \<Rightarrow> Inl (breach_display (mg_fmt2 mg) b)
      | None \<Rightarrow> Inr ())"

definition lm_ledger :: "unix_seconds \<Rightarrow> lease \<Rightarrow> string \<Rightarrow> real \<Rightarrow> real \<Rightarrow> 'w lm \<Rightarrow> 'w lm" where
  "lm_ledger now l event minutes cost lm =
     lm_on_store (ledger_append \<lparr>le_ts = now, le_worker_id = ls_worker_id l, le_provider = ls_provider l,
       le_event = event, le_minutes = minutes, le_cost = cost\<rparr>) lm"

subsection \<open>Provisioning\<close>

text \<open>Up to the point where the instance runs: the pre-flight check, the worker's id and join
  token, the provider's \<open>provision\<close>.\<close>

definition rent ::
  "'w manager \<Rightarrow> unix_seconds \<Rightarrow> provision_request \<Rightarrow> 'w lm \<Rightarrow>
   'w lm \<times> ('w provider_ops \<times> worker_id \<times> instance_rec) result" where
  "rent mg now req lm =
     (case lm_provider mg (pr_provider req) of
        Inl e \<Rightarrow> (lm, Inl e)
      | Inr p \<Rightarrow>
          (case budget_check mg now (pr_provider req) 0 (lm_store lm) of
             Inl e \<Rightarrow> (lm, Inl e)
           | Inr _ \<Rightarrow>
               (let (h1, u) = fresh_uuid (mg_env mg) (lm_hub lm);
                    wid = pr_provider req @ ''-'' @ take 8 u
                in case mint_join_token (mg_env mg) now wid h1 of
                     (h2, Inl e) \<Rightarrow> (lm\<lparr>lm_hub := h2\<rparr>, Inl e)
                   | (h2, Inr token) \<Rightarrow>
                       (case pd_provision p req
                               \<lparr>px_ws_url = cf_agent_ws_url (mg_cfg mg), px_join_token = token,
                                px_worker_id = wid, px_drain_window_min = cf_drain_window_min (mg_cfg mg)\<rparr>
                               (lm_world lm) of
                          (w, Inl _) \<Rightarrow> (lm\<lparr>lm_hub := h2, lm_world := w\<rparr>, Inl ''provider provision'')
                        | (w, Inr x) \<Rightarrow> (lm\<lparr>lm_hub := h2, lm_world := w\<rparr>, Inr (p, wid, x))))))"

text \<open>From there: the check at the instance's price, with the destroy of a refused instance, then
  the lease and its ledger entry. A non-finite drain window is not representable in a lease.\<close>

definition finite_or_zero :: "f64 \<Rightarrow> real" where
  "finite_or_zero x = (case x of Fin r \<Rightarrow> r | _ \<Rightarrow> 0)"

definition settle ::
  "'w manager \<Rightarrow> unix_seconds \<Rightarrow> provision_request \<Rightarrow> 'w provider_ops \<times> worker_id \<times> instance_rec \<Rightarrow>
   'w lm \<Rightarrow> 'w lm \<times> provision_result result" where
  "settle mg now req rented lm =
     (case rented of (p, wid, x) \<Rightarrow>
       (let candidate_cost = in_price_hr x * pr_lease_min req / 60
        in case budget_check mg now (pr_provider req) candidate_cost (lm_store lm) of
             Inl refused \<Rightarrow>
               (lm\<lparr>lm_world := fst (pd_destroy p (in_id x) (lm_world lm))\<rparr>, Inl refused)
           | Inr _ \<Rightarrow>
               (let l = \<lparr>ls_worker_id = wid, ls_provider = pr_provider req, ls_instance_id = in_id x,
                         ls_price_hr = in_price_hr x, ls_granted_min = pr_lease_min req,
                         ls_drain_window_min = finite_or_zero (cf_drain_window_min (mg_cfg mg)),
                         ls_started_at = now, ls_state = Active, ls_extensions = []\<rparr>;
                    lm1 = lm_on_store (create_lease l) lm;
                    lm2 = lm_ledger now l LEDGER_EVENT_LEASE_START (total_granted_min l) (projected_cost l) lm1
                in (lm2, Inr \<lparr>pv_worker_id = wid, pv_lease = l, pv_bootstrap = []\<rparr>))))"

definition provision ::
  "'w manager \<Rightarrow> unix_seconds \<Rightarrow> provision_request \<Rightarrow> 'w lm \<Rightarrow> 'w lm \<times> provision_result result" where
  "provision mg now req lm =
     (case rent mg now req lm of
        (lm1, Inl e) \<Rightarrow> (lm1, Inl e)
      | (lm1, Inr rented) \<Rightarrow> settle mg now req rented lm1)"

definition extend ::
  "'w manager \<Rightarrow> unix_seconds \<Rightarrow> worker_id \<Rightarrow> real \<Rightarrow> string \<Rightarrow> 'w lm \<Rightarrow> 'w lm \<times> lease option result" where
  "extend mg now wid minutes reason lm =
     (case (case store_lease wid (lm_store lm) of
              Some l \<Rightarrow> budget_check mg now (ls_provider l) (ls_price_hr l * minutes / 60) (lm_store lm)
            | None \<Rightarrow> Inr ()) of
        Inl e \<Rightarrow> (lm, Inl e)
      | Inr _ \<Rightarrow>
          (let ext = \<lparr>ex_minutes = minutes, ex_at = now, ex_reason = reason\<rparr>;
               (s, updated) = store_extend_lease wid ext (lm_store lm);
               lm1 = lm_on_store (\<lambda>_. s) lm
           in case updated of
                None \<Rightarrow> (lm1, Inr None)
              | Some l \<Rightarrow>
                  (let lm2 = (if ls_state l = Draining then lm_on_store (set_lease_state wid Active) lm1 else lm1)
                   in (lm_ledger now l LEDGER_EVENT_EXTEND minutes (ls_price_hr l * minutes / 60) lm2,
                       Inr (Some l)))))"

subsection \<open>Teardown\<close>

definition drain :: "lease \<Rightarrow> 'w lm \<Rightarrow> 'w lm" where
  "drain l lm =
     (let lm1 = (if ls_state l \<noteq> Draining then lm_on_store (set_lease_state (ls_worker_id l) Draining) lm else lm);
          deadline = ls_started_at l + wall_secs l
      in lm1\<lparr>lm_hub := fst (send_to (ls_worker_id l) (Drain deadline) (lm_hub lm1))\<rparr>)"

text \<open>\<open>elapsed\<close> is the time since the first poll.\<close>

function verify_gone ::
  "'w provider_ops \<Rightarrow> string \<Rightarrow> nat \<Rightarrow> nat \<Rightarrow> nat \<Rightarrow> 'w \<Rightarrow> 'w \<times> instance_status" where
  "verify_gone p iid timeout poll elapsed w =
     (case pd_status p iid w of
        (w1, Inr Gone) \<Rightarrow> (w1, Gone)
      | (w1, Inr other) \<Rightarrow>
          if timeout \<le> elapsed then (w1, other)
          else verify_gone p iid timeout poll (elapsed + max 1 poll) w1
      | (w1, Inl e) \<Rightarrow>
          if timeout \<le> elapsed then (w1, Unknown)
          else verify_gone p iid timeout poll (elapsed + max 1 poll) w1)"
  by pat_completeness auto
termination
  by (relation "measure (\<lambda>(p, iid, timeout, poll, elapsed, w). timeout - elapsed)") auto

declare verify_gone.simps [simp del]

definition destroy_and_verify ::
  "'w manager \<Rightarrow> unix_seconds \<Rightarrow> lease \<Rightarrow> 'w lm \<Rightarrow> 'w lm \<times> teardown_result result" where
  "destroy_and_verify mg now l lm =
     (case lm_provider mg (ls_provider l) of
        Inl e \<Rightarrow> (lm, Inl e)
      | Inr p \<Rightarrow>
          (case pd_destroy p (ls_instance_id l) (lm_world lm) of
             (w, Inl _) \<Rightarrow> (lm\<lparr>lm_world := w\<rparr>, Inl ''provider destroy'')
           | (w, Inr _) \<Rightarrow>
               (let (w1, status) = verify_gone p (ls_instance_id l) (mg_timeout mg) (mg_poll mg) 0 w;
                    wid = ls_worker_id l;
                    lm1 = lm_on_store (set_lease_state wid Destroyed) (lm\<lparr>lm_world := w1\<rparr>);
                    lm2 = lm_on_store (worker_left wid) lm1;
                    lm3 = lm2\<lparr>lm_idle := (lm_idle lm2)(wid := None)\<rparr>;
                    elapsed_min = max ((now - ls_started_at l) / 60) 0;
                    cost = ls_price_hr l * elapsed_min / 60
                in (lm_ledger now l LEDGER_EVENT_LEASE_END elapsed_min cost lm3,
                    Inr \<lparr>td_worker_id = wid, td_destroyed = (status = Gone), td_status = status\<rparr>))))"

definition teardown ::
  "'w manager \<Rightarrow> unix_seconds \<Rightarrow> worker_id \<Rightarrow> bool \<Rightarrow> 'w lm \<Rightarrow> 'w lm \<times> teardown_result result" where
  "teardown mg now wid drain_first lm =
     (case store_lease wid (lm_store lm) of
        None \<Rightarrow> (lm, Inl (''no lease for worker '' @ wid))
      | Some l \<Rightarrow> destroy_and_verify mg now l (if drain_first then drain l lm else lm))"

subsection \<open>The background passes\<close>

fun clock_loop :: "'w manager \<Rightarrow> unix_seconds \<Rightarrow> lease list \<Rightarrow> 'w lm \<Rightarrow> 'w lm \<times> unit result" where
  "clock_loop mg now [] lm = (lm, Inr ())"
| "clock_loop mg now (l # ls) lm =
     (let elapsed = now - ls_started_at l
      in if wall_secs l \<le> elapsed
         then (case destroy_and_verify mg now l lm of
                 (lm1, Inl e) \<Rightarrow> (lm1, Inl e)
               | (lm1, Inr _) \<Rightarrow> clock_loop mg now ls lm1)
         else clock_loop mg now ls
                (if ls_state l = Active \<and> drain_secs l \<le> elapsed then drain l lm else lm))"

text \<open>One lease of the idle reaper: the idle table and whether the lease is to be reaped.\<close>

definition idle_mark ::
  "'w manager \<Rightarrow> unix_seconds \<Rightarrow> bool \<Rightarrow> lease \<Rightarrow> store \<Rightarrow> (worker_id \<Rightarrow> unix_seconds option) \<Rightarrow>
   (worker_id \<Rightarrow> unix_seconds option) \<times> bool" where
  "idle_mark mg now queue_empty l s idle_since =
     (let wid = ls_worker_id l;
          idle = (queue_empty \<and> ls_state l = Active \<and>
                  (case store_worker now wid s of Some w \<Rightarrow> wi_current_run w = None | None \<Rightarrow> False))
      in if \<not> idle then (idle_since(wid := None), False)
         else (let since = (case idle_since wid of Some t \<Rightarrow> t | None \<Rightarrow> now)
               in (idle_since(wid := Some since), cf_idle_reap (mg_cfg mg) \<le> now - since)))"

fun idle_scan ::
  "'w manager \<Rightarrow> unix_seconds \<Rightarrow> bool \<Rightarrow> store \<Rightarrow> lease list \<Rightarrow> (worker_id \<Rightarrow> unix_seconds option) \<Rightarrow>
   (worker_id \<Rightarrow> unix_seconds option) \<times> lease list" where
  "idle_scan mg now qe s [] idle = (idle, [])"
| "idle_scan mg now qe s (l # ls) idle =
     (let (idle1, r) = idle_mark mg now qe l s idle;
          (idle2, rest) = idle_scan mg now qe s ls idle1
      in (idle2, if r then l # rest else rest))"

fun reap_all :: "'w manager \<Rightarrow> unix_seconds \<Rightarrow> lease list \<Rightarrow> 'w lm \<Rightarrow> 'w lm \<times> unit result" where
  "reap_all mg now [] lm = (lm, Inr ())"
| "reap_all mg now (l # ls) lm =
     (case destroy_and_verify mg now l (drain l lm) of
        (lm1, Inl e) \<Rightarrow> (lm1, Inl e)
      | (lm1, Inr _) \<Rightarrow> reap_all mg now ls lm1)"

definition reap_idle :: "'w manager \<Rightarrow> unix_seconds \<Rightarrow> 'w lm \<Rightarrow> 'w lm \<times> unit result" where
  "reap_idle mg now lm =
     (let s = lm_store lm;
          (idle, reap) = idle_scan mg now (next_queued s = None) s (live_leases s) (lm_idle lm)
      in reap_all mg now reap (lm\<lparr>lm_idle := idle\<rparr>))"

definition clock_pass :: "'w manager \<Rightarrow> unix_seconds \<Rightarrow> 'w lm \<Rightarrow> 'w lm \<times> unit result" where
  "clock_pass mg now lm =
     (case clock_loop mg now (live_leases (lm_store lm)) lm of
        (lm1, Inl e) \<Rightarrow> (lm1, Inl e)
      | (lm1, Inr _) \<Rightarrow> reap_idle mg now lm1)"

definition kill_orphan :: "'w provider_ops \<Rightarrow> instance_rec \<Rightarrow> 'w \<Rightarrow> 'w" where
  "kill_orphan p x w = fst (pd_destroy p (in_id x) w)"

definition owned_ids :: "lease list \<Rightarrow> string \<Rightarrow> string list" where
  "owned_ids live name = map ls_instance_id (filter (\<lambda>l. ls_provider l = name) live)"

definition reconcile_provider :: "lease list \<Rightarrow> 'w provider_ops \<Rightarrow> 'w \<Rightarrow> 'w" where
  "reconcile_provider live p w =
     (case pd_list p w of
        (w1, Inl e) \<Rightarrow> w1
      | (w1, Inr xs) \<Rightarrow>
          fold (\<lambda>x w. if in_id x \<notin> set (owned_ids live (pd_name p)) then kill_orphan p x w else w) xs w1)"

definition reconcile_pass :: "'w manager \<Rightarrow> 'w lm \<Rightarrow> 'w lm" where
  "reconcile_pass mg lm =
     lm\<lparr>lm_world := fold (reconcile_provider (live_leases (lm_store lm)))
                     (provider_all (mg_providers mg)) (lm_world lm)\<rparr>"

end
