(* ===== verification/LeaseLaws.thy ===== *)
theory LeaseLaws
  imports LeaseMgr
begin

text \<open>
  What the lease manager guarantees: budgets hold after every provision, verification ends,
  the clock leaves every lease in the phase its clock says, the reconcile pass kills exactly
  the instances no live lease owns, and a refused provision leaves nothing running. The lemmas
  about instances are proved from the providers' contracts and used through the mock provider.
\<close>

subsection \<open>What each operation leaves alone\<close>

lemma lm_on_store_simps [simp]:
  "lm_store (lm_on_store f lm) = f (lm_store lm)" "lm_world (lm_on_store f lm) = lm_world lm"
  "lm_idle (lm_on_store f lm) = lm_idle lm"
  by (simp_all add: lm_on_store_def)

lemma lm_ledger_simps [simp]:
  "lm_world (lm_ledger now l e m c lm) = lm_world lm"
  "lm_store (lm_ledger now l e m c lm) =
     ledger_append \<lparr>le_ts = now, le_worker_id = ls_worker_id l, le_provider = ls_provider l,
       le_event = e, le_minutes = m, le_cost = c\<rparr> (lm_store lm)"
  by (simp_all add: lm_ledger_def)

lemma ledger_append_simps [simp]:
  "st_leases (ledger_append e s) = st_leases s" "st_budgets (ledger_append e s) = st_budgets s"
  "st_ledger (ledger_append e s) = st_ledger s @ [e]"
  by (simp_all add: ledger_append_def)

lemma worker_left_simps [simp]:
  "st_leases (worker_left w s) = st_leases s" "st_ledger (worker_left w s) = st_ledger s"
  "st_budgets (worker_left w s) = st_budgets s"
  by (simp_all add: worker_left_def)

lemma set_lease_state_simps [simp]:
  "st_ledger (set_lease_state w st s) = st_ledger s" "st_budgets (set_lease_state w st s) = st_budgets s"
  "st_leases (set_lease_state w st s) =
     update_where (\<lambda>l. ls_worker_id l = w) (\<lambda>l. l\<lparr>ls_state := st\<rparr>) (st_leases s)"
  by (simp_all add: set_lease_state_def)

lemma drain_simps [simp]:
  "lm_world (drain l lm) = lm_world lm" "st_ledger (lm_store (drain l lm)) = st_ledger (lm_store lm)"
  "st_leases (lm_store (drain l lm)) =
     (if ls_state l \<noteq> Draining
      then update_where (\<lambda>x. ls_worker_id x = ls_worker_id l) (\<lambda>x. x\<lparr>ls_state := Draining\<rparr>) (st_leases (lm_store lm))
      else st_leases (lm_store lm))"
  by (simp_all add: drain_def Let_def)

lemma mint_join_token_frame:
  assumes "mint_join_token env now wid h = (h', r)"
  shows "st_leases (hb_store h') = st_leases (hb_store h) \<and> st_ledger (hb_store h') = st_ledger (hb_store h) \<and>
    st_budgets (hb_store h') = st_budgets (hb_store h)"
  using assms
  by (auto simp: mint_join_token_def generate_join_token_def generate_with_prefix_def fresh_uuid_def
      create_join_token_def Let_def split: if_splits sum.splits)

lemma rent_frame:
  assumes "rent mg now req lm = (lm', r)"
  shows "st_leases (lm_store lm') = st_leases (lm_store lm) \<and> st_ledger (lm_store lm') = st_ledger (lm_store lm) \<and>
    st_budgets (lm_store lm') = st_budgets (lm_store lm)"
  using assms
  by (auto simp: rent_def fresh_uuid_def Let_def split: sum.splits prod.splits dest!: mint_join_token_frame)

lemma rent_Inr:
  assumes "rent mg now req lm = (lm', Inr (p, wid, x))"
  shows "lm_provider mg (pr_provider req) = Inr p \<and>
    (\<exists>px. pd_provision p req px (lm_world lm) = (lm_world lm', Inr x))"
  using assms by (auto simp: rent_def Let_def split: sum.splits prod.splits)

lemma rent_Inl:
  assumes "rent mg now req lm = (lm', Inl e)"
  shows "lm_world lm' = lm_world lm \<or> (\<exists>p px e. lm_provider mg (pr_provider req) = Inr p \<and>
    pd_provision p req px (lm_world lm) = (lm_world lm', Inl e))"
  using assms by (auto simp: rent_def Let_def split: sum.splits prod.splits)

lemma destroy_and_verify_store:
  assumes "destroy_and_verify mg now l lm = (lm', Inr td)"
  shows "st_leases (lm_store lm') =
      update_where (\<lambda>x. ls_worker_id x = ls_worker_id l) (\<lambda>x. x\<lparr>ls_state := Destroyed\<rparr>) (st_leases (lm_store lm)) \<and>
    st_ledger (lm_store lm') = st_ledger (lm_store lm) @
      [\<lparr>le_ts = now, le_worker_id = ls_worker_id l, le_provider = ls_provider l, le_event = LEDGER_EVENT_LEASE_END,
        le_minutes = max ((now - ls_started_at l) / 60) 0,
        le_cost = ls_price_hr l * max ((now - ls_started_at l) / 60) 0 / 60\<rparr>]"
  using assms by (auto simp: destroy_and_verify_def Let_def split: sum.splits prod.splits)

lemma destroy_and_verify_Inl:
  assumes "destroy_and_verify mg now l lm = (lm', Inl e)"
  shows "lm_store lm' = lm_store lm"
  using assms by (auto simp: destroy_and_verify_def Let_def split: sum.splits prod.splits)

subsection \<open>Budgets\<close>

lemma live_after_create:
  assumes "store_lease (ls_worker_id l) s = None" "ls_state l \<noteq> Destroyed"
  shows "live_leases (create_lease l s) = live_leases s @ [l]"
proof -
  have "\<not> (\<exists>r\<in>set (st_leases s). ls_worker_id r = ls_worker_id l)"
    using assms(1) by (auto simp: store_lease_def row_of_None_iff)
  then show ?thesis using assms(2) by (simp add: live_leases_def create_lease_def upsert_def)
qed

lemma evaluate_budgets_breach:
  "evaluate_budgets budgets ledger live provider cost now = Some br \<Longrightarrow>
   \<exists>b\<in>set budgets. budget_applies provider b \<and> bu_cap b < projected ledger live cost now b"
  by (induction budgets) (auto simp: Let_def split: if_splits)

lemma provider_scope: "budget_applies p b \<Longrightarrow> is_none_or (\<lambda>q. p = q) (budget_provider (bu_scope b))"
  by (auto simp: budget_applies_def budget_provider_def)

text \<open>C16: Provisioning never breaks a budget. After a successful provision every budget that
  applies to its provider covers the realised spend of its period plus the commitments of all
  live leases, the new one included.\<close>

theorem provision_within_budgets:
  assumes "provision mg now req lm = (lm', Inr res)"
    and "store_lease (pv_worker_id res) (lm_store lm) = None"
    and "b \<in> set (store_budgets (lm_store lm))" and "budget_applies (pr_provider req) b"
  shows "spent (st_ledger (lm_store lm')) (budget_provider (bu_scope b)) (period_start (bu_period b) now) +
      committed (live_leases (lm_store lm')) (budget_provider (bu_scope b)) \<le> bu_cap b"
proof -
  obtain lm1 p wid x where r: "rent mg now req lm = (lm1, Inr (p, wid, x))"
    and s: "settle mg now req (p, wid, x) lm1 = (lm', Inr res)"
    using assms(1) by (auto simp: provision_def split: prod.splits sum.splits)
  note fr = rent_frame [OF r]
  define l where "l = pv_lease res"
  from s have l: "ls_worker_id l = wid" "ls_provider l = pr_provider req" "ls_state l = Active"
    "ls_price_hr l = in_price_hr x" "total_granted_min l = pr_lease_min req" "pv_worker_id res = wid"
    and ok: "budget_check mg now (pr_provider req) (in_price_hr x * pr_lease_min req / 60) (lm_store lm1) = Inr ()"
    and lm': "lm' = lm_ledger now l LEDGER_EVENT_LEASE_START (total_granted_min l) (projected_cost l)
        (lm_on_store (create_lease l) lm1)"
    by (auto simp: settle_def Let_def l_def total_granted_min_def split: sum.splits)
  have cost: "projected_cost l = in_price_hr x * pr_lease_min req / 60"
    by (simp add: projected_cost_def l)
  from ok have e: "evaluate_budgets (store_budgets (lm_store lm1)) (st_ledger (lm_store lm1))
      (live_leases (lm_store lm1)) (pr_provider req) (projected_cost l) now = None"
    by (simp add: budget_check_def cost split: option.splits)
  have "projected (st_ledger (lm_store lm1)) (live_leases (lm_store lm1)) (projected_cost l) now b \<le> bu_cap b"
    using assms(3) fr by (intro evaluate_budgets_None [OF e _ assms(4)]) (simp add: store_budgets_def)
  moreover have "store_lease (ls_worker_id l) (lm_store lm1) = None"
    using assms(2) fr l by (simp add: store_lease_def)
  from live_after_create [OF this] l
  have "live_leases (lm_store lm') = live_leases (lm_store lm1) @ [l]"
    by (simp add: lm' live_leases_def)
  moreover have "is_none_or (\<lambda>q. ls_provider l = q) (budget_provider (bu_scope b))"
    using provider_scope [OF assms(4)] l by simp
  ultimately show ?thesis
    by (simp add: lm' projected_def committed_single spent_single create_lease_def)
qed

text \<open>Vast leases escape the budgets. A request to the Vast driver that names no maximum
  price is recorded at price zero, so the check "now the real price is known" is made with cost
  zero, the lease commits nothing and its teardown realises nothing.\<close>

theorem vast_without_max_price_is_free:
  assumes "lm_provider mg (pr_provider req) = Inr (vast_provider vh vj fmt key)"
    and "pr_max_price_hr req = None"
    and "provision mg now req lm = (lm', Inr res)"
  shows "ls_price_hr (pv_lease res) = 0 \<and> projected_cost (pv_lease res) = 0 \<and>
    (\<forall>lm1 lm2 t td. destroy_and_verify mg t (pv_lease res) lm1 = (lm2, Inr td) \<longrightarrow>
       spent (st_ledger (lm_store lm2)) p since = spent (st_ledger (lm_store lm1)) p since)"
proof -
  obtain lm1 p wid x where r: "rent mg now req lm = (lm1, Inr (p, wid, x))"
    and s: "settle mg now req (p, wid, x) lm1 = (lm', Inr res)"
    using assms(3) by (auto simp: provision_def split: prod.splits sum.splits)
  from rent_Inr [OF r] assms(1) obtain px
    where "pd_provision (vast_provider vh vj fmt key) req px (lm_world lm) = (lm_world lm1, Inr x)" by auto
  then have "in_price_hr x = 0"
    using assms(2) by (auto simp: vast_provider_def on_vast_def split: prod.splits dest!: vast_price_is_request)
  with s have "ls_price_hr (pv_lease res) = 0"
    by (auto simp: settle_def Let_def split: sum.splits)
  then show ?thesis
    by (auto simp: projected_cost_def spent_single dest!: destroy_and_verify_store)
qed

text \<open>Tearing a lease down again charges it again. A second teardown of the same worker is
  accepted and appends another \<open>lease_end\<close> for the whole time since the start, so the budgets
  count the first interval twice.\<close>

theorem repeated_teardown_charges_twice:
  assumes "pk ls_worker_id (st_leases (lm_store lm))" and "store_lease wid (lm_store lm) = Some l"
    and "teardown mg t1 wid False lm = (lm1, Inr td1)" and "teardown mg t2 wid False lm1 = (lm2, Inr td2)"
    and "ls_started_at l \<le> t1" and "t1 \<le> t2"
  shows "spent (st_ledger (lm_store lm2)) None None = spent (st_ledger (lm_store lm)) None None +
    ls_price_hr l * (t1 - ls_started_at l) / 3600 + ls_price_hr l * (t2 - ls_started_at l) / 3600"
proof -
  have d1: "destroy_and_verify mg t1 l lm = (lm1, Inr td1)"
    using assms(2,3) by (simp add: teardown_def)
  note s1 = destroy_and_verify_store [OF d1]
  have w: "ls_worker_id l = wid" using assms(2) by (auto simp: store_lease_def dest: row_of_SomeD)
  have "store_lease wid (lm_store lm1) = Some (l\<lparr>ls_state := Destroyed\<rparr>)"
    using assms(2) s1 w by (simp add: store_lease_def row_of_update_where)
  then have "destroy_and_verify mg t2 (l\<lparr>ls_state := Destroyed\<rparr>) lm1 = (lm2, Inr td2)"
    using assms(4) by (simp add: teardown_def)
  note s2 = destroy_and_verify_store [OF this]
  have "max ((t1 - ls_started_at l) / 60) 0 = (t1 - ls_started_at l) / 60"
    "max ((t2 - ls_started_at l) / 60) 0 = (t2 - ls_started_at l) / 60"
    using assms(5,6) by simp_all
  with s1 s2 show ?thesis by (simp add: spent_def)
qed

subsection \<open>Verification ends\<close>

definition poll_world :: "'w provider_ops \<Rightarrow> string \<Rightarrow> nat \<Rightarrow> 'w \<Rightarrow> 'w" where
  "poll_world p iid n w = ((\<lambda>v. fst (pd_status p iid v)) ^^ n) w"

lemma poll_world_simps [simp]:
  "poll_world p iid 0 w = w" "poll_world p iid (Suc n) w = poll_world p iid n (fst (pd_status p iid w))"
  unfolding poll_world_def by (simp, simp add: funpow_Suc_right del: funpow.simps)

text \<open>The polls made from a given elapsed time: how many, and what the last one answered.\<close>

definition polled :: "'w provider_ops \<Rightarrow> string \<Rightarrow> nat \<Rightarrow> 'w \<Rightarrow> 'w \<times> instance_status \<Rightarrow> bool" where
  "polled p iid n w r \<longleftrightarrow> fst r = poll_world p iid (Suc n) w \<and>
     (snd r = Gone \<longleftrightarrow> snd (pd_status p iid (poll_world p iid n w)) = Inr Gone)"

lemma polled_Suc: "pd_status p iid w = (w1, st) \<Longrightarrow> polled p iid (Suc n) w r = polled p iid n w1 r"
  by (simp add: polled_def)

lemma verify_gone_polls:
  "\<exists>n. n * max 1 poll < timeout - elapsed + max 1 poll \<and>
    polled p iid n w (verify_gone p iid timeout poll elapsed w)"
proof (induction p iid timeout poll elapsed w rule: verify_gone.induct)
  case (1 p iid timeout poll elapsed w)
  obtain w1 r where st: "pd_status p iid w = (w1, r)" by fastforce
  note v = verify_gone.simps [of p iid timeout poll elapsed w, unfolded st]
  have stop: ?case if "verify_gone p iid timeout poll elapsed w = (w1, x)" "x = Gone \<longleftrightarrow> r = Inr Gone" for x
    using that st by (intro exI [of _ 0]) (simp add: polled_def less_max_iff_disj)
  have step: ?case
    if "verify_gone p iid timeout poll elapsed w = verify_gone p iid timeout poll (elapsed + max 1 poll) w1"
      "\<not> timeout \<le> elapsed"
      "\<exists>n. n * max 1 poll < timeout - (elapsed + max 1 poll) + max 1 poll \<and>
        polled p iid n w1 (verify_gone p iid timeout poll (elapsed + max 1 poll) w1)"
  proof -
    from that(3) obtain n where n: "n * max 1 poll < timeout - (elapsed + max 1 poll) + max 1 poll"
      "polled p iid n w1 (verify_gone p iid timeout poll (elapsed + max 1 poll) w1)" by blast
    have "Suc n * max 1 poll < timeout - elapsed + max 1 poll"
    proof (cases "n = 0")
      case False
      then have "max 1 poll \<le> n * max 1 poll" by (cases n) simp_all
      moreover have "m < timeout - (elapsed + q) + q \<Longrightarrow> q \<le> m \<Longrightarrow> q + m < timeout - elapsed + q" for q m
        by arith
      ultimately have "max 1 poll + n * max 1 poll < timeout - elapsed + max 1 poll" using n(1) by blast
      then show ?thesis by simp
    next
      case True
      have "0 < timeout - elapsed" using that(2) by simp
      with True show ?thesis by (simp del: max_less_iff_conj)
    qed
    with n(2) st that(1) show ?thesis by (intro exI [of _ "Suc n"]) (simp add: polled_Suc [OF st])
  qed
  show ?case
  proof (cases r)
    case (Inl e)
    show ?thesis
    proof (cases "timeout \<le> elapsed")
      case True
      with v Inl show ?thesis by (intro stop [of Unknown]) simp_all
    next
      case False
      with v Inl "1.IH"(1) [OF st [symmetric] Inl False] show ?thesis by (intro step) simp_all
    qed
  next
    case (Inr x)
    show ?thesis
    proof (cases "timeout \<le> elapsed \<or> x = Gone")
      case True
      with v Inr show ?thesis by (intro stop [of x]) (cases x; simp)+
    next
      case False
      then have nt: "\<not> timeout \<le> elapsed" and x: "x = InstRunning \<or> x = Unknown" by (cases x; simp)+
      from x show ?thesis
      proof
        assume "x = InstRunning"
        with v Inr nt "1.IH"(2) [OF st [symmetric] Inr _ nt] show ?thesis by (intro step) simp_all
      next
        assume "x = Unknown"
        with v Inr nt "1.IH"(3) [OF st [symmetric] Inr _ nt] show ?thesis by (intro step) simp_all
      qed
    qed
  qed
qed

text \<open>Verifying a destroy always ends. With the production policy the provider is asked for the
  status at most 61 times, and the verification reports the instance gone exactly when the last
  answer said so.\<close>

theorem verify_gone_terminates:
  "\<exists>n \<le> 60. fst (verify_gone p iid DESTROY_VERIFY_TIMEOUT DESTROY_VERIFY_POLL 0 w) = poll_world p iid (Suc n) w \<and>
    (snd (verify_gone p iid DESTROY_VERIFY_TIMEOUT DESTROY_VERIFY_POLL 0 w) = Gone \<longleftrightarrow>
       snd (pd_status p iid (poll_world p iid n w)) = Inr Gone)"
proof -
  obtain n where "n * max 1 DESTROY_VERIFY_POLL < DESTROY_VERIFY_TIMEOUT - 0 + max 1 DESTROY_VERIFY_POLL"
    "polled p iid n w (verify_gone p iid DESTROY_VERIFY_TIMEOUT DESTROY_VERIFY_POLL 0 w)"
    using verify_gone_polls [of DESTROY_VERIFY_POLL DESTROY_VERIFY_TIMEOUT 0 p iid w] by blast
  then show ?thesis
    unfolding polled_def by (intro exI [of _ n]) (simp add: DESTROY_VERIFY_TIMEOUT_def DESTROY_VERIFY_POLL_def)
qed

subsection \<open>Instances, from the providers' contracts\<close>

context provider_contract
begin

lemma poll_world_frame: "sound w \<Longrightarrow> sound (poll_world p i n w) \<and> alive (poll_world p i n w) = alive w"
proof (induction n arbitrary: w)
  case (Suc n)
  obtain w1 st where s: "pd_status p i w = (w1, st)" by fastforce
  from Suc.IH [OF sound_status [OF Suc.prems s]] status_frame [OF Suc.prems s] s show ?case by simp
qed simp

text \<open>The world of a verification is sound and unchanged, and \<open>Gone\<close> is the truth.\<close>

lemma verify_gone_sound:
  assumes "sound w" "verify_gone p i timeout poll elapsed w = (w', st)"
  shows "sound w' \<and> alive w' = alive w \<and> (st = Gone \<longrightarrow> i \<notin> alive w')"
proof -
  obtain n where n: "polled p i n w (w', st)"
    using verify_gone_polls [of poll timeout elapsed p i w] assms(2) by auto
  then have w': "w' = poll_world p i (Suc n) w" by (simp add: polled_def)
  have "i \<notin> alive w" if "st = Gone"
  proof -
    have "snd (pd_status p i (poll_world p i n w)) = Inr Gone" using n that by (simp add: polled_def)
    then have "pd_status p i (poll_world p i n w) = (fst (pd_status p i (poll_world p i n w)), Inr Gone)"
      by (metis prod.collapse)
    from status_gone [OF _ this] poll_world_frame [OF assms(1), of i n] show ?thesis by simp
  qed
  with poll_world_frame [OF assms(1), of i "Suc n"] show ?thesis unfolding w' by blast
qed

lemma destroy_and_verify_world:
  assumes "sound (lm_world lm)" "lm_provider mg (ls_provider l) = Inr p"
    "destroy_and_verify mg now l lm = (lm', r)"
  shows "sound (lm_world lm') \<and> alive (lm_world lm) - {ls_instance_id l} \<subseteq> alive (lm_world lm') \<and>
    alive (lm_world lm') \<subseteq> alive (lm_world lm) \<and>
    (\<forall>td. r = Inr td \<longrightarrow> td_destroyed td \<longrightarrow> ls_instance_id l \<notin> alive (lm_world lm'))"
proof -
  obtain w u where d: "pd_destroy p (ls_instance_id l) (lm_world lm) = (w, u)" by fastforce
  note fr = sound_destroy [OF assms(1) d] destroy_frame [OF assms(1) d]
  show ?thesis
  proof (cases u)
    case (Inl e)
    with assms d fr show ?thesis by (auto simp: destroy_and_verify_def)
  next
    case (Inr x)
    obtain w1 st where v: "verify_gone p (ls_instance_id l) (mg_timeout mg) (mg_poll mg) 0 w = (w1, st)"
      by fastforce
    from verify_gone_sound [OF fr(1) v] assms d fr Inr v show ?thesis
      by (auto simp: destroy_and_verify_def Let_def)
  qed
qed

end

context prompt_provider
begin

lemma destroy_and_verify_prompt:
  assumes "sound (lm_world lm)" "lm_provider mg (ls_provider l) = Inr p"
  obtains lm' td where "destroy_and_verify mg now l lm = (lm', Inr td)" "sound (lm_world lm')"
    "alive (lm_world lm') = alive (lm_world lm) - {ls_instance_id l}"
proof -
  obtain w u where d: "pd_destroy p (ls_instance_id l) (lm_world lm) = (w, u)" by fastforce
  note pr = destroy_prompt [OF assms(1) d]
  obtain lm' r where r: "destroy_and_verify mg now l lm = (lm', r)" by fastforce
  obtain w1 st where v: "verify_gone p (ls_instance_id l) (mg_timeout mg) (mg_poll mg) 0 w = (w1, st)"
    by fastforce
  have "alive (lm_world lm') = alive w1"
    using r d pr assms(2) v by (auto simp: destroy_and_verify_def Let_def)
  moreover have "alive w1 = alive (lm_world lm) - {ls_instance_id l}"
    using verify_gone_sound [OF sound_destroy [OF assms(1) d] v] destroy_exact [OF assms(1) d] by simp
  moreover from r d pr assms(2) obtain td where "r = Inr td"
    by (auto simp: destroy_and_verify_def Let_def split: prod.splits)
  moreover note destroy_and_verify_world [OF assms r]
  ultimately show thesis using r that by blast
qed

text \<open>The clock's loop over leases of this provider: no error, and exactly the instances of the
  leases past their wall are gone.\<close>

lemma clock_loop_world:
  assumes "sound (lm_world lm)" "\<forall>l\<in>set ls. lm_provider mg (ls_provider l) = Inr p"
  shows "\<exists>lm'. clock_loop mg now ls lm = (lm', Inr ()) \<and> sound (lm_world lm') \<and>
    alive (lm_world lm') = alive (lm_world lm) -
      {ls_instance_id l | l. l \<in> set ls \<and> wall_secs l \<le> now - ls_started_at l}"
  using assms
proof (induction ls arbitrary: lm)
  case (Cons l ls)
  have rest: "\<forall>l\<in>set ls. lm_provider mg (ls_provider l) = Inr p" using Cons.prems(2) by simp
  show ?case
  proof (cases "wall_secs l \<le> now - ls_started_at l")
    case True
    obtain lm1 td where d: "destroy_and_verify mg now l lm = (lm1, Inr td)" "sound (lm_world lm1)"
      "alive (lm_world lm1) = alive (lm_world lm) - {ls_instance_id l}"
      using destroy_and_verify_prompt [OF Cons.prems(1), of mg l now] Cons.prems(2) by auto
    from Cons.IH [OF d(2) rest] d True show ?thesis by auto
  next
    case False
    let ?lm = "if ls_state l = Active \<and> drain_secs l \<le> now - ls_started_at l then drain l lm else lm"
    have "lm_world ?lm = lm_world lm" by simp
    with Cons.IH [of ?lm] Cons.prems rest False show ?thesis by (auto simp: Let_def)
  qed
qed simp

lemma reap_all_world:
  assumes "sound (lm_world lm)" "\<forall>l\<in>set ls. lm_provider mg (ls_provider l) = Inr p"
  shows "\<exists>lm'. reap_all mg now ls lm = (lm', Inr ()) \<and> sound (lm_world lm') \<and>
    alive (lm_world lm') = alive (lm_world lm) - ls_instance_id ` set ls"
  using assms
proof (induction ls arbitrary: lm)
  case (Cons l ls)
  obtain lm1 td where d: "destroy_and_verify mg now l (drain l lm) = (lm1, Inr td)" "sound (lm_world lm1)"
    "alive (lm_world lm1) = alive (lm_world lm) - {ls_instance_id l}"
    using destroy_and_verify_prompt [of "drain l lm" mg l now] Cons.prems by auto
  have "\<forall>l\<in>set ls. lm_provider mg (ls_provider l) = Inr p" using Cons.prems(2) by simp
  from Cons.IH [OF d(2) this] d show ?case by auto
qed simp

text \<open>One provider's share of a reconcile pass.\<close>

lemma kill_unowned:
  assumes "sound w"
  shows "sound (fold (\<lambda>x w. if in_id x \<notin> owned then kill_orphan p x w else w) xs w) \<and>
    alive (fold (\<lambda>x w. if in_id x \<notin> owned then kill_orphan p x w else w) xs w) =
      alive w - (in_id ` set xs - owned)"
  using assms
proof (induction xs arbitrary: w)
  case (Cons x xs)
  obtain w1 u where d: "pd_destroy p (in_id x) w = (w1, u)" by fastforce
  note destroy_exact [OF Cons.prems d] sound_destroy [OF Cons.prems d]
  with Cons d show ?case by (auto simp: kill_orphan_def)
qed simp

lemma reconcile_provider_world:
  assumes "sound w" "pd_list p w = (w1, Inr xs)"
  shows "sound (reconcile_provider live p w) \<and>
    alive (reconcile_provider live p w) = alive w \<inter> set (owned_ids live (pd_name p))"
  using kill_unowned [OF sound_list [OF assms], of "set (owned_ids live (pd_name p))" xs]
    list_frame [OF assms] list_ok [OF assms] assms(2)
  by (auto simp: reconcile_provider_def)

end

subsection \<open>The clock\<close>

text \<open>The phase a lease is in by its own clock: the specification the pass implements.\<close>

definition lease_phase :: "unix_seconds \<Rightarrow> lease \<Rightarrow> lease_state" where
  "lease_phase now l =
     (if ls_state l = Destroyed \<or> wall_secs l \<le> now - ls_started_at l then Destroyed
      else if ls_state l = Active \<and> drain_secs l \<le> now - ls_started_at l then Draining
      else ls_state l)"

lemma fold_update_elem:
  "fold (\<lambda>l. update_where (\<lambda>x. k x = k l) (f l)) ls rows =
   map (\<lambda>x. fold (\<lambda>l x. if k x = k l then f l x else x) ls x) rows"
  by (induction ls arbitrary: rows) (simp_all add: update_where_def)

lemma fold_elem_none:
  "\<forall>l\<in>set ls. k l \<noteq> k x \<Longrightarrow> fold (\<lambda>l x. if k x = k l then f l x else x) ls x = x"
  by (induction ls) auto

lemma fold_elem_one:
  assumes "\<And>l x. k (f l x) = k x"
  shows "pk k ls \<Longrightarrow> x \<in> set ls \<Longrightarrow> fold (\<lambda>l x. if k x = k l then f l x else x) ls x = f x x"
proof (induction ls)
  case (Cons l ls)
  show ?case
  proof (cases "x = l")
    case True
    then have "\<forall>y\<in>set ls. k y \<noteq> k (f l l)" using Cons.prems(1) assms by (auto simp: pk_def image_iff)
    from fold_elem_none [OF this] True show ?thesis by simp
  next
    case False
    with Cons.prems have "k l \<noteq> k x" by (auto simp: pk_def)
    with False Cons show ?thesis by (simp add: pk_def)
  qed
qed simp

lemma pk_filter: "pk k rows \<Longrightarrow> pk k (filter P rows)"
  by (induction rows) (auto simp: pk_def)

lemma fold_update_live:
  assumes "pk k rows" "\<And>l x. k (f l x) = k x"
  shows "fold (\<lambda>l. update_where (\<lambda>x. k x = k l) (f l)) (filter P rows) rows =
    map (\<lambda>x. if P x then f x x else x) rows"
  unfolding fold_update_elem
proof (rule map_cong [OF refl])
  fix x assume x: "x \<in> set rows"
  show "fold (\<lambda>l x. if k x = k l then f l x else x) (filter P rows) x = (if P x then f x x else x)"
  proof (cases "P x")
    case True
    with x fold_elem_one [of k f, OF assms(2) pk_filter [OF assms(1)]] show ?thesis by simp
  next
    case False
    have "k l \<noteq> k x" if "l \<in> set (filter P rows)" for l
    proof
      assume "k l = k x"
      moreover have "l \<in> set rows" "P l" using that by simp_all
      ultimately have "l = x" using pk_row_of [OF assms(1)] x by (metis option.inject)
      with \<open>P l\<close> False show False by simp
    qed
    with False fold_elem_none [of "filter P rows" k x f] show ?thesis by simp
  qed
qed

lemma clock_loop_leases:
  assumes "clock_loop mg now ls lm = (lm', Inr ())" "\<forall>l\<in>set ls. ls_state l \<noteq> Destroyed"
  shows "st_leases (lm_store lm') =
    fold (\<lambda>l. update_where (\<lambda>x. ls_worker_id x = ls_worker_id l)
      (\<lambda>x. x\<lparr>ls_state := if lease_phase now l = ls_state l then ls_state x else lease_phase now l\<rparr>)) ls
      (st_leases (lm_store lm))"
  using assms
proof (induction ls arbitrary: lm)
  case (Cons l ls)
  have id: "update_where P (\<lambda>x. x) rows = rows" for P and rows :: "lease list"
    by (simp add: update_where_def)
  show ?case
  proof (cases "wall_secs l \<le> now - ls_started_at l")
    case True
    then obtain lm1 td where d: "destroy_and_verify mg now l lm = (lm1, Inr td)"
      "clock_loop mg now ls lm1 = (lm', Inr ())"
      using Cons.prems(1) by (auto simp: Let_def split: prod.splits sum.splits)
    from Cons.IH [OF d(2)] Cons.prems(2) destroy_and_verify_store [OF d(1)] True show ?thesis
      by (auto simp: lease_phase_def)
  next
    case False
    let ?lm = "if ls_state l = Active \<and> drain_secs l \<le> now - ls_started_at l then drain l lm else lm"
    have "clock_loop mg now ls ?lm = (lm', Inr ())" using Cons.prems(1) False by (simp add: Let_def)
    from Cons.IH [OF this] Cons.prems(2) False show ?thesis
      by (auto simp: lease_phase_def id)
  qed
qed simp

lemma clock_loop_phases:
  assumes "pk ls_worker_id (st_leases (lm_store lm))"
    and "clock_loop mg now (live_leases (lm_store lm)) lm = (lm', Inr ())"
  shows "st_leases (lm_store lm') = map (\<lambda>l. l\<lparr>ls_state := lease_phase now l\<rparr>) (st_leases (lm_store lm))"
proof -
  let ?f = "\<lambda>l x. x\<lparr>ls_state := if lease_phase now l = ls_state l then ls_state x else lease_phase now l\<rparr>"
  have "st_leases (lm_store lm') =
      map (\<lambda>x. if ls_state x \<noteq> Destroyed then ?f x x else x) (st_leases (lm_store lm))"
    using clock_loop_leases [OF assms(2)] fold_update_live [OF assms(1), of ?f "\<lambda>l. ls_state l \<noteq> Destroyed"]
    by (simp add: live_leases_def)
  moreover have "(if ls_state x \<noteq> Destroyed then ?f x x else x) = x\<lparr>ls_state := lease_phase now x\<rparr>" for x
    by (auto simp: lease_phase_def)
  ultimately show ?thesis by simp
qed


subsection \<open>The whole pass\<close>

lemma idle_scan_subset: "set (snd (idle_scan mg now qe s ls idle)) \<subseteq> set ls"
  by (induction ls arbitrary: idle) (auto simp: case_prod_beta Let_def)

lemma reap_all_other:
  assumes "reap_all mg now ls lm = (lm', r)" "\<forall>l\<in>set ls. ls_worker_id l \<noteq> w"
  shows "store_lease w (lm_store lm') = store_lease w (lm_store lm)"
  using assms
proof (induction ls arbitrary: lm)
  case (Cons l ls)
  have dr: "store_lease w (lm_store (drain l lm)) = store_lease w (lm_store lm)"
    using Cons.prems(2) by (cases "store_lease w (lm_store lm)")
      (auto simp: store_lease_def row_of_update_where dest: row_of_SomeD)
  obtain lm1 r1 where d: "destroy_and_verify mg now l (drain l lm) = (lm1, r1)" by fastforce
  show ?case
  proof (cases r1)
    case (Inl e)
    with Cons.prems(1) d dr destroy_and_verify_Inl [of mg now l "drain l lm" lm1 e] show ?thesis
      by (simp add: store_lease_def)
  next
    case (Inr td)
    from destroy_and_verify_store [OF d [unfolded Inr]] Cons.prems(2)
    have "store_lease w (lm_store lm1) = store_lease w (lm_store (drain l lm))"
      by (cases "store_lease w (lm_store (drain l lm))")
        (auto simp: store_lease_def row_of_update_where simp del: drain_simps dest: row_of_SomeD)
    with Cons d Inr dr show ?thesis by simp
  qed
qed simp

text \<open>The wall is enforced. On the mock provider a clock pass never fails, and after it every
  lease that had reached its wall is recorded as destroyed and its instance runs no more,
  whether or not its worker ever answered.\<close>

theorem clock_pass_enforces_walls:
  assumes "mock_sound (lm_world lm)" and "pk ls_worker_id (st_leases (lm_store lm))"
    and "\<forall>l\<in>set (live_leases (lm_store lm)). lm_provider mg (ls_provider l) = Inr (mock_provider fmt)"
    and "l \<in> set (live_leases (lm_store lm))" and "wall_secs l \<le> now - ls_started_at l"
  shows "\<exists>lm'. clock_pass mg now lm = (lm', Inr ()) \<and>
    store_lease (ls_worker_id l) (lm_store lm') = Some (l\<lparr>ls_state := Destroyed\<rparr>) \<and>
    ls_instance_id l \<notin> mock_alive (lm_world lm')"
proof -
  obtain lm1 where c: "clock_loop mg now (live_leases (lm_store lm)) lm = (lm1, Inr ())"
    "mock_sound (lm_world lm1)" "ls_instance_id l \<notin> mock_alive (lm_world lm1)"
    using mock.clock_loop_world [OF assms(1,3), of now] assms(4,5) by blast
  note ph = clock_loop_phases [OF assms(2) c(1)]
  let ?s = "lm_store lm1"
  let ?scan = "idle_scan mg now (next_queued ?s = None) ?s (live_leases ?s) (lm_idle lm1)"
  have sub: "set (snd ?scan) \<subseteq> set (live_leases ?s)" by (rule idle_scan_subset)
  have pr: "\<forall>x\<in>set (snd ?scan). lm_provider mg (ls_provider x) = Inr (mock_provider fmt)"
    using sub assms(3) by (auto simp: live_leases_def ph lease_phase_def split: if_splits)
  obtain lm2 where r: "reap_all mg now (snd ?scan) (lm1\<lparr>lm_idle := fst ?scan\<rparr>) = (lm2, Inr ())"
    "mock_alive (lm_world lm2) = mock_alive (lm_world lm1) - ls_instance_id ` set (snd ?scan)"
    using mock.reap_all_world [of "lm1\<lparr>lm_idle := fst ?scan\<rparr>" "snd ?scan" mg fmt now] c(2) pr by auto
  have row: "row_of ls_worker_id (ls_worker_id l) (st_leases (lm_store lm)) = Some l"
    using assms(2,4) by (intro pk_row_of) (auto simp: live_leases_def)
  have map_row: "row_of ls_worker_id w (map (\<lambda>l. l\<lparr>ls_state := f l\<rparr>) rows) =
      map_option (\<lambda>l. l\<lparr>ls_state := f l\<rparr>) (row_of ls_worker_id w rows)" for w f rows
    by (induction rows) auto
  have st: "store_lease (ls_worker_id l) ?s = Some (l\<lparr>ls_state := Destroyed\<rparr>)"
    using row assms(5) by (simp add: store_lease_def ph map_row lease_phase_def)
  have "ls_worker_id x \<noteq> ls_worker_id l" if "x \<in> set (snd ?scan)" for x
  proof
    assume w: "ls_worker_id x = ls_worker_id l"
    from that sub have x: "x \<in> set (st_leases ?s)" "ls_state x \<noteq> Destroyed" by (auto simp: live_leases_def)
    have "pk ls_worker_id (st_leases ?s)"
      using assms(2) by (simp add: ph pk_def comp_def)
    from pk_row_of [OF this x(1)] st w x(2) show False by (simp add: store_lease_def)
  qed
  then have "store_lease (ls_worker_id l) (lm_store lm2) = Some (l\<lparr>ls_state := Destroyed\<rparr>)"
    using reap_all_other [OF r(1), of "ls_worker_id l"] st by simp
  moreover have "clock_pass mg now lm = (lm2, Inr ())"
    using r(1) by (simp add: clock_pass_def c(1) reap_idle_def case_prod_beta)
  ultimately show ?thesis using r(2) c(3) by blast
qed

text \<open>One failing destroy holds up the walls behind it. If the provider refuses to destroy a
  lease at its wall, the pass ends there with the error: no lease listed after it is drained or
  destroyed and the idle reaper does not run, in this pass and in every later one.\<close>

lemma clock_pass_stops_at_failed_destroy:
  assumes "live_leases (lm_store lm) = l # ls" and "wall_secs l \<le> now - ls_started_at l"
    and "lm_provider mg (ls_provider l) = Inr p"
    and "pd_destroy p (ls_instance_id l) (lm_world lm) = (w, Inl e)"
  shows "clock_pass mg now lm = (lm\<lparr>lm_world := w\<rparr>, Inl ''provider destroy'')"
  using assms by (simp add: clock_pass_def destroy_and_verify_def)

subsection \<open>Reconciliation\<close>

lemma build_mock: "build_providers vh vj fmt ''mock'' key = [(''mock'', mock_provider fmt)]"
  by (simp add: build_providers_def trim_def is_space_def)

lemma mock_list_ok: "\<exists>w1 xs. pd_list (mock_provider fmt) w = (w1, Inr xs)"
  by (simp add: mock_defs)

lemma reconcile_mock:
  assumes "mg_providers mg = build_providers vh vj fmt ''mock'' key" and "mock_sound (lm_world lm)"
  shows "mock_sound (lm_world (reconcile_pass mg lm)) \<and>
    mock_alive (lm_world (reconcile_pass mg lm)) = mock_alive (lm_world lm) \<inter>
      {ls_instance_id l | l. l \<in> set (live_leases (lm_store lm)) \<and> ls_provider l = MOCK_NAME} \<and>
    lm_hub (reconcile_pass mg lm) = lm_hub lm"
proof -
  obtain w1 xs where "pd_list (mock_provider fmt) (lm_world lm) = (w1, Inr xs)" using mock_list_ok by blast
  from mock.reconcile_provider_world [OF assms(2) this, of "live_leases (lm_store lm)"] show ?thesis
    by (auto simp: reconcile_pass_def assms(1) build_mock provider_all_def owned_ids_def mock_provider_def)
qed


lemma rent_world_mock:
  assumes "rent mg now req lm = (lm1, Inr (p, wid, x))" "lm_provider mg (pr_provider req) = Inr (mock_provider fmt)"
    "mock_sound (lm_world lm)"
  shows "p = mock_provider fmt \<and> mock_sound (lm_world lm1) \<and>
    mock_alive (lm_world lm1) = insert (in_id x) (mock_alive (lm_world lm))"
proof -
  from rent_Inr [OF assms(1)] assms(2) obtain px
    where p: "p = mock_provider fmt" "pd_provision (mock_provider fmt) req px (lm_world lm) = (lm_world lm1, Inr x)"
    by auto
  from mock.sound_provision [OF assms(3) p(2)] mock.provision_ok [OF assms(3) p(2)] p(1) show ?thesis by simp
qed

text \<open>Reconciliation races with provisioning. A pass that runs between the moment the provider
  returns the instance and the moment its lease is stored takes the instance for an orphan: the
  provision then succeeds with an active, billing lease whose instance does not run.\<close>

theorem reconcile_kills_inflight_provision:
  assumes "mg_providers mg = build_providers vh vj fmt ''mock'' key" and "mock_sound (lm_world lm)"
    and "pr_provider req = ''mock''" and "rent mg t1 req lm = (lm1, Inr (p, wid, x))"
    and "\<forall>l\<in>set (live_leases (lm_store lm)). ls_instance_id l \<noteq> in_id x"
    and "settle mg t2 req (p, wid, x) (reconcile_pass mg lm1) = (lm2, Inr res)"
  shows "ls_state (pv_lease res) = Active \<and> ls_instance_id (pv_lease res) = in_id x \<and>
    in_id x \<notin> mock_alive (lm_world lm2)"
proof -
  have "lm_provider mg (pr_provider req) = Inr (mock_provider fmt)"
    by (simp add: lm_provider_def provider_get_def assms(1,3) build_mock)
  from rent_world_mock [OF assms(4) this assms(2)] have "mock_sound (lm_world lm1)" by simp
  note rc = reconcile_mock [OF assms(1) this]
  have "live_leases (lm_store lm1) = live_leases (lm_store lm)"
    using rent_frame [OF assms(4)] by (simp add: live_leases_def)
  then have "in_id x \<notin> mock_alive (lm_world (reconcile_pass mg lm1))" using rc assms(5) by auto
  with assms(6) show ?thesis
    by (auto simp: settle_def Let_def split: sum.splits)
qed

subsection \<open>Refusals and extensions\<close>

text \<open>A refused provision leaves nothing behind. When a provision on the mock provider fails,
  for whatever reason and at whatever point, no instance runs that did not run before and no lease
  or ledger entry was written.\<close>

theorem refused_provision_leaves_nothing:
  assumes "lm_provider mg (pr_provider req) = Inr (mock_provider fmt)" and "mock_sound (lm_world lm)"
    and "provision mg now req lm = (lm', Inl e)"
  shows "mock_alive (lm_world lm') \<subseteq> mock_alive (lm_world lm) \<and>
    st_leases (lm_store lm') = st_leases (lm_store lm) \<and> st_ledger (lm_store lm') = st_ledger (lm_store lm)"
proof (cases "\<exists>e'. rent mg now req lm = (lm', Inl e')")
  case True
  then obtain e' where r: "rent mg now req lm = (lm', Inl e')" by blast
  have "mock_alive (lm_world lm') = mock_alive (lm_world lm)"
    using rent_Inl [OF r] assms(1) mock.provision_err [OF assms(2)] by auto
  with rent_frame [OF r] show ?thesis by simp
next
  case False
  with assms(3) obtain lm1 p wid x where r: "rent mg now req lm = (lm1, Inr (p, wid, x))"
    and s: "settle mg now req (p, wid, x) lm1 = (lm', Inl e)"
    by (auto simp: provision_def split: prod.splits sum.splits)
  note w = rent_world_mock [OF r assms(1,2)]
  obtain w2 u where d: "pd_destroy (mock_provider fmt) (in_id x) (lm_world lm1) = (w2, u)" by fastforce
  from s w d have "lm' = lm1\<lparr>lm_world := w2\<rparr>"
    by (auto simp: settle_def Let_def split: sum.splits)
  with mock.destroy_exact [OF _ d] w rent_frame [OF r] show ?thesis by auto
qed

lemma committed_update:
  assumes "pk ls_worker_id rows" "row_of ls_worker_id w rows = Some l" "ls_state l \<noteq> Destroyed"
    "\<And>x. ls_worker_id (f x) = ls_worker_id x" "ls_state (f l) \<noteq> Destroyed"
  shows "committed (filter (\<lambda>l. ls_state l \<noteq> Destroyed) (update_where (\<lambda>x. ls_worker_id x = w) f rows)) None =
    committed (filter (\<lambda>l. ls_state l \<noteq> Destroyed) rows) None - projected_cost l + projected_cost (f l)"
  using assms(1,2)
proof (induction rows)
  case (Cons r rows)
  show ?case
  proof (cases "ls_worker_id r = w")
    case True
    with Cons.prems have "r = l" "\<forall>y\<in>set rows. ls_worker_id y \<noteq> w" by (auto simp: pk_def image_iff)
    then have "update_where (\<lambda>x. ls_worker_id x = w) f rows = rows"
      by (auto simp: update_where_def intro!: map_idI)
    with True \<open>r = l\<close> assms(3,5) show ?thesis by (simp add: committed_def)
  next
    case False
    with Cons have "committed (filter (\<lambda>l. ls_state l \<noteq> Destroyed) (update_where (\<lambda>x. ls_worker_id x = w) f rows)) None =
        committed (filter (\<lambda>l. ls_state l \<noteq> Destroyed) rows) None - projected_cost l + projected_cost (f l)"
      by (simp add: pk_def)
    with False show ?thesis by (simp add: committed_def)
  qed
qed simp

text \<open>The length of an extension is not validated. On a lease of non-negative price whose
  budgets hold, an extension by a negative number of minutes is always accepted, and it lowers what
  the live leases commit by its full amount, below zero if it is large, so that the budgets admit
  that much more.\<close>

theorem negative_extension_accepted:
  assumes "pk ls_worker_id (st_leases (lm_store lm))" and "store_lease wid (lm_store lm) = Some l"
    and "ls_state l \<noteq> Destroyed" and "0 \<le> ls_price_hr l" and "minutes < 0"
    and "budget_check mg now (ls_provider l) 0 (lm_store lm) = Inr ()"
  shows "\<exists>lm' l'. extend mg now wid minutes reason lm = (lm', Inr (Some l')) \<and>
    committed (live_leases (lm_store lm')) None =
      committed (live_leases (lm_store lm)) None + ls_price_hr l * minutes / 60"
proof -
  let ?s = "lm_store lm" let ?cost = "ls_price_hr l * minutes / 60"
  have neg: "?cost \<le> 0" using assms(4,5) by (simp add: mult_nonneg_nonpos)
  have none: "evaluate_budgets (store_budgets ?s) (st_ledger ?s) (live_leases ?s) (ls_provider l) 0 now = None"
    using assms(6) by (simp add: budget_check_def split: option.splits)
  have "evaluate_budgets (store_budgets ?s) (st_ledger ?s) (live_leases ?s) (ls_provider l) ?cost now = None"
  proof (rule ccontr)
    assume "\<not> ?thesis"
    then obtain br where "evaluate_budgets (store_budgets ?s) (st_ledger ?s) (live_leases ?s) (ls_provider l) ?cost now = Some br"
      by auto
    with evaluate_budgets_breach [OF this] evaluate_budgets_None [OF none] neg show False
      by (force simp: projected_def)
  qed
  then have ok: "budget_check mg now (ls_provider l) ?cost ?s = Inr ()" by (simp add: budget_check_def)
  let ?ext = "\<lparr>ex_minutes = minutes, ex_at = now, ex_reason = reason\<rparr>"
  let ?f = "\<lambda>x. x\<lparr>ls_extensions := ls_extensions l @ [?ext]\<rparr>"
  have w: "ls_worker_id l = wid" "row_of ls_worker_id wid (st_leases ?s) = Some l"
    using assms(2) by (auto simp: store_lease_def dest: row_of_SomeD)
  have cost: "projected_cost (?f l) = projected_cost l + ?cost"
    by (simp add: projected_cost_def total_granted_min_def distrib_left add_divide_distrib)
  let ?rows = "update_where (\<lambda>x. ls_worker_id x = wid) ?f (st_leases ?s)"
  have c1: "committed (filter (\<lambda>l. ls_state l \<noteq> Destroyed) ?rows) None = committed (live_leases ?s) None + ?cost"
    using committed_update [OF assms(1) w(2) assms(3), of ?f] assms(3) cost by (simp add: live_leases_def)
  have pk: "pk ls_worker_id ?rows" using assms(1) by (simp add: pk_update_where)
  have row: "row_of ls_worker_id wid ?rows = Some (?f l)" using w by (simp add: row_of_update_where)
  have c2: "committed (filter (\<lambda>l. ls_state l \<noteq> Destroyed)
      (update_where (\<lambda>x. ls_worker_id x = wid) (\<lambda>x. x\<lparr>ls_state := Active\<rparr>) ?rows)) None =
      committed (live_leases ?s) None + ?cost"
    using committed_update [OF pk row, of "\<lambda>x. x\<lparr>ls_state := Active\<rparr>"] assms(3) c1
    by (simp add: projected_cost_def total_granted_min_def)
  show ?thesis
    using ok c1 c2 assms(2) w(1)
    by (auto simp: extend_def Let_def store_extend_lease_def live_leases_def)
qed

end
