(* ===== verification/LeaseDemo.thy ===== *)
theory LeaseDemo
  imports LeaseLaws
begin

text \<open>
  Concrete instances for the lease manager's properties: a mock provider, a budget of 20, a
  request and leases in every phase.
\<close>

definition demo_cloud :: "unit cloud" where
  "demo_cloud = \<lparr>cl_mock = \<lparr>mk_agent_bin = Some ''agent'', mk_sibling = None, mk_spawn_ok = True,
     mk_uuid = show_nat, mk_next = 0, mk_instances = [], mk_argv = []\<rparr>, cl_vast = ()\<rparr>"

definition demo_http :: "unit vast_http" where
  "demo_http = \<lparr>vh_get = (\<lambda>_ w. (w, Inr (404, []))), vh_put = (\<lambda>_ _ w. (w, Inr (200, []))),
     vh_delete = (\<lambda>_ w. (w, Inr (200, [])))\<rparr>"

definition demo_manager :: "string \<Rightarrow> unit cloud manager" where
  "demo_manager selection = \<lparr>mg_env = demo_env,
     mg_cfg = demo_base_config\<lparr>cf_agent_ws_url := ''ws://h'', cf_drain_window_min := Fin 5, cf_idle_reap := 600\<rparr>,
     mg_providers = build_providers demo_http demo_vast_json (\<lambda>_. ''x'') selection (Some ''k''),
     mg_fmt2 = (\<lambda>_. ''x''), mg_timeout = DESTROY_VERIFY_TIMEOUT, mg_poll = DESTROY_VERIFY_POLL\<rparr>"

definition demo_budget :: budget where
  "demo_budget = \<lparr>bu_scope = ''global'', bu_cap = 20, bu_period = ''all'', bu_updated_at = 0\<rparr>"

definition demo_lm :: "lease list \<Rightarrow> (string \<times> mock_instance) list \<Rightarrow> unit cloud lm" where
  "demo_lm leases xs = \<lparr>lm_hub = hub_init\<lparr>hb_store := empty_store\<lparr>st_leases := leases, st_budgets := [demo_budget]\<rparr>\<rparr>,
     lm_world = demo_cloud\<lparr>cl_mock := (cl_mock demo_cloud)\<lparr>mk_instances := xs\<rparr>\<rparr>, lm_idle = Map.empty\<rparr>"

definition demo_request :: "string \<Rightarrow> real \<Rightarrow> real option \<Rightarrow> provision_request" where
  "demo_request p minutes price = \<lparr>pr_provider = p, pr_lease_min = minutes, pr_offer_id = Some (''vast:'' @ show_nat 7),
     pr_gpu = Some ''g'', pr_max_price_hr = price\<rparr>"

definition demo_lease_of :: "string \<Rightarrow> real \<Rightarrow> lease" where
  "demo_lease_of i minutes = \<lparr>ls_worker_id = i, ls_provider = ''mock'', ls_instance_id = i, ls_price_hr = 6,
     ls_granted_min = minutes, ls_drain_window_min = 5, ls_started_at = 0, ls_state = Active, ls_extensions = []\<rparr>"

lemma demo_lease_of_simps [simp]:
  "ls_worker_id (demo_lease_of i m) = i" "ls_provider (demo_lease_of i m) = ''mock''"
  "ls_instance_id (demo_lease_of i m) = i" "ls_price_hr (demo_lease_of i m) = 6"
  "ls_state (demo_lease_of i m) = Active" "ls_started_at (demo_lease_of i m) = 0"
  "wall_secs (demo_lease_of i m) = m * 60" "drain_secs (demo_lease_of i m) = max (m * 60 - 300) 0"
  by (simp_all add: demo_lease_of_def wall_secs_def drain_secs_def total_granted_min_def)

definition demo_instance :: mock_instance where
  "demo_instance = \<lparr>mi_child = Child_running, mi_gpu = ''g'', mi_price_hr = 6\<rparr>"

lemma build_vast: "build_providers vh vj fmt ''vast'' key = [(''vast'', vast_provider vh vj fmt key)]"
  by (simp add: build_providers_def trim_def is_space_def)

lemmas demo_manager_simps = demo_manager_def build_mock build_vast lm_provider_def provider_get_def

lemma demo_provider_mock: "lm_provider (demo_manager ''mock'') ''mock'' = Inr (mock_provider (\<lambda>_. ''x''))"
  by (simp add: demo_manager_simps)

lemmas demo_provision_simps = provision_def rent_def settle_def budget_check_def store_budgets_def order_by_def
  live_leases_def fresh_uuid_def mint_join_token_def generate_join_token_def generate_with_prefix_def
  create_join_token_def Let_def demo_manager_def demo_env_def demo_lm_def hub_init_def new_hub_def
  empty_store_def demo_cloud_def demo_request_def demo_budget_def projected_def committed_def spent_def
  budget_applies_def mock_provider_def on_mock_def mock_provision_def agent_binary_def projected_cost_def
  total_granted_min_def

lemma demo_provision:
  "\<exists>lm' res. provision (demo_manager ''mock'') 0 (demo_request ''mock'' 60 (Some 10)) (demo_lm [] []) = (lm', Inr res) \<and>
     store_lease (pv_worker_id res) (lm_store (demo_lm [] [])) = None"
  by (simp add: demo_provision_simps lm_provider_def provider_get_def build_mock store_lease_def)

lemma provision_within_budgets_witness:
  "\<exists>lm' res. provision (demo_manager ''mock'') 0 (demo_request ''mock'' 60 (Some 10)) (demo_lm [] []) = (lm', Inr res) \<and>
     spent (st_ledger (lm_store lm')) None None + committed (live_leases (lm_store lm')) None \<le> 20"
proof -
  obtain lm' res where p:
    "provision (demo_manager ''mock'') 0 (demo_request ''mock'' 60 (Some 10)) (demo_lm [] []) = (lm', Inr res)"
    "store_lease (pv_worker_id res) (lm_store (demo_lm [] [])) = None"
    using demo_provision by blast
  from provision_within_budgets [OF p, of demo_budget] p(1) show ?thesis
    by (auto simp: store_budgets_def demo_lm_def hub_init_def new_hub_def demo_budget_def budget_applies_def
        budget_provider_def period_start_def)
qed

lemma vast_without_max_price_is_free_witness:
  "\<exists>lm' res. provision (demo_manager ''vast'') 0 (demo_request ''vast'' 6000 None) (demo_lm [] []) = (lm', Inr res) \<and>
     projected_cost (pv_lease res) = 0"
proof -
  have v: "lm_provider (demo_manager ''vast'') (pr_provider (demo_request ''vast'' 6000 None)) =
      Inr (vast_provider demo_http demo_vast_json (\<lambda>_. ''x'') (Some ''k''))"
    by (simp add: demo_manager_simps demo_request_def)
  have "parse_offer_id (Some (''vast:'' @ show_nat 7)) = Inr 7"
    using parse_u64_show_nat [of 7] by (simp only: parse_offer_id_def option.case strip_prefix_append) simp
  then obtain lm' res where p:
    "provision (demo_manager ''vast'') 0 (demo_request ''vast'' 6000 None) (demo_lm [] []) = (lm', Inr res)"
    by (simp add: demo_provision_simps lm_provider_def provider_get_def build_vast vast_provider_def on_vast_def
        vast_provision_def vast_url_def vast_key_def result_bind_def demo_http_def error_for_status_def
        parse_created_instance_def demo_vast_json_def)
  from vast_without_max_price_is_free [OF v _ p] p show ?thesis by (simp add: demo_request_def)
qed

lemma demo_sound: "mock_sound (lm_world (demo_lm leases [(''i'', demo_instance), (''j'', demo_instance)]))"
  by (simp add: mock_sound_def demo_lm_def demo_cloud_def)

lemma demo_store: "st_leases (lm_store (demo_lm leases xs)) = leases"
  by (simp add: demo_lm_def hub_init_def new_hub_def)

lemma demo_live: "live_leases (lm_store (demo_lm [demo_lease_of ''i'' 60, demo_lease_of ''j'' 120] xs)) =
    [demo_lease_of ''i'' 60, demo_lease_of ''j'' 120]"
  by (simp add: live_leases_def demo_store)

lemma demo_live_mock:
  "\<forall>l\<in>set (live_leases (lm_store (demo_lm [demo_lease_of ''i'' 60, demo_lease_of ''j'' 120] xs))).
     lm_provider (demo_manager ''mock'') (ls_provider l) = Inr (mock_provider (\<lambda>_. ''x''))"
  by (simp add: demo_live demo_provider_mock)

lemma demo_pk: "pk ls_worker_id (st_leases (lm_store (demo_lm [demo_lease_of ''i'' 60, demo_lease_of ''j'' 120] xs)))"
  by (simp add: demo_store pk_def)


lemma clock_pass_enforces_walls_witness:
  "\<exists>lm'. clock_pass (demo_manager ''mock'') 3600
      (demo_lm [demo_lease_of ''i'' 60, demo_lease_of ''j'' 120] [(''i'', demo_instance), (''j'', demo_instance)]) =
      (lm', Inr ()) \<and> ''i'' \<notin> mock_alive (lm_world lm')"
  using clock_pass_enforces_walls [OF demo_sound demo_pk demo_live_mock, of "demo_lease_of ''i'' 60" 3600]
  by (auto simp: demo_live)

lemma repeated_teardown_charges_twice_witness:
  "\<exists>lm1 lm2 td1 td2. teardown (demo_manager ''mock'') 3600 ''i'' False (demo_lm [demo_lease_of ''i'' 60] []) = (lm1, Inr td1) \<and>
     teardown (demo_manager ''mock'') 7200 ''i'' False lm1 = (lm2, Inr td2) \<and>
     spent (st_ledger (lm_store lm2)) None None = 18"
proof -
  let ?lm = "demo_lm [demo_lease_of ''i'' 60] []"
  have row: "store_lease ''i'' (lm_store ?lm) = Some (demo_lease_of ''i'' 60)"
    by (simp add: store_lease_def demo_store)
  have s: "mock_sound (lm_world ?lm)" by (simp add: mock_sound_def demo_lm_def demo_cloud_def)
  have pr: "lm_provider (demo_manager ''mock'') (ls_provider (demo_lease_of ''i'' 60)) = Inr (mock_provider (\<lambda>_. ''x''))"
    by (simp add: demo_provider_mock)
  obtain lm1 td1 where d1: "destroy_and_verify (demo_manager ''mock'') 3600 (demo_lease_of ''i'' 60) ?lm = (lm1, Inr td1)"
    "mock_sound (lm_world lm1)"
    using mock.destroy_and_verify_prompt [OF s pr] by blast
  let ?l = "(demo_lease_of ''i'' 60)\<lparr>ls_state := Destroyed\<rparr>"
  have row1: "store_lease ''i'' (lm_store lm1) = Some ?l"
    using destroy_and_verify_store [OF d1(1)] by (simp add: store_lease_def demo_store)
  have pr1: "lm_provider (demo_manager ''mock'') (ls_provider ?l) = Inr (mock_provider (\<lambda>_. ''x''))"
    using pr by simp
  obtain lm2 td2 where d2: "destroy_and_verify (demo_manager ''mock'') 7200 ?l lm1 = (lm2, Inr td2)"
    using mock.destroy_and_verify_prompt [OF d1(2) pr1] by blast
  have t: "teardown (demo_manager ''mock'') 3600 ''i'' False ?lm = (lm1, Inr td1)"
    "teardown (demo_manager ''mock'') 7200 ''i'' False lm1 = (lm2, Inr td2)"
    by (simp_all add: teardown_def row row1 d1 d2)
  have "spent (st_ledger (lm_store lm2)) None None = 18"
    using repeated_teardown_charges_twice [OF _ row t]
    by (simp add: demo_store pk_def) (simp add: demo_lm_def hub_init_def new_hub_def empty_store_def spent_def)
  with t show ?thesis by blast
qed

lemma clock_pass_stops_at_failed_destroy_witness:
  "\<exists>w e. clock_pass ((demo_manager ''vast'')\<lparr>mg_providers := [(''mock'', vast_provider demo_http demo_vast_json (\<lambda>_. ''x'') None)]\<rparr>)
      3600 (demo_lm [demo_lease_of ''i'' 60, demo_lease_of ''j'' 30] []) =
      ((demo_lm [demo_lease_of ''i'' 60, demo_lease_of ''j'' 30] [])\<lparr>lm_world := w\<rparr>, Inl e)"
proof -
  let ?mg = "(demo_manager ''vast'')\<lparr>mg_providers := [(''mock'', vast_provider demo_http demo_vast_json (\<lambda>_. ''x'') None)]\<rparr>"
  let ?lm = "demo_lm [demo_lease_of ''i'' 60, demo_lease_of ''j'' 30] []"
  let ?p = "vast_provider demo_http demo_vast_json (\<lambda>_. ''x'') None"
  have "live_leases (lm_store ?lm) = [demo_lease_of ''i'' 60, demo_lease_of ''j'' 30]"
    by (simp add: live_leases_def demo_store)
  moreover have "lm_provider ?mg ''mock'' = Inr ?p" by (simp add: lm_provider_def provider_get_def)
  moreover have "\<exists>w e. pd_destroy ?p ''i'' (lm_world ?lm) = (w, Inl e)"
    by (simp add: vast_provider_def on_vast_def vast_destroy_def vast_url_def vast_key_def result_bind_def)
  ultimately show ?thesis
    using clock_pass_stops_at_failed_destroy [of ?lm "demo_lease_of ''i'' 60" "[demo_lease_of ''j'' 30]" 3600 ?mg ?p] by auto
qed

lemma demo_mock_providers:
  "mg_providers (demo_manager ''mock'') = build_providers demo_http demo_vast_json (\<lambda>_. ''x'') ''mock'' (Some ''k'')"
  by (simp add: demo_manager_def)


lemma demo_rent:
  "\<exists>lm1 p wid x. rent (demo_manager ''mock'') 0 (demo_request ''mock'' 60 (Some 1)) (demo_lm [] []) = (lm1, Inr (p, wid, x)) \<and>
     (\<exists>lm2 res. settle (demo_manager ''mock'') 1 (demo_request ''mock'' 60 (Some 1)) (p, wid, x)
        (reconcile_pass (demo_manager ''mock'') lm1) = (lm2, Inr res))"
  by (simp add: demo_provision_simps lm_provider_def provider_get_def build_mock reconcile_pass_def)

lemma reconcile_kills_inflight_provision_witness:
  "\<exists>lm1 p wid x lm2 res. rent (demo_manager ''mock'') 0 (demo_request ''mock'' 60 (Some 1)) (demo_lm [] []) = (lm1, Inr (p, wid, x)) \<and>
     settle (demo_manager ''mock'') 1 (demo_request ''mock'' 60 (Some 1)) (p, wid, x)
        (reconcile_pass (demo_manager ''mock'') lm1) = (lm2, Inr res) \<and> in_id x \<notin> mock_alive (lm_world lm2)"
proof -
  obtain lm1 p wid x lm2 res where r:
    "rent (demo_manager ''mock'') 0 (demo_request ''mock'' 60 (Some 1)) (demo_lm [] []) = (lm1, Inr (p, wid, x))"
    and s: "settle (demo_manager ''mock'') 1 (demo_request ''mock'' 60 (Some 1)) (p, wid, x)
        (reconcile_pass (demo_manager ''mock'') lm1) = (lm2, Inr res)"
    using demo_rent by blast
  have "mock_sound (lm_world (demo_lm [] []))" by (simp add: mock_sound_def demo_lm_def demo_cloud_def)
  moreover have "\<forall>l\<in>set (live_leases (lm_store (demo_lm [] []))). ls_instance_id l \<noteq> in_id x"
    by (simp add: live_leases_def demo_store)
  moreover have "pr_provider (demo_request ''mock'' 60 (Some 1)) = ''mock''" by (simp add: demo_request_def)
  ultimately have "in_id x \<notin> mock_alive (lm_world lm2)"
    using reconcile_kills_inflight_provision [OF demo_mock_providers _ _ r _ s] by blast
  with r s show ?thesis by blast
qed

lemma demo_refusal:
  "\<exists>lm' e. provision (demo_manager ''mock'') 0 (demo_request ''mock'' 60 (Some 21)) (demo_lm [] []) = (lm', Inl e)"
  by (simp add: demo_provision_simps lm_provider_def provider_get_def build_mock)

lemma refused_provision_leaves_nothing_witness:
  "\<exists>lm' e. provision (demo_manager ''mock'') 0 (demo_request ''mock'' 60 (Some 21)) (demo_lm [] []) = (lm', Inl e) \<and>
     mock_alive (lm_world lm') \<subseteq> mock_alive (lm_world (demo_lm [] []))"
proof -
  obtain lm' e where p:
    "provision (demo_manager ''mock'') 0 (demo_request ''mock'' 60 (Some 21)) (demo_lm [] []) = (lm', Inl e)"
    using demo_refusal by blast
  have "lm_provider (demo_manager ''mock'') (pr_provider (demo_request ''mock'' 60 (Some 21))) = Inr (mock_provider (\<lambda>_. ''x''))"
    "mock_sound (lm_world (demo_lm [] []))"
    by (simp_all add: demo_request_def demo_provider_mock mock_sound_def demo_lm_def demo_cloud_def)
  from refused_provision_leaves_nothing [OF this p] p show ?thesis by blast
qed

lemma negative_extension_accepted_witness:
  "\<exists>lm' l'. extend (demo_manager ''mock'') 10 ''i'' (- 600) [] (demo_lm [demo_lease_of ''i'' 60] []) = (lm', Inr (Some l')) \<and>
     committed (live_leases (lm_store lm')) None = - 54"
proof -
  let ?lm = "demo_lm [demo_lease_of ''i'' 60] []"
  have live: "live_leases (lm_store ?lm) = [demo_lease_of ''i'' 60]" by (simp add: live_leases_def demo_store)
  have cost: "projected_cost (demo_lease_of ''i'' 60) = 6"
    by (simp add: projected_cost_def total_granted_min_def demo_lease_of_def)
  have check: "budget_check (demo_manager ''mock'') 10 (ls_provider (demo_lease_of ''i'' 60)) 0 (lm_store ?lm) = Inr ()"
    unfolding budget_check_def live
    by (simp add: store_budgets_def order_by_def demo_lm_def hub_init_def new_hub_def empty_store_def demo_budget_def
        budget_applies_def budget_provider_def projected_def committed_def spent_def cost)
  have "pk ls_worker_id (st_leases (lm_store ?lm))" "store_lease ''i'' (lm_store ?lm) = Some (demo_lease_of ''i'' 60)"
    by (simp_all add: demo_store pk_def store_lease_def)
  from negative_extension_accepted [OF this _ _ _ check, of "- 600" "[]"]
  show ?thesis unfolding live by (simp add: committed_def cost)
qed

end
