(* ===== verification/WorkerIo.thy ===== *)
theory WorkerIo
  imports Provider
begin

text \<open>
  The worker's leaf modules (\<open>worker/seq.rs\<close>, \<open>outbox.rs\<close>, \<open>backoff.rs\<close>, \<open>sandbox.rs\<close>,
  \<open>procio.rs\<close>, \<open>metrics.rs\<close>, \<open>capabilities.rs\<close>, \<open>telemetry.rs\<close>, \<open>httpclient.rs\<close>). A task that
  streams draws a number from the shared counter and sends the event; each operation below
  takes the counter and returns it with the events it sent. Durations are nanoseconds.
\<close>

subsection \<open>Sequence numbers and the outbox\<close>

text \<open>\<open>fetch_add(1)\<close> on the shared \<open>AtomicU64\<close>; \<open>2 ^ 64\<close> events are out of reach.\<close>

definition seq_next :: "nat \<Rightarrow> nat \<times> nat" where
  "seq_next n = (n, n + 1)"

definition SEQ_ORIGIN :: nat where "SEQ_ORIGIN = 0"

fun outbox_seq :: "worker_to_cp \<Rightarrow> nat" where
  "outbox_seq (JobStarted seq _) = seq"
| "outbox_seq (JobExited seq _ _) = seq"
| "outbox_seq (JobKilled seq _ _) = seq"
| "outbox_seq (ServiceReady seq _ _) = seq"
| "outbox_seq (Log seq _ _) = seq"
| "outbox_seq (Metric seq _ _ _) = seq"
| "outbox_seq (Artifact seq _ _ _ _ _ _) = seq"
| "outbox_seq _ = SEQ_ORIGIN"

type_synonym outbox = "(nat \<times> worker_to_cp) list"

definition trim_to_high_water :: "nat \<Rightarrow> outbox \<Rightarrow> outbox" where
  "trim_to_high_water resumed ob =
     (if resumed > SEQ_ORIGIN then filter (\<lambda>(seq, _). seq > resumed) ob else ob)"

subsection \<open>Reconnect backoff\<close>

text \<open>
  \<open>as u64\<close> truncates the 128-bit nanosecond count. The remainder by \<open>span_nanos + 1\<close> panics when
  that sum is \<open>2 ^ 64\<close> (\<open>None\<close>).
\<close>

definition JITTER_DIVISOR :: nat where "JITTER_DIVISOR = 4"

definition with_jitter :: "nat \<Rightarrow> nat \<Rightarrow> nat option" where
  "with_jitter base entropy =
     (let span_nanos = (base div JITTER_DIVISOR) mod 2 ^ 64
      in if span_nanos = 0 then Some base
         else if span_nanos + 1 = 2 ^ 64 then None
         else Some (base + entropy mod (span_nanos + 1)))"

definition RECONNECT_BACKOFF_MIN :: nat where "RECONNECT_BACKOFF_MIN = 2 * 10 ^ 9"
definition RECONNECT_BACKOFF_MAX :: nat where "RECONNECT_BACKOFF_MAX = 60 * 10 ^ 9"

subsection \<open>Sandbox paths and injected log lines\<close>

definition subst :: "string \<Rightarrow> string \<Rightarrow> string" where
  "subst template sandbox_path = replace_all SANDBOX_PLACEHOLDER sandbox_path template"

definition WORKER_LOG_PREFIX :: string where "WORKER_LOG_PREFIX = ''[worker]''"

definition worker_line :: "job_id \<Rightarrow> string \<Rightarrow> nat \<Rightarrow> nat \<times> worker_to_cp list" where
  "worker_line jid message seq =
     (let (n, seq') = seq_next seq in (seq', [Log n jid (WORKER_LOG_PREFIX @ '' '' @ message)]))"

text \<open>One line read by \<open>pump_lines\<close>.\<close>

definition pump_line :: "job_id \<Rightarrow> string \<Rightarrow> nat \<Rightarrow> nat \<times> worker_to_cp list" where
  "pump_line jid line seq = (let (n, seq') = seq_next seq in (seq', [Log n jid line]))"

subsection \<open>The metrics tail\<close>

definition METRIC_STEP_KEY :: string where "METRIC_STEP_KEY = ''step''"

definition complete_lines :: "string \<Rightarrow> string list" where
  "complete_lines content = butlast (split_on (CHR 0x0A) content)"

fun json_as_f64 :: "json \<Rightarrow> real option" where
  "json_as_f64 (JInt i) = Some (of_int i)"
| "json_as_f64 (JFloat r) = Some r"
| "json_as_f64 _ = None"

text \<open>\<open>as u64\<close> of a finite float: towards zero, saturating.\<close>

definition f64_as_u64 :: "real \<Rightarrow> nat" where
  "f64_as_u64 x = (if x \<le> 0 then 0 else if 2 ^ 64 \<le> x then 2 ^ 64 - 1 else nat \<lfloor>x\<rfloor>)"

text \<open>
  \<open>serde_json\<close> is the argument \<open>parse\<close>; its objects list their members once, in key order.
\<close>

definition parse_metric_line ::
  "(string \<Rightarrow> json option) \<Rightarrow> string \<Rightarrow> (nat \<times> (string \<times> f64) list) option" where
  "parse_metric_line parse line =
     (let line = trim line
      in if line = [] then None
         else (case parse line of
                 Some (JObj obj) \<Rightarrow>
                   (case map_of obj METRIC_STEP_KEY of
                      None \<Rightarrow> None
                    | Some s \<Rightarrow>
                        (case json_as_f64 s of
                           None \<Rightarrow> None
                         | Some step \<Rightarrow>
                             Some (f64_as_u64 step,
                               List.map_filter (\<lambda>(k, v). map_option (\<lambda>f. (k, Fin f)) (json_as_f64 v))
                                 (filter (\<lambda>(k, _). k \<noteq> METRIC_STEP_KEY) obj))))
               | _ \<Rightarrow> None))"

text \<open>One line of a drain; then a drain of the file's content, \<open>None\<close> if it cannot be read.\<close>

definition drain_line ::
  "(string \<Rightarrow> json option) \<Rightarrow> job_id \<Rightarrow> string \<Rightarrow> nat \<Rightarrow> nat \<times> worker_to_cp list" where
  "drain_line parse jid line seq =
     (case parse_metric_line parse line of
        None \<Rightarrow> (seq, [])
      | Some (step, values) \<Rightarrow>
          if values = [] then (seq, [])
          else (let (n, seq') = seq_next seq in (seq', [Metric n (Some jid) (Some step) values])))"

fun emit_all :: "(nat \<Rightarrow> nat \<times> worker_to_cp list) list \<Rightarrow> nat \<Rightarrow> nat \<times> worker_to_cp list" where
  "emit_all [] seq = (seq, [])"
| "emit_all (e # es) seq =
     (let (seq1, out1) = e seq; (seq2, out2) = emit_all es seq1 in (seq2, out1 @ out2))"

record metric_tail =
  mt_path :: string
  mt_processed :: nat

definition metric_tail_new :: "string \<Rightarrow> metric_tail" where
  "metric_tail_new path = \<lparr>mt_path = path, mt_processed = 0\<rparr>"

definition drain_tail ::
  "(string \<Rightarrow> json option) \<Rightarrow> job_id \<Rightarrow> string option \<Rightarrow> metric_tail \<Rightarrow> nat \<Rightarrow>
   metric_tail \<times> nat \<times> worker_to_cp list" where
  "drain_tail parse jid content tail seq =
     (case content of
        None \<Rightarrow> (tail, seq, [])
      | Some c \<Rightarrow>
          (let lines = complete_lines c;
               (seq', out) = emit_all (map (drain_line parse jid) (drop (mt_processed tail) lines)) seq
           in (tail\<lparr>mt_processed := length lines\<rparr>, seq', out)))"

subsection \<open>Capabilities and host telemetry\<close>

text \<open>\<open>BTreeMap::insert\<close> on an association list in key order, and \<open>collect\<close> into one.\<close>

fun btree_put :: "'k::linorder \<Rightarrow> 'v \<Rightarrow> ('k \<times> 'v) list \<Rightarrow> ('k \<times> 'v) list" where
  "btree_put k v [] = [(k, v)]"
| "btree_put k v ((k', v') # m) =
     (if k < k' then (k, v) # (k', v') # m
      else if k = k' then (k, v) # m
      else (k', v') # btree_put k v m)"

definition btree_collect :: "('k::linorder \<times> 'v) list \<Rightarrow> ('k \<times> 'v) list" where
  "btree_collect xs = fold (\<lambda>(k, v). btree_put k v) xs []"

definition parse_label :: "string \<Rightarrow> string \<times> string" where
  "parse_label label = (case split_once ''='' label of Some kv \<Rightarrow> kv | None \<Rightarrow> (label, []))"

definition parse_labels :: "string list \<Rightarrow> (string \<times> string) list" where
  "parse_labels labels = btree_collect (map parse_label labels)"

definition BYTES_PER_MIB :: nat where "BYTES_PER_MIB = 1048576"

text \<open>The first word of \<open>split_whitespace\<close>.\<close>

definition first_word :: "string \<Rightarrow> string option" where
  "first_word s =
     (let w = takeWhile (\<lambda>c. \<not> is_space c) (dropWhile is_space s) in if w = [] then None else Some w)"

definition parse_mib :: "string \<Rightarrow> nat option" where
  "parse_mib raw = (case first_word raw of Some w \<Rightarrow> parse_u64 w | None \<Rightarrow> None)"

definition non_empty :: "string option \<Rightarrow> string option" where
  "non_empty f = (case f of Some s \<Rightarrow> if s = [] then None else Some s | None \<Rightarrow> None)"

text \<open>The product wraps at 64 bits, as in a release build.\<close>

definition parse_gpu_line :: "string \<Rightarrow> gpu_info option" where
  "parse_gpu_line line =
     (let parts = map trim (split_on (CHR '','') line);
          field = (\<lambda>i. if i < length parts then Some (parts ! i) else None)
      in case non_empty (field 0) of
           None \<Rightarrow> None
         | Some name \<Rightarrow>
             Some \<lparr>gi_name = name,
                   gi_vram_bytes =
                     ((case field 1 of
                         Some f \<Rightarrow> (case parse_mib f of Some n \<Rightarrow> n | None \<Rightarrow> 0)
                       | None \<Rightarrow> 0) * BYTES_PER_MIB) mod 2 ^ 64,
                   gi_driver_version = non_empty (field 2), gi_cuda_version = None\<rparr>)"

text \<open>Arithmetic on an \<open>f64\<close> with a positive constant or divisor; rounding is not modelled.\<close>

fun f64_scale :: "real \<Rightarrow> f64 \<Rightarrow> f64" where
  "f64_scale c (Fin x) = Fin (c * x)"
| "f64_scale c x = x"

fun f64_over :: "f64 \<Rightarrow> f64 \<Rightarrow> f64" where
  "f64_over (Fin a) (Fin b) = Fin (a / b)"
| "f64_over (Fin a) PosInf = Fin 0"
| "f64_over NaN b = NaN"
| "f64_over a (Fin b) = a"
| "f64_over a b = NaN"

fun clamp01 :: "f64 \<Rightarrow> f64" where
  "clamp01 (Fin x) = Fin (max 0 (min 1 x))"
| "clamp01 PosInf = Fin 1"
| "clamp01 NegInf = Fin 0"
| "clamp01 NaN = NaN"

definition cpu_mem_metrics :: "f64 \<Rightarrow> nat \<Rightarrow> nat \<Rightarrow> (string \<times> f64) list" where
  "cpu_mem_metrics cpu_percent mem_used mem_total =
     btree_collect
       ([(''sys/cpu_util'', clamp01 (f64_scale (1 / 100) cpu_percent)),
         (''sys/mem_used_bytes'', Fin (real mem_used)), (''sys/mem_total_bytes'', Fin (real mem_total))] @
        (if mem_total > 0 then [(''sys/mem_util'', Fin (real mem_used / real mem_total))] else []))"

text \<open>
  \<open>parse\<close> is \<open>str::parse::<f64>\<close>. Each call of \<open>next\<close> consumes a field, parsable or not.
\<close>

definition parse_gpu_sample :: "string \<Rightarrow> (string \<times> f64) list" where
  "parse_gpu_sample line =
     (let fields = map trim (split_on (CHR '','') line);
          next = (\<lambda>i. if i < length fields then parse_f64 (fields ! i) else None);
          entry = (\<lambda>k v. case v of Some x \<Rightarrow> [(k, x)] | None \<Rightarrow> [])
      in btree_collect
           (entry ''sys/gpu_util'' (map_option (\<lambda>u. clamp01 (f64_scale (1 / 100) u)) (next 0)) @
            entry ''sys/gpu_mem_used_bytes'' (map_option (f64_scale (real BYTES_PER_MIB)) (next 1)) @
            entry ''sys/gpu_mem_total_bytes'' (map_option (f64_scale (real BYTES_PER_MIB)) (next 2)) @
            (case (next 1, next 2) of
               (Some used, Some tot) \<Rightarrow>
                 (if f64_less (Fin 0) tot then [(''sys/gpu_mem_util'', f64_over used tot)] else [])
             | _ \<Rightarrow> []) @
            entry ''sys/gpu_temp_c'' (next 3) @ entry ''sys/gpu_power_w'' (next 4)))"

text \<open>\<open>Sampler::sample\<close>: the probe's row if there is one; once absent it is not run again.\<close>

definition sampler_sample ::
  "f64 \<Rightarrow> nat \<Rightarrow> nat \<Rightarrow> string option \<Rightarrow> bool \<Rightarrow> bool \<times> (string \<times> f64) list" where
  "sampler_sample cpu mem_used mem_total gpu_row gpu_absent =
     (let values = cpu_mem_metrics cpu mem_used mem_total
      in if gpu_absent then (True, values)
         else (case gpu_row of
                 Some line \<Rightarrow> (False, fold (\<lambda>(k, v). btree_put k v) (parse_gpu_sample line) values)
               | None \<Rightarrow> (True, values)))"

subsection \<open>Blob transfer\<close>

text \<open>
  The HTTP client library is a record of calls on a world \<open>'w\<close>: the presign request with its
  \<open>Authorization\<close> header, and a GET and a PUT with an optional one. A status outside 2xx is an
  error.
\<close>

record 'w http_calls =
  hc_blob_url :: "string \<Rightarrow> blob_url_request \<Rightarrow> 'w \<Rightarrow> 'w \<times> blob_url_response result"
  hc_get :: "string \<Rightarrow> string option \<Rightarrow> 'w \<Rightarrow> 'w \<times> string result"
  hc_put :: "string \<Rightarrow> string option \<Rightarrow> string \<Rightarrow> 'w \<Rightarrow> 'w \<times> unit result"

definition bearer :: "string \<Rightarrow> string" where
  "bearer token = ''Bearer '' @ token"

definition client_fetch ::
  "'w http_calls \<Rightarrow> string \<Rightarrow> string \<Rightarrow> 'w \<Rightarrow> 'w \<times> string result" where
  "client_fetch hc token key w =
     (case hc_blob_url hc (bearer token) \<lparr>bq_key = key, bq_method = Get\<rparr> w of
        (w1, Inl e) \<Rightarrow> (w1, Inl e)
      | (w1, Inr plan) \<Rightarrow>
          hc_get hc (br_url plan) (if br_requires_grant_header plan then Some (bearer token) else None) w1)"

definition client_upload ::
  "'w http_calls \<Rightarrow> string \<Rightarrow> string \<Rightarrow> string \<Rightarrow> 'w \<Rightarrow> 'w \<times> unit result" where
  "client_upload hc token key bytes w =
     (case hc_blob_url hc (bearer token) \<lparr>bq_key = key, bq_method = Put\<rparr> w of
        (w1, Inl e) \<Rightarrow> (w1, Inl e)
      | (w1, Inr plan) \<Rightarrow>
          hc_put hc (br_url plan) (if br_requires_grant_header plan then Some (bearer token) else None)
            bytes w1)"

definition origin_from_ws_url :: "string \<Rightarrow> string result" where
  "origin_from_ws_url ws_url =
     (case split_once ''://'' ws_url of
        None \<Rightarrow> Inl ''agent url must include a scheme, e.g. ws://host/ws/agent''
      | Some (scheme, rest) \<Rightarrow>
          (if scheme = ''ws'' then Inr (''http://'' @ hd (split_on (CHR ''/'') rest))
           else if scheme = ''wss'' then Inr (''https://'' @ hd (split_on (CHR ''/'') rest))
           else Inl (''unexpected agent url scheme: '' @ scheme)))"

end
