(* ===== verification/Collect.thy ===== *)
theory Collect
  imports WorkerIo
begin

text \<open>
  Artifacts of a job on the worker: the output collector (\<open>worker/outputs.rs\<close>) and input staging
  (\<open>worker/inputs.rs\<close>). A directory is the list of its entries in \<open>read_dir\<close> order, without
  symbolic links; one call of \<open>collect\<close> sees one state of it. Names are printable ASCII.
\<close>

subsection \<open>Globs\<close>

definition is_wildcard :: "char \<Rightarrow> bool" where
  "is_wildcard c \<longleftrightarrow> c \<in> {CHR ''*'', CHR ''?'', CHR ''[''}"

definition split_glob :: "string \<Rightarrow> string \<times> string" where
  "split_glob glob =
     (let scan = takeWhile (\<lambda>c. \<not> is_wildcard c) glob; rest = dropWhile (\<lambda>c. \<not> is_wildcard c) glob
      in case rsplit_once (CHR ''/'') scan of
           Some (dir, seg) \<Rightarrow> (dir @ ''/'', seg @ rest)
         | None \<Rightarrow> ([], glob))"

definition ends_with :: "string \<Rightarrow> string \<Rightarrow> bool" where
  "ends_with p s \<longleftrightarrow> strip_suffix p s \<noteq> None"

definition matches_pattern :: "string \<Rightarrow> string \<Rightarrow> bool" where
  "matches_pattern pattern name =
     (case split_once ''*'' pattern of
        Some (prefix, suffix) \<Rightarrow>
          length name \<ge> length prefix + length suffix \<and> starts_with prefix name \<and> ends_with suffix name
      | None \<Rightarrow> pattern = name)"

subsection \<open>The directory tree\<close>

text \<open>A file holds what reading it gives, its content or the error.\<close>

datatype node = NFile "string result" | NDir "(string \<times> node) list"

type_synonym file_entry = "string list \<times> string result"

text \<open>\<open>files_under\<close>: the stack's top is the head of the list, paths are relative to the base.\<close>

function files_loop :: "(string list \<times> node) list \<Rightarrow> file_entry list \<Rightarrow> file_entry list" where
  "files_loop [] files = files"
| "files_loop ((p, NFile c) # stack) files = files_loop stack (files @ [(p, c)])"
| "files_loop ((p, NDir es) # stack) files =
     files_loop (rev (map (\<lambda>(n, x). (p @ [n], x)) es) @ stack) files"
  by pat_completeness auto

lemma size_children:
  "sum_list (map (\<lambda>x. Suc (size (snd x))) (rev (map (\<lambda>(n, x). (p @ [n], x)) es))) \<le> size_list (size_prod (\<lambda>_. 0) size) es"
  by (induction es) auto

termination files_loop
proof (relation "measure (\<lambda>(stack, files). sum_list (map (\<lambda>x. Suc (size (snd x))) stack))", goal_cases)
  case (3 p es stack files)
  show ?case using size_children [of p es] by simp
qed auto

definition files_under :: "string \<Rightarrow> node \<Rightarrow> file_entry list" where
  "files_under name x = sort_key fst (files_loop [([name], x)] [])"

fun path_exists :: "string list \<Rightarrow> node \<Rightarrow> bool" where
  "path_exists [] x = True"
| "path_exists (s # segs) (NFile c) = False"
| "path_exists (s # segs) (NDir es) =
     (case map_of es s of Some x \<Rightarrow> path_exists segs x | None \<Rightarrow> False)"

definition join_path :: "string list \<Rightarrow> string" where
  "join_path segs = (case segs of [] \<Rightarrow> [] | s # ss \<Rightarrow> s @ concat (map (\<lambda>x. ''/'' @ x) ss))"

subsection \<open>The collector\<close>

record collector =
  oc_class :: artifact_class
  oc_base :: string
  oc_pattern :: string
  oc_key_prefix :: string
  oc_ready_marker :: "string option"
  oc_collected :: "string list"

definition collector_new :: "output_rule \<Rightarrow> string \<Rightarrow> collector" where
  "collector_new rule sandbox_path =
     (let (base, pattern) = split_glob (subst (or_glob rule) sandbox_path)
      in \<lparr>oc_class = or_class rule, oc_base = base, oc_pattern = pattern,
          oc_key_prefix = or_key_prefix rule, oc_ready_marker = or_ready_marker rule, oc_collected = []\<rparr>)"

definition marker_present :: "string option \<Rightarrow> node \<Rightarrow> bool" where
  "marker_present marker x =
     (case (marker, x) of
        (Some m, NDir es) \<Rightarrow> path_exists (split_on (CHR ''/'') m) x
      | _ \<Rightarrow> True)"

text \<open>The argument is \<open>read_dir\<close> of the base, \<open>None\<close> if it fails.\<close>

definition pending :: "collector \<Rightarrow> (string \<times> node) list option \<Rightarrow> (string \<times> node) list" where
  "pending oc entries =
     (case entries of
        None \<Rightarrow> []
      | Some es \<Rightarrow>
          sort_key fst (filter (\<lambda>(name, x). name \<notin> set (oc_collected oc) \<and>
                                           matches_pattern (oc_pattern oc) name \<and>
                                           marker_present (oc_ready_marker oc) x) es))"

text \<open>\<open>up\<close> is the \<open>BlobSink\<close>.\<close>

fun upload_files ::
  "(string \<Rightarrow> string \<Rightarrow> 'w \<Rightarrow> 'w \<times> unit result) \<Rightarrow> string \<Rightarrow> string \<Rightarrow> job_id \<Rightarrow> file_entry list \<Rightarrow>
   'w \<times> nat \<Rightarrow> ('w \<times> nat) \<times> worker_to_cp list \<times> bool" where
  "upload_files up prefix name jid [] s = (s, [], True)"
| "upload_files up prefix name jid ((p, content) # files) (w, seq) =
     (case content of
        Inl error \<Rightarrow>
          (let (seq', out) = worker_line jid (''output '' @ name @ '': read failed: '' @ error) seq
           in ((w, seq'), out, False))
      | Inr bytes \<Rightarrow>
          (case up (prefix @ ''/'' @ join_path p) bytes w of
             (w', Inl error) \<Rightarrow>
               (let (seq', out) = worker_line jid (''output '' @ name @ '': upload failed: '' @ error) seq
                in ((w', seq'), out, False))
           | (w', Inr _) \<Rightarrow> upload_files up prefix name jid files (w', seq)))"

fun collect_matches ::
  "(string \<Rightarrow> string \<Rightarrow> 'w \<Rightarrow> 'w \<times> unit result) \<Rightarrow> job_id \<Rightarrow> (string \<times> node) list \<Rightarrow> collector \<Rightarrow>
   'w \<times> nat \<Rightarrow> collector \<times> ('w \<times> nat) \<times> worker_to_cp list" where
  "collect_matches up jid [] oc s = (oc, s, [])"
| "collect_matches up jid ((name, x) # ms) oc s =
     (let ((w, seq), out1, uploaded) = upload_files up (oc_key_prefix oc) name jid (files_under name x) s;
          oc1 = oc\<lparr>oc_collected := name # oc_collected oc\<rparr>;
          (seq1, out2) =
            (if uploaded
             then (let (n, seq') = seq_next seq
                   in (seq', [Artifact n jid (oc_class oc) (oc_key_prefix oc @ ''/'' @ name) None None JNull]))
             else (seq, []));
          (oc2, s2, out3) = collect_matches up jid ms oc1 (w, seq1)
      in (oc2, s2, out1 @ out2 @ out3))"

definition collect ::
  "(string \<Rightarrow> string \<Rightarrow> 'w \<Rightarrow> 'w \<times> unit result) \<Rightarrow> job_id \<Rightarrow> (string \<times> node) list option \<Rightarrow> collector \<Rightarrow>
   'w \<times> nat \<Rightarrow> collector \<times> ('w \<times> nat) \<times> worker_to_cp list" where
  "collect up jid entries oc s = collect_matches up jid (pending oc entries) oc s"

subsection \<open>Staging inputs\<close>

text \<open>
  What staging takes from other crates: SHA-256 as lower-case hex, the content cache of the datasets
  client, and the writes to disk (a plain file with its parent directories; a tar archive unpacked
  into a directory, the flag saying whether it is zstd-compressed).
\<close>

record 'w content_cache =
  ch_get :: "string \<Rightarrow> 'w \<Rightarrow> 'w \<times> string option result"
  ch_put :: "string \<Rightarrow> string \<Rightarrow> string \<Rightarrow> 'w \<Rightarrow> 'w \<times> unit result"

record 'w stage_calls =
  sg_http :: "'w http_calls"
  sg_sha256 :: "string \<Rightarrow> string"
  sg_write :: "string \<Rightarrow> string \<Rightarrow> 'w \<Rightarrow> 'w \<times> unit result"
  sg_unpack :: "bool \<Rightarrow> string \<Rightarrow> string \<Rightarrow> 'w \<Rightarrow> 'w \<times> unit result"

definition with_context :: "string \<Rightarrow> 'a result \<Rightarrow> 'a result" where
  "with_context what r = (case r of Inl e \<Rightarrow> Inl (what @ '': '' @ e) | Inr a \<Rightarrow> Inr a)"

definition is_url :: "string \<Rightarrow> bool" where
  "is_url uri \<longleftrightarrow> starts_with ''http://'' uri \<or> starts_with ''https://'' uri"

definition fetch_input :: "'w http_calls \<Rightarrow> string \<Rightarrow> string \<Rightarrow> 'w \<Rightarrow> 'w \<times> string result" where
  "fetch_input hc token uri w = (if is_url uri then hc_get hc uri None w else client_fetch hc token uri w)"

definition fetch_cached ::
  "'w stage_calls \<Rightarrow> string \<Rightarrow> 'w content_cache option \<Rightarrow> input_artifact \<Rightarrow> 'w \<Rightarrow> 'w \<times> string result" where
  "fetch_cached sg token cache input w =
     (case (cache, ia_sha256 input) of
        (Some ch, Some sha) \<Rightarrow>
          (case ch_get ch sha w of
             (w1, Inl e) \<Rightarrow> (w1, Inl e)
           | (w1, Inr (Some bytes)) \<Rightarrow> (w1, Inr bytes)
           | (w1, Inr None) \<Rightarrow>
               (case fetch_input (sg_http sg) token (ia_uri input) w1 of
                  (w2, Inl e) \<Rightarrow> (w2, Inl e)
                | (w2, Inr bytes) \<Rightarrow>
                    (case ch_put ch sha bytes (ia_uri input) w2 of
                       (w3, Inl e) \<Rightarrow> (w3, Inl e)
                     | (w3, Inr _) \<Rightarrow> (w3, Inr bytes))))
      | _ \<Rightarrow> fetch_input (sg_http sg) token (ia_uri input) w)"

definition verify_sha256 :: "(string \<Rightarrow> string) \<Rightarrow> string \<Rightarrow> string \<Rightarrow> unit result" where
  "verify_sha256 sha bytes expected =
     (if Config.to_lower (sha bytes) = Config.to_lower expected then Inr ()
      else Inl (''sha256 mismatch: expected '' @ expected @ '', got '' @ sha bytes))"

definition ZSTD_MAGIC :: string where
  "ZSTD_MAGIC = [CHR 0x28, CHR 0xB5, CHR 0x2F, CHR 0xFD]"

definition place ::
  "'w stage_calls \<Rightarrow> input_artifact \<Rightarrow> string \<Rightarrow> string \<Rightarrow> 'w \<Rightarrow> 'w \<times> unit result" where
  "place sg input bytes sandbox_path w =
     (case (case ia_sha256 input of Some expected \<Rightarrow> verify_sha256 (sg_sha256 sg) bytes expected
                                  | None \<Rightarrow> Inr ()) of
        Inl e \<Rightarrow> (w, Inl e)
      | Inr _ \<Rightarrow>
          (let dest = subst (ia_dest input) sandbox_path
           in if ia_unpack input
              then (let (w1, r) = sg_unpack sg (starts_with ZSTD_MAGIC bytes) bytes dest w
                    in (w1, with_context (''unpacking input into '' @ dest) r))
              else (let (w1, r) = sg_write sg bytes dest w
                    in (w1, with_context (''writing input to '' @ dest) r))))"

definition stage ::
  "'w stage_calls \<Rightarrow> string \<Rightarrow> 'w content_cache option \<Rightarrow> string \<Rightarrow> input_artifact \<Rightarrow> 'w \<Rightarrow> 'w \<times> unit result" where
  "stage sg token cache sandbox_path input w =
     (case fetch_cached sg token cache input w of
        (w1, Inl e) \<Rightarrow> (w1, with_context (''fetching input '' @ ia_uri input) (Inl e))
      | (w1, Inr bytes) \<Rightarrow> place sg input bytes sandbox_path w1)"

fun stage_all ::
  "'w stage_calls \<Rightarrow> string \<Rightarrow> 'w content_cache option \<Rightarrow> string \<Rightarrow> input_artifact list \<Rightarrow> 'w \<Rightarrow> 'w \<times> unit result" where
  "stage_all sg token cache sandbox_path [] w = (w, Inr ())"
| "stage_all sg token cache sandbox_path (i # is) w =
     (case stage sg token cache sandbox_path i w of
        (w1, Inl e) \<Rightarrow> (w1, Inl e)
      | (w1, Inr _) \<Rightarrow> stage_all sg token cache sandbox_path is w1)"

subsection \<open>Self-update\<close>

text \<open>The download is verified before anything is written; then a sibling of the executable is
  written and renamed over it. \<open>install\<close> stands for those file operations.\<close>

definition download_and_verify ::
  "'w http_calls \<Rightarrow> (string \<Rightarrow> string) \<Rightarrow> string \<Rightarrow> string \<Rightarrow> 'w \<Rightarrow> 'w \<times> string result" where
  "download_and_verify hc sha url expected w =
     (case hc_get hc url None w of
        (w1, Inl e) \<Rightarrow> (w1, Inl (''downloading '' @ url @ '': '' @ e))
      | (w1, Inr bytes) \<Rightarrow>
          (w1, if Config.to_lower (sha bytes) = Config.to_lower expected then Inr bytes
               else Inl (''self-update checksum mismatch: expected '' @ expected @ '', got '' @ sha bytes)))"

definition download_and_replace ::
  "'w http_calls \<Rightarrow> (string \<Rightarrow> string) \<Rightarrow> (string \<Rightarrow> 'w \<Rightarrow> 'w \<times> unit result) \<Rightarrow> string \<Rightarrow> string \<Rightarrow>
   'w \<Rightarrow> 'w \<times> unit result" where
  "download_and_replace hc sha install url expected w =
     (case download_and_verify hc sha url expected w of
        (w1, Inl e) \<Rightarrow> (w1, Inl e)
      | (w1, Inr bytes) \<Rightarrow> install bytes w1)"

end
