(* ===== verification/CollectLaws.thy ===== *)
theory CollectLaws
  imports Collect HubSystem
begin

text \<open>
  What the worker's artifact code guarantees. The main law is stated for any blob sink, the locale
  \<open>blob_sink\<close>, and interpreted on the control plane's own presign and upload endpoints: an artifact
  is announced only when every file of its tree is in the artifact store.
\<close>

subsection \<open>What is in a tree\<close>

fun tree_file :: "node \<Rightarrow> string list \<Rightarrow> string result \<Rightarrow> bool" where
  "tree_file (NFile d) q c \<longleftrightarrow> q = [] \<and> c = d"
| "tree_file (NDir es) [] c \<longleftrightarrow> False"
| "tree_file (NDir es) (n # q) c \<longleftrightarrow> (\<exists>(m, x)\<in>set es. m = n \<and> tree_file x q c)"

text \<open>A directory has no two entries of the same name, and a name has no separator.\<close>

fun wf_tree :: "node \<Rightarrow> bool" where
  "wf_tree (NFile d) = True"
| "wf_tree (NDir es) = (distinct (map fst es) \<and> (\<forall>(n, x)\<in>set es. CHR ''/'' \<notin> set n \<and> wf_tree x))"

lemma tree_file_unique: "wf_tree x \<Longrightarrow> tree_file x q c \<Longrightarrow> tree_file x q d \<Longrightarrow> c = d"
proof (induction x q c rule: tree_file.induct)
  case (3 es n q c)
  then obtain x where x: "(n, x) \<in> set es" "tree_file x q c" by auto
  from 3 obtain y where y: "(n, y) \<in> set es" "tree_file y q d" by auto
  have "distinct (map fst es)" using 3 by simp
  from eq_key_imp_eq_value [OF this x(1) y(1)] have "x = y" .
  with x y 3 show ?case by fastforce
qed auto

lemma tree_file_segs: "wf_tree x \<Longrightarrow> tree_file x q c \<Longrightarrow> \<forall>s\<in>set q. CHR ''/'' \<notin> set s"
  by (induction x q c rule: tree_file.induct) fastforce+

lemma set_files_loop:
  "(r, c) \<in> set (files_loop stack files) \<longleftrightarrow>
   (r, c) \<in> set files \<or> (\<exists>(p, x)\<in>set stack. \<exists>q. r = p @ q \<and> tree_file x q c)"
proof (induction stack files rule: files_loop.induct)
  case (3 p es stack files)
  have "(\<exists>q. r = p @ q \<and> tree_file (NDir es) q c) \<longleftrightarrow>
        (\<exists>(n, x)\<in>set es. \<exists>q. r = (p @ [n]) @ q \<and> tree_file x q c)" (is "?l \<longleftrightarrow> ?r")
  proof
    assume ?l
    then obtain q where q: "r = p @ q" "tree_file (NDir es) q c" by blast
    then show ?r by (cases q) auto
  next
    assume ?r
    then obtain n x q where "(n, x) \<in> set es" "r = p @ (n # q)" "tree_file x q c" by auto
    then show ?l by (intro exI [of _ "n # q"]) auto
  qed
  moreover have "(\<exists>(p', x)\<in>set (rev (map (\<lambda>(n, x). (p @ [n], x)) es) @ stack). \<exists>q. r = p' @ q \<and> tree_file x q c) \<longleftrightarrow>
      (\<exists>(n, x)\<in>set es. \<exists>q. r = (p @ [n]) @ q \<and> tree_file x q c) \<or>
      (\<exists>(p', x)\<in>set stack. \<exists>q. r = p' @ q \<and> tree_file x q c)"
    by (simp only: set_append set_rev set_map bex_Un bex_simps) (auto simp: split_beta)
  ultimately show ?case using 3 by (simp del: tree_file.simps)
qed auto

lemma set_files_under:
  "(r, c) \<in> set (files_under name x) \<longleftrightarrow> (\<exists>q. r = name # q \<and> tree_file x q c)"
  by (auto simp: files_under_def set_files_loop)

lemma split_join_path:
  "\<forall>t\<in>set (s # ss). CHR ''/'' \<notin> set t \<Longrightarrow> split_on (CHR ''/'') (join_path (s # ss)) = s # ss"
proof (induction ss arbitrary: s)
  case Nil
  then show ?case by (simp add: join_path_def split_on_no_sep)
next
  case (Cons t ss)
  have "join_path (s # t # ss) = s @ CHR ''/'' # join_path (t # ss)" by (simp add: join_path_def)
  then show ?case using Cons by (simp add: split_on_Cons_sep)
qed

definition out_key :: "string \<Rightarrow> string list \<Rightarrow> string" where
  "out_key prefix p = prefix @ ''/'' @ join_path p"

lemma out_key_inj:
  assumes "out_key prefix (n # q) = out_key prefix (m # r)"
    and "\<forall>t\<in>set (n # q). CHR ''/'' \<notin> set t" and "\<forall>t\<in>set (m # r). CHR ''/'' \<notin> set t"
  shows "n = m \<and> q = r"
proof -
  have "join_path (n # q) = join_path (m # r)" using assms(1) by (simp add: out_key_def)
  then have "n # q = m # r"
    using split_join_path [OF assms(2)] split_join_path [OF assms(3)] by metis
  then show ?thesis by simp
qed

subsection \<open>The event stream of a job\<close>

text \<open>Events other than the lifecycle ones, of one job, numbered without gaps from \<open>n\<close>.\<close>

fun chatter :: "job_id \<Rightarrow> worker_to_cp \<Rightarrow> bool" where
  "chatter jid (Log _ j _) = (j = jid)"
| "chatter jid (Metric _ j _ _) = (j = Some jid)"
| "chatter jid (Artifact _ j _ _ _ _ _) = (j = jid)"
| "chatter jid _ = False"

definition streamed :: "job_id \<Rightarrow> nat \<Rightarrow> worker_to_cp list \<Rightarrow> nat \<Rightarrow> bool" where
  "streamed jid n out n' \<longleftrightarrow>
     n' = n + length out \<and> map outbox_seq out = [n..<n'] \<and> (\<forall>e\<in>set out. chatter jid e)"

lemma streamed_Nil [simp]: "streamed jid n [] n' \<longleftrightarrow> n' = n"
  by (auto simp: streamed_def)

lemma streamed_append:
  "streamed jid n xs m \<Longrightarrow> streamed jid m ys k \<Longrightarrow> streamed jid n (xs @ ys) k"
  by (auto simp: streamed_def upt_add_eq_append [of n "n + length xs", symmetric])

lemma streamed_one: "chatter jid e \<Longrightarrow> outbox_seq e = n \<Longrightarrow> streamed jid n [e] (Suc n)"
  by (simp add: streamed_def)

lemma streamed_worker_line: "worker_line jid m n = (n', out) \<Longrightarrow> streamed jid n out n'"
  by (auto simp: worker_line_def seq_next_def intro: streamed_one)

lemma streamed_pump_line: "pump_line jid m n = (n', out) \<Longrightarrow> streamed jid n out n'"
  by (auto simp: pump_line_def seq_next_def intro: streamed_one)

lemma streamed_emit_all:
  assumes "\<And>e n n' out. e \<in> set es \<Longrightarrow> e n = (n', out) \<Longrightarrow> streamed jid n out n'"
    and "emit_all es n = (n', out)"
  shows "streamed jid n out n'"
  using assms
proof (induction es arbitrary: n out)
  case (Cons e es)
  obtain n1 o1 where e: "e n = (n1, o1)" by fastforce
  obtain n2 o2 where es: "emit_all es n1 = (n2, o2)" by fastforce
  from Cons.prems e es have [simp]: "out = o1 @ o2" "n' = n2" by auto
  have "streamed jid n o1 n1" "streamed jid n1 o2 n2"
    using Cons.prems(1) [of e n n1 o1] e Cons.IH [of n1 o2] Cons.prems es by auto
  then show ?case by (simp add: streamed_append)
qed simp

lemma streamed_drain:
  assumes "drain_tail parse jid content tail n = (tail', n', out)"
  shows "streamed jid n out n'"
proof -
  have line: "streamed jid n out n'" if "drain_line parse jid l n = (n', out)" for l n n' out
    using that by (auto simp: drain_line_def seq_next_def streamed_def split: option.splits if_splits)
  show ?thesis
    using assms
    by (auto simp: drain_tail_def Let_def split: option.splits prod.splits
        elim!: streamed_emit_all [rotated] dest: line)
qed

subsection \<open>Uploads and announcements\<close>

lemma streamed_upload_files:
  "upload_files up prefix name jid files (w, n) = ((w', n'), out, r) \<Longrightarrow> streamed jid n out n'"
  by (induction files arbitrary: w)
     (auto simp: Let_def split: sum.splits prod.splits dest: streamed_worker_line)

lemma upload_files_no_artifact:
  "upload_files up prefix name jid files (w, n) = ((w', n'), out, r) \<Longrightarrow> Artifact i j c u a b v \<notin> set out"
  by (induction files arbitrary: w)
     (auto simp: Let_def worker_line_def seq_next_def split: sum.splits prod.splits)

lemma collect_matches_Cons:
  assumes "collect_matches up jid ((name, x) # ms) oc (w, n) = (oc', (w', n'), out)"
  obtains w1 n1 out1 r out2 n2 out3 where
    "upload_files up (oc_key_prefix oc) name jid (files_under name x) (w, n) = ((w1, n1), out1, r)"
    "(n2, out2) = (if r then (Suc n1, [Artifact n1 jid (oc_class oc) (oc_key_prefix oc @ ''/'' @ name) None None JNull])
                   else (n1, []))"
    "collect_matches up jid ms (oc\<lparr>oc_collected := name # oc_collected oc\<rparr>) (w1, n2) = (oc', (w', n'), out3)"
    "out = out1 @ out2 @ out3"
proof -
  obtain w1 n1 out1 r where
    u: "upload_files up (oc_key_prefix oc) name jid (files_under name x) (w, n) = ((w1, n1), out1, r)"
    by (metis surj_pair)
  let ?a = "if r then (Suc n1, [Artifact n1 jid (oc_class oc) (oc_key_prefix oc @ ''/'' @ name) None None JNull])
            else (n1, [])"
  obtain oc2 w2 n2 out3 where
    c: "collect_matches up jid ms (oc\<lparr>oc_collected := name # oc_collected oc\<rparr>) (w1, fst ?a) = (oc2, (w2, n2), out3)"
    by (metis surj_pair)
  have "oc2 = oc'" "w2 = w'" "n2 = n'" "out = out1 @ snd ?a @ out3"
    using assms u c by (auto simp: seq_next_def split: if_splits)
  with that [OF u, of "fst ?a" "snd ?a" out3] c show thesis by simp
qed

lemma streamed_collect_matches:
  "collect_matches up jid ms oc (w, n) = (oc', (w', n'), out) \<Longrightarrow> streamed jid n out n'"
proof (induction ms arbitrary: oc w n out)
  case (Cons m ms)
  obtain name x where m: "m = (name, x)" by fastforce
  from Cons.prems [unfolded m] show ?case
  proof (rule collect_matches_Cons)
    fix w1 n1 out1 r out2 n2 out3
    assume u: "upload_files up (oc_key_prefix oc) name jid (files_under name x) (w, n) = ((w1, n1), out1, r)"
      and a: "(n2, out2) = (if r then (Suc n1, [Artifact n1 jid (oc_class oc) (oc_key_prefix oc @ ''/'' @ name) None None JNull])
                   else (n1, []))"
      and c: "collect_matches up jid ms (oc\<lparr>oc_collected := name # oc_collected oc\<rparr>) (w1, n2) = (oc', (w', n'), out3)"
      and o: "out = out1 @ out2 @ out3"
    have "streamed jid n1 out2 n2" using a by (auto simp: streamed_def split: if_splits)
    then show ?thesis
      unfolding o using streamed_upload_files [OF u] Cons.IH [OF c] by (blast intro: streamed_append)
  qed
qed simp

lemma streamed_collect: "collect up jid es oc (w, n) = (oc', (w', n'), out) \<Longrightarrow> streamed jid n out n'"
  by (auto simp: collect_def dest: streamed_collect_matches)

lemma collect_matches_uris:
  "collect_matches up jid ms oc (w, n) = (oc', (w', n'), out) \<Longrightarrow> Artifact i j c u a b v \<in> set out \<Longrightarrow>
   \<exists>name\<in>set (map fst ms). u = oc_key_prefix oc @ ''/'' @ name"
proof (induction ms arbitrary: oc w n out)
  case (Cons m ms)
  obtain name x where m: "m = (name, x)" by fastforce
  from Cons.prems(1) [unfolded m] show ?case
    by (rule collect_matches_Cons)
       (use Cons.IH Cons.prems(2) upload_files_no_artifact in \<open>fastforce simp: m split: if_splits\<close>)
qed simp

text \<open>Every match is tried once: afterwards it is marked, whether or not it was announced.\<close>

lemma collect_matches_collected:
  "collect_matches up jid ms oc s = (oc', s', out) \<Longrightarrow>
   oc' = oc\<lparr>oc_collected := rev (map fst ms) @ oc_collected oc\<rparr>"
proof (induction ms arbitrary: oc s out)
  case (Cons m ms)
  obtain name x where m: "m = (name, x)" by fastforce
  obtain w n where s: "s = (w, n)" by fastforce
  obtain w' n' where s': "s' = (w', n')" by fastforce
  from Cons.prems [unfolded m s s'] show ?case
    by (rule collect_matches_Cons) (auto simp: m dest!: Cons.IH [unfolded s'])
qed simp

subsection \<open>Any blob sink\<close>

locale blob_sink =
  fixes up :: "string \<Rightarrow> string \<Rightarrow> 'w \<Rightarrow> 'w \<times> unit result"
    and blobs :: "'w \<Rightarrow> string \<Rightarrow> string option"
  assumes up_ok: "up key b w = (w', Inr u) \<Longrightarrow> blobs w' = (blobs w)(key \<mapsto> b)"
    and up_err: "up key b w = (w', Inl e) \<Longrightarrow> blobs w' = blobs w"
begin

lemma upload_files_frame:
  "upload_files up prefix name jid files (w, n) = ((w', n'), out, r) \<Longrightarrow>
   (\<And>p c. (p, c) \<in> set files \<Longrightarrow> key \<noteq> out_key prefix p) \<Longrightarrow> blobs w' key = blobs w key"
proof (induction files arbitrary: w)
  case (Cons f files)
  obtain p c where f: "f = (p, c)" by fastforce
  have ne: "key \<noteq> out_key prefix p" using Cons.prems(2) [of p c] f by simp
  show ?case
  proof (cases c)
    case (Inl e)
    then show ?thesis using Cons.prems(1) f by (auto split: prod.splits)
  next
    case (Inr b)
    obtain w1 r1 where u: "up (out_key prefix p) b w = (w1, r1)" by fastforce
    then show ?thesis
      using Cons.prems Cons.IH [of w1] ne f Inr up_err [of "out_key prefix p" b w w1]
        up_ok [of "out_key prefix p" b w w1]
      by (cases r1) (auto simp: out_key_def split: prod.splits)
  qed
qed simp

lemma upload_files_done:
  assumes "upload_files up prefix name jid files (w, n) = ((w', n'), out, True)"
    and "\<And>p c p' d. (p, c) \<in> set files \<Longrightarrow> (p', d) \<in> set files \<Longrightarrow>
           out_key prefix p = out_key prefix p' \<Longrightarrow> c = d"
    and "(p, c) \<in> set files"
  shows "\<exists>b. c = Inr b \<and> blobs w' (out_key prefix p) = Some b"
  using assms
proof (induction files arbitrary: w p c)
  case (Cons f files)
  obtain p0 c0 where f: "f = (p0, c0)" by fastforce
  from Cons.prems(1) f obtain b0 where c0: "c0 = Inr b0" by (cases c0) (auto split: prod.splits)
  obtain w1 r1 where u: "up (out_key prefix p0) b0 w = (w1, r1)" by fastforce
  from u Cons.prems(1) f c0 obtain v where r1: "r1 = Inr v" by (cases r1) (auto simp: out_key_def split: prod.splits)
  have rest: "upload_files up prefix name jid files (w1, n) = ((w', n'), out, True)"
    using Cons.prems(1) f c0 u r1 by (simp add: out_key_def)
  have w1: "blobs w1 (out_key prefix p0) = Some b0" using up_ok [OF u [unfolded r1]] by simp
  show ?case
  proof (cases "\<exists>d. (p, d) \<in> set files \<or> (\<exists>p'. (p', d) \<in> set files \<and> out_key prefix p' = out_key prefix p)")
    case True
    then obtain p' d where m: "(p', d) \<in> set files" "out_key prefix p' = out_key prefix p" by blast
    have "c = d" using Cons.prems(2,3) m by (metis list.set_intros(2))
    have tail: "c1 = c2" if "(p1, c1) \<in> set files" "(p2, c2) \<in> set files" "out_key prefix p1 = out_key prefix p2"
      for p1 c1 p2 c2 using Cons.prems(2) [of p1 c1 p2 c2] that by simp
    from Cons.IH [OF rest tail m(1)] show ?thesis using m(2) \<open>c = d\<close> by simp
  next
    case False
    then have "(p, c) = (p0, c0)" using Cons.prems(3) f by auto
    moreover have "blobs w' (out_key prefix p0) = blobs w1 (out_key prefix p0)"
      using upload_files_frame [OF rest, of "out_key prefix p0"] False calculation by (metis Pair_inject)
    ultimately show ?thesis using c0 w1 by simp
  qed
qed simp

lemma collect_matches_frame:
  assumes "collect_matches up jid ms oc (w, n) = (oc', (w', n'), out)"
    and "\<And>m x q c. (m, x) \<in> set ms \<Longrightarrow> tree_file x q c \<Longrightarrow> key \<noteq> out_key (oc_key_prefix oc) (m # q)"
  shows "blobs w' key = blobs w key"
  using assms
proof (induction ms arbitrary: oc w n out)
  case (Cons m ms)
  obtain name x where m: "m = (name, x)" by fastforce
  from Cons.prems(1) [unfolded m] show ?case
  proof (rule collect_matches_Cons)
    fix w1 n1 out1 r out2 n2 out3
    assume u: "upload_files up (oc_key_prefix oc) name jid (files_under name x) (w, n) = ((w1, n1), out1, r)"
      and c: "collect_matches up jid ms (oc\<lparr>oc_collected := name # oc_collected oc\<rparr>) (w1, n2) = (oc', (w', n'), out3)"
    have "blobs w1 key = blobs w key"
      using upload_files_frame [OF u] Cons.prems(2) [of name x] m set_files_under by fastforce
    moreover have "blobs w' key = blobs w1 key"
    proof (rule Cons.IH [OF c])
      fix m' x q c assume "(m', x) \<in> set ms" "tree_file x q c"
      then show "key \<noteq> out_key (oc_key_prefix (oc\<lparr>oc_collected := name # oc_collected oc\<rparr>)) (m' # q)"
        using Cons.prems(2) [of m' x q c] by simp
    qed
    ultimately show ?thesis by simp
  qed
qed simp

theorem announced_complete:
  assumes "collect_matches up jid ms oc (w, n) = (oc', (w', n'), out)"
    and "distinct (map fst ms)" and "\<And>m x. (m, x) \<in> set ms \<Longrightarrow> CHR ''/'' \<notin> set m \<and> wf_tree x"
    and "Artifact i j cls (oc_key_prefix oc @ ''/'' @ name) a b v \<in> set out"
    and "(name, x) \<in> set ms" and "tree_file x q c"
  shows "\<exists>b. c = Inr b \<and> blobs w' (out_key (oc_key_prefix oc) (name # q)) = Some b"
  using assms
proof (induction ms arbitrary: oc w n out)
  case (Cons m ms)
  obtain nm y where m: "m = (nm, y)" by fastforce
  from Cons.prems(1) [unfolded m] show ?case
  proof (rule collect_matches_Cons)
    fix w1 n1 out1 r out2 n2 out3
    assume u: "upload_files up (oc_key_prefix oc) nm jid (files_under nm y) (w, n) = ((w1, n1), out1, r)"
      and o2: "(n2, out2) = (if r then (Suc n1, [Artifact n1 jid (oc_class oc) (oc_key_prefix oc @ ''/'' @ nm) None None JNull])
                   else (n1, []))"
      and c: "collect_matches up jid ms (oc\<lparr>oc_collected := nm # oc_collected oc\<rparr>) (w1, n2) = (oc', (w', n'), out3)"
      and o: "out = out1 @ out2 @ out3"
    note art = Cons.prems(4) [unfolded o]
    have seg: "\<forall>t\<in>set (nm' # q'). CHR ''/'' \<notin> set t" if "(nm', x') \<in> set (m # ms)" "tree_file x' q' c'" for nm' x' q' c'
      using Cons.prems(3) [OF that(1)] tree_file_segs [OF _ that(2)] by simp
    show ?thesis
    proof (cases "name = nm")
      case True
      have x: "x = y" using Cons.prems(2,5) m True by (metis eq_key_imp_eq_value list.set_intros(1))
      have "name \<notin> set (map fst ms)" using Cons.prems(2) m True by simp
      then have "Artifact i j cls (oc_key_prefix oc @ ''/'' @ name) a b v \<notin> set out3"
        using collect_matches_uris [OF c] by fastforce
      then have "r" using art upload_files_no_artifact [OF u] o2 by (auto split: if_splits)
      have mem: "(name # q, c) \<in> set (files_under nm y)" using Cons.prems(6) True x by (simp add: set_files_under)
      have wf: "wf_tree y" "CHR ''/'' \<notin> set nm" using Cons.prems(3) [of nm y] m by auto
      have det: "c1 = c2" if "(p1, c1) \<in> set (files_under nm y)" "(p2, c2) \<in> set (files_under nm y)"
        "out_key (oc_key_prefix oc) p1 = out_key (oc_key_prefix oc) p2" for p1 c1 p2 c2
        using that seg [of nm y] m tree_file_unique [OF wf(1)] by (auto simp: set_files_under dest!: out_key_inj)
      have u': "upload_files up (oc_key_prefix oc) nm jid (files_under nm y) (w, n) = ((w1, n1), out1, True)"
        using u \<open>r\<close> by simp
      have "\<exists>b. c = Inr b \<and> blobs w1 (out_key (oc_key_prefix oc) (name # q)) = Some b"
        by (rule upload_files_done [OF u' _ mem]) (rule det)
      then obtain b where b: "c = Inr b" "blobs w1 (out_key (oc_key_prefix oc) (name # q)) = Some b" by blast
      have "out_key (oc_key_prefix oc) (name # q) \<noteq> out_key (oc_key_prefix oc) (nm' # q')"
        if "(nm', x') \<in> set ms" "tree_file x' q' c'" for nm' x' q' c'
        using that out_key_inj [OF _ seg [OF Cons.prems(5,6)] seg [of nm' x' q' c']] Cons.prems(2) m True by force
      then have "blobs w' (out_key (oc_key_prefix oc) (name # q)) = blobs w1 (out_key (oc_key_prefix oc) (name # q))"
        by (intro collect_matches_frame [OF c]) simp
      with b show ?thesis by simp
    next
      case False
      then have "(name, x) \<in> set ms" using Cons.prems(5) m by simp
      moreover have "Artifact i j cls (oc_key_prefix oc @ ''/'' @ name) a b v \<in> set out3"
        using art upload_files_no_artifact [OF u] o2 False by (auto split: if_splits)
      moreover have "distinct (map fst ms)" using Cons.prems(2) by simp
      moreover have "CHR ''/'' \<notin> set m' \<and> wf_tree x'" if "(m', x') \<in> set ms" for m' x'
        using Cons.prems(3) [of m' x'] that by simp
      ultimately show ?thesis using Cons.IH [OF c] Cons.prems(6) by simp
    qed
  qed
qed simp

end

subsection \<open>The sink of a production worker\<close>

text \<open>
  The control plane with a filesystem backend as the worker's HTTP client sees it: the presign
  endpoint points back at the control plane, whose transfer endpoints take the grant. All the
  requests of one scan are served at the time \<open>now\<close>.
\<close>

definition transfer_root :: "string \<Rightarrow> string \<Rightarrow> string" where
  "transfer_root public_url action = trim_end_slashes public_url @ ''/api/'' @ action @ ''/''"

definition hub_http :: "hub_env \<Rightarrow> unix_seconds \<Rightarrow> string \<Rightarrow> hub http_calls" where
  "hub_http env now public_url =
     \<lparr>hc_blob_url = (\<lambda>header req h.
        case blob_url (\<lambda>_ _. Inr None) public_url now (Some header) req (hb_grants h) of
          (t, Blob_url r) \<Rightarrow> (h\<lparr>hb_grants := t\<rparr>, Inr r)
        | (t, _) \<Rightarrow> (h\<lparr>hb_grants := t\<rparr>, Inl (''requesting blob url for '' @ bq_key req))),
      hc_get = (\<lambda>url header h.
        case strip_prefix (transfer_root public_url ''fetch'') url of
          None \<Rightarrow> (h, Inl ''not found'')
        | Some key \<Rightarrow> (case hub_fetch now header key h of
              (h', Bytes b) \<Rightarrow> (h', Inr b)
            | (h', _) \<Rightarrow> (h', Inl (''fetching '' @ key)))),
      hc_put = (\<lambda>url header bytes h.
        case strip_prefix (transfer_root public_url ''upload'') url of
          None \<Rightarrow> (h, Inl ''not found'')
        | Some key \<Rightarrow> (case hub_upload env now header key bytes h of
              (h', Created) \<Rightarrow> (h', Inr ())
            | (h', _) \<Rightarrow> (h', Inl (''uploading '' @ key))))\<rparr>"

lemma hub_upload_blobs:
  "hub_upload env now header key b h = (h', resp) \<Longrightarrow>
   hb_blobs h' = (if resp = Created then (hb_blobs h)(key \<mapsto> b) else hb_blobs h)"
  by (auto simp: hub_upload_def upload_def fs_put_def fs_resolve_def split: prod.splits option.splits sum.splits if_splits)

lemma blob_url_upload_key:
  assumes "blob_url (\<lambda>_ _. Inr None) public_url now header \<lparr>bq_key = key, bq_method = Put\<rparr> t = (t', Blob_url r)"
  shows "strip_prefix (transfer_root public_url ''upload'') (br_url r) = Some key"
  using assms
  by (auto simp: blob_url_def transfer_root_def strip_prefix_Some_iff split: prod.splits option.splits if_splits)

interpretation hub_sink: blob_sink "client_upload (hub_http env now public_url) token" hb_blobs
  for env now public_url token
proof
  fix key b h h' u
  assume "client_upload (hub_http env now public_url) token key b h = (h', Inr u)"
  then show "hb_blobs h' = (hb_blobs h)(key \<mapsto> b)"
    by (auto simp: client_upload_def hub_http_def split: prod.splits sum.splits response.splits option.splits
        dest!: hub_upload_blobs blob_url_upload_key)
next
  fix key b h h' e
  assume "client_upload (hub_http env now public_url) token key b h = (h', Inl e)"
  then show "hb_blobs h' = hb_blobs h"
    by (auto simp: client_upload_def hub_http_def split: prod.splits sum.splits response.splits option.splits
        dest!: hub_upload_blobs blob_url_upload_key)
qed

subsection \<open>Metrics\<close>

text \<open>A metrics file that is only appended to, read or unreadable at each poll.\<close>

fun appending :: "string \<Rightarrow> string option list \<Rightarrow> bool" where
  "appending c [] = True"
| "appending c (None # rs) = appending c rs"
| "appending c (Some d # rs) = (starts_with c d \<and> appending d rs)"

fun latest :: "string \<Rightarrow> string option list \<Rightarrow> string" where
  "latest c [] = c"
| "latest c (None # rs) = latest c rs"
| "latest c (Some d # rs) = latest d rs"

fun drain_polls ::
  "(string \<Rightarrow> json option) \<Rightarrow> job_id \<Rightarrow> string option list \<Rightarrow> metric_tail \<Rightarrow> nat \<Rightarrow> nat \<times> worker_to_cp list" where
  "drain_polls parse jid [] tail seq = (seq, [])"
| "drain_polls parse jid (r # rs) tail seq =
     (let (tail1, seq1, out1) = drain_tail parse jid r tail seq;
          (seq2, out2) = drain_polls parse jid rs tail1 seq1
      in (seq2, out1 @ out2))"

lemma split_on_append:
  "split_on ch (c @ r) = butlast (split_on ch c) @ split_on ch (last (split_on ch c) @ r)"
proof (induction c)
  case (Cons x c)
  then show ?case by (cases "split_on ch c") (auto split: list.splits)
qed simp

lemma complete_lines_append:
  assumes "starts_with c d"
  shows "\<exists>ls. complete_lines d = complete_lines c @ ls"
proof -
  from assms obtain r where "d = c @ r" by (auto simp: starts_with_iff)
  then show ?thesis by (auto simp: complete_lines_def split_on_append [of _ c r] butlast_append)
qed

lemma complete_lines_latest:
  "appending c rs \<Longrightarrow> \<exists>ls. complete_lines (latest c rs) = complete_lines c @ ls"
proof (induction c rs rule: appending.induct)
  case (3 c d rs)
  then show ?case using complete_lines_append [of c d] by fastforce
qed auto

lemma emit_all_append:
  "emit_all (xs @ ys) n =
     (let (n1, o1) = emit_all xs n; (n2, o2) = emit_all ys n1 in (n2, o1 @ o2))"
  by (induction xs arbitrary: n) (auto split: prod.splits)

lemma drain_polls_eq:
  "appending c rs \<Longrightarrow> mt_processed tail = length (complete_lines c) \<Longrightarrow>
   drain_polls parse jid rs tail n =
     emit_all (map (drain_line parse jid) (drop (length (complete_lines c)) (complete_lines (latest c rs)))) n"
proof (induction c rs arbitrary: tail n rule: appending.induct)
  case (1 c)
  then show ?case by simp
next
  case (2 c rs)
  then show ?case by (simp add: drain_tail_def split_beta)
next
  case (3 c d rs)
  from "3.prems" have a: "starts_with c d" "appending d rs" by auto
  obtain ls where d: "complete_lines d = complete_lines c @ ls" using complete_lines_append [OF a(1)] by blast
  obtain ms where l: "complete_lines (latest d rs) = complete_lines d @ ms"
    using complete_lines_latest [OF a(2)] by blast
  obtain n1 o1 where e: "emit_all (map (drain_line parse jid) ls) n = (n1, o1)" by fastforce
  have "drain_tail parse jid (Some d) tail n = (tail\<lparr>mt_processed := length (complete_lines d)\<rparr>, n1, o1)"
    using "3.prems" d e by (simp add: drain_tail_def)
  then show ?case
    using "3.IH" [OF a(2), of "tail\<lparr>mt_processed := length (complete_lines d)\<rparr>" n1] d l e
    by (simp add: emit_all_append split_beta Let_def)
qed

subsection \<open>Properties\<close>


text \<open>C23: The metrics tail streams every record exactly once. However often a file that is only
  appended to is polled, and whichever polls fail, the events sent are those of one pass over the
  complete lines of its last readable content, numbered in order.\<close>

theorem metrics_streamed_once:
  assumes "appending [] polls"
  shows "drain_polls parse jid polls (metric_tail_new path) n =
    emit_all (map (drain_line parse jid) (complete_lines (latest [] polls))) n"
  using drain_polls_eq [OF assms, of "metric_tail_new path"]
  by (simp add: metric_tail_new_def complete_lines_def)

lemma metrics_streamed_once_witness:
  "\<forall>parse. drain_polls parse ''j'' [None, Some (''a'' @ [CHR 0x0A] @ ''b''), Some (''a'' @ [CHR 0x0A] @ ''bc'' @ [CHR 0x0A])]
      (metric_tail_new ''m'') 0 = emit_all (map (drain_line parse ''j'') [''a'', ''bc'']) 0"
  using metrics_streamed_once [of "[None, Some (''a'' @ [CHR 0x0A] @ ''b''), Some (''a'' @ [CHR 0x0A] @ ''bc'' @ [CHR 0x0A])]"]
  by (simp add: starts_with_def complete_lines_def)

text \<open>The glob matcher accepts exactly the names its pattern describes: a prefix and a suffix that
  do not overlap around the first star, or the pattern itself when it has none.\<close>

theorem matches_pattern_iff:
  "matches_pattern pattern name \<longleftrightarrow>
     (if CHR ''*'' \<in> set pattern
      then \<exists>mid. name = takeWhile (\<lambda>c. c \<noteq> CHR ''*'') pattern @ mid @ tl (dropWhile (\<lambda>c. c \<noteq> CHR ''*'') pattern)
      else name = pattern)"
proof (cases "CHR ''*'' \<in> set pattern")
  case False
  then have "split_once ''*'' pattern = None"
    using split_once_char_iff [of "CHR ''*''" pattern] by (cases "split_once ''*'' pattern") force+
  with False show ?thesis by (auto simp: matches_pattern_def)
next
  case True
  then obtain a b where p: "pattern = a @ CHR ''*'' # b" "CHR ''*'' \<notin> set a" by (meson split_list_first)
  then have "split_once ''*'' pattern = Some (a, b)" by (simp add: split_once_char)
  moreover have "takeWhile (\<lambda>c. c \<noteq> CHR ''*'') pattern = a" "tl (dropWhile (\<lambda>c. c \<noteq> CHR ''*'') pattern) = b"
    using p by (auto simp: takeWhile_append dropWhile_append)
  moreover have "length a + length b \<le> length name \<and> starts_with a name \<and> ends_with b name \<longleftrightarrow>
      (\<exists>mid. name = a @ mid @ b)"
  proof
    assume l: "length a + length b \<le> length name \<and> starts_with a name \<and> ends_with b name"
    obtain r where ra: "name = a @ r" using l starts_with_iff by blast
    obtain s where sb: "name = s @ b" using l strip_suffix_Some_iff [of b name] by (auto simp: ends_with_def)
    note r = ra sb
    then have "length a \<le> length s" using l by (metis add_le_imp_le_right length_append)
    with r show "\<exists>mid. name = a @ mid @ b"
      by (metis append_eq_append_conv_if append_take_drop_id append.assoc)
  qed (auto simp: starts_with_iff ends_with_def strip_suffix_Some_iff)
  ultimately show ?thesis using True by (simp add: matches_pattern_def)
qed

text \<open>The jittered delay, for any backoff that fits 64 bits of nanoseconds.\<close>

lemma with_jitter_bounds:
  assumes "base < 2 ^ 64"
  shows "\<exists>d. with_jitter base entropy = Some d \<and> base \<le> d \<and> d \<le> base + base div 4"
proof -
  define span where "span = base div 4"
  have "span < 2 ^ 62" using assms by (simp add: span_def less_mult_imp_div_less)
  then have s: "span mod 2 ^ 64 = span" "span + 1 \<noteq> 2 ^ 64" by simp_all
  moreover have "entropy mod (span + 1) \<le> span"
    using mod_less_divisor [of "span + 1" entropy] by simp
  ultimately show ?thesis
    unfolding with_jitter_def JITTER_DIVISOR_def span_def [symmetric] Let_def by (simp del: power_numeral)
qed

end
