(* ===== verification/Executor.thy ===== *)
theory Executor
  imports CollectLaws
begin

text \<open>
  The generic executor (\<open>worker/executor.rs\<close>). What happens while the command runs is a list of
  ticks in the order the supervisor takes them; the log pumps are tasks of their own whose lines
  are ticks too. The disk is a function at each tick: what reading a file and listing a directory
  give. A supervisor whose ticks run out before the process ends is one that was aborted.
\<close>

datatype outcome = Exited int | Killed kill_reason

definition EXIT_CODE_WORKER_ERROR :: int where "EXIT_CODE_WORKER_ERROR = -1"

record disk =
  dk_read :: "string \<Rightarrow> string option"
  dk_dir :: "string \<Rightarrow> (string \<times> node) list option"

text \<open>\<open>Wait (Some code)\<close>: the process exited with a code; \<open>Wait None\<close>: by a signal, or waiting
  failed.\<close>

datatype tick = Wait "int option" | Metric_tick disk | Output_tick disk | Deadline | Line string

text \<open>
  What the executor takes from the machine: the sandbox directory of a job, spawning a process
  (program, arguments, environment, working directory), staging, and the JSON parser.
\<close>

record 'w machine =
  mc_sandbox :: "job_id \<Rightarrow> 'w \<Rightarrow> 'w \<times> string result"
  mc_spawn :: "string \<Rightarrow> string list \<Rightarrow> (string \<times> string) list \<Rightarrow> string \<Rightarrow> 'w \<Rightarrow> 'w \<times> unit result"
  mc_stage :: "'w stage_calls"
  mc_cache :: "'w content_cache option"
  mc_json :: "string \<Rightarrow> json option"

text \<open>The supervisor's state: world, sequence counter, metrics tail and the two lots of collectors.\<close>

record 'w supervised =
  su_world :: 'w
  su_seq :: nat
  su_tail :: "metric_tail option"
  su_appear :: "collector list"
  su_exit :: "collector list"

definition collectors_by_policy :: "job \<Rightarrow> string \<Rightarrow> collector list \<times> collector list" where
  "collectors_by_policy job sandbox_path =
     (map (\<lambda>r. collector_new r sandbox_path) (filter (\<lambda>r. or_upload r = OnAppearance) (jb_outputs job)),
      map (\<lambda>r. collector_new r sandbox_path) (filter (\<lambda>r. or_upload r = OnExit) (jb_outputs job)))"

definition command_parts ::
  "string list \<Rightarrow> (string \<times> string) list \<Rightarrow> string \<Rightarrow>
   (string \<times> string list \<times> (string \<times> string) list) option" where
  "command_parts command env sandbox_path =
     (case command of
        [] \<Rightarrow> None
      | program # args \<Rightarrow>
          Some (subst program sandbox_path, map (\<lambda>a. subst a sandbox_path) args,
                map (\<lambda>(k, v). (k, subst v sandbox_path)) env))"

definition exit_code :: "int option \<Rightarrow> int" where
  "exit_code status = (case status of Some code \<Rightarrow> code | None \<Rightarrow> EXIT_CODE_WORKER_ERROR)"

definition tail_metrics ::
  "'w machine \<Rightarrow> job_id \<Rightarrow> disk \<Rightarrow> 'w supervised \<Rightarrow> 'w supervised \<times> worker_to_cp list" where
  "tail_metrics mc jid d su =
     (case su_tail su of
        None \<Rightarrow> (su, [])
      | Some tail \<Rightarrow>
          (let (tail', seq', out) = drain_tail (mc_json mc) jid (dk_read d (mt_path tail)) tail (su_seq su)
           in (su\<lparr>su_tail := Some tail', su_seq := seq'\<rparr>, out)))"

text \<open>\<open>collect_all\<close> over the collectors, \<open>up\<close> being the job's HTTP client.\<close>

fun collect_all ::
  "(string \<Rightarrow> string \<Rightarrow> 'w \<Rightarrow> 'w \<times> unit result) \<Rightarrow> job_id \<Rightarrow> disk \<Rightarrow> collector list \<Rightarrow> 'w \<times> nat \<Rightarrow>
   collector list \<times> ('w \<times> nat) \<times> worker_to_cp list" where
  "collect_all up jid d [] s = ([], s, [])"
| "collect_all up jid d (oc # ocs) s =
     (let (oc', s1, out1) = collect up jid (dk_dir d (oc_base oc)) oc s;
          (ocs', s2, out2) = collect_all up jid d ocs s1
      in (oc' # ocs', s2, out1 @ out2))"

definition job_upload ::
  "'w machine \<Rightarrow> job \<Rightarrow> string \<Rightarrow> string \<Rightarrow> 'w \<Rightarrow> 'w \<times> unit result" where
  "job_upload mc job = client_upload (sg_http (mc_stage mc)) (case jb_grant job of Some t \<Rightarrow> t | None \<Rightarrow> [])"

definition collect_appear ::
  "'w machine \<Rightarrow> job \<Rightarrow> disk \<Rightarrow> 'w supervised \<Rightarrow> 'w supervised \<times> worker_to_cp list" where
  "collect_appear mc job d su =
     (let (ocs, (w, n), out) = collect_all (job_upload mc job) (jb_id job) d (su_appear su) (su_world su, su_seq su)
      in (su\<lparr>su_appear := ocs, su_world := w, su_seq := n\<rparr>, out))"

definition collect_exit ::
  "'w machine \<Rightarrow> job \<Rightarrow> disk \<Rightarrow> 'w supervised \<Rightarrow> 'w supervised \<times> worker_to_cp list" where
  "collect_exit mc job d su =
     (let (ocs, (w, n), out) = collect_all (job_upload mc job) (jb_id job) d (su_exit su) (su_world su, su_seq su)
      in (su\<lparr>su_exit := ocs, su_world := w, su_seq := n\<rparr>, out))"

definition log_line :: "job_id \<Rightarrow> string \<Rightarrow> 'w supervised \<Rightarrow> 'w supervised \<times> worker_to_cp list" where
  "log_line jid l su =
     (let (n, out) = pump_line jid l (su_seq su) in (su\<lparr>su_seq := n\<rparr>, out))"

definition worker_note :: "job_id \<Rightarrow> string \<Rightarrow> 'w supervised \<Rightarrow> 'w supervised \<times> worker_to_cp list" where
  "worker_note jid l su =
     (let (n, out) = worker_line jid l (su_seq su) in (su\<lparr>su_seq := n\<rparr>, out))"

text \<open>The supervision loop. The deadline branch is inert for a job without a runtime budget.\<close>

fun supervise ::
  "'w machine \<Rightarrow> job \<Rightarrow> tick list \<Rightarrow> 'w supervised \<Rightarrow>
   'w supervised \<times> worker_to_cp list \<times> outcome option" where
  "supervise mc job [] su = (su, [], None)"
| "supervise mc job (Wait status # ts) su = (su, [], Some (Exited (exit_code status)))"
| "supervise mc job (Deadline # ts) su =
     (case jb_max_runtime_secs job of
        None \<Rightarrow> supervise mc job ts su
      | Some _ \<Rightarrow>
          (let (su1, out) = worker_note (jb_id job) ''killed: exceeded max_runtime_secs'' su
           in (su1, out, Some (Killed MaxRuntime))))"
| "supervise mc job (Metric_tick d # ts) su =
     (let (su1, out1) = tail_metrics mc (jb_id job) d su;
          (su2, out2, r) = supervise mc job ts su1
      in (su2, out1 @ out2, r))"
| "supervise mc job (Output_tick d # ts) su =
     (let (su1, out1) = collect_appear mc job d su;
          (su2, out2, r) = supervise mc job ts su1
      in (su2, out1 @ out2, r))"
| "supervise mc job (Line l # ts) su =
     (let (su1, out1) = log_line (jb_id job) l su;
          (su2, out2, r) = supervise mc job ts su1
      in (su2, out1 @ out2, r))"

fun flush_lines :: "job_id \<Rightarrow> string list \<Rightarrow> 'w supervised \<Rightarrow> 'w supervised \<times> worker_to_cp list" where
  "flush_lines jid [] su = (su, [])"
| "flush_lines jid (l # ls) su =
     (let (su1, out1) = log_line jid l su; (su2, out2) = flush_lines jid ls su1 in (su2, out1 @ out2))"

text \<open>The final drain: metrics, both lots of collectors, then the pumps' remaining lines.\<close>

definition final_drain ::
  "'w machine \<Rightarrow> job \<Rightarrow> disk \<Rightarrow> string list \<Rightarrow> 'w supervised \<Rightarrow> 'w supervised \<times> worker_to_cp list" where
  "final_drain mc job d rest su =
     (let (su1, out1) = tail_metrics mc (jb_id job) d su;
          (su2, out2) = collect_appear mc job d su1;
          (su3, out3) = collect_exit mc job d su2;
          (su4, out4) = flush_lines (jb_id job) rest su3
      in (su4, out1 @ out2 @ out3 @ out4))"

text \<open>The sandbox, the inputs, the collectors and the spawned command, in that order.\<close>

definition prepare ::
  "'w machine \<Rightarrow> job \<Rightarrow> nat \<Rightarrow> 'w \<Rightarrow> 'w \<times> 'w supervised result" where
  "prepare mc job seq w =
     (case mc_sandbox mc (jb_id job) w of
        (w1, Inl e) \<Rightarrow> (w1, with_context ''creating sandbox'' (Inl e))
      | (w1, Inr path) \<Rightarrow>
          (case stage_all (mc_stage mc) (case jb_grant job of Some t \<Rightarrow> t | None \<Rightarrow> []) (mc_cache mc) path
                  (jb_inputs job) w1 of
             (w2, Inl e) \<Rightarrow> (w2, Inl e)
           | (w2, Inr _) \<Rightarrow>
               (case command_parts (jb_command job) (jb_env job) path of
                  None \<Rightarrow> (w2, Inl ''job command is empty'')
                | Some (program, args, env) \<Rightarrow>
                    (case mc_spawn mc program args env path w2 of
                       (w3, Inl e) \<Rightarrow> (w3, with_context (''spawning '' @ program) (Inl e))
                     | (w3, Inr _) \<Rightarrow>
                         (let (appear, on_exit) = collectors_by_policy job path
                          in (w3, Inr \<lparr>su_world = w3, su_seq = seq,
                                       su_tail = map_option (\<lambda>f. metric_tail_new (subst f path)) (jb_metrics_file job),
                                       su_appear = appear, su_exit = on_exit\<rparr>))))))"

definition terminal_event :: "job_id \<Rightarrow> outcome \<Rightarrow> nat \<Rightarrow> worker_to_cp" where
  "terminal_event jid oc n = (case oc of Exited code \<Rightarrow> JobExited n jid code | Killed reason \<Rightarrow> JobKilled n jid reason)"

text \<open>\<open>execute\<close>: the world and counter after it, the events sent, and whether the task finished.\<close>

definition execute ::
  "'w machine \<Rightarrow> job \<Rightarrow> tick list \<Rightarrow> disk \<Rightarrow> string list \<Rightarrow> 'w \<times> nat \<Rightarrow>
   ('w \<times> nat) \<times> worker_to_cp list \<times> bool" where
  "execute mc job ticks d rest s =
     (let (w, seq) = s; jid = jb_id job; (n, seq1) = seq_next seq; started = JobStarted n jid
      in case prepare mc job seq1 w of
           (w1, Inl error) \<Rightarrow>
             (let (seq2, failed) = worker_line jid (''job setup failed: '' @ error) seq1;
                  (k, seq3) = seq_next seq2
              in ((w1, seq3), started # failed @ [terminal_event jid (Exited EXIT_CODE_WORKER_ERROR) k], True))
         | (w1, Inr su) \<Rightarrow>
             (case supervise mc job ticks su of
                (su1, out, None) \<Rightarrow> ((su_world su1, su_seq su1), started # out, False)
              | (su1, out, Some outcome) \<Rightarrow>
                  (let (su2, drained) = final_drain mc job d rest su1;
                       (k, seq2) = seq_next (su_seq su2)
                   in ((su_world su2, seq2),
                       started # out @ drained @ [terminal_event jid outcome k], True))))"

subsection \<open>The event protocol\<close>

text \<open>An operation of the supervisor streams: it sends chatter numbered from the counter on.\<close>

abbreviation streams :: "job_id \<Rightarrow> 'w supervised \<Rightarrow> 'w supervised \<Rightarrow> worker_to_cp list \<Rightarrow> bool" where
  "streams jid su su' out \<equiv> streamed jid (su_seq su) out (su_seq su')"

lemma streams_tail: "tail_metrics mc jid d su = (su', out) \<Longrightarrow> streams jid su su' out"
  by (auto simp: tail_metrics_def Let_def split: option.splits prod.splits dest: streamed_drain)

lemma streamed_collect_all:
  "collect_all up jid d ocs (w, n) = (ocs', (w', n'), out) \<Longrightarrow> streamed jid n out n'"
proof (induction ocs arbitrary: w n out ocs')
  case (Cons oc ocs)
  obtain oc1 w1 n1 out1 where c: "collect up jid (dk_dir d (oc_base oc)) oc (w, n) = (oc1, (w1, n1), out1)"
    by (metis surj_pair)
  obtain ocs2 out2 where r: "collect_all up jid d ocs (w1, n1) = (ocs2, (w', n'), out2)" "out = out1 @ out2"
    using Cons.prems c by (auto split: prod.splits)
  from streamed_append [OF streamed_collect [OF c] Cons.IH [OF r(1)]] show ?case by (simp add: r(2))
qed simp

lemma streams_collect:
  "collect_appear mc job d su = (su', out) \<Longrightarrow> streams (jb_id job) su su' out"
  "collect_exit mc job d su = (su', out) \<Longrightarrow> streams (jb_id job) su su' out"
  by (auto simp: collect_appear_def collect_exit_def Let_def split: prod.splits dest: streamed_collect_all)

lemma streams_line:
  "log_line jid l su = (su', out) \<Longrightarrow> streams jid su su' out"
  "worker_note jid l su = (su', out) \<Longrightarrow> streams jid su su' out"
  by (auto simp: log_line_def worker_note_def split: prod.splits
      dest: streamed_pump_line streamed_worker_line)

lemma streams_flush: "flush_lines jid ls su = (su', out) \<Longrightarrow> streams jid su su' out"
  by (induction ls arbitrary: su out)
     (auto split: prod.splits dest!: streams_line(1) intro: streamed_append)

lemma streams_supervise:
  "supervise mc job ts su = (su', out, r) \<Longrightarrow> streams (jb_id job) su su' out"
  by (induction mc job ts su arbitrary: out rule: supervise.induct)
     (auto split: prod.splits option.splits dest!: streams_line streams_tail streams_collect intro: streamed_append)

lemma streams_final:
  assumes "final_drain mc job d rest su = (su', out)"
  shows "streams (jb_id job) su su' out"
proof -
  obtain su1 o1 where a: "tail_metrics mc (jb_id job) d su = (su1, o1)" by fastforce
  obtain su2 o2 where b: "collect_appear mc job d su1 = (su2, o2)" by fastforce
  obtain su3 o3 where c: "collect_exit mc job d su2 = (su3, o3)" by fastforce
  obtain su4 o4 where e: "flush_lines (jb_id job) rest su3 = (su4, o4)" by fastforce
  from assms a b c e have "su' = su4" "out = o1 @ o2 @ o3 @ o4" by (simp_all add: final_drain_def)
  then show ?thesis
    using streams_tail [OF a] streams_collect(1) [OF b] streams_collect(2) [OF c] streams_flush [OF e]
    by (simp add: streamed_append)
qed

text \<open>The ticks that end a job: an exit, or the deadline of a job that has one.\<close>

definition ends_job :: "job \<Rightarrow> tick \<Rightarrow> bool" where
  "ends_job job t = (case t of Wait _ \<Rightarrow> True | Deadline \<Rightarrow> jb_max_runtime_secs job \<noteq> None | _ \<Rightarrow> False)"

lemma supervise_ends:
  "supervise mc job ts su = (su', out, r) \<Longrightarrow> r = None \<longleftrightarrow> \<not> (\<exists>t\<in>set ts. ends_job job t)"
  by (induction mc job ts su arbitrary: out rule: supervise.induct)
     (auto simp: ends_job_def split: prod.splits option.splits)


definition demo_stage_calls :: "unit stage_calls" where
  "demo_stage_calls =
     \<lparr>sg_http = \<lparr>hc_blob_url = (\<lambda>_ _ w. (w, Inl ''offline'')), hc_get = (\<lambda>_ _ w. (w, Inl ''offline'')),
                 hc_put = (\<lambda>_ _ _ w. (w, Inl ''offline''))\<rparr>,
      sg_sha256 = id, sg_write = (\<lambda>_ _ w. (w, Inr ())), sg_unpack = (\<lambda>_ _ _ w. (w, Inr ()))\<rparr>"

definition demo_machine :: "unit machine" where
  "demo_machine =
     \<lparr>mc_sandbox = (\<lambda>j w. (w, Inr (''/tmp/'' @ j))), mc_spawn = (\<lambda>_ _ _ _ w. (w, Inr ())),
      mc_stage = demo_stage_calls, mc_cache = None, mc_json = (\<lambda>_. None)\<rparr>"

definition demo_shell_job :: job where
  "demo_shell_job =
     \<lparr>jb_id = ''r'', jb_template = ''shell'', jb_command = [''true''], jb_env = [], jb_inputs = [],
      jb_outputs = [], jb_metrics_file = None, jb_max_runtime_secs = None, jb_term_grace_secs = 30,
      jb_service = None, jb_needs = [], jb_campaign = None,
      jb_placement = \<lparr>pl_prefer_worker = None, pl_require_labels = []\<rparr>, jb_grant = None\<rparr>"

definition demo_disk :: disk where
  "demo_disk = \<lparr>dk_read = (\<lambda>_. None), dk_dir = (\<lambda>_. None)\<rparr>"


end
