(* ===== verification/Agent.thy ===== *)
theory Agent
  imports Executor
begin

text \<open>
  The worker's main loop (\<open>worker/main.rs\<close>): the durable state that outlives a session, the
  handshake, and one definition per branch of the session's \<open>select!\<close>. A branch returns the agent
  after it and the messages written to the socket. The running job is its id and whether its task
  has finished; the queue is the channel \<open>job_rx\<close>.
\<close>

record agent =
  ag_worker_id :: "worker_id option"
  ag_class :: worker_class
  ag_current :: "(job_id \<times> bool) option"
  ag_outbox :: outbox
  ag_seq :: nat
  ag_queue :: "worker_to_cp list"
  ag_draining :: bool

record agent_args =
  aa_url :: string
  aa_token :: string
  aa_worker_id :: "worker_id option"
  aa_labels :: string
  aa_lease_min :: "real option"
  aa_drain_window_min :: "real option"

definition EXIT_CODE_REJECTED :: int where "EXIT_CODE_REJECTED = 3"

text \<open>A fresh process: the counter starts at 0 whatever the control plane remembers.\<close>

definition agent_start :: "agent_args \<Rightarrow> agent" where
  "agent_start args =
     \<lparr>ag_worker_id = aa_worker_id args, ag_class = Leased, ag_current = None, ag_outbox = [],
      ag_seq = 0, ag_queue = [], ag_draining = False\<rparr>"

text \<open>Seconds from the start of the process to the self-drain.\<close>

definition self_drain_after :: "agent_args \<Rightarrow> real option" where
  "self_drain_after args =
     (let window = (case aa_drain_window_min args of Some m \<Rightarrow> m | None \<Rightarrow> DEFAULT_DRAIN_WINDOW_MIN)
      in map_option (\<lambda>minutes. max 0 (minutes * 60 - window * 60)) (aa_lease_min args))"

definition target_triple :: "string \<Rightarrow> string \<Rightarrow> string" where
  "target_triple os arch =
     (if os = ''linux'' \<and> arch = ''x86_64'' then ''x86_64-unknown-linux-musl''
      else if os = ''linux'' \<and> arch = ''aarch64'' then ''aarch64-unknown-linux-musl''
      else if os = ''macos'' \<and> arch = ''aarch64'' then ''aarch64-apple-darwin''
      else if os = ''macos'' \<and> arch = ''x86_64'' then ''x86_64-apple-darwin''
      else arch @ ''-'' @ os)"

subsection \<open>The handshake\<close>

definition agent_resume :: "agent \<Rightarrow> resume option" where
  "agent_resume ag =
     map_option (\<lambda>wid. \<lparr>re_worker_id = wid,
         re_running_jobs = (case ag_current ag of Some (j, False) \<Rightarrow> [j] | _ \<Rightarrow> []),
         re_high_water = (if ag_outbox ag = [] then SEQ_ORIGIN else fst (last (ag_outbox ag)))\<rparr>)
       (ag_worker_id ag)"

definition agent_labels :: "agent_args \<Rightarrow> string list" where
  "agent_labels args = filter (\<lambda>l. l \<noteq> []) (split_on (CHR '','') (aa_labels args))"

text \<open>The parameters are the package version, the target triple, and the capability probe, which
  takes the labels and whether the host may be reclaimed.\<close>

definition agent_hello ::
  "string \<Rightarrow> string \<Rightarrow> (string list \<Rightarrow> bool \<Rightarrow> capabilities) \<Rightarrow> agent_args \<Rightarrow> agent \<Rightarrow> worker_to_cp" where
  "agent_hello semver triple detect args ag =
     Hello PROTOCOL_VERSION semver triple (aa_token args)
       (detect (agent_labels args) (aa_lease_min args \<noteq> None)) (agent_resume ag)"

text \<open>What the answer to the hello leads to; \<open>None\<close> is a closed socket.\<close>

datatype handshake_result =
    Session_opens nat
  | Self_update string string
  | Process_exits int
  | Session_fails

definition on_hello_answer :: "cp_to_worker option \<Rightarrow> agent \<Rightarrow> agent \<times> handshake_result" where
  "on_hello_answer answer ag =
     (case answer of
        Some (HelloAck wid cls telemetry deadline resumed) \<Rightarrow>
          (ag\<lparr>ag_worker_id := Some wid, ag_class := cls\<rparr>, Session_opens resumed)
      | Some (HelloReject reason min_protocol url sha) \<Rightarrow>
          (ag, case (url, sha) of
                 (Some u, Some s) \<Rightarrow> Self_update u s
               | _ \<Rightarrow> Process_exits EXIT_CODE_REJECTED)
      | _ \<Rightarrow> (ag, Session_fails))"

text \<open>Drain, trim and replay; a new session is not draining.\<close>

definition session_open :: "nat \<Rightarrow> agent \<Rightarrow> agent \<times> worker_to_cp list" where
  "session_open resumed ag =
     (let ob = trim_to_high_water resumed (ag_outbox ag @ map (\<lambda>e. (outbox_seq e, e)) (ag_queue ag))
      in (ag\<lparr>ag_outbox := ob, ag_queue := [], ag_draining := False\<rparr>, map snd ob))"

subsection \<open>The branches of the session loop\<close>

definition on_heartbeat_tick :: "agent \<Rightarrow> agent \<times> worker_to_cp list" where
  "on_heartbeat_tick ag = (ag, [Heartbeat])"

definition on_sample_tick :: "(string \<times> f64) list \<Rightarrow> agent \<Rightarrow> agent \<times> worker_to_cp list" where
  "on_sample_tick values ag = (ag, if values = [] then [] else [Metric 0 None None values])"

definition on_self_drain :: "agent \<Rightarrow> agent \<times> worker_to_cp list" where
  "on_self_drain ag = (if ag_draining ag then (ag, []) else (ag\<lparr>ag_draining := True\<rparr>, [Drained]))"

definition on_job_event :: "agent \<Rightarrow> agent \<times> worker_to_cp list" where
  "on_job_event ag =
     (case ag_queue ag of
        [] \<Rightarrow> (ag, [])
      | e # q \<Rightarrow> (ag\<lparr>ag_queue := q, ag_outbox := ag_outbox ag @ [(outbox_seq e, e)]\<rparr>, [e]))"

text \<open>A task that streams: the number is drawn and the event is sent on the channel.\<close>

definition emit :: "(nat \<Rightarrow> worker_to_cp) \<Rightarrow> agent \<Rightarrow> agent" where
  "emit mk ag = (let (n, next) = seq_next (ag_seq ag) in ag\<lparr>ag_seq := next, ag_queue := ag_queue ag @ [mk n]\<rparr>)"

definition on_inbound :: "cp_to_worker \<Rightarrow> agent \<Rightarrow> agent \<times> worker_to_cp list" where
  "on_inbound msg ag =
     (case msg of
        AssignJob job \<Rightarrow>
          (if ag_draining ag then (ag, [])
           else if (case ag_current ag of Some (_, finished) \<Rightarrow> \<not> finished | None \<Rightarrow> False) then (ag, [])
           else (ag\<lparr>ag_outbox := [], ag_current := Some (jb_id job, False)\<rparr>, []))
      | Cancel job_id \<Rightarrow>
          (case ag_current ag of
             Some (running, _) \<Rightarrow>
               (emit (\<lambda>n. JobKilled n running Cancel_reason) (ag\<lparr>ag_current := None\<rparr>), [])
           | None \<Rightarrow> (emit (\<lambda>n. JobKilled n job_id Cancel_reason) ag, []))
      | Drain deadline \<Rightarrow> (ag\<lparr>ag_draining := True\<rparr>, [Drained])
      | _ \<Rightarrow> (ag, []))"

subsection \<open>Between sessions\<close>

definition on_disconnect :: "agent \<Rightarrow> agent" where
  "on_disconnect ag = (if ag_class ag = Leased then ag\<lparr>ag_current := None\<rparr> else ag)"

text \<open>The backoff after a session that ended cleanly or not: the base of this delay and the next.\<close>

definition backoff_step :: "bool \<Rightarrow> nat \<Rightarrow> nat \<times> nat" where
  "backoff_step clean backoff =
     (let b = (if clean then RECONNECT_BACKOFF_MIN else backoff)
      in (b, min (b * 2) RECONNECT_BACKOFF_MAX))"

fun backoffs :: "bool list \<Rightarrow> nat \<Rightarrow> nat list" where
  "backoffs [] b = []"
| "backoffs (c # cs) b = (let (base, b') = backoff_step c b in base # backoffs cs b')"

lemma backoff_step_range:
  "RECONNECT_BACKOFF_MIN \<le> b \<Longrightarrow> b \<le> RECONNECT_BACKOFF_MAX \<Longrightarrow> backoff_step c b = (base, b') \<Longrightarrow>
   (RECONNECT_BACKOFF_MIN \<le> base \<and> base \<le> RECONNECT_BACKOFF_MAX) \<and>
   (RECONNECT_BACKOFF_MIN \<le> b' \<and> b' \<le> RECONNECT_BACKOFF_MAX)"
  by (auto simp: backoff_step_def Let_def RECONNECT_BACKOFF_MIN_def RECONNECT_BACKOFF_MAX_def)

lemma backoffs_between:
  "b \<in> set (backoffs cs b0) \<Longrightarrow> RECONNECT_BACKOFF_MIN \<le> b0 \<Longrightarrow> b0 \<le> RECONNECT_BACKOFF_MAX \<Longrightarrow>
   RECONNECT_BACKOFF_MIN \<le> b \<and> b \<le> RECONNECT_BACKOFF_MAX"
proof (induction cs arbitrary: b0)
  case (Cons c cs)
  obtain base b' where s: "backoff_step c b0 = (base, b')" by fastforce
  from Cons backoff_step_range [OF Cons.prems(2,3) s] s show ?case by auto
qed simp

text \<open>However its sessions end, the worker waits between two and seventy-five seconds before it
  reconnects, at least its backoff and at most a quarter more, and computing the delay never
  panics.\<close>

theorem reconnect_delay_bounds:
  assumes "b \<in> set (backoffs outcomes RECONNECT_BACKOFF_MIN)"
  shows "\<exists>d. with_jitter b entropy = Some d \<and> b \<le> d \<and> d \<le> b + b div 4 \<and>
    2 * 10 ^ 9 \<le> d \<and> d \<le> 75 * 10 ^ 9"
proof -
  from backoffs_between [OF assms] have b: "2 * 10 ^ 9 \<le> b" "b \<le> 60 * 10 ^ 9"
    by (simp_all add: RECONNECT_BACKOFF_MIN_def RECONNECT_BACKOFF_MAX_def)
  then have "b < 2 ^ 64" by simp
  from with_jitter_bounds [OF this] obtain d where "with_jitter b entropy = Some d" "b \<le> d" "d \<le> b + b div 4"
    by blast
  with b show ?thesis by (intro exI [of _ d]) auto
qed

lemma reconnect_delay_bounds_witness:
  "\<exists>d. with_jitter (4 * 10 ^ 9) 7 = Some d \<and> d \<le> 75 * 10 ^ 9"
proof -
  have "4 * 10 ^ 9 \<in> set (backoffs [True, False] RECONNECT_BACKOFF_MIN)"
    by (simp add: backoff_step_def RECONNECT_BACKOFF_MIN_def RECONNECT_BACKOFF_MAX_def)
  from reconnect_delay_bounds [OF this, of 7] show ?thesis by blast
qed

end
