(* ===== verification/HighWater.thy ===== *)
theory HighWater
  imports HubSystem
begin

text \<open>
  The hub's high-water marks. Only a streamed message of a worker moves that worker's mark; no
  other handler, and no message of another worker, touches it, and nothing lowers or forgets it.
\<close>

lemma high_water_frames [simp]:
  "hb_high_water (fst (assemble_job env now rid spec h)) = hb_high_water h"
  "hb_high_water (drop_links d h) = hb_high_water h"
  using assemble_job_frame [of env now rid spec h] by (auto simp: prod_eq_iff)

lemma high_water_pump [simp]: "hb_high_water (fst (pump env now h)) = hb_high_water h"
proof (rule pump_invariant [of "\<lambda>k. hb_high_water k = hb_high_water h"])
  fix k k1 run and e :: string
  assume "hb_high_water k = hb_high_water h"
    and "assemble_job env now (rs_id (rr_summary run)) (rr_spec run) k = (k1, Inl e)"
  then show "hb_high_water k1 = hb_high_water h"
    by (metis fst_conv high_water_frames(1))
next
  fix k k1 w wk run job
  assume "hb_high_water k = hb_high_water h"
    and "assemble_job env now (rs_id (rr_summary run)) (rr_spec run) k = (k1, Inr job)"
  then show "hb_high_water (fst (assign_run now w (rs_id (rr_summary run)) job k1)) = hb_high_water h"
    by (metis assign_run_frame(4) fst_conv high_water_frames(1))
qed simp_all

lemma high_water_revoke [simp]: "hb_high_water (revoke_grants r h) = hb_high_water h"
  by (simp add: revoke_grants_def)

lemma high_water_cancel_now [simp]: "hb_high_water (fst (cancel_now env now rid w h)) = hb_high_water h"
  by (simp add: cancel_now_def Let_def split: option.splits)

lemma high_water_finish_run [simp]: "hb_high_water (fst (finish_run env now w rid st c h)) = hb_high_water h"
  by (simp add: finish_run_def Let_def)

lemma high_water_stop_run [simp]: "hb_high_water (fst (stop_run env now rid h)) = hb_high_water h"
proof -
  have "hb_high_water h1 = hb_high_water h" if "send_to w m h = (h1, r)" for w m h1 r
    using that send_to_frame by (metis fst_conv)
  then show ?thesis by (auto simp: stop_run_def split: option.splits prod.splits bool.splits)
qed

lemma high_water_resume_run [simp]: "hb_high_water (fst (resume_run env now rid h)) = hb_high_water h"
  by (simp add: resume_run_def split: option.splits)

lemma high_water_evaluate_gates [simp]: "hb_high_water (fst (evaluate_gates env now rid h)) = hb_high_water h"
proof -
  have one: "hb_high_water (fst (evaluate_one_gate env now rid info h)) = hb_high_water h" for info h
    unfolding evaluate_one_gate_def Let_def by (auto split: sum.splits)
  have "hb_high_water (fst (evaluate_gates_loop env now rid gs h)) = hb_high_water h" for gs
    by (induction gs arbitrary: h) (auto simp: Let_def case_prod_beta one)
  then show ?thesis by (simp add: evaluate_gates_def)
qed

lemma high_water_attach [simp]: "hb_high_water (fst (attach env now w tx ls hw h)) = hb_high_water h"
  by (simp add: attach_def Let_def)

lemma high_water_detach [simp]: "hb_high_water (fst (detach env now w cls h)) = hb_high_water h"
  by (simp add: detach_def Let_def requeue_current_def split: option.splits)

lemma high_water_reap_stale [simp]: "hb_high_water (fst (reap_stale_workers env now h)) = hb_high_water h"
proof -
  have "hb_high_water (fst (reap_loop env now a wks h)) = hb_high_water h" for a wks
  proof (induction wks arbitrary: h)
    case (Cons wk wks)
    let ?cls = "if worker_is_persistent (wi_id wk) (hb_store h) then Persistent else Leased"
    show ?case
      using Cons by (cases "detach env now (wi_id wk) ?cls h"; cases "snd (detach env now (wi_id wk) ?cls h)")
        (auto simp: Let_def, (metis fst_conv high_water_detach)+)
  qed simp
  then show ?thesis by (simp add: reap_stale_workers_def reap_stale_workers_older_than_def)
qed

lemma high_water_reap_stuck [simp]: "hb_high_water (fst (reap_stuck_assignments env now h)) = hb_high_water h"
proof -
  have "hb_high_water (requeue_stuck now r h) = hb_high_water h" for r h
    unfolding requeue_stuck_def Let_def by (auto split: option.splits)
  then have "hb_high_water (fold (requeue_stuck now) rs h) = hb_high_water h" for rs
    by (induction rs arbitrary: h) auto
  then show ?thesis
    by (simp add: reap_stuck_assignments_def reap_stuck_assignments_older_than_def Let_def)
qed

lemma high_water_ingest [simp]: "hb_high_water (fst (ingest_checkpoint env now rid uri h)) = hb_high_water h"
  by (auto simp: ingest_checkpoint_def Let_def case_prod_beta split: option.splits sum.splits)

lemma high_water_dispatch [simp]: "hb_high_water (fst (dispatch env now w msg h)) = hb_high_water h"
  by (cases "(env, now, w, msg, h)" rule: dispatch.cases) (auto simp: case_prod_beta Let_def)

lemma high_water_submit [simp]: "hb_high_water (fst (submit env now n sp er cb h)) = hb_high_water h"
  by (auto simp: submit_def Let_def case_prod_beta split: sum.splits option.splits)

lemma high_water_submit_sweep [simp]: "hb_high_water (fst (submit_sweep env now n spec cb h)) = hb_high_water h"
  by (auto simp: submit_sweep_def Let_def case_prod_beta split: sum.splits option.splits)

text \<open>What a message does to the marks.\<close>

lemma high_water_on_message:
  "hb_high_water (fst (on_message env now w msg h)) =
     (if event_seq msg = None \<or> is_replay w msg h then hb_high_water h
      else (hb_high_water h)(w \<mapsto> the (event_seq msg)))"
  by (auto simp: on_message_def Let_def note_seq_def is_replay_def split: option.splits)

lemma hub_step_high_water:
  assumes "hub_step env h h'"
  shows "hb_high_water h' w = hb_high_water h w \<or> (\<exists>now msg. h' = fst (on_message env now w msg h))"
  using assms
proof (cases rule: hub_step.cases)
  case (Message now v msg)
  then show ?thesis by (cases "v = w") (auto simp: high_water_on_message)
qed (auto simp: close_link_def hub_upload_def hub_fetch_def split: prod.splits)

end
