(* ===== verification/Link.thy ===== *)
theory Link
  imports Agent HighWater
begin

text \<open>
  A worker and the hub over an unreliable connection. The system is the agent of the worker \<open>w\<close>,
  the hub, and the messages in flight; a cut loses what is in flight, a new session replays the
  outbox from the mark the hub answers with. The other steps of the hub interleave freely. Two
  ghost lists record the events numbered so far, in order, and those the hub dispatched; events up
  to the ghost \<open>ln_floor\<close> belong to earlier jobs, whose outbox an assignment has cleared. The
  numbering and the sending of an event are one step here; \<open>Race\<close> separates them.
\<close>

record link_system =
  ln_agent :: agent
  ln_hub :: hub
  ln_up :: "worker_to_cp list"
  ln_online :: bool
  ln_made :: "worker_to_cp list"
  ln_applied :: "worker_to_cp list"
  ln_floor :: nat

definition numbered :: "(nat \<Rightarrow> worker_to_cp) \<Rightarrow> bool" where
  "numbered mk \<longleftrightarrow> (\<forall>n. event_seq (mk n) = Some n)"

definition beyond :: "nat option \<Rightarrow> nat \<Rightarrow> bool" where
  "beyond hw n \<longleftrightarrow> (case hw of Some h \<Rightarrow> h < n | None \<Rightarrow> True)"

definition mark :: "worker_id \<Rightarrow> link_system \<Rightarrow> nat option" where
  "mark w s = hb_high_water (ln_hub s) w"

definition out_of_band :: "worker_to_cp list \<Rightarrow> bool" where
  "out_of_band ms \<longleftrightarrow> (\<forall>m\<in>set ms. event_seq m = None)"

definition next_floor :: "agent \<Rightarrow> nat" where
  "next_floor ag = (case ag_queue ag of [] \<Rightarrow> ag_seq ag | e # _ \<Rightarrow> outbox_seq e)"

inductive link_step :: "hub_env \<Rightarrow> worker_id \<Rightarrow> link_system \<Rightarrow> link_system \<Rightarrow> bool" for env w where
  Emit: "numbered mk \<Longrightarrow>
    link_step env w s (s\<lparr>ln_agent := emit mk (ln_agent s), ln_made := ln_made s @ [mk (ag_seq (ln_agent s))]\<rparr>)"
| Send: "ln_online s \<Longrightarrow> on_job_event (ln_agent s) = (ag, out) \<Longrightarrow>
    link_step env w s (s\<lparr>ln_agent := ag, ln_up := ln_up s @ out\<rparr>)"
| Signal: "ln_online s \<Longrightarrow> out_of_band ms \<Longrightarrow> link_step env w s (s\<lparr>ln_up := ln_up s @ ms\<rparr>)"
| Finished: "ag_current (ln_agent s) = Some (j, False) \<Longrightarrow>
    link_step env w s (s\<lparr>ln_agent := (ln_agent s)\<lparr>ag_current := Some (j, True)\<rparr>\<rparr>)"
| Drain_now: "ln_online s \<Longrightarrow> on_self_drain (ln_agent s) = (ag, out) \<Longrightarrow>
    link_step env w s (s\<lparr>ln_agent := ag, ln_up := ln_up s @ out\<rparr>)"
| Assigned: "ln_online s \<Longrightarrow> on_inbound (AssignJob job) (ln_agent s) = (ag, out) \<Longrightarrow>
    link_step env w s (s\<lparr>ln_agent := ag, ln_up := ln_up s @ out,
      ln_floor := (if ag = ln_agent s then ln_floor s else next_floor (ln_agent s))\<rparr>)"
| Cancelled: "ln_online s \<Longrightarrow> on_inbound (Cancel j) (ln_agent s) = (ag, out) \<Longrightarrow>
    link_step env w s (s\<lparr>ln_agent := ag, ln_up := ln_up s @ out,
      ln_made := ln_made s @ [last (ag_queue ag)]\<rparr>)"
| Drained: "ln_online s \<Longrightarrow> on_inbound (Drain t) (ln_agent s) = (ag, out) \<Longrightarrow>
    link_step env w s (s\<lparr>ln_agent := ag, ln_up := ln_up s @ out\<rparr>)"
| Deliver: "ln_up s = e # up \<Longrightarrow>
    link_step env w s (s\<lparr>ln_up := up, ln_hub := fst (on_message env now w e (ln_hub s)),
      ln_applied := (if event_seq e = None \<or> is_replay w e (ln_hub s) then ln_applied s
                     else ln_applied s @ [e])\<rparr>)"
| Other: "hub_step env (ln_hub s) h \<Longrightarrow> hb_high_water h w = hb_high_water (ln_hub s) w \<Longrightarrow>
    link_step env w s (s\<lparr>ln_hub := h\<rparr>)"
| Cut: "link_step env w s (s\<lparr>ln_online := False, ln_up := [], ln_agent := on_disconnect (ln_agent s)\<rparr>)"
| Connect: "\<not> ln_online s \<Longrightarrow>
    on_hello_answer (Some (HelloAck w cls default_telemetry None (resume_high_water w (ln_hub s)))) (ln_agent s) =
      (ag, Session_opens resumed) \<Longrightarrow>
    session_open resumed ag = (ag', replayed) \<Longrightarrow>
    link_step env w s (s\<lparr>ln_online := True, ln_agent := ag', ln_up := replayed\<rparr>)"

text \<open>The process starts with no connection; the hub remembers no mark for the worker.\<close>

inductive link_reach :: "hub_env \<Rightarrow> worker_id \<Rightarrow> link_system \<Rightarrow> bool" for env w where
  Start: "hb_high_water h w = None \<Longrightarrow>
    link_reach env w \<lparr>ln_agent = agent_start args, ln_hub = h, ln_up = [], ln_online = False,
                      ln_made = [], ln_applied = [], ln_floor = 0\<rparr>"
| Next: "link_reach env w s \<Longrightarrow> link_step env w s s' \<Longrightarrow> link_reach env w s'"

inductive_cases link_stepE: "link_step env w s s'"

subsection \<open>The invariant\<close>

text \<open>The numbers of the streamed events of a list.\<close>

definition seqs :: "worker_to_cp list \<Rightarrow> nat list" where
  "seqs ms = List.map_filter event_seq ms"

lemma seqs_simps [simp]:
  "seqs [] = []" "seqs (m # ms) = (case event_seq m of None \<Rightarrow> seqs ms | Some n \<Rightarrow> n # seqs ms)"
  "seqs (xs @ ys) = seqs xs @ seqs ys"
  by (simp_all add: seqs_def map_filter_def split: option.splits)

lemma seqs_out_of_band: "out_of_band ms \<Longrightarrow> seqs ms = []"
  by (induction ms) (auto simp: out_of_band_def)

lemma outbox_seq_event_seq: "event_seq e = Some n \<Longrightarrow> outbox_seq e = n"
  by (cases e rule: event_seq.cases) auto

text \<open>
  The agent's part: the events carry consecutive numbers from 0, and the outbox followed by the
  queue is the last stretch of them. Then the mark's part: an event from the floor on that is
  beyond the mark is still in that stretch, and while online the outbox's events beyond the mark
  are the last ones in flight beyond it. The hub has dispatched, in order, events up to the mark,
  and every one from the floor on.
\<close>

definition held :: "agent \<Rightarrow> worker_to_cp list" where
  "held ag = map snd (ag_outbox ag) @ ag_queue ag"

definition agent_ok :: "agent \<Rightarrow> worker_to_cp list \<Rightarrow> bool" where
  "agent_ok ag made \<longleftrightarrow>
     map event_seq made = map Some [0..<ag_seq ag] \<and>
     map (event_seq \<circ> snd) (ag_outbox ag) = map (Some \<circ> fst) (ag_outbox ag) \<and>
     set (held ag) \<subseteq> set made \<and> (\<exists>k\<le>ag_seq ag. map event_seq (held ag) = map Some [k..<ag_seq ag])"

definition flight_ok :: "nat option \<Rightarrow> agent \<Rightarrow> worker_to_cp list \<Rightarrow> worker_to_cp list \<Rightarrow> bool \<Rightarrow> bool" where
  "flight_ok hw ag made up online \<longleftrightarrow>
     (\<forall>e\<in>set up. event_seq e \<noteq> None \<longrightarrow> e \<in> set made) \<and>
     sorted_wrt (<) (filter (beyond hw) (seqs up)) \<and>
     (\<forall>m\<in>set (seqs (ag_queue ag)). beyond hw m \<and> (\<forall>n\<in>set (seqs up). n < m)) \<and>
     (if online then \<exists>pre. filter (beyond hw) (seqs up) = pre @ filter (beyond hw) (map fst (ag_outbox ag))
      else up = [])"

definition applied_ok :: "nat option \<Rightarrow> agent \<Rightarrow> worker_to_cp list \<Rightarrow> worker_to_cp list \<Rightarrow> nat \<Rightarrow> bool" where
  "applied_ok hw ag made applied flr \<longleftrightarrow>
     set applied \<subseteq> set made \<and> map event_seq applied = map Some (seqs applied) \<and>
     sorted_wrt (<) (seqs applied) \<and>
     hw = (if applied = [] then None else Some (last (seqs applied))) \<and>
     (\<forall>n. flr \<le> n \<and> n < ag_seq ag \<longrightarrow>
        (if beyond hw n then Some n \<in> event_seq ` set (held ag) else n \<in> set (seqs applied)))"

definition link_ok :: "worker_id \<Rightarrow> link_system \<Rightarrow> bool" where
  "link_ok w s \<longleftrightarrow>
     agent_ok (ln_agent s) (ln_made s) \<and>
     flight_ok (mark w s) (ln_agent s) (ln_made s) (ln_up s) (ln_online s) \<and>
     applied_ok (mark w s) (ln_agent s) (ln_made s) (ln_applied s) (ln_floor s)"

lemma agent_okD:
  assumes "agent_ok ag made" "e \<in> set made"
  shows "\<exists>n<ag_seq ag. event_seq e = Some n"
proof -
  have "event_seq e \<in> set (map event_seq made)" using assms(2) by simp
  also have "\<dots> = Some ` {0..<ag_seq ag}" using assms(1) by (simp add: agent_ok_def)
  finally show ?thesis by auto
qed

lemma seqs_eq: "map event_seq ms = map Some ns \<Longrightarrow> seqs ms = ns"
  by (induction ms arbitrary: ns) auto

lemma agent_ok_held:
  assumes "agent_ok ag made"
  obtains k where "k \<le> ag_seq ag" "seqs (held ag) = [k..<ag_seq ag]"
    "map fst (ag_outbox ag) @ seqs (ag_queue ag) = [k..<ag_seq ag]"
    "seqs (map snd (ag_outbox ag)) = map fst (ag_outbox ag)"
    "map event_seq (ag_queue ag) = map Some (seqs (ag_queue ag))"
proof -
  obtain k where k: "k \<le> ag_seq ag" "map event_seq (held ag) = map Some [k..<ag_seq ag]"
    using assms by (auto simp: agent_ok_def)
  have ob: "seqs (map snd (ag_outbox ag)) = map fst (ag_outbox ag)"
    using assms by (intro seqs_eq) (simp add: agent_ok_def comp_def)
  have "map event_seq (ag_queue ag) = map Some (drop (length (ag_outbox ag)) [k..<ag_seq ag])"
    using k(2) by (metis (no_types, lifting) append_eq_conv_conj drop_map held_def length_map map_append)
  then have "map event_seq (ag_queue ag) = map Some (seqs (ag_queue ag))" using seqs_eq by metis
  with that [of k] k ob seqs_eq [OF k(2)] show thesis by (simp add: held_def)
qed

subsection \<open>Every step keeps it\<close>

lemma emit_simps [simp]:
  "ag_outbox (emit mk ag) = ag_outbox ag" "ag_seq (emit mk ag) = Suc (ag_seq ag)"
  "ag_queue (emit mk ag) = ag_queue ag @ [mk (ag_seq ag)]"
  by (simp_all add: emit_def seq_next_def)

lemma held_emit [simp]: "held (emit mk ag) = held ag @ [mk (ag_seq ag)]"
  by (simp add: held_def)

lemma agent_ok_emit:
  assumes "agent_ok ag made" "event_seq (mk (ag_seq ag)) = Some (ag_seq ag)"
  shows "agent_ok (emit mk ag) (made @ [mk (ag_seq ag)])"
proof -
  from assms(1) obtain k where "k \<le> ag_seq ag" "map event_seq (held ag) = map Some [k..<ag_seq ag]"
    by (auto simp: agent_ok_def)
  then show ?thesis
    using assms by (auto simp: agent_ok_def intro!: exI [of _ k])
qed

lemma flight_ok_emit:
  assumes ok: "agent_ok ag made" and f: "flight_ok hw ag made up online"
    and mk: "event_seq (mk (ag_seq ag)) = Some (ag_seq ag)"
    and hw: "\<And>h. hw = Some h \<Longrightarrow> h < ag_seq ag"
  shows "flight_ok hw (emit mk ag) (made @ [mk (ag_seq ag)]) up online"
proof -
  have "n < ag_seq ag" if n: "n \<in> set (seqs up)" for n
  proof -
    from n obtain e where "e \<in> set up" "event_seq e = Some n"
      by (auto simp: seqs_def map_filter_def split: option.splits)
    then show ?thesis using f agent_okD [OF ok, of e] by (auto simp: flight_ok_def)
  qed
  then show ?thesis
    using f mk hw by (auto simp: flight_ok_def beyond_def split: option.splits)
qed

lemma applied_ok_emit:
  assumes "applied_ok hw ag made applied flr" and "event_seq (mk (ag_seq ag)) = Some (ag_seq ag)"
    and "\<And>h. hw = Some h \<Longrightarrow> h < ag_seq ag"
  shows "applied_ok hw (emit mk ag) (made @ [mk (ag_seq ag)]) applied flr"
  using assms by (auto simp: applied_ok_def beyond_def less_Suc_eq split: option.splits if_splits)

lemma applied_mark:
  assumes "agent_ok ag made" "applied_ok hw ag made applied flr" "hw = Some h"
  shows "h < ag_seq ag"
proof -
  have "applied \<noteq> []" "h = last (seqs applied)" using assms(2,3) by (auto simp: applied_ok_def split: if_splits)
  moreover have "map event_seq applied = map Some (seqs applied)" using assms(2) by (simp add: applied_ok_def)
  ultimately have "Some h \<in> event_seq ` set applied"
    by (metis Nil_is_map_conv image_eqI last_in_set list.set_map)
  then obtain e where "e \<in> set made" "event_seq e = Some h"
    using assms(2) by (auto simp: applied_ok_def)
  with agent_okD [OF assms(1)] show ?thesis by force
qed

lemma in_seqs: "n \<in> set (seqs ms) \<longleftrightarrow> Some n \<in> event_seq ` set ms"
  by (induction ms) (auto split: option.splits)

lemma ok_cong:
  assumes "ag_outbox ag' = ag_outbox ag" "ag_queue ag' = ag_queue ag" "ag_seq ag' = ag_seq ag"
  shows "agent_ok ag' made = agent_ok ag made" "flight_ok hw ag' made up on = flight_ok hw ag made up on"
    "applied_ok hw ag' made ap f = applied_ok hw ag made ap f"
  using assms by (simp_all add: agent_ok_def flight_ok_def applied_ok_def held_def)

lemma applied_ok_held:
  "held ag' = held ag \<Longrightarrow> ag_seq ag' = ag_seq ag \<Longrightarrow>
   applied_ok hw ag' made ap f = applied_ok hw ag made ap f"
  by (simp add: applied_ok_def)

lemma flight_ok_signal: "out_of_band ms \<Longrightarrow> flight_ok hw ag made up True \<Longrightarrow> flight_ok hw ag made (up @ ms) True"
  by (auto simp: flight_ok_def seqs_out_of_band out_of_band_def)

text \<open>An event leaves the queue: what the agent holds stays the same, and the event goes out last.\<close>

lemma job_event_ok:
  assumes a: "agent_ok ag made" and f: "flight_ok hw ag made up True" and p: "applied_ok hw ag made ap flr"
    and e: "on_job_event ag = (ag', out)"
  shows "agent_ok ag' made" "flight_ok hw ag' made (up @ out) True" "applied_ok hw ag' made ap flr"
proof -
  have "agent_ok ag' made \<and> flight_ok hw ag' made (up @ out) True \<and> applied_ok hw ag' made ap flr"
  proof (cases "ag_queue ag")
    case Nil
    with e a f p show ?thesis by (auto simp: on_job_event_def)
  next
    case (Cons m q)
    with e have ag': "ag' = ag\<lparr>ag_queue := q, ag_outbox := ag_outbox ag @ [(outbox_seq m, m)]\<rparr>" and out: "out = [m]"
      by (auto simp: on_job_event_def)
    have held: "held ag' = held ag" by (simp add: ag' held_def Cons)
    obtain k where k: "map fst (ag_outbox ag) @ seqs (ag_queue ag) = [k..<ag_seq ag]"
      and evs: "map event_seq (ag_queue ag) = map Some (seqs (ag_queue ag))"
      using agent_ok_held [OF a] by blast
    obtain n where n: "event_seq m = Some n" using evs Cons by (auto split: option.splits)
    then have om: "outbox_seq m = n" by (rule outbox_seq_event_seq)
    have sorted: "\<forall>x\<in>set (seqs q). n < x"
    proof -
      have "sorted_wrt (<) (map fst (ag_outbox ag) @ n # seqs q)" using k Cons n sorted_wrt_upt [of k "ag_seq ag"] by simp
      then show ?thesis by (simp add: sorted_wrt_append)
    qed
    have "agent_ok ag' made" using a n om by (auto simp: agent_ok_def held [unfolded ag'] ag')
    moreover have "applied_ok hw ag' made ap flr" using p applied_ok_held [OF held] by (simp add: ag')
    moreover have "flight_ok hw ag' made (up @ out) True"
    proof -
      obtain pre where pre: "filter (beyond hw) (seqs up) = pre @ filter (beyond hw) (map fst (ag_outbox ag))"
        using f by (auto simp: flight_ok_def)
      have bn: "beyond hw n" "\<forall>x\<in>set (seqs up). x < n" using f Cons n by (auto simp: flight_ok_def)
      have "m \<in> set made" using a Cons by (auto simp: agent_ok_def held_def)
      moreover have "seqs (up @ out) = seqs up @ [n]" by (simp add: out n)
      moreover have "sorted_wrt (<) (filter (beyond hw) (seqs up) @ [n])"
        using f bn by (auto simp: flight_ok_def sorted_wrt_append)
      moreover have "filter (beyond hw) (seqs up @ [n]) = pre @ filter (beyond hw) (map fst (ag_outbox ag'))"
        using pre bn by (simp add: ag' om)
      ultimately show ?thesis
        using f Cons n bn sorted unfolding flight_ok_def by (auto simp: ag' out)
    qed
    ultimately show ?thesis by simp
  qed
  then show "agent_ok ag' made" "flight_ok hw ag' made (up @ out) True" "applied_ok hw ag' made ap flr" by simp_all
qed

text \<open>An accepted assignment clears the outbox; the floor moves up to what is still queued.\<close>

lemma clear_ok:
  assumes a: "agent_ok ag made" and f: "flight_ok hw ag made up on" and p: "applied_ok hw ag made ap flr"
    and ag': "ag' = ag\<lparr>ag_outbox := [], ag_current := c\<rparr>"
  shows "agent_ok ag' made" "flight_ok hw ag' made up on" "applied_ok hw ag' made ap (next_floor ag)"
proof -
  obtain k where k: "map fst (ag_outbox ag) @ seqs (ag_queue ag) = [k..<ag_seq ag]" "k \<le> ag_seq ag"
    and evs: "map event_seq (ag_queue ag) = map Some (seqs (ag_queue ag))"
    using agent_ok_held [OF a] by blast
  let ?k = "k + length (ag_outbox ag)"
  have "seqs (ag_queue ag) = drop (length (ag_outbox ag)) [k..<ag_seq ag]"
    using k by (metis append_eq_conv_conj length_map)
  then have q: "seqs (ag_queue ag) = [?k..<ag_seq ag]" by simp
  have "length (ag_outbox ag) \<le> ag_seq ag - k"
    using arg_cong [OF k(1), of length] by simp
  then have le: "?k \<le> ag_seq ag" using k(2) by simp
  have nf: "next_floor ag = ?k"
  proof (cases "ag_queue ag")
    case Nil
    then have "[?k..<ag_seq ag] = []" using q by simp
    with Nil le show ?thesis by (auto simp: next_floor_def)
  next
    case (Cons m ms)
    then obtain n where "event_seq m = Some n" using evs by (auto split: option.splits)
    with Cons q outbox_seq_event_seq [OF this] show ?thesis
      by (simp add: next_floor_def upt_rec split: if_splits)
  qed
  show "agent_ok ag' made"
    using a evs q le by (auto simp: agent_ok_def ag' held_def)
  show "flight_ok hw ag' made up on" using f by (auto simp: flight_ok_def ag')
  have "Some n \<in> event_seq ` set (ag_queue ag) \<and> beyond hw n" if "?k \<le> n" "n < ag_seq ag" for n
  proof -
    have "n \<in> set (seqs (ag_queue ag))" using q that by simp
    then show ?thesis using f by (auto simp: flight_ok_def in_seqs)
  qed
  then show "applied_ok hw ag' made ap (next_floor ag)"
    using p by (auto simp: applied_ok_def ag' held_def nf)
qed

text \<open>A new session: the queue moves to the outbox, what the hub has is trimmed, the rest goes out.\<close>

lemma session_open_ok:
  assumes a: "agent_ok ag made" and f: "flight_ok hw ag made [] False" and p: "applied_ok hw ag made ap flr"
    and r: "resumed = (case hw of Some n \<Rightarrow> n | None \<Rightarrow> 0)" and o: "session_open resumed ag = (ag', out)"
  shows "agent_ok ag' made" "flight_ok hw ag' made out True" "applied_ok hw ag' made ap flr"
proof -
  obtain k where k: "map fst (ag_outbox ag) @ seqs (ag_queue ag) = [k..<ag_seq ag]" "k \<le> ag_seq ag"
    and ev1: "seqs (map snd (ag_outbox ag)) = map fst (ag_outbox ag)"
    and ev2: "map event_seq (ag_queue ag) = map Some (seqs (ag_queue ag))"
    using agent_ok_held [OF a] by blast
  define all where "all = ag_outbox ag @ map (\<lambda>e. (outbox_seq e, e)) (ag_queue ag)"
  define ob where "ob = trim_to_high_water resumed all"
  have ag': "ag' = ag\<lparr>ag_outbox := ob, ag_queue := [], ag_draining := False\<rparr>" and out: "out = map snd ob"
    using o by (auto simp: session_open_def Let_def ob_def all_def)
  have "map outbox_seq ms = seqs ms" if "map event_seq ms = map Some (seqs ms)" for ms
    using that by (induction ms) (auto simp: outbox_seq_event_seq split: option.splits)
  then have oq: "map (\<lambda>e. outbox_seq e) (ag_queue ag) = seqs (ag_queue ag)" using ev2 by simp
  then have fst_all: "map fst all = [k..<ag_seq ag]" using k by (simp add: all_def comp_def)
  have snd_all: "map snd all = held ag" by (simp add: all_def held_def comp_def)
  have ev_all: "map (event_seq \<circ> snd) all = map (Some \<circ> fst) all"
  proof -
    have "map (event_seq \<circ> snd) (ag_outbox ag) = map (Some \<circ> fst) (ag_outbox ag)" using a by (simp add: agent_ok_def)
    moreover have "map event_seq (ag_queue ag) = map Some (map outbox_seq (ag_queue ag))" using ev2 oq by simp
    ultimately show ?thesis by (simp add: all_def comp_def)
  qed
  have keep: "ob = (if resumed > 0 then filter (\<lambda>x. resumed < fst x) all else all)"
    by (simp add: ob_def trim_to_high_water_def SEQ_ORIGIN_def split_def)
  have filt: "filter (\<lambda>n. m < n) [k..<j] = [max k (Suc m)..<j]" for m j
    by (induction j) (auto simp: max_def)
  have ev_ob: "map (event_seq \<circ> snd) ob = map (Some \<circ> fst) ob"
    using ev_all by (auto simp: keep map_eq_conv)
  have fst_ob: "map fst ob = (if resumed > 0 then [max k (Suc resumed)..<ag_seq ag] else [k..<ag_seq ag])"
    using fst_all filt by (simp add: keep filter_map [symmetric, unfolded comp_def] comp_def)
  have evs_ob: "map event_seq (map snd ob) = map Some (map fst ob)" using ev_ob by (simp only: map_map)
  have seqs_ob: "seqs (map snd ob) = map fst ob" using ev_ob by (intro seqs_eq) (simp add: comp_def)
  have hw_lt: "n < ag_seq ag" if "hw = Some n" for n by (rule applied_mark [OF a p that])
  have "\<exists>j\<le>ag_seq ag. map event_seq (map snd ob) = map Some [j..<ag_seq ag]"
  proof (cases "resumed > 0")
    case True
    then have "Suc resumed \<le> ag_seq ag" using r hw_lt by (auto split: option.splits simp: Suc_le_eq)
    then show ?thesis unfolding evs_ob using fst_ob True k(2)
      by (intro exI [of _ "max k (Suc resumed)"]) (simp del: map_map)
  next
    case False
    then show ?thesis unfolding evs_ob using fst_ob k(2) by (intro exI [of _ k]) (simp del: map_map)
  qed
  moreover have sub: "set (map snd ob) \<subseteq> set made"
  proof -
    have "set ob \<subseteq> set all" by (auto simp: keep)
    moreover have "snd ` set all = set (held ag)" unfolding snd_all [symmetric] by simp
    ultimately show ?thesis using a by (auto simp: agent_ok_def)
  qed
  ultimately show "agent_ok ag' made"
    using a ev_ob unfolding agent_ok_def held_def ag' by (simp del: map_map)
  show "flight_ok hw ag' made out True"
    using sub seqs_ob fst_ob by (auto simp: flight_ok_def ag' out sorted_wrt_filter)
  have "Some n \<in> event_seq ` set (held ag')"
    if h: "Some n \<in> event_seq ` set (held ag)" and b: "beyond hw n" for n
  proof -
    have "n \<in> set (map fst all)" using h snd_all ev_all by (metis (no_types) fst_all in_seqs k(1) held_def ev1 seqs_simps(3))
    moreover have "resumed > 0 \<Longrightarrow> resumed < n" using b r by (auto simp: beyond_def split: option.splits)
    ultimately have "n \<in> set (map fst ob)" by (auto simp: keep)
    then have "Some n \<in> event_seq ` set (map snd ob)" unfolding seqs_ob [symmetric] in_seqs .
    then show ?thesis by (simp add: held_def ag')
  qed
  then show "applied_ok hw ag' made ap flr" using p by (auto simp: applied_ok_def ag')
qed

lemma sorted_le_last: "sorted_wrt (<) xs \<Longrightarrow> x \<in> set xs \<Longrightarrow> x \<le> (last xs :: nat)"
  by (induction xs rule: rev_induct) (auto simp: sorted_wrt_append)

lemma flight_online: "flight_ok hw ag made (e # up) on \<Longrightarrow> on"
  by (auto simp: flight_ok_def split: if_splits)

lemma deliver_known:
  "flight_ok hw ag made (e # up) on \<Longrightarrow>
   event_seq e = None \<or> (\<exists>n. event_seq e = Some n \<and> \<not> beyond hw n) \<Longrightarrow> flight_ok hw ag made up on"
  using flight_online [of hw ag made e up on] by (auto simp: flight_ok_def)

text \<open>A new event reaches the hub: the mark moves to it, and it is the next one after all before.\<close>

lemma deliver_new:
  assumes a: "agent_ok ag made" and f: "flight_ok hw ag made (e # up) on" and p: "applied_ok hw ag made ap flr"
    and n: "event_seq e = Some n" and b: "beyond hw n"
  shows "flight_ok (Some n) ag made up on" "applied_ok (Some n) ag made (ap @ [e]) flr"
proof -
  have on: on by (rule flight_online [OF f])
  let ?F = "filter (beyond hw) (seqs up)" and ?O = "filter (beyond hw) (map fst (ag_outbox ag))"
  obtain pre where pre: "n # ?F = pre @ ?O"
    using f n b on by (auto simp: flight_ok_def)
  have gt: "\<forall>x\<in>set ?F. n < x" "sorted_wrt (<) ?F" using f n b by (auto simp: flight_ok_def)
  have up: "beyond (Some n) x \<Longrightarrow> beyond hw x" for x using b by (auto simp: beyond_def split: option.splits)
  have narrow: "filter (beyond (Some n)) xs = filter (\<lambda>x. n < x) (filter (beyond hw) xs)" for xs
    using up by (induction xs) (auto simp: beyond_def)
  have F: "filter (\<lambda>x. n < x) ?F = ?F" using gt(1) by (intro filter_True) auto
  have "?F = filter (\<lambda>x. n < x) pre @ filter (\<lambda>x. n < x) ?O"
    using arg_cong [OF pre, of "filter (\<lambda>x. n < x)"] F by simp
  then have suffix: "\<exists>pre. filter (beyond (Some n)) (seqs up) = pre @ filter (beyond (Some n)) (map fst (ag_outbox ag))"
    using F unfolding narrow by metis
  have q: "n < m" if "m \<in> set (seqs (ag_queue ag))" for m using f n that by (auto simp: flight_ok_def)
  show "flight_ok (Some n) ag made up on"
  proof -
    have "\<forall>e\<in>set up. event_seq e \<noteq> None \<longrightarrow> e \<in> set made" using f by (simp add: flight_ok_def)
    moreover have "sorted_wrt (<) (filter (beyond (Some n)) (seqs up))" unfolding narrow F by (rule gt(2))
    moreover have "\<forall>m\<in>set (seqs (ag_queue ag)). beyond (Some n) m \<and> (\<forall>x\<in>set (seqs up). x < m)"
      using f q by (simp add: flight_ok_def n beyond_def)
    ultimately show ?thesis using suffix on by (simp add: flight_ok_def)
  qed
  have below: "x < n" if "x \<in> set (seqs ap)" for x
  proof -
    have "hw = Some (last (seqs ap))" "sorted_wrt (<) (seqs ap)"
      using p that by (auto simp: applied_ok_def split: if_splits)
    with b sorted_le_last [OF _ that] show ?thesis by (fastforce simp: beyond_def)
  qed
  have only: "m = n" if "beyond hw m" "\<not> n < m" "Some m \<in> event_seq ` set (held ag)" for m
  proof -
    have "seqs (held ag) = map fst (ag_outbox ag) @ seqs (ag_queue ag)" using agent_ok_held [OF a] by metis
    then have "m \<in> set (map fst (ag_outbox ag)) \<union> set (seqs (ag_queue ag))" using that(3) by (metis in_seqs set_append)
    then have "m \<in> set ?O" using q that by fastforce
    then have "m \<in> set (n # ?F)" unfolding pre by simp
    with gt that(2) show "m = n" by auto
  qed
  have complete: "if beyond (Some n) m then Some m \<in> event_seq ` set (held ag) else m \<in> set (seqs (ap @ [e]))"
    if m: "flr \<le> m" "m < ag_seq ag" for m
  proof -
    have old: "if beyond hw m then Some m \<in> event_seq ` set (held ag) else m \<in> set (seqs ap)"
      using p m unfolding applied_ok_def by blast
    show ?thesis
    proof (cases "n < m")
      case True
      then have "beyond (Some n) m" by (simp add: beyond_def)
      with old up [OF this] show ?thesis by simp
    next
      case False
      then have "\<not> beyond (Some n) m" by (simp add: beyond_def)
      with old only [OF _ False] n show ?thesis by (cases "beyond hw m") auto
    qed
  qed
  have "e \<in> set made" using f n by (simp add: flight_ok_def)
  moreover have "set ap \<subseteq> set made" "map event_seq ap = map Some (seqs ap)" "sorted_wrt (<) (seqs ap)"
    using p unfolding applied_ok_def by blast+
  ultimately show "applied_ok (Some n) ag made (ap @ [e]) flr"
    using below n unfolding applied_ok_def
    by (intro conjI allI impI complete) (auto simp: sorted_wrt_append)
qed

lemma on_inbound_cases:
  assumes "on_inbound (AssignJob job) ag = (ag', out)"
  shows "out = [] \<and> (ag' = ag \<or> ag' = ag\<lparr>ag_outbox := [], ag_current := Some (jb_id job, False)\<rparr>)"
  using assms by (auto simp: on_inbound_def split: if_splits option.splits prod.splits)

lemma on_inbound_Cancel:
  assumes "on_inbound (Cancel j) ag = (ag', out)"
  shows "out = [] \<and> (\<exists>c mk. numbered mk \<and> ag' = emit mk (ag\<lparr>ag_current := c\<rparr>))"
proof (cases "ag_current ag")
  case None
  then have "ag' = emit (\<lambda>n. JobKilled n j Cancel_reason) (ag\<lparr>ag_current := None\<rparr>)" "out = []"
    using assms None by (auto simp: on_inbound_def emit_def seq_next_def)
  then show ?thesis by (intro conjI exI) (auto simp: numbered_def)
next
  case (Some rf)
  then have "ag' = emit (\<lambda>n. JobKilled n (fst rf) Cancel_reason) (ag\<lparr>ag_current := None\<rparr>)" "out = []"
    using assms by (auto simp: on_inbound_def split: prod.splits)
  then show ?thesis by (intro conjI exI) (auto simp: numbered_def)
qed

lemma link_ok_emit:
  assumes "link_ok w s" "numbered mk" "ag_outbox ag = ag_outbox (ln_agent s)" "ag_queue ag = ag_queue (ln_agent s)"
    "ag_seq ag = ag_seq (ln_agent s)"
  shows "link_ok w (s\<lparr>ln_agent := emit mk ag, ln_made := ln_made s @ [mk (ag_seq ag)]\<rparr>)"
proof -
  note same = ok_cong [OF assms(3-5)]
  have ok: "agent_ok ag (ln_made s)" "flight_ok (mark w s) ag (ln_made s) (ln_up s) (ln_online s)"
    "applied_ok (mark w s) ag (ln_made s) (ln_applied s) (ln_floor s)"
    using assms(1) by (simp_all add: link_ok_def same)
  have mk: "event_seq (mk (ag_seq ag)) = Some (ag_seq ag)" using assms(2) by (simp add: numbered_def)
  show ?thesis
    using agent_ok_emit [of ag _ mk, OF ok(1) mk]
      flight_ok_emit [of ag _ _ _ _ mk, OF ok(1,2) mk applied_mark [OF ok(1,3)]]
      applied_ok_emit [of _ ag _ _ _ mk, OF ok(3) mk applied_mark [OF ok(1,3)]]
    by (simp add: link_ok_def mark_def)
qed

lemma link_ok_step:
  assumes ok: "link_ok w s" and st: "link_step env w s s'"
  shows "link_ok w s'"
proof -
  have parts: "agent_ok (ln_agent s) (ln_made s)"
    "flight_ok (mark w s) (ln_agent s) (ln_made s) (ln_up s) (ln_online s)"
    "applied_ok (mark w s) (ln_agent s) (ln_made s) (ln_applied s) (ln_floor s)"
    using ok by (simp_all add: link_ok_def)
  from st show ?thesis
  proof (cases rule: link_step.cases)
    case (Emit mk)
    then show ?thesis using link_ok_emit [OF ok Emit(2), of "ln_agent s"] by simp
  next
    case (Send ag out)
    then show ?thesis
      using job_event_ok [OF parts(1) _ parts(3) Send(3)] parts(2) by (simp add: link_ok_def mark_def)
  next
    case (Signal ms)
    then show ?thesis
      using flight_ok_signal [OF Signal(3)] parts by (simp add: link_ok_def mark_def)
  next
    case (Finished j)
    have "link_ok w (s\<lparr>ln_agent := (ln_agent s)\<lparr>ag_current := Some (j, True)\<rparr>\<rparr>)"
      using parts ok_cong [of "(ln_agent s)\<lparr>ag_current := Some (j, True)\<rparr>" "ln_agent s"]
      by (simp add: link_ok_def mark_def)
    with Finished show ?thesis by simp
  next
    case (Drain_now ag out)
    then have a: "ag_outbox ag = ag_outbox (ln_agent s)" "ag_queue ag = ag_queue (ln_agent s)"
      "ag_seq ag = ag_seq (ln_agent s)" "out_of_band out"
      by (auto simp: on_self_drain_def out_of_band_def split: if_splits)
    show ?thesis
      using parts Drain_now(1,2) ok_cong [OF a(1-3)] flight_ok_signal [OF a(4)] by (simp add: link_ok_def mark_def)
  next
    case (Assigned job ag out)
    from on_inbound_cases [OF Assigned(3)] show ?thesis
      using parts Assigned(1,2) clear_ok [OF parts] by (auto simp: link_ok_def mark_def)
  next
    case (Cancelled j ag out)
    from on_inbound_Cancel [OF Cancelled(3)] obtain c mk where
      "out = []" "numbered mk" "ag = emit mk ((ln_agent s)\<lparr>ag_current := c\<rparr>)" by blast
    with link_ok_emit [OF ok \<open>numbered mk\<close>, of "(ln_agent s)\<lparr>ag_current := c\<rparr>"] Cancelled(1)
    show ?thesis by (simp add: link_ok_def mark_def)
  next
    case (Drained t ag out)
    then have a: "ag_outbox ag = ag_outbox (ln_agent s)" "ag_queue ag = ag_queue (ln_agent s)"
      "ag_seq ag = ag_seq (ln_agent s)" "out_of_band out"
      by (auto simp: on_inbound_def out_of_band_def)
    show ?thesis
      using parts Drained(1,2) ok_cong [OF a(1-3)] flight_ok_signal [OF a(4)] by (simp add: link_ok_def mark_def)
  next
    case (Deliver e up now)
    let ?h = "fst (on_message env now w e (ln_hub s))"
    have f: "flight_ok (mark w s) (ln_agent s) (ln_made s) (e # up) (ln_online s)" using parts(2) Deliver(2) by simp
    show ?thesis
    proof (cases "event_seq e = None \<or> is_replay w e (ln_hub s)")
      case True
      then have "event_seq e = None \<or> (\<exists>n. event_seq e = Some n \<and> \<not> beyond (mark w s) n)"
        by (auto simp: is_replay_def beyond_def mark_def split: option.splits)
      from deliver_known [OF f this] show ?thesis
        using True Deliver(1) parts by (simp add: link_ok_def mark_def high_water_on_message)
    next
      case False
      then obtain n where n: "event_seq e = Some n" by auto
      with False have b: "beyond (mark w s) n"
        by (auto simp: is_replay_def beyond_def mark_def split: option.splits)
      from deliver_new [OF parts(1) f parts(3) n b] show ?thesis
        using False n Deliver(1) parts(1) by (simp add: link_ok_def mark_def high_water_on_message)
    qed
  next
    case (Other h)
    then show ?thesis using parts by (simp add: link_ok_def mark_def)
  next
    case Cut
    have a: "ag_outbox (on_disconnect ag) = ag_outbox ag" "ag_queue (on_disconnect ag) = ag_queue ag"
      "ag_seq (on_disconnect ag) = ag_seq ag" for ag
      by (simp_all add: on_disconnect_def)
    have "flight_ok hw ag made [] False" if "flight_ok hw ag made up on" for hw ag made up on
      using that by (auto simp: flight_ok_def)
    then show ?thesis
      using parts Cut ok_cong [of "on_disconnect (ln_agent s)", OF a] by (simp add: link_ok_def mark_def)
  next
    case (Connect cls ag resumed ag' replayed)
    then have ag: "ag = (ln_agent s)\<lparr>ag_worker_id := Some w, ag_class := cls\<rparr>"
      and r: "resumed = (case mark w s of Some n \<Rightarrow> n | None \<Rightarrow> 0)"
      by (auto simp: on_hello_answer_def mark_def resume_high_water_def)
    have up: "ln_up s = []" using parts(2) Connect(2) by (simp add: flight_ok_def)
    have p': "agent_ok ag (ln_made s)" "flight_ok (mark w s) ag (ln_made s) [] False"
      "applied_ok (mark w s) ag (ln_made s) (ln_applied s) (ln_floor s)"
      using parts Connect(2) up ok_cong [of ag "ln_agent s"] by (simp_all add: ag)
    show ?thesis
      using session_open_ok [OF p' r Connect(4)] Connect(1) by (simp add: link_ok_def mark_def)
  qed
qed

lemma reach_link_ok: "link_reach env w s \<Longrightarrow> link_ok w s"
proof (induction rule: link_reach.induct)
  case (Start h args)
  then show ?case
    by (simp add: link_ok_def agent_ok_def flight_ok_def applied_ok_def mark_def agent_start_def held_def)
qed (rule link_ok_step)

end
