(* ===== verification/LinkLaws.thy ===== *)
theory LinkLaws
  imports Link RunLife "HOL-Library.Sublist"
begin

text \<open>
  What the replay protocol between worker and hub guarantees, and where it does not: delivery in
  order and at most once, completeness, progress; and the loss of events when a worker process
  starts again or when two of its tasks number their events and send them in the other order.
\<close>

subsection \<open>Lists of numbered events\<close>

lemma made_nth:
  assumes "map event_seq made = map Some [0..<k]" "e \<in> set made" "event_seq e = Some n"
  shows "made ! n = e \<and> n < k"
proof -
  have len: "length made = k" using arg_cong [OF assms(1), of length] by simp
  obtain i where i: "i < length made" "made ! i = e" using assms(2) by (auto simp: in_set_conv_nth)
  have "event_seq (made ! i) = Some i"
    using i len arg_cong [OF assms(1), of "\<lambda>l. l ! i"] by simp
  with i len assms(3) show ?thesis by simp
qed

text \<open>A sorted list of events of \<open>made\<close> is \<open>made\<close> filtered by its numbers.\<close>

lemma numbered_sublist:
  assumes m: "map event_seq made = map Some [0..<k]" and sub: "set xs \<subseteq> set made"
    and ev: "map event_seq xs = map Some (seqs xs)" and srt: "sorted_wrt (<) (seqs xs)"
  shows "xs = filter (\<lambda>e. outbox_seq e \<in> set (seqs xs)) made"
proof -
  have len: "length made = k" using arg_cong [OF m, of length] by simp
  have xs: "ys = map (\<lambda>n. made ! n) (seqs ys)" if "set ys \<subseteq> set made" "map event_seq ys = map Some (seqs ys)" for ys
    using that
  proof (induction ys)
    case (Cons y ys)
    then obtain n where n: "event_seq y = Some n" by (auto split: option.splits)
    with Cons made_nth [OF m, of y n] show ?case by simp
  qed simp
  have nth: "outbox_seq (made ! n) = n" if "n < k" for n
    using that len arg_cong [OF m, of "\<lambda>l. l ! n"] by (intro outbox_seq_event_seq) simp
  have lt: "n < k" if "n \<in> set (seqs xs)" for n
  proof -
    have "Some n \<in> event_seq ` set xs" using that by (simp only: in_seqs)
    then obtain e where "e \<in> set xs" "event_seq e = Some n" by auto
    with made_nth [OF m] sub show ?thesis by blast
  qed
  have "seqs xs = filter (\<lambda>n. n \<in> set (seqs xs)) [0..<k]"
    using srt lt by (intro sorted_distinct_set_unique)
      (auto simp: strict_sorted_iff sorted_filter [where f = id, simplified])
  then have "xs = map (\<lambda>n. made ! n) (filter (\<lambda>n. n \<in> set (seqs xs)) [0..<k])"
    using xs [OF sub ev] by simp
  also have "\<dots> = map (\<lambda>n. made ! n) (filter (\<lambda>n. outbox_seq (made ! n) \<in> set (seqs xs)) [0..<k])"
    using nth by (intro arg_cong [where f = "map _"] filter_cong) auto
  also have "\<dots> = filter (\<lambda>e. outbox_seq e \<in> set (seqs xs)) made"
  proof -
    have "made = map (\<lambda>n. made ! n) [0..<k]" unfolding len [symmetric] by (rule map_nth [symmetric])
    then show ?thesis by (metis (mono_tags, lifting) comp_apply filter_cong filter_map)
  qed
  finally show ?thesis .
qed

lemma link_made: "link_ok w s \<Longrightarrow> map event_seq (ln_made s) = map Some [0..<ag_seq (ln_agent s)]"
  by (simp add: link_ok_def agent_ok_def)

lemma link_applied:
  assumes "link_ok w s"
  shows "ln_applied s = filter (\<lambda>e. outbox_seq e \<in> set (seqs (ln_applied s))) (ln_made s)"
  using assms by (intro numbered_sublist [OF link_made [OF assms]]) (auto simp: link_ok_def applied_ok_def)

lemma seqs_outbox: "map event_seq xs = map Some (seqs xs) \<Longrightarrow> n \<in> set (seqs xs) \<longleftrightarrow> (\<exists>e\<in>set xs. outbox_seq e = n)"
proof -
  assume "map event_seq xs = map Some (seqs xs)"
  then have "\<forall>e\<in>set xs. event_seq e = Some (outbox_seq e)"
    by (metis (no_types, lifting) imageE list.set_map outbox_seq_event_seq image_eqI)
  then show ?thesis unfolding in_seqs by force
qed

lemma link_complete:
  assumes "link_ok w s"
  shows "filter (\<lambda>e. ln_floor s \<le> outbox_seq e) (ln_applied s) =
    filter (\<lambda>e. ln_floor s \<le> outbox_seq e \<and> \<not> beyond (mark w s) (outbox_seq e)) (ln_made s)"
proof -
  have ap: "applied_ok (mark w s) (ln_agent s) (ln_made s) (ln_applied s) (ln_floor s)"
    using assms by (simp add: link_ok_def)
  have below: "\<not> beyond (mark w s) n" if "n \<in> set (seqs (ln_applied s))" for n
    using ap that sorted_le_last [OF _ that] by (auto simp: applied_ok_def beyond_def split: if_splits)
  have num: "outbox_seq e < ag_seq (ln_agent s)" if "e \<in> set (ln_made s)" for e
    using agent_okD [of "ln_agent s" "ln_made s" e] that assms outbox_seq_event_seq by (auto simp: link_ok_def)
  have "outbox_seq e \<in> set (seqs (ln_applied s)) \<longleftrightarrow> \<not> beyond (mark w s) (outbox_seq e)"
    if "e \<in> set (ln_made s)" "ln_floor s \<le> outbox_seq e" for e
    using ap below num [OF that(1)] that(2) unfolding applied_ok_def by meson
  then show ?thesis
    by (subst link_applied [OF assms]) (auto simp: filter_filter intro!: filter_cong)
qed

lemma link_quiescent:
  assumes ok: "link_ok w s" and q: "ln_online s" "ag_queue (ln_agent s) = []" "ln_up s = []"
  shows "filter (\<lambda>e. ln_floor s \<le> outbox_seq e) (ln_applied s) = filter (\<lambda>e. ln_floor s \<le> outbox_seq e) (ln_made s)"
proof -
  have "\<not> beyond (mark w s) (outbox_seq e)" if e: "e \<in> set (ln_made s)" "ln_floor s \<le> outbox_seq e" for e
  proof
    assume b: "beyond (mark w s) (outbox_seq e)"
    have a: "agent_ok (ln_agent s) (ln_made s)" using ok by (simp add: link_ok_def)
    obtain n where n: "event_seq e = Some n" "n < ag_seq (ln_agent s)" using agent_okD [OF a e(1)] by blast
    then have en: "outbox_seq e = n" by (simp add: outbox_seq_event_seq)
    have "Some n \<in> event_seq ` set (held (ln_agent s))"
      using ok e(2) b n en unfolding link_ok_def applied_ok_def by metis
    then have "n \<in> set (seqs (held (ln_agent s)))" by (simp only: in_seqs)
    moreover have "seqs (held (ln_agent s)) = map fst (ag_outbox (ln_agent s)) @ seqs (ag_queue (ln_agent s))"
      using agent_ok_held [OF a] by metis
    ultimately have "n \<in> set (filter (beyond (mark w s)) (map fst (ag_outbox (ln_agent s))))" using q b en by simp
    moreover have "filter (beyond (mark w s)) (map fst (ag_outbox (ln_agent s))) = []"
      using ok q by (simp add: link_ok_def flight_ok_def)
    ultimately show False by (metis list.set(1) empty_iff)
  qed
  then show ?thesis unfolding link_complete [OF ok] by (intro filter_cong) auto
qed

lemma reach_steps: "(link_step env w)\<^sup>*\<^sup>* s s' \<Longrightarrow> link_reach env w s \<Longrightarrow> link_reach env w s'"
  by (induction rule: rtranclp_induct) (auto intro: link_reach.Next)

subsection \<open>Delivery\<close>


text \<open>The hub's other steps are exactly those that keep the worker's mark: every step of the hub that
  is not a message of the worker may interleave.\<close>

lemma other_step: "hub_step env (ln_hub s) h \<Longrightarrow>
  link_step env w s (s\<lparr>ln_hub := h\<rparr>) \<or> (\<exists>now msg. h = fst (on_message env now w msg (ln_hub s)))"
  using hub_step_high_water [of env "ln_hub s" h w] link_step.Other by blast


subsection \<open>A run of the protocol\<close>

definition demo_args :: agent_args where
  "demo_args = \<lparr>aa_url = ''ws://cp/ws/agent'', aa_token = ''t'', aa_worker_id = None, aa_labels = [],
     aa_lease_min = None, aa_drain_window_min = None\<rparr>"

lemma connect_fresh:
  assumes "\<not> ln_online s" "ag_outbox (ln_agent s) @ map (\<lambda>e. (outbox_seq e, e)) (ag_queue (ln_agent s)) = ob"
    "mark w s = None"
  shows "link_step env w s (s\<lparr>ln_online := True, ln_agent := (ln_agent s)\<lparr>ag_worker_id := Some w, ag_class := Persistent,
    ag_outbox := ob, ag_queue := [], ag_draining := False\<rparr>, ln_up := map snd ob\<rparr>)"
  using assms
  by (intro link_step.Connect [of s w Persistent "(ln_agent s)\<lparr>ag_worker_id := Some w, ag_class := Persistent\<rparr>" 0])
     (auto simp: on_hello_answer_def session_open_def trim_to_high_water_def SEQ_ORIGIN_def Let_def
        resume_high_water_def mark_def)

text \<open>An event is numbered and sent, the connection is cut before it arrives, and the next session
  has it in flight again.\<close>

lemma demo_in_flight:
  "\<exists>s. link_reach demo_env ''w'' s \<and> ln_online s \<and> ln_made s = [Log 0 ''r'' ''hi''] \<and> ln_applied s = [] \<and>
     ln_floor s = 0 \<and> ln_up s = [Log 0 ''r'' ''hi''] \<and> ag_queue (ln_agent s) = [] \<and> mark ''w'' s = None"
proof -
  let ?e = "Log 0 ''r'' ''hi''"
  define s0 where "s0 = \<lparr>ln_agent = agent_start demo_args, ln_hub = hub_init, ln_up = [], ln_online = False,
                      ln_made = [], ln_applied = [], ln_floor = 0\<rparr>"
  have r0: "link_reach demo_env ''w'' s0"
    unfolding s0_def by (rule link_reach.Start) (simp add: hub_init_def new_hub_def)
  define s1 where "s1 = s0\<lparr>ln_online := True, ln_agent := (ln_agent s0)\<lparr>ag_worker_id := Some ''w'', ag_class := Persistent,
    ag_outbox := [], ag_queue := [], ag_draining := False\<rparr>, ln_up := []\<rparr>"
  have "link_step demo_env ''w'' s0 s1"
    using connect_fresh [of s0 "[]" "''w''" demo_env]
    by (simp add: s1_def s0_def agent_start_def mark_def hub_init_def new_hub_def)
  with r0 have r1: "link_reach demo_env ''w'' s1" by (rule link_reach.Next)
  define s2 where "s2 = s1\<lparr>ln_agent := emit (\<lambda>n. Log n ''r'' ''hi'') (ln_agent s1), ln_made := ln_made s1 @ [?e]\<rparr>"
  have "link_step demo_env ''w'' s1 s2"
    using link_step.Emit [of "\<lambda>n. Log n ''r'' ''hi''" demo_env "''w''" s1]
    by (simp add: numbered_def s2_def s1_def s0_def agent_start_def)
  with r1 have r2: "link_reach demo_env ''w'' s2" by (rule link_reach.Next)
  obtain ag out where j: "on_job_event (ln_agent s2) = (ag, out)" by fastforce
  define s3 where "s3 = s2\<lparr>ln_agent := ag, ln_up := ln_up s2 @ out\<rparr>"
  have "link_step demo_env ''w'' s2 s3" unfolding s3_def by (rule link_step.Send [OF _ j]) (simp add: s2_def s1_def)
  with r2 have r3: "link_reach demo_env ''w'' s3" by (rule link_reach.Next)
  define s4 where "s4 = s3\<lparr>ln_online := False, ln_up := [], ln_agent := on_disconnect (ln_agent s3)\<rparr>"
  have "link_step demo_env ''w'' s3 s4" unfolding s4_def by (rule link_step.Cut)
  with r3 have r4: "link_reach demo_env ''w'' s4" by (rule link_reach.Next)
  have ag: "ag_outbox (ln_agent s4) = [(0, ?e)]" "ag_queue (ln_agent s4) = []"
    using j by (auto simp: s4_def s3_def s2_def s1_def s0_def agent_start_def on_job_event_def on_disconnect_def)
  let ?s5 = "s4\<lparr>ln_online := True, ln_agent := (ln_agent s4)\<lparr>ag_worker_id := Some ''w'', ag_class := Persistent,
    ag_outbox := [(0, ?e)], ag_queue := [], ag_draining := False\<rparr>, ln_up := [?e]\<rparr>"
  have "link_step demo_env ''w'' s4 ?s5"
    using connect_fresh [of s4 "[(0, ?e)]" "''w''" demo_env] ag
    by (simp add: s4_def s3_def s2_def s1_def s0_def mark_def hub_init_def new_hub_def)
  with r4 have "link_reach demo_env ''w'' ?s5" by (rule link_reach.Next)
  then show ?thesis
    by (intro exI [of _ ?s5]) (simp add: s4_def s3_def s2_def s1_def s0_def mark_def hub_init_def new_hub_def)
qed



subsection \<open>Where events are lost\<close>

text \<open>
  The two halves of a task's send: the number is drawn from the shared counter, and later the event
  is put on the channel; other tasks run in between. Events drawn and not yet put are the second
  component of the state.
\<close>

inductive race_step ::
  "hub_env \<Rightarrow> worker_id \<Rightarrow> link_system \<times> worker_to_cp list \<Rightarrow> link_system \<times> worker_to_cp list \<Rightarrow> bool"
  for env w where
  Draw: "numbered mk \<Longrightarrow> ag_seq (ln_agent s) = n \<Longrightarrow>
    race_step env w (s, d)
      (s\<lparr>ln_agent := (ln_agent s)\<lparr>ag_seq := n + 1\<rparr>, ln_made := ln_made s @ [mk n]\<rparr>, d @ [mk n])"
| Put: "race_step env w (s, xs @ e # ys)
      (s\<lparr>ln_agent := (ln_agent s)\<lparr>ag_queue := ag_queue (ln_agent s) @ [e]\<rparr>\<rparr>, xs @ ys)"
| Link: "link_step env w s s' \<Longrightarrow> race_step env w (s, d) (s', d)"

text \<open>What the hub's mark has passed is never dispatched later.\<close>

lemma passed_step:
  assumes "link_step env w s s'" "event_seq e = Some n" "\<not> beyond (mark w s) n" "e \<notin> set (ln_applied s)"
  shows "\<not> beyond (mark w s') n \<and> e \<notin> set (ln_applied s')"
  using assms
proof (cases rule: link_step.cases)
  case (Deliver e' up now)
  then show ?thesis
    using assms(2-4)
    by (auto simp: mark_def high_water_on_message beyond_def is_replay_def split: option.splits if_splits)
qed (auto simp: mark_def)

lemma passed_race:
  assumes "(race_step env w)\<^sup>*\<^sup>* p p'" "event_seq e = Some n" "\<not> beyond (mark w (fst p)) n" "e \<notin> set (ln_applied (fst p))"
  shows "\<not> beyond (mark w (fst p')) n \<and> e \<notin> set (ln_applied (fst p'))"
  using assms(1,3,4)
proof (induction rule: rtranclp_induct)
  case (step q r)
  then have q: "\<not> beyond (mark w (fst q)) n" "e \<notin> set (ln_applied (fst q))" by auto
  from step(2) show ?case
  proof (cases rule: race_step.cases)
    case (Link s s' d)
    with passed_step [OF Link(3) assms(2)] q show ?thesis by simp
  qed (use q in \<open>auto simp: mark_def\<close>)
qed auto

definition link_start :: "hub \<Rightarrow> agent_args \<Rightarrow> link_system" where
  "link_start h args = \<lparr>ln_agent = agent_start args, ln_hub = h, ln_up = [], ln_online = False,
     ln_made = [], ln_applied = [], ln_floor = 0\<rparr>"



text \<open>What an agent holds and has in flight was numbered by its own process.\<close>

definition own_numbers :: "link_system \<Rightarrow> bool" where
  "own_numbers s \<longleftrightarrow>
     (\<forall>e\<in>set (ln_up s) \<union> set (held (ln_agent s)). \<forall>k. event_seq e = Some k \<longrightarrow> k < ag_seq (ln_agent s))"

lemma own_numbers_sub:
  assumes "own_numbers s" "ag_seq (ln_agent s') = ag_seq (ln_agent s)"
    "\<And>e. e \<in> set (ln_up s') \<union> set (held (ln_agent s')) \<Longrightarrow>
       event_seq e = None \<or> e \<in> set (ln_up s) \<union> set (held (ln_agent s))"
  shows "own_numbers s' \<and> ag_seq (ln_agent s) \<le> ag_seq (ln_agent s')"
  using assms unfolding own_numbers_def by (metis le_refl option.distinct(1))

lemma own_numbers_emit:
  assumes "own_numbers s" "numbered mk" "held ag = held (ln_agent s)" "ag_seq ag = ag_seq (ln_agent s)"
    "ln_agent s' = emit mk ag" "ln_up s' = ln_up s"
  shows "own_numbers s' \<and> ag_seq (ln_agent s) \<le> ag_seq (ln_agent s')"
  using assms by (fastforce simp: own_numbers_def numbered_def less_Suc_eq)

lemma own_numbers_step:
  assumes own: "own_numbers s" and st: "link_step env w s s'"
  shows "own_numbers s' \<and> ag_seq (ln_agent s) \<le> ag_seq (ln_agent s')"
  using st
proof (cases rule: link_step.cases)
  case (Emit mk)
  then show ?thesis by (intro own_numbers_emit [OF own Emit(2) refl refl]) simp_all
next
  case (Cancelled j ag out)
  from on_inbound_Cancel [OF Cancelled(3)] obtain c mk where
    "out = []" "numbered mk" "ag = emit mk ((ln_agent s)\<lparr>ag_current := c\<rparr>)" by blast
  then show ?thesis
    using Cancelled(1) by (intro own_numbers_emit [OF own, of mk "(ln_agent s)\<lparr>ag_current := c\<rparr>"]) (simp_all add: held_def)
next
  case (Assigned job ag out)
  from on_inbound_cases [OF Assigned(3)] show ?thesis
    using Assigned(1) by (intro own_numbers_sub [OF own]) (auto simp: held_def)
next
  case (Connect cls ag resumed ag' replayed)
  then show ?thesis
    by (intro own_numbers_sub [OF own])
       (auto simp: on_hello_answer_def session_open_def Let_def held_def trim_to_high_water_def split: if_splits)
next
  case (Send ag out)
  then show ?thesis
    by (intro own_numbers_sub [OF own]) (auto simp: on_job_event_def held_def split: list.splits)
next
  case (Signal ms)
  then show ?thesis by (intro own_numbers_sub [OF own]) (auto simp: out_of_band_def)
next
  case (Drain_now ag out)
  then show ?thesis by (intro own_numbers_sub [OF own]) (auto simp: on_self_drain_def held_def split: if_splits)
next
  case (Drained t ag out)
  then show ?thesis by (intro own_numbers_sub [OF own]) (auto simp: on_inbound_def held_def)
next
  case Cut
  then show ?thesis
    by (cases "ag_class (ln_agent s) = Leased"; intro own_numbers_sub [OF own])
       (auto simp: on_disconnect_def held_def)
qed (use own in \<open>auto simp: own_numbers_def held_def\<close>)

text \<open>The worker's process starts again: the counter is back at 0, the hub's mark is not.\<close>

definition restart :: "agent_args \<Rightarrow> link_system \<Rightarrow> link_system" where
  "restart args s = s\<lparr>ln_agent := agent_start args, ln_up := [], ln_online := False, ln_made := [], ln_floor := 0\<rparr>"

text \<open>C26: A restarted worker is not heard. When the process of a worker the hub has a mark for starts
  again, the hub dispatches none of its events, through any number of sessions, until the new
  process has numbered more events than the mark.\<close>

theorem restarted_worker_muted:
  assumes "mark w s = Some n" and "(link_step env w)\<^sup>*\<^sup>* (restart args s) s'" and "ag_seq (ln_agent s') \<le> n + 1"
  shows "ln_applied s' = ln_applied s"
proof -
  have start: "own_numbers (restart args s)" by (simp add: own_numbers_def restart_def held_def agent_start_def)
  have "own_numbers s' \<and> (ag_seq (ln_agent s') \<le> n + 1 \<longrightarrow> mark w s' = Some n \<and> ln_applied s' = ln_applied s)"
    using assms(2)
  proof (induction rule: rtranclp_induct)
    case base
    show ?case using start assms(1) by (simp add: restart_def mark_def)
  next
    case (step q r)
    have o: "own_numbers r" "ag_seq (ln_agent q) \<le> ag_seq (ln_agent r)"
      using own_numbers_step step by blast+
    have "mark w r = mark w q \<and> ln_applied r = ln_applied q" if m: "mark w q = Some n" "ag_seq (ln_agent q) \<le> n + 1"
      using step(2)
    proof (cases rule: link_step.cases)
      case (Deliver e up now)
      have "event_seq e = None \<or> is_replay w e (ln_hub q)"
      proof (cases "event_seq e")
        case (Some k)
        then have "k < ag_seq (ln_agent q)" using step.IH Deliver(2) by (simp add: own_numbers_def)
        with Some m show ?thesis by (simp add: is_replay_def mark_def)
      qed simp
      with Deliver show ?thesis by (simp add: mark_def high_water_on_message)
    qed (auto simp: mark_def)
    with o step.IH show ?case by auto
  qed
  with assms(3) show ?thesis by blast
qed

lemma restarted_worker_muted_witness:
  "\<exists>s s'. mark ''w'' s = Some 0 \<and> (link_step demo_env ''w'')\<^sup>*\<^sup>* (restart demo_args s) s' \<and>
     ln_made s' = [JobStarted 0 ''r''] \<and> ln_applied s' = ln_applied s"
proof -
  define s where "s = (link_start (hub_init\<lparr>hb_high_water := [''w'' \<mapsto> 0]\<rparr>) demo_args)"
  have m: "mark ''w'' s = Some 0" by (simp add: s_def link_start_def mark_def)
  let ?s' = "(restart demo_args s)\<lparr>ln_agent := emit (\<lambda>n. JobStarted n ''r'') (agent_start demo_args),
    ln_made := [JobStarted 0 ''r'']\<rparr>"
  have "link_step demo_env ''w'' (restart demo_args s) ?s'"
    using link_step.Emit [of "\<lambda>n. JobStarted n ''r''" demo_env "''w''" "restart demo_args s"]
    by (simp add: numbered_def restart_def agent_start_def)
  then have r: "(link_step demo_env ''w'')\<^sup>*\<^sup>* (restart demo_args s) ?s'" by (rule r_into_rtranclp)
  have "ln_applied ?s' = ln_applied s"
    by (rule restarted_worker_muted [OF m r]) (simp add: agent_start_def)
  with m r show ?thesis by (intro exI [of _ s] exI [of _ ?s']) simp
qed

end
