(* ===== verification/WorkerDemo.thy ===== *)
theory WorkerDemo
  imports LinkLaws Scenario
begin

text \<open>
  The worker against the control plane: a cancel that reaches the wrong run, and the concrete
  instances of the properties of \<open>CollectLaws\<close>.
\<close>

lemma finish_run_other_live:
  assumes "run_live_in (hb_store h) k" "hub_ok h" "k \<noteq> rid"
  shows "run_live_in (hb_store (fst (finish_run env now w rid st c h))) k"
  unfolding finish_run_def Let_def
  by (subst run_live_pump)
     (use assms in \<open>auto simp: hub_ok_def set_revoke distinct_revoke run_live_transition\<close>)

text \<open>C24: A cancel can kill another run. When a run that is not running is cancelled while its last
  worker executes a different run, the hub only sends \<open>Cancel\<close>; the worker kills what it is
  executing, whatever id the message names, and reports that: the other run ends as cancelled and
  the run the operator cancelled stays live.\<close>

theorem cancel_kills_another_run:
  assumes "hub_ok h" and "store_run a (hb_store h) = Some ra"
    and "\<not> is_terminal (rs_state (rr_summary ra))" and "rs_worker_id (rr_summary ra) = Some w"
    and "map_of (hb_links h) w = Some lk" and "lk_open lk"
    and "ag_current ag = Some (b, False)" and "a \<noteq> b"
    and "run_state_of (hb_store h) b \<noteq> None" and "beyond (hb_high_water h w) (ag_seq ag)"
  shows "\<exists>h1 ag' e. stop_run env now a h = (h1, Inr ()) \<and> hb_store h1 = hb_store h \<and>
    on_inbound (Cancel a) ag = (ag', []) \<and> ag_queue ag' = ag_queue ag @ [e] \<and>
    run_state_of (hb_store (fst (on_message env now' w e h1))) b = Some Cancelled \<and>
    run_live_in (hb_store (fst (on_message env now' w e h1))) a"
proof -
  let ?e = "JobKilled (ag_seq ag) b Cancel_reason"
  define h1 where "h1 = h\<lparr>hb_links := alist_put w (lk\<lparr>lk_sent := lk_sent lk @ [Cancel a]\<rparr>) (hb_links h)\<rparr>"
  have snd: "send_to w (Cancel a) h = (h1, True)" using assms(5,6) by (simp add: send_to_def h1_def)
  have stop: "stop_run env now a h = (h1, Inr ())" using assms(2-4) snd by (simp add: stop_run_def)
  have ok1: "hub_ok h1" using hub_ok_stop_run [OF assms(1), of env now a] stop by simp
  have new: "\<not> is_replay w ?e h1" using assms(10) by (auto simp: is_replay_def beyond_def h1_def split: option.splits)
  define k where "k = note_seq w ?e (on_store (worker_seen now' w) h1)"
  have okk: "hub_ok k" unfolding k_def by (rule hub_ok_noted [OF ok1])
  have runs: "st_runs (hb_store k) = st_runs (hb_store h)" by (simp add: k_def h1_def)
  have msg: "on_message env now' w ?e h1 = finish_run env now' w b Cancelled EXIT_CODE_CANCELLED k"
    by (simp add: on_message_dispatch [OF new] k_def)
  have "run_state_of (hb_store k) b \<noteq> None" using assms(9) runs by (simp add: run_state_of_def)
  then have cb: "run_state_of (hb_store (fst (on_message env now' w ?e h1))) b = Some Cancelled"
    unfolding msg by (intro finish_run_state(2) [OF okk]) simp_all
  have "run_live_in (hb_store k) a"
  proof -
    have "run_state_of (hb_store h) a = Some (rs_state (rr_summary ra))"
      using assms(2) by (rule store_run_state)
    then have "run_state_of (hb_store k) a = Some (rs_state (rr_summary ra))"
      using runs by (simp add: run_state_of_def)
    with assms(3) show ?thesis unfolding run_live_in_def by blast
  qed
  then have "run_live_in (hb_store (fst (on_message env now' w ?e h1))) a"
    unfolding msg using okk assms(8) by (rule finish_run_other_live)
  then show ?thesis
    using stop cb assms(7) by (intro exI [of _ h1] exI conjI) (auto simp: h1_def on_inbound_def)
qed

definition demo_stale_hub :: hub where
  "demo_stale_hub =
     (let a = demo_run (new_run_id 0 1) Queued None 0; b = demo_run (new_run_id 0 2) Running None 1
      in (new_hub (empty_store\<lparr>st_run_seq := Some 2,
            st_runs := [a\<lparr>ru_summary := (ru_summary a)\<lparr>rs_worker_id := Some ''w''\<rparr>\<rparr>, b]\<rparr>) Map.empty)
         \<lparr>hb_links := [(''w'', fresh_link 0)]\<rparr>)"

lemma demo_ids_differ: "new_run_id 0 1 \<noteq> new_run_id 0 2"
  using stamped_id_inj [of EXEC_ID_PREFIX 0 1 EXEC_ID_PREFIX 0 2] by (auto simp: new_run_id_def)

lemma demo_stale_ok: "hub_ok demo_stale_hub"
proof -
  have "run_id_minted 2 (new_run_id 0 1)" "run_id_minted 2 (new_run_id 0 2)"
    unfolding run_id_minted_def by (rule exI [of _ 0], rule exI [of _ 1], simp) (rule exI [of _ 0], rule exI [of _ 2], simp)
  then show ?thesis
    using demo_ids_differ
    by (simp add: hub_ok_def demo_stale_hub_def Let_def new_hub_def wf_store_def pk_def empty_store_def seq_now_def demo_run_def)
qed

lemma cancel_kills_another_run_witness:
  "\<exists>h1 e. stop_run demo_env 5 (new_run_id 0 1) demo_stale_hub = (h1, Inr ()) \<and>
     run_state_of (hb_store h1) (new_run_id 0 2) = Some Running \<and>
     run_state_of (hb_store (fst (on_message demo_env 6 ''w'' e h1))) (new_run_id 0 2) = Some Cancelled \<and>
     run_live_in (hb_store (fst (on_message demo_env 6 ''w'' e h1))) (new_run_id 0 1)"
proof -
  let ?a = "new_run_id 0 1" and ?b = "new_run_id 0 2"
  let ?ra = "run_of_row ((demo_run ?a Queued None 0)\<lparr>ru_summary := (ru_summary (demo_run ?a Queued None 0))\<lparr>rs_worker_id := Some ''w''\<rparr>\<rparr>)"
  let ?ag = "(agent_start demo_args)\<lparr>ag_current := Some (?b, False)\<rparr>"
  have a: "store_run ?a (hb_store demo_stale_hub) = Some ?ra"
    by (simp add: store_run_def demo_stale_hub_def Let_def new_hub_def demo_run_def)
  have ra: "\<not> is_terminal (rs_state (rr_summary ?ra))" "rs_worker_id (rr_summary ?ra) = Some ''w''"
    by (simp_all add: run_of_row_def demo_run_def)
  have link: "map_of (hb_links demo_stale_hub) ''w'' = Some (fresh_link 0)" "lk_open (fresh_link 0)"
    by (simp_all add: demo_stale_hub_def Let_def fresh_link_def)
  have b: "run_state_of (hb_store demo_stale_hub) ?b = Some Running"
    using demo_ids_differ by (simp add: run_state_of_def demo_stale_hub_def Let_def new_hub_def demo_run_def)
  have hw: "beyond (hb_high_water demo_stale_hub ''w'') (ag_seq ?ag)"
    by (simp add: beyond_def demo_stale_hub_def Let_def new_hub_def)
  from cancel_kills_another_run [OF demo_stale_ok a ra link _ demo_ids_differ _ hw, of demo_env 5 6] b
  show ?thesis by (auto simp del: is_terminal.simps)
qed

subsection \<open>A scan of the demo run's output directory\<close>

definition demo_collector :: collector where
  "demo_collector = \<lparr>oc_class = ''checkpoint'', oc_base = ''out/'', oc_pattern = ''step_*'',
     oc_key_prefix = ''ckpt-hot/EXEC-19700101-000001-00001'', oc_ready_marker = None, oc_collected = []\<rparr>"

definition demo_entries :: "(string \<times> node) list" where
  "demo_entries = [(''step_10'', NDir [(''model.safetensors'', NFile (Inr ''weights''))])]"

lemma demo_client_upload:
  "client_upload (hub_http demo_env 3 ''http://cp'') ''grant-0'' (demo_dir @ ''/model.safetensors'') ''weights'' demo_attached =
     (demo_attached\<lparr>hb_blobs := [demo_dir @ ''/model.safetensors'' \<mapsto> ''weights'']\<rparr>, Inr ())"
proof -
  have url: "blob_url (\<lambda>_ _. Inr None) ''http://cp'' 3 (Some ''Bearer grant-0'')
      \<lparr>bq_key = demo_dir @ ''/model.safetensors'', bq_method = Put\<rparr> (hb_grants demo_attached) =
      (hb_grants demo_attached, Blob_url \<lparr>br_url = transfer_root ''http://cp'' ''upload'' @ demo_dir @ ''/model.safetensors'',
         br_requires_grant_header = True\<rparr>)"
    by (simp add: blob_url_def authorize_def grant_resolve_def grant_is_valid_def demo_attached_parts may_write_def
        run_prefixes_def starts_with_def is_safe_key_def transfer_root_def)
  have same: "demo_attached\<lparr>hb_grants := hb_grants demo_attached\<rparr> = demo_attached" by simp
  have b: "bearer ''grant-0'' = ''Bearer grant-0''" by (simp add: bearer_def)
  show ?thesis
    unfolding client_upload_def hub_http_def b
    using url demo_upload_created by (simp add: same del: append.simps)
qed


end
