(* ===== verification/Codeunit.thy ===== *)
theory Codeunit
  imports CollectLaws
begin

text \<open>
  Building a code unit (\<open>codeunit.rs\<close>): the source tree, its manifest and lockfile, the tarball
  and the three blobs it is stored as. Directory trees are those of \<open>Collect\<close>. Git, the TOML
  parser, SHA-256 and the tar and zstd encoders (with a file's mode, a function of its path) are
  parameters; the order and the content of the tar entries are the code's own.
\<close>

definition TAR_EXCLUDES :: "string list" where
  "TAR_EXCLUDES = [''.git'', ''target'', ''__pycache__'', ''.venv'', ''.mypy_cache'']"

text \<open>An entry: its path relative to the unit's root and its bytes.\<close>

type_synonym tar_entry = "string list \<times> string"

text \<open>\<open>append_dir\<close> with the entries of the directory already sorted; a subdirectory is read and
  sorted when it is reached.\<close>

function append_dir ::
  "string list \<Rightarrow> (string \<times> node) list \<Rightarrow> tar_entry list \<Rightarrow> tar_entry list result" where
  "append_dir rel [] b = Inr b"
| "append_dir rel ((name, NFile content) # es) b =
     (if name \<in> set TAR_EXCLUDES then append_dir rel es b
      else (case content of
              Inl e \<Rightarrow> Inl e
            | Inr data \<Rightarrow> append_dir rel es (b @ [(rel @ [name], data)])))"
| "append_dir rel ((name, NDir sub) # es) b =
     (if name \<in> set TAR_EXCLUDES then append_dir rel es b
      else (case append_dir (rel @ [name]) (sort_key fst sub) b of
              Inl e \<Rightarrow> Inl e
            | Inr b' \<Rightarrow> append_dir rel es b'))"
  by pat_completeness auto

fun weight :: "(string \<times> node) list \<Rightarrow> nat" where
  "weight [] = 0"
| "weight ((n, x) # es) = Suc (size x) + weight es"

lemma weight_insort: "weight (insort_key fst (n, x) es) = Suc (size x) + weight es"
  by (induction es) auto

lemma weight_sort: "weight (sort_key fst es) = weight es"
  by (induction es rule: weight.induct) (simp_all add: weight_insort)

lemma weight_le: "weight es \<le> size_list (size_prod (\<lambda>_. 0) size) es"
  by (induction es rule: weight.induct) auto

termination append_dir
proof (relation "measure (\<lambda>(rel, es, b). weight es)", goal_cases)
  case (5 rel name sub es b)
  show ?case using weight_le [of sub] by (simp add: weight_sort)
qed simp_all

subsection \<open>The build\<close>

record 'w build_calls =
  bd_dir :: "string \<Rightarrow> 'w \<Rightarrow> (string \<times> node) list option"
  bd_git :: "string list \<Rightarrow> 'w \<Rightarrow> 'w \<times> unit result"
  bd_temp :: "'w \<Rightarrow> 'w \<times> string result"
  bd_toml :: "string \<Rightarrow> code_unit_manifest_rec result"
  bd_pack :: "tar_entry list \<Rightarrow> string"
  bd_sha256 :: "string \<Rightarrow> string"

definition materialize_source ::
  "'w build_calls \<Rightarrow> string \<Rightarrow> string option \<Rightarrow> 'w \<Rightarrow> 'w \<times> string result" where
  "materialize_source bd repo commit w =
     (if bd_dir bd repo w \<noteq> None then (w, Inr repo)
      else
        (case bd_temp bd w of
           (w1, Inl e) \<Rightarrow> (w1, Inl e)
         | (w1, Inr temp) \<Rightarrow>
             (case bd_git bd [''clone'', ''--depth'', ''1'', repo, temp] w1 of
                (w2, Inl e) \<Rightarrow> (w2, Inl e)
              | (w2, Inr _) \<Rightarrow>
                  (case commit of
                     None \<Rightarrow> (w2, Inr temp)
                   | Some c \<Rightarrow>
                       (case bd_git bd [''-C'', temp, ''fetch'', ''--depth'', ''1'', ''origin'', c] w2 of
                          (w3, Inl e) \<Rightarrow> (w3, Inl e)
                        | (w3, Inr _) \<Rightarrow>
                            (case bd_git bd [''-C'', temp, ''checkout'', c] w3 of
                               (w4, Inl e) \<Rightarrow> (w4, Inl e)
                             | (w4, Inr _) \<Rightarrow> (w4, Inr temp)))))))"

definition read_in :: "string \<Rightarrow> (string \<times> node) list \<Rightarrow> string option" where
  "read_in name es =
     (case map_of es name of Some (NFile (Inr c)) \<Rightarrow> Some c | _ \<Rightarrow> None)"

definition tar_zstd :: "'w build_calls \<Rightarrow> (string \<times> node) list \<Rightarrow> string result" where
  "tar_zstd bd es =
     (case append_dir [] (sort_key fst es) [] of
        Inl e \<Rightarrow> Inl (''packing code unit tarball: '' @ e)
      | Inr entries \<Rightarrow> Inr (bd_pack bd entries))"

text \<open>The blobs are written one after the other; those written before an error stay.\<close>

definition store_unit ::
  "string \<Rightarrow> string \<Rightarrow> string \<Rightarrow> string \<Rightarrow> string \<Rightarrow> string option \<Rightarrow> blobs \<Rightarrow> blobs \<times> string result" where
  "store_unit dir name sha tarball manifest_text lockfile b =
     (case fs_put dir (code_unit_tarball name sha) tarball b of
        (b1, Inl e) \<Rightarrow> (b1, Inl e)
      | (b1, Inr _) \<Rightarrow>
          (case fs_put dir (Keys.code_unit_manifest name sha) manifest_text b1 of
             (b2, Inl e) \<Rightarrow> (b2, Inl e)
           | (b2, Inr uri) \<Rightarrow>
               (case lockfile of
                  None \<Rightarrow> (b2, Inr uri)
                | Some lock \<Rightarrow>
                    (case fs_put dir (code_unit_lockfile name sha) lock b2 of
                       (b3, Inl e) \<Rightarrow> (b3, Inl e)
                     | (b3, Inr _) \<Rightarrow> (b3, Inr uri)))))"

text \<open>The part of \<open>build\<close> after the source is there: \<open>es\<close> is the listing of the unit's directory,
  \<open>None\<close> when it does not exist.\<close>

definition build_unit ::
  "'w build_calls \<Rightarrow> string \<Rightarrow> unix_seconds \<Rightarrow> string option \<Rightarrow> (string \<times> node) list option \<Rightarrow> blobs \<Rightarrow>
   blobs \<times> code_unit_info result" where
  "build_unit bd dir now name_override es b =
     (case (case es of None \<Rightarrow> None | Some l \<Rightarrow> read_in CODE_UNIT_MANIFEST l) of
        None \<Rightarrow> (b, Inl ''code unit needs a unit.toml at its root'')
      | Some manifest_text \<Rightarrow>
          (case bd_toml bd manifest_text of
             Inl e \<Rightarrow> (b, Inl (''parsing unit.toml: '' @ e))
           | Inr parsed \<Rightarrow>
               (let manifest = (case name_override of Some n \<Rightarrow> parsed\<lparr>mf_name := n\<rparr> | None \<Rightarrow> parsed)
                in if mf_name manifest = [] then (b, Inl ''code unit manifest is missing a name'')
                   else
                     (let lockfile = read_in CODE_UNIT_LOCKFILE (the es)
                      in case tar_zstd bd (the es) of
                           Inl e \<Rightarrow> (b, Inl e)
                         | Inr tarball \<Rightarrow>
                             (let sha = bd_sha256 bd tarball
                              in case store_unit dir (mf_name manifest) sha tarball manifest_text lockfile b of
                                   (b1, Inl e) \<Rightarrow> (b1, Inl e)
                                 | (b1, Inr uri) \<Rightarrow>
                                     (b1, Inr \<lparr>cu_code = \<lparr>cr_name = mf_name manifest, cr_sha = sha\<rparr>,
                                               cu_manifest = manifest, cu_uri = uri, cu_created_at = now\<rparr>))))))"

definition build ::
  "'w build_calls \<Rightarrow> string \<Rightarrow> unix_seconds \<Rightarrow> string \<Rightarrow> string option \<Rightarrow> string option \<Rightarrow> string option \<Rightarrow>
   'w \<times> blobs \<Rightarrow> ('w \<times> blobs) \<times> code_unit_info result" where
  "build bd dir now repo commit name_override path s =
     (let (w, b) = s
      in case materialize_source bd repo commit w of
           (w1, Inl e) \<Rightarrow> ((w1, b), Inl e)
         | (w1, Inr source) \<Rightarrow>
             (case path of
                Some sub \<Rightarrow>
                  (if \<not> is_safe_key sub then ((w1, b), Inl (''path must stay within the repo: '' @ sub))
                   else (let (b1, r) = build_unit bd dir now name_override (bd_dir bd (source @ ''/'' @ sub) w1) b
                         in ((w1, b1), r)))
              | None \<Rightarrow>
                  (let (b1, r) = build_unit bd dir now name_override (bd_dir bd source w1) b
                   in ((w1, b1), r))))"

subsection \<open>Reproducible tarballs\<close>

text \<open>What goes into a unit: the files of the tree with no excluded segment on their path.\<close>

definition shipped :: "(string \<times> node) list \<Rightarrow> string list \<Rightarrow> string result \<Rightarrow> bool" where
  "shipped es p c \<longleftrightarrow> tree_file (NDir es) p c \<and> set p \<inter> set TAR_EXCLUDES = {}"

lemma shipped_Nil: "\<not> shipped [] p c"
  by (cases p) (simp_all add: shipped_def)

lemma shipped_file:
  "shipped ((n, NFile d) # es) p c \<longleftrightarrow> n \<notin> set TAR_EXCLUDES \<and> p = [n] \<and> c = d \<or> shipped es p c"
  by (cases p) (auto simp: shipped_def)

lemma shipped_dir:
  "shipped ((n, NDir sub) # es) p c \<longleftrightarrow>
   n \<notin> set TAR_EXCLUDES \<and> (\<exists>q. p = n # q \<and> shipped sub q c) \<or> shipped es p c"
  by (cases p) (auto simp: shipped_def)

lemma shipped_sort: "shipped (sort_key fst es) = shipped es"
  by (intro ext) (rename_tac p c, case_tac p, simp_all add: shipped_def)

lemma append_less_append: "(rel @ p < rel @ q) = (p < (q :: string list))"
  by (induction rel) simp_all

lemma shipped_above:
  assumes "wf_tree (NDir ((n, x) # es))" "sorted (map fst ((n, x) # es))" "shipped es p c"
  shows "n # q < p"
proof -
  from assms(3) obtain m y r where m: "p = m # r" "(m, y) \<in> set es"
    by (cases p) (auto simp: shipped_def)
  then have "m \<in> set (map fst es)" by force
  with assms(1,2) have "n < m" by (auto simp: order_less_le)
  with m show ?thesis by simp
qed

lemma append_dir_eq:
  assumes "wf_tree (NDir es)" "sorted (map fst es)" "\<forall>p c. shipped es p c \<longrightarrow> (\<exists>d. c = Inr d)"
  shows "\<exists>L. append_dir rel es b = Inr (b @ map (\<lambda>(p, d). (rel @ p, d)) L) \<and>
    sorted_wrt (\<lambda>x y. fst x < fst y) L \<and> (\<forall>p d. (p, d) \<in> set L \<longleftrightarrow> shipped es p (Inr d))"
  using assms
proof (induction rel es b rule: append_dir.induct)
  case (1 rel b)
  show ?case by (intro exI [of _ "[]"]) (simp add: shipped_Nil)
next
  case (2 rel name content es b)
  have wf: "wf_tree (NDir es)" "sorted (map fst es)" using 2(3,4) by simp_all
  have rd: "\<forall>p c. shipped es p c \<longrightarrow> (\<exists>d. c = Inr d)" using 2(5) by (simp add: shipped_file)
  show ?case
  proof (cases "name \<in> set TAR_EXCLUDES")
    case True
    with 2(1) [OF True wf rd] show ?thesis by (simp add: shipped_file)
  next
    case False
    with 2(5) obtain d where d: "content = Inr d" by (auto simp: shipped_file)
    from 2(2) [OF False d wf rd] obtain L where
      L: "append_dir rel es (b @ [(rel @ [name], d)]) = Inr (b @ [(rel @ [name], d)] @ map (\<lambda>(p, d). (rel @ p, d)) L)"
      "sorted_wrt (\<lambda>x y. fst x < fst y) L" "\<forall>p d. (p, d) \<in> set L \<longleftrightarrow> shipped es p (Inr d)" by auto
    have "sorted_wrt (\<lambda>x y. fst x < fst y) (([name], d) # L)"
      using L(2,3) shipped_above [OF 2(3,4)] by auto
    with L False d show ?thesis
      by (intro exI [of _ "([name], d) # L"]) (auto simp: shipped_file)
  qed
next
  case (3 rel name sub es b)
  have wf: "wf_tree (NDir es)" "sorted (map fst es)" using 3(4,5) by simp_all
  have rd: "\<forall>p c. shipped es p c \<longrightarrow> (\<exists>d. c = Inr d)" using 3(6) by (simp add: shipped_dir)
  show ?case
  proof (cases "name \<in> set TAR_EXCLUDES")
    case True
    with 3(1) [OF True wf rd] show ?thesis by (simp add: shipped_dir)
  next
    case False
    have sub: "wf_tree (NDir (sort_key fst sub))" "sorted (map fst (sort_key fst sub))"
      using 3(4) by (auto simp: distinct_map distinct_sort inj_on_def)
    have "\<forall>p c. shipped (sort_key fst sub) p c \<longrightarrow> (\<exists>d. c = Inr d)"
      using 3(6) False by (auto simp: shipped_dir shipped_sort)
    from 3(2) [OF False sub this] obtain L1 where
      L1: "append_dir (rel @ [name]) (sort_key fst sub) b =
          Inr (b @ map (\<lambda>(p, d). ((rel @ [name]) @ p, d)) L1)"
      "sorted_wrt (\<lambda>x y. fst x < fst y) L1" "\<forall>p d. (p, d) \<in> set L1 \<longleftrightarrow> shipped sub p (Inr d)"
      by (auto simp: shipped_sort)
    from 3(3) [OF False L1(1) wf rd] obtain L2 where
      L2: "append_dir rel es (b @ map (\<lambda>(p, d). ((rel @ [name]) @ p, d)) L1) =
          Inr ((b @ map (\<lambda>(p, d). ((rel @ [name]) @ p, d)) L1) @ map (\<lambda>(p, d). (rel @ p, d)) L2)"
      "sorted_wrt (\<lambda>x y. fst x < fst y) L2" "\<forall>p d. (p, d) \<in> set L2 \<longleftrightarrow> shipped es p (Inr d)" by blast
    let ?L = "map (\<lambda>(q, d). (name # q, d)) L1 @ L2"
    have "sorted_wrt (\<lambda>x y. fst x < fst y) (map (\<lambda>(q, d). (name # q, d)) L1)"
      using L1(2) by (simp add: sorted_wrt_map split_beta)
    then have "sorted_wrt (\<lambda>x y. fst x < fst y) ?L"
      using L2(2,3) shipped_above [OF 3(4,5)] by (auto simp: sorted_wrt_append)
    moreover have "\<forall>p d. (p, d) \<in> set ?L \<longleftrightarrow> shipped ((name, NDir sub) # es) p (Inr d)"
      using L1(3) L2(3) False by (auto simp: shipped_dir)
    moreover have "append_dir rel ((name, NDir sub) # es) b = Inr (b @ map (\<lambda>(p, d). (rel @ p, d)) ?L)"
      using False L1(1) L2(1) by (simp add: split_beta comp_def)
    ultimately show ?thesis by blast
  qed
qed

lemma tar_zstd_files:
  assumes "wf_tree (NDir es)" "wf_tree (NDir es')" "shipped es = shipped es'"
    "\<forall>p c. shipped es p c \<longrightarrow> (\<exists>d. c = Inr d)"
  shows "tar_zstd bd es = tar_zstd bd es'"
proof -
  have wf: "wf_tree (NDir (sort_key fst l))" if "wf_tree (NDir l)" for l
    using that by (auto simp: distinct_map distinct_sort inj_on_def)
  obtain L where L: "append_dir [] (sort_key fst es) [] = Inr L" "sorted_wrt (\<lambda>x y. fst x < fst y) L"
    "\<forall>p d. (p, d) \<in> set L \<longleftrightarrow> shipped es p (Inr d)"
    using append_dir_eq [OF wf [OF assms(1)], of "[]" "[]"] assms(4) by (auto simp: shipped_sort)
  obtain L' where L': "append_dir [] (sort_key fst es') [] = Inr L'" "sorted_wrt (\<lambda>x y. fst x < fst y) L'"
    "\<forall>p d. (p, d) \<in> set L' \<longleftrightarrow> shipped es' p (Inr d)"
    using append_dir_eq [OF wf [OF assms(2)], of "[]" "[]"] assms(3,4) by (auto simp: shipped_sort)
  have "sorted_wrt (<) L" "sorted_wrt (<) L'"
    using L(2) L'(2) by (auto elim!: sorted_wrt_mono_rel [rotated] simp: less_prod_def')
  moreover have "set L = set L'" using L(3) L'(3) assms(3) by auto
  ultimately have "L = L'" by (intro strict_sorted_equal) auto
  with L(1) L'(1) show ?thesis by (simp add: tar_zstd_def)
qed

lemma read_in_shipped:
  assumes "wf_tree (NDir es)" "name \<notin> set TAR_EXCLUDES"
  shows "read_in name es = Some c \<longleftrightarrow> shipped es [name] (Inr c)"
proof -
  have dist: "distinct (map fst es)" using assms(1) by simp
  show ?thesis
  proof
    assume "read_in name es = Some c"
    then have "(name, NFile (Inr c)) \<in> set es"
      by (auto simp: read_in_def split: option.splits node.splits sum.splits dest: map_of_SomeD)
    then show "shipped es [name] (Inr c)" using assms(2) by (force simp: shipped_def)
  next
    assume "shipped es [name] (Inr c)"
    then obtain x where x: "(name, x) \<in> set es" "tree_file x [] (Inr c)" by (auto simp: shipped_def)
    then have "x = NFile (Inr c)" by (cases x) simp_all
    with x dist show "read_in name es = Some c" by (simp add: read_in_def)
  qed
qed

lemma read_in_files:
  assumes "wf_tree (NDir es)" "wf_tree (NDir es')" "shipped es = shipped es'" "name \<notin> set TAR_EXCLUDES"
  shows "read_in name es = read_in name es'"
  using read_in_shipped [OF assms(1,4)] read_in_shipped [OF assms(2,4)] assms(3)
  by (cases "read_in name es"; cases "read_in name es'") auto


definition demo_tree :: "(string \<times> node) list" where
  "demo_tree = [(''unit.toml'', NFile (Inr ''name'')),
     (''src'', NDir [(''b.py'', NFile (Inr ''2'')), (''a.py'', NFile (Inr ''1''))])]"

definition demo_tree' :: "(string \<times> node) list" where
  "demo_tree' = [(''src'', NDir [(''a.py'', NFile (Inr ''1'')), (''b.py'', NFile (Inr ''2''))]),
     (''.git'', NDir [(''HEAD'', NFile (Inl ''denied''))]), (''unit.toml'', NFile (Inr ''name''))]"

definition demo_build :: "unit build_calls" where
  "demo_build = \<lparr>bd_dir = (\<lambda>_ _. None), bd_git = (\<lambda>_ w. (w, Inr ())), bd_temp = (\<lambda>w. (w, Inr ''t'')),
     bd_toml = (\<lambda>t. Inr \<lparr>mf_name = t, mf_version = ''1'', mf_entrypoints = [], mf_python = None,
       mf_requires = \<lparr>ur_cuda = None, ur_min_vram_gb = None\<rparr>\<rparr>),
     bd_pack = (\<lambda>es. concat (map snd es)), bd_sha256 = (\<lambda>t. t)\<rparr>"


text \<open>What a successful build stores: the tarball under its own hash, next to its manifest.\<close>

lemma store_unit_Inr:
  assumes "store_unit dir name sha tarball text lock b = (b', Inr uri)"
  shows "b' (code_unit_tarball name sha) = Some tarball \<and> b' (Keys.code_unit_manifest name sha) = Some text \<and>
    uri = fs_uri dir (Keys.code_unit_manifest name sha) \<and>
    (\<forall>k. k \<notin> {code_unit_tarball name sha, Keys.code_unit_manifest name sha, code_unit_lockfile name sha} \<longrightarrow>
      b' k = b k)"
  using assms
  by (auto simp: store_unit_def fs_put_def fs_resolve_def code_unit_tarball_def Keys.code_unit_manifest_def
      code_unit_lockfile_def split: sum.splits option.splits prod.splits if_splits)

lemma unit_content_addressed:
  assumes "build_unit bd dir now name es b = (b', Inr info)"
  shows "\<exists>entries. append_dir [] (sort_key fst (the es)) [] = Inr entries \<and>
    cr_sha (cu_code info) = bd_sha256 bd (bd_pack bd entries) \<and>
    b' (code_unit_tarball (cr_name (cu_code info)) (cr_sha (cu_code info))) = Some (bd_pack bd entries)"
  using assms
  by (auto simp: build_unit_def tar_zstd_def Let_def split: option.splits sum.splits prod.splits if_splits
      dest!: store_unit_Inr)

end
