(* ===== verification/ApiRuns.thy ===== *)
theory ApiRuns
  imports Codeunit Access
begin

text \<open>
  The run endpoints (\<open>api/runs.rs\<close>) in front of the hub: submission with its role and cost guards,
  stop and resume, sweeps, gates, code units and the read-only views. \<open>f1\<close> and \<open>f2\<close> print a float
  with one and two decimals. A reply is a value or a status with its message.
\<close>

definition DEFAULT_SHELL_TIMEOUT :: nat where "DEFAULT_SHELL_TIMEOUT = 600"
definition DEFAULT_RUN_LIST_LIMIT :: nat where "DEFAULT_RUN_LIST_LIMIT = 50"
definition DEFAULT_LOG_TAIL_LINES :: nat where "DEFAULT_LOG_TAIL_LINES = 100"
definition DEFAULT_METRIC_DOWNSAMPLE :: nat where "DEFAULT_METRIC_DOWNSAMPLE = 500"
definition DEFAULT_SWEEP_METRIC_KEY :: string where "DEFAULT_SWEEP_METRIC_KEY = ''loss''"

text \<open>The characters outside ASCII in the messages, in UTF-8: an em dash and a multiplication sign.\<close>

definition EM_DASH :: string where "EM_DASH = [CHR 0xE2, CHR 0x80, CHR 0x94]"
definition TIMES_SIGN :: string where "TIMES_SIGN = [CHR 0xC3, CHR 0x97]"

definition unwrap_or :: "'a \<Rightarrow> 'a option \<Rightarrow> 'a" where
  "unwrap_or d x = (case x of Some a \<Rightarrow> a | None \<Rightarrow> d)"

subsection \<open>Views\<close>

definition api_fleet :: "unix_seconds \<Rightarrow> hub \<Rightarrow> worker_info list reply" where
  "api_fleet now h = Inr (fleet now (hb_store h))"

definition api_worker_telemetry :: "worker_id \<Rightarrow> hub \<Rightarrow> worker_telemetry reply" where
  "api_worker_telemetry wid h =
     (case store_worker_telemetry wid (hb_store h) of Some t \<Rightarrow> Inr t | None \<Rightarrow> not_found)"

record list_params =
  lp_limit :: "nat option"
  lp_offset :: "nat option"
  lp_state :: "run_state option"
  lp_experiment_ref :: "string option"
  lp_sweep_id :: "string option"

definition api_list_runs :: "list_params \<Rightarrow> hub \<Rightarrow> run_summary list reply" where
  "api_list_runs p h =
     Inr (store_runs \<lparr>rq_state = lp_state p, rq_experiment_ref = lp_experiment_ref p,
            rq_sweep_id = lp_sweep_id p, rq_offset = unwrap_or 0 (lp_offset p)\<rparr>
          (unwrap_or DEFAULT_RUN_LIST_LIMIT (lp_limit p)) (hb_store h))"

definition current_run :: "run_id \<Rightarrow> hub \<Rightarrow> run_record reply" where
  "current_run rid h = (case store_run rid (hb_store h) of Some r \<Rightarrow> Inr r | None \<Rightarrow> not_found)"

definition api_run_status :: "run_id \<Rightarrow> hub \<Rightarrow> run_record reply" where
  "api_run_status rid h = (case store_run rid (hb_store h) of Some r \<Rightarrow> Inr r | None \<Rightarrow> not_found)"

definition api_tail_logs :: "run_id \<Rightarrow> nat option \<Rightarrow> hub \<Rightarrow> (run_id \<times> string list) reply" where
  "api_tail_logs rid lines h =
     Inr (rid, tail_logs rid (unwrap_or DEFAULT_LOG_TAIL_LINES lines) (hb_store h))"

definition api_run_events :: "run_id \<Rightarrow> hub \<Rightarrow> run_event list reply" where
  "api_run_events rid h = Inr (store_events rid (hb_store h))"

definition metric_keys :: "string option \<Rightarrow> string list option" where
  "metric_keys keys = map_option (\<lambda>raw. filter (\<lambda>s. s \<noteq> []) (split_on (CHR '','') raw)) keys"

text \<open>The series of a key; the map lists the keys with a point.\<close>

definition api_run_metrics ::
  "run_id \<Rightarrow> string option \<Rightarrow> nat option \<Rightarrow> nat option \<Rightarrow> hub \<Rightarrow> (run_id \<times> (string \<Rightarrow> metric_point list)) reply" where
  "api_run_metrics rid keys since_step downsample h =
     Inr (rid, metric_series rid (metric_keys keys) (unwrap_or 0 since_step)
            (unwrap_or DEFAULT_METRIC_DOWNSAMPLE downsample) (hb_store h))"

definition api_sweep_status :: "string \<Rightarrow> string option \<Rightarrow> hub \<Rightarrow> sweep_status_rec reply" where
  "api_sweep_status sid key h =
     (case sweep_status sid (unwrap_or DEFAULT_SWEEP_METRIC_KEY key) (hb_store h) of
        Some st \<Rightarrow> Inr st | None \<Rightarrow> not_found)"

subsection \<open>Submission\<close>

record submit_shell_request =
  ssr_name :: string
  ssr_command :: string
  ssr_timeout_s :: "nat option"

record submit_run_request =
  sur_name :: string
  sur_spec :: run_spec
  sur_experiment_ref :: "string option"
  sur_confirm_cost :: bool

record submit_sweep_request =
  swr_name :: string
  swr_spec :: sweep_spec
  swr_confirm_cost :: bool

definition submit_shell ::
  "hub_env \<Rightarrow> unix_seconds \<Rightarrow> auth_context \<Rightarrow> submit_shell_request \<Rightarrow> hub \<Rightarrow> hub \<times> run_id reply" where
  "submit_shell env now ctx req h =
     (if \<not> may ctx Write then (h, requires Write)
      else (case submit env now (ssr_name req)
                   (Shell \<lparr>sh_command = ssr_command req,
                           sh_timeout_s = unwrap_or DEFAULT_SHELL_TIMEOUT (ssr_timeout_s req)\<rparr>)
                   None (Some (ac_owner_email ctx)) h of
              (h1, Inr rid) \<Rightarrow> (h1, Inr rid)
            | (h1, Inl _) \<Rightarrow> (h1, internal)))"

text \<open>The pre-flight of a submission: the refusal, if the worst case is above the threshold.\<close>

definition run_cost_refusal ::
  "(f64 \<Rightarrow> string) \<Rightarrow> (f64 \<Rightarrow> string) \<Rightarrow> config \<Rightarrow> run_spec \<Rightarrow> store \<Rightarrow> string option" where
  "run_cost_refusal f1 f2 cfg spec s =
     (let estimate = estimate_run_cost (live_leases s) (timeout_s spec);
          threshold = cf_confirm_cost_threshold cfg
      in if f64_less threshold (Fin estimate)
         then Some (''estimated worst-case cost $'' @ f2 (Fin estimate) @ '' ('' @
                f1 (Fin (real (timeout_s spec) / 3600)) @
                ''h timeout at the most expensive live lease) exceeds the $'' @ f2 threshold @
                '' confirm threshold '' @ EM_DASH @
                '' resubmit with confirm_cost=true, or lower timeout_s'')
         else None)"

definition submit_run ::
  "hub_env \<Rightarrow> config \<Rightarrow> (f64 \<Rightarrow> string) \<Rightarrow> (f64 \<Rightarrow> string) \<Rightarrow> unix_seconds \<Rightarrow> auth_context \<Rightarrow>
   submit_run_request \<Rightarrow> hub \<Rightarrow> hub \<times> run_id reply" where
  "submit_run env cfg f1 f2 now ctx req h =
     (if \<not> may ctx Write then (h, requires Write)
      else (case (if sur_confirm_cost req then None
                  else run_cost_refusal f1 f2 cfg (sur_spec req) (hb_store h)) of
              Some m \<Rightarrow> (h, bad_request m)
            | None \<Rightarrow>
                (case submit env now (sur_name req) (sur_spec req) (sur_experiment_ref req)
                        (Some (ac_owner_email ctx)) h of
                   (h1, Inr rid) \<Rightarrow> (h1, Inr rid)
                 | (h1, Inl _) \<Rightarrow> (h1, internal))))"

definition sweep_cost_refusal ::
  "(f64 \<Rightarrow> string) \<Rightarrow> config \<Rightarrow> sweep_spec \<Rightarrow> nat \<Rightarrow> store \<Rightarrow> string option" where
  "sweep_cost_refusal f2 cfg spec n s =
     (let per_child = estimate_run_cost (live_leases s) (tr_timeout_s (sw_template spec));
          total = per_child * real n;
          threshold = cf_confirm_cost_threshold cfg
      in if f64_less threshold (Fin total)
         then Some (''estimated worst-case cost $'' @ f2 (Fin total) @ '' ('' @ show_nat n @ '' children '' @
                TIMES_SIGN @ '' $'' @ f2 (Fin per_child) @ '') exceeds the $'' @ f2 threshold @
                '' confirm threshold '' @ EM_DASH @
                '' resubmit with confirm_cost=true, or narrow the axes / lower timeout_s'')
         else None)"

definition api_submit_sweep ::
  "hub_env \<Rightarrow> config \<Rightarrow> (f64 \<Rightarrow> string) \<Rightarrow> unix_seconds \<Rightarrow> auth_context \<Rightarrow> submit_sweep_request \<Rightarrow> hub \<Rightarrow>
   hub \<times> (string \<times> run_id list) reply" where
  "api_submit_sweep env cfg f2 now ctx req h =
     (if \<not> may ctx Write then (h, requires Write)
      else (case expand_sweep (ev_show_json env) (sw_template (swr_spec req)) (sw_axes (swr_spec req)) of
              Inl reason \<Rightarrow> (h, bad_request reason)
            | Inr children \<Rightarrow>
                (case (if swr_confirm_cost req then None
                       else sweep_cost_refusal f2 cfg (swr_spec req) (length children) (hb_store h)) of
                   Some m \<Rightarrow> (h, bad_request m)
                 | None \<Rightarrow>
                     (case submit_sweep env now (swr_name req) (swr_spec req) (Some (ac_owner_email ctx)) h of
                        (h1, Inr r) \<Rightarrow> (h1, Inr r)
                      | (h1, Inl e) \<Rightarrow> (h1, bad_request e)))))"

subsection \<open>Control\<close>

definition api_stop_run ::
  "hub_env \<Rightarrow> unix_seconds \<Rightarrow> auth_context \<Rightarrow> run_id \<Rightarrow> hub \<Rightarrow> hub \<times> run_record reply" where
  "api_stop_run env now ctx rid h =
     (if \<not> may ctx Write then (h, requires Write)
      else (case stop_run env now rid h of
              (h1, Inr _) \<Rightarrow> (h1, current_run rid h1)
            | (h1, Inl e) \<Rightarrow> (h1, bad_request e)))"

definition api_resume_run ::
  "hub_env \<Rightarrow> unix_seconds \<Rightarrow> auth_context \<Rightarrow> run_id \<Rightarrow> hub \<Rightarrow> hub \<times> run_record reply" where
  "api_resume_run env now ctx rid h =
     (if \<not> may ctx Write then (h, requires Write)
      else (case resume_run env now rid h of
              (h1, Inr _) \<Rightarrow> (h1, current_run rid h1)
            | (h1, Inl e) \<Rightarrow> (h1, bad_request e)))"

definition api_register_gate ::
  "unix_seconds \<Rightarrow> auth_context \<Rightarrow> run_id \<Rightarrow> string \<Rightarrow> string \<Rightarrow> gate_action \<Rightarrow> hub \<Rightarrow>
   hub \<times> gate_info list reply" where
  "api_register_gate now ctx rid name expr action h =
     (if \<not> may ctx Write then (h, requires Write)
      else if trim name = [] then (h, bad_request ''gate name required'')
      else (case parse_gate expr of
              Inl reason \<Rightarrow> (h, bad_request reason)
            | Inr _ \<Rightarrow>
                (case store_run rid (hb_store h) of
                   None \<Rightarrow> (h, not_found)
                 | Some _ \<Rightarrow>
                     (let h1 = on_store (register_gate now GATE_SCOPE_RUN rid (trim name) (trim expr) action) h
                      in (h1, Inr (store_gates GATE_SCOPE_RUN rid (hb_store h1)))))))"

text \<open>A \<open>GET\<close>: any authenticated caller, and the evaluation can stop the run.\<close>

definition check_gates :: "hub_env \<Rightarrow> unix_seconds \<Rightarrow> run_id \<Rightarrow> hub \<Rightarrow> hub \<times> gate_info list reply" where
  "check_gates env now rid h = (case evaluate_gates env now rid h of (h1, gates) \<Rightarrow> (h1, Inr gates))"

text \<open>The world \<open>'w\<close> is the one git and the file system of the control plane live in.\<close>

definition build_code_unit ::
  "'w build_calls \<Rightarrow> hub_env \<Rightarrow> unix_seconds \<Rightarrow> auth_context \<Rightarrow> string \<Rightarrow> string option \<Rightarrow> string option \<Rightarrow>
   string option \<Rightarrow> 'w \<times> hub \<Rightarrow> ('w \<times> hub) \<times> code_unit_info reply" where
  "build_code_unit bd env now ctx repo commit name path s =
     (let (w, h) = s
      in if \<not> may ctx Write then ((w, h), requires Write)
         else (case build bd (ev_root env) now repo commit name path (w, hb_blobs h) of
                 ((w1, b), Inl e) \<Rightarrow> ((w1, h\<lparr>hb_blobs := b\<rparr>), bad_request e)
               | ((w1, b), Inr info) \<Rightarrow>
                   ((w1, on_store (register_code_unit now (cu_code info) (cu_manifest info) (cu_uri info))
                           (h\<lparr>hb_blobs := b\<rparr>)), Inr info)))"

end
