(* ===== verification/ApiLeases.thy ===== *)
theory ApiLeases
  imports ApiRuns LeaseMgr
begin

text \<open>
  The lease and spend endpoints (\<open>api/leases.rs\<close>) in front of the lease manager, and the
  distribution of worker binaries (\<open>api/system.rs\<close>). \<open>show_f64\<close> is the float printer of the
  standard library.
\<close>

definition provider_offers ::
  "'w manager \<Rightarrow> string \<Rightarrow> string option \<Rightarrow> real option \<Rightarrow> 'w lm \<Rightarrow> 'w lm \<times> offer list reply" where
  "provider_offers mg provider gpu max_price lm =
     (case lm_offers mg provider gpu max_price lm of
        (lm1, Inr offers) \<Rightarrow> (lm1, Inr offers)
      | (lm1, Inl e) \<Rightarrow> (lm1, bad_request e))"

definition api_provision ::
  "'w manager \<Rightarrow> unix_seconds \<Rightarrow> auth_context \<Rightarrow> provision_request \<Rightarrow> 'w lm \<Rightarrow> 'w lm \<times> provision_result reply" where
  "api_provision mg now ctx req lm =
     (if \<not> may ctx Write then (lm, requires Write)
      else (case provision mg now req lm of
              (lm1, Inr r) \<Rightarrow> (lm1, Inr r)
            | (lm1, Inl e) \<Rightarrow> (lm1, bad_request e)))"

definition lease_status :: "worker_id \<Rightarrow> 'w lm \<Rightarrow> lease reply" where
  "lease_status wid lm =
     (case store_lease wid (lm_store lm) of Some l \<Rightarrow> Inr l | None \<Rightarrow> Inl (404, ''no lease''))"

definition extend_lease ::
  "'w manager \<Rightarrow> unix_seconds \<Rightarrow> auth_context \<Rightarrow> worker_id \<Rightarrow> real \<Rightarrow> string \<Rightarrow> 'w lm \<Rightarrow> 'w lm \<times> lease reply" where
  "extend_lease mg now ctx wid minutes reason lm =
     (if \<not> may ctx Write then (lm, requires Write)
      else (case extend mg now wid minutes reason lm of
              (lm1, Inr (Some l)) \<Rightarrow> (lm1, Inr l)
            | (lm1, Inr None) \<Rightarrow> (lm1, Inl (404, ''no lease''))
            | (lm1, Inl e) \<Rightarrow> (lm1, bad_request e)))"

definition api_teardown ::
  "'w manager \<Rightarrow> unix_seconds \<Rightarrow> auth_context \<Rightarrow> worker_id \<Rightarrow> bool \<Rightarrow> 'w lm \<Rightarrow> 'w lm \<times> teardown_result reply" where
  "api_teardown mg now ctx wid force lm =
     (if \<not> may ctx Write then (lm, requires Write)
      else (case teardown mg now wid (\<not> force) lm of
              (lm1, Inr r) \<Rightarrow> (lm1, Inr r)
            | (lm1, Inl e) \<Rightarrow> (lm1, bad_request e)))"

subsection \<open>The Colab cell\<close>

definition DEFAULT_COLAB_LABELS :: string where "DEFAULT_COLAB_LABELS = ''colab,t4''"
definition COLAB_WORKER_ID_PREFIX :: string where "COLAB_WORKER_ID_PREFIX = ''colab-''"

definition NL :: string where "NL = [CHR 0x0A]"
definition QUOTE :: string where "QUOTE = [CHR 0x22]"

text \<open>In UTF-8: a middle dot, a rightwards arrow, an ellipsis.\<close>

definition MIDDLE_DOT :: string where "MIDDLE_DOT = [CHR 0xC2, CHR 0xB7]"
definition ARROW :: string where "ARROW = [CHR 0xE2, CHR 0x86, CHR 0x92]"
definition ELLIPSIS :: string where "ELLIPSIS = [CHR 0xE2, CHR 0x80, CHR 0xA6]"

definition colab_text :: "string \<Rightarrow> string \<Rightarrow> string \<Rightarrow> string \<Rightarrow> string \<Rightarrow> string" where
  "colab_text url token worker labels lease_flags =
     ''# chuk-train '' @ MIDDLE_DOT @ '' Colab worker '' @ EM_DASH @ '' paste into ONE cell (Runtime '' @ ARROW @
       '' T4 GPU), then run.'' @ NL @
     ''CP_URL = '' @ QUOTE @ url @ QUOTE @ NL @
     ''JOIN_TOKEN = '' @ QUOTE @ token @ QUOTE @ NL @
     ''WORKER_ID = '' @ QUOTE @ worker @ QUOTE @ NL @
     ''LABELS = '' @ QUOTE @ labels @ QUOTE @ NL @ NL @
     ''import subprocess'' @ NL @
     ''cmd = ('' @ QUOTE @ ''curl -fsSL '' @ QUOTE @ '' + CP_URL + '' @ QUOTE @ ''/install.sh | sh -s -- '' @ QUOTE @ NL @
     ''       '' @ QUOTE @ ''--cp '' @ QUOTE @ '' + CP_URL + '' @ QUOTE @ '' --token '' @ QUOTE @ '' + JOIN_TOKEN + '' @
       QUOTE @ '' --worker-id '' @ QUOTE @ '' + WORKER_ID'' @ NL @
     ''       + '' @ QUOTE @ '' --labels '' @ QUOTE @ '' + LABELS + '' @ QUOTE @ lease_flags @ QUOTE @ '')'' @ NL @
     ''print('' @ QUOTE @ ''[chuk-train] bootstrapping worker via install.sh '' @ ELLIPSIS @ QUOTE @ '')'' @ NL @
     ''subprocess.run(cmd, shell=True, check=False)'' @ NL"

text \<open>A \<open>GET\<close> without a role check: it mints a join token for any authenticated caller.\<close>

definition colab_cell ::
  "hub_env \<Rightarrow> config \<Rightarrow> (f64 \<Rightarrow> string) \<Rightarrow> unix_seconds \<Rightarrow> f64 option \<Rightarrow> string option \<Rightarrow> hub \<Rightarrow>
   hub \<times> string reply" where
  "colab_cell env cfg show_f64 now lease_min labels h =
     (let (h1, u) = fresh_uuid env h;
          wid = COLAB_WORKER_ID_PREFIX @ take 8 u
      in case mint_join_token env now wid h1 of
           (h2, Inl _) \<Rightarrow> (h2, internal)
         | (h2, Inr token) \<Rightarrow>
             (h2, Inr (colab_text (cf_public_url cfg) token wid (unwrap_or DEFAULT_COLAB_LABELS labels)
                        (case lease_min of
                           Some m \<Rightarrow> '' --lease-min '' @ show_f64 m @ '' --drain-window-min '' @
                                     show_f64 (cf_drain_window_min cfg)
                         | None \<Rightarrow> []))))"

subsection \<open>Budgets\<close>

definition DEFAULT_BUDGET_PERIOD :: string where "DEFAULT_BUDGET_PERIOD = ''month''"

definition spend_status :: "unix_seconds \<Rightarrow> string option \<Rightarrow> hub \<Rightarrow> spend_report reply" where
  "spend_status now period h =
     (let period = unwrap_or DEFAULT_BUDGET_PERIOD period
      in case validate_period period of
           Inl reason \<Rightarrow> bad_request reason
         | Inr _ \<Rightarrow> Inr (Budget.spend_report (store_budgets (hb_store h)) (st_ledger (hb_store h))
                          (live_leases (hb_store h)) period now))"

definition list_budgets :: "hub \<Rightarrow> budget list reply" where
  "list_budgets h = Inr (store_budgets (hb_store h))"

definition api_set_budget ::
  "unix_seconds \<Rightarrow> auth_context \<Rightarrow> string \<Rightarrow> f64 \<Rightarrow> string option \<Rightarrow> hub \<Rightarrow> hub \<times> budget reply" where
  "api_set_budget now ctx scope cap period h =
     (if \<not> may ctx Admin then (h, requires Admin)
      else
        (let period = unwrap_or DEFAULT_BUDGET_PERIOD period
         in case validate_scope scope of
              Inl reason \<Rightarrow> (h, bad_request reason)
            | Inr _ \<Rightarrow>
                (case validate_period period of
                   Inl reason \<Rightarrow> (h, bad_request reason)
                 | Inr _ \<Rightarrow>
                     (case cap of
                        Fin c \<Rightarrow>
                          (if c < 0 then (h, bad_request ''cap must be a non-negative number'')
                           else (let b = \<lparr>bu_scope = scope, bu_cap = c, bu_period = period, bu_updated_at = now\<rparr>
                                 in (on_store (set_budget b) h, Inr b)))
                      | _ \<Rightarrow> (h, bad_request ''cap must be a non-negative number'')))))"

definition api_delete_budget :: "auth_context \<Rightarrow> string \<Rightarrow> hub \<Rightarrow> hub \<times> bool reply" where
  "api_delete_budget ctx scope h =
     (if \<not> may ctx Admin then (h, requires Admin)
      else (case delete_budget scope (hb_store h) of
              (s, True) \<Rightarrow> (h\<lparr>hb_store := s\<rparr>, Inr True)
            | (s, False) \<Rightarrow> (h\<lparr>hb_store := s\<rparr>, Inl (404, ''no budget set for scope '' @ debug_str scope))))"

subsection \<open>Worker binaries (\<open>api/system.rs\<close>)\<close>

definition SUPPORTED_TARGETS :: "string list" where
  "SUPPORTED_TARGETS = [''x86_64-unknown-linux-musl'', ''aarch64-unknown-linux-musl'',
     ''aarch64-apple-darwin'', ''x86_64-apple-darwin'']"

definition AGENT_SHA256_SUFFIX :: string where "AGENT_SHA256_SUFFIX = ''.sha256''"
definition DEFAULT_AGENT_DIR :: string where "DEFAULT_AGENT_DIR = ''/app/agents''"

definition resolve_download :: "string \<Rightarrow> (string \<times> bool) option" where
  "resolve_download name =
     (let (requested, wants_checksum) =
            (case strip_suffix AGENT_SHA256_SUFFIX name of Some base \<Rightarrow> (base, True) | None \<Rightarrow> (name, False))
      in map_option (\<lambda>t. (t, wants_checksum)) (find (\<lambda>t. t = requested) SUPPORTED_TARGETS))"

definition not_available :: "string \<Rightarrow> 'a reply" where
  "not_available message = Inl (404, message)"

text \<open>\<open>read\<close> is the file system of the control plane, \<open>sha\<close> the hex digest.\<close>

definition serve_agent ::
  "(string \<Rightarrow> string option) \<Rightarrow> (string \<Rightarrow> string) \<Rightarrow> config \<Rightarrow> string \<Rightarrow> string reply" where
  "serve_agent read sha cfg name =
     (case resolve_download name of
        None \<Rightarrow> not_available ''unknown worker target''
      | Some (target, wants_checksum) \<Rightarrow>
          (case read (unwrap_or DEFAULT_AGENT_DIR (cf_agent_dir cfg) @ ''/'' @ target) of
             None \<Rightarrow> not_available ''worker binary not available for this target''
           | Some bytes \<Rightarrow> Inr (if wants_checksum then sha bytes else bytes)))"

definition binary_sha ::
  "(string \<Rightarrow> string option) \<Rightarrow> (string \<Rightarrow> string) \<Rightarrow> string option \<Rightarrow> string \<Rightarrow> string option" where
  "binary_sha read sha agent_dir target =
     (if target \<notin> set SUPPORTED_TARGETS then None
      else map_option sha (read (unwrap_or DEFAULT_AGENT_DIR agent_dir @ ''/'' @ target)))"

end
