(* ===== verification/Archive.thy ===== *)
theory Archive
  imports ApiLeases WorkerIo
begin

text \<open>
  The archive tier (\<open>archive.rs\<close>) and the endpoints around checkpoints and archives
  (\<open>api/checkpoints.rs\<close>, \<open>api/archive.rs\<close>). The archiver's Drive is its \<open>DriveUploader\<close>, a
  function on a world \<open>'w\<close>; artifacts are in the filesystem backend, whose operations fail only
  for a missing object or an unsafe key.
\<close>

definition ARCHIVE_ROOT_FOLDER :: string where "ARCHIVE_ROOT_FOLDER = ''chuk-train''"
definition ARCHIVE_FILES :: "string list" where
  "ARCHIVE_FILES = [CHECKPOINT_MODEL_FILE, CHECKPOINT_META_FILE]"
definition LOGS_NAME :: string where "LOGS_NAME = ''logs.txt''"
definition METRICS_NAME :: string where "METRICS_NAME = ''metrics.json''"
definition OCTET :: string where "OCTET = ''application/octet-stream''"
definition TEXT_MIME :: string where "TEXT_MIME = ''text/plain; charset=utf-8''"
definition JSON_MIME :: string where "JSON_MIME = ''application/json''"
definition LOGS_TAIL :: nat where "LOGS_TAIL = 100000"
definition SWEEP_LIMIT :: nat where "SWEEP_LIMIT = 200"

datatype archive_outcome = Archived nat nat | Already_archived | No_checkpoint

record 'w archiver =
  av_upload :: "string \<Rightarrow> string \<Rightarrow> string option \<Rightarrow> string \<Rightarrow> 'w \<Rightarrow> 'w \<times> string result"
  av_json :: "run_id \<Rightarrow> (string \<times> metric_point list) list \<Rightarrow> string"

subsection \<open>Archiving one run\<close>

text \<open>The checkpoint files: a file that cannot be read is skipped, a failed promotion is ignored, a
  failed upload ends the archiving.\<close>

fun archive_files ::
  "'w archiver \<Rightarrow> run_id \<Rightarrow> nat \<Rightarrow> string list \<Rightarrow> (string \<times> string) list \<Rightarrow> 'w \<times> blobs \<Rightarrow>
   ('w \<times> blobs) \<times> (string \<times> string) list result" where
  "archive_files av rid step [] ids s = (s, Inr ids)"
| "archive_files av rid step (file # files) ids (w, b) =
     (let hot_key = checkpoint_file rid step file
      in case fs_get hot_key b of
           Inl _ \<Rightarrow> archive_files av rid step files ids (w, b)
         | Inr bytes \<Rightarrow>
             (let b1 = fst (fs_copy hot_key (checkpoint_final_file rid step file) b)
              in case av_upload av (ARCHIVE_ROOT_FOLDER @ ''/runs/'' @ rid @ ''/ckpt/'' @
                        CHECKPOINT_DIR_PREFIX @ show_nat step) file (Some OCTET) bytes w of
                   (w1, Inl e) \<Rightarrow> ((w1, b1), Inl (''drive upload '' @ file @ '': '' @ e))
                 | (w1, Inr i) \<Rightarrow> archive_files av rid step files (btree_put file i ids) (w1, b1)))"

text \<open>One further document of the run's folder, when there is something to put into it.\<close>

definition archive_document ::
  "'w archiver \<Rightarrow> run_id \<Rightarrow> string \<Rightarrow> string \<Rightarrow> string option \<Rightarrow> (string \<times> string) list \<Rightarrow> 'w \<Rightarrow>
   'w \<times> (string \<times> string) list result" where
  "archive_document av rid name mime body ids w =
     (case body of
        None \<Rightarrow> (w, Inr ids)
      | Some bytes \<Rightarrow>
          (case av_upload av (ARCHIVE_ROOT_FOLDER @ ''/runs/'' @ rid) name (Some mime) bytes w of
             (w1, Inl e) \<Rightarrow> (w1, Inl e)
           | (w1, Inr i) \<Rightarrow> (w1, Inr (btree_put name i ids))))"

definition logs_body :: "run_id \<Rightarrow> store \<Rightarrow> string option" where
  "logs_body rid s =
     (case tail_logs rid LOGS_TAIL s of
        [] \<Rightarrow> None
      | l # ls \<Rightarrow> Some (l @ concat (map (\<lambda>x. CHR 0x0A # x) ls)))"

text \<open>The keys with a point, each with its whole series.\<close>

definition series_keys :: "run_id \<Rightarrow> store \<Rightarrow> string list" where
  "series_keys rid s =
     sort (remdups (map mr_key (filter (\<lambda>r. mr_run_id r = rid \<and> mr_value r \<noteq> None) (st_metrics s))))"

definition metrics_body :: "'w archiver \<Rightarrow> run_id \<Rightarrow> store \<Rightarrow> string option" where
  "metrics_body av rid s =
     (case series_keys rid s of
        [] \<Rightarrow> None
      | ks \<Rightarrow> Some (av_json av rid (map (\<lambda>k. (k, metric_series rid None 0 0 s k)) ks)))"

definition archive_run ::
  "'w archiver \<Rightarrow> unix_seconds \<Rightarrow> run_id \<Rightarrow> bool \<Rightarrow> 'w \<times> hub \<Rightarrow> ('w \<times> hub) \<times> archive_outcome result" where
  "archive_run av now rid force s =
     (let (w, h) = s
      in case latest_checkpoint rid (hb_store h) of
           None \<Rightarrow> ((w, h), Inr No_checkpoint)
         | Some c \<Rightarrow>
             if (ck_location c = Drive \<or> ck_archived_at c \<noteq> None) \<and> \<not> force
             then ((w, h), Inr Already_archived)
             else
               (let step = ck_step c
                in case archive_files av rid step ARCHIVE_FILES [] (w, hb_blobs h) of
                     ((w1, b1), Inl e) \<Rightarrow> ((w1, h\<lparr>hb_blobs := b1\<rparr>), Inl e)
                   | ((w1, b1), Inr ids1) \<Rightarrow>
                       (let h1 = on_store (set_checkpoint_location rid step R2Final) (h\<lparr>hb_blobs := b1\<rparr>)
                        in case archive_document av rid LOGS_NAME TEXT_MIME (logs_body rid (hb_store h1)) ids1 w1 of
                             (w2, Inl e) \<Rightarrow> ((w2, h1), Inl e)
                           | (w2, Inr ids2) \<Rightarrow>
                               (case archive_document av rid METRICS_NAME JSON_MIME
                                       (metrics_body av rid (hb_store h1)) ids2 w2 of
                                  (w3, Inl e) \<Rightarrow> ((w3, h1), Inl e)
                                | (w3, Inr ids) \<Rightarrow>
                                    ((w3, on_store (mark_checkpoint_archived rid step ids now) h1),
                                     Inr (Archived step (length ids)))))))"

subsection \<open>The sweep\<close>

fun sweep_runs ::
  "'w archiver \<Rightarrow> unix_seconds \<Rightarrow> run_summary list \<Rightarrow> 'w \<times> hub \<Rightarrow> ('w \<times> hub) \<times> nat" where
  "sweep_runs av now [] s = (s, 0)"
| "sweep_runs av now (r # rs) s =
     (let (s1, outcome) = archive_run av now (rs_id r) False s;
          (s2, n) = sweep_runs av now rs s1
      in (s2, (case outcome of Inr (Archived _ _) \<Rightarrow> n + 1 | _ \<Rightarrow> n)))"

definition sweep_once :: "'w archiver \<Rightarrow> unix_seconds \<Rightarrow> 'w \<times> hub \<Rightarrow> ('w \<times> hub) \<times> nat" where
  "sweep_once av now s =
     sweep_runs av now (store_runs (default_run_query\<lparr>rq_state := Some Completed\<rparr>) SWEEP_LIMIT (hb_store (snd s))) s"

subsection \<open>The archive endpoints\<close>

definition NO_ARCHIVER :: string where
  "NO_ARCHIVER = ''archive tier not configured (no Drive credentials)''"

definition api_archive_run ::
  "'w archiver option \<Rightarrow> unix_seconds \<Rightarrow> auth_context \<Rightarrow> run_id \<Rightarrow> bool \<Rightarrow> 'w \<times> hub \<Rightarrow>
   ('w \<times> hub) \<times> archive_outcome reply" where
  "api_archive_run archiver now ctx rid force s =
     (if \<not> may ctx Admin then (s, requires Admin)
      else (case archiver of
              None \<Rightarrow> (s, bad_request NO_ARCHIVER)
            | Some av \<Rightarrow>
                (case archive_run av now rid force s of
                   (s1, Inr r) \<Rightarrow> (s1, Inr r)
                 | (s1, Inl _) \<Rightarrow> (s1, internal))))"

definition archive_all ::
  "'w archiver option \<Rightarrow> unix_seconds \<Rightarrow> auth_context \<Rightarrow> 'w \<times> hub \<Rightarrow> ('w \<times> hub) \<times> nat reply" where
  "archive_all archiver now ctx s =
     (if \<not> may ctx Admin then (s, requires Admin)
      else (case archiver of
              None \<Rightarrow> (s, bad_request NO_ARCHIVER)
            | Some av \<Rightarrow> (case sweep_once av now s of (s1, n) \<Rightarrow> (s1, Inr n))))"

record archive_row =
  aw_run_id :: run_id
  aw_name :: string
  aw_state :: string
  aw_final_step :: "nat option"
  aw_location :: "checkpoint_location option"
  aw_archived_at :: "unix_seconds option"

definition archive_status :: "hub \<Rightarrow> archive_row list reply" where
  "archive_status h =
     Inr (map (\<lambda>r. let c = latest_checkpoint (rs_id r) (hb_store h)
               in \<lparr>aw_run_id = rs_id r, aw_name = rs_name r, aw_state = run_state_str (rs_state r),
                   aw_final_step = map_option ck_step c, aw_location = map_option ck_location c,
                   aw_archived_at = (case c of Some x \<Rightarrow> ck_archived_at x | None \<Rightarrow> None)\<rparr>)
            (store_runs default_run_query DEFAULT_RUN_LIST_LIMIT (hb_store h)))"

subsection \<open>The checkpoint endpoints\<close>

definition list_checkpoints :: "run_id \<Rightarrow> hub \<Rightarrow> checkpoint_info list reply" where
  "list_checkpoints rid h = Inr (store_checkpoints rid (hb_store h))"

definition api_pin_checkpoint :: "auth_context \<Rightarrow> run_id \<Rightarrow> nat \<Rightarrow> string \<Rightarrow> hub \<Rightarrow> hub \<times> unit reply" where
  "api_pin_checkpoint ctx rid step name h =
     (if \<not> may ctx Write then (h, requires Write)
      else (case pin_checkpoint rid step name (hb_store h) of
              (s, ok) \<Rightarrow> (h\<lparr>hb_store := s\<rparr>, if ok then Inr () else Inl (404, ERR_CKPT_NOT_FOUND))))"

datatype file_reply = Redirect string | Body string

text \<open>\<open>presign\<close> is the backend's \<open>presign_get\<close>, \<open>drive\<close> the client's download if Drive is
  configured.\<close>

definition serve_checkpoint ::
  "(string \<Rightarrow> string option result) \<Rightarrow> (string \<Rightarrow> 'w \<Rightarrow> 'w \<times> string result) option \<Rightarrow>
   run_id \<Rightarrow> nat \<Rightarrow> string \<Rightarrow> 'w \<times> hub \<Rightarrow> 'w \<times> file_reply reply" where
  "serve_checkpoint presign drive rid step file s =
     (let (w, h) = s
      in if CHR ''/'' \<in> set file \<or> \<not> is_safe_key file then (w, bad_request ''invalid checkpoint file'')
         else
           (case find (\<lambda>c. ck_step c = step) (store_checkpoints rid (hb_store h)) of
              None \<Rightarrow> (w, not_found)
            | Some c \<Rightarrow>
                (if ck_location c = Drive
                 then
                   (case drive of
                      None \<Rightarrow> (w, internal)
                    | Some download \<Rightarrow>
                        (case map_of (unwrap_or [] (checkpoint_drive_ids rid step (hb_store h))) file of
                           None \<Rightarrow> (w, not_found)
                         | Some i \<Rightarrow>
                             (case download i w of
                                (w1, Inr bytes) \<Rightarrow> (w1, Inr (Body bytes))
                              | (w1, Inl _) \<Rightarrow> (w1, internal))))
                 else
                   (let key = (if ck_location c = R2Final then checkpoint_final_file rid step file
                               else checkpoint_file rid step file)
                    in case presign key of
                         Inr (Some url) \<Rightarrow> (w, Inr (Redirect url))
                       | Inr None \<Rightarrow>
                           (w, case fs_get key (hb_blobs h) of Inr bytes \<Rightarrow> Inr (Body bytes) | Inl _ \<Rightarrow> not_found)
                       | Inl _ \<Rightarrow> (w, internal)))))"

definition DEFAULT_ARTIFACT_URL_TTL :: nat where "DEFAULT_ARTIFACT_URL_TTL = 3600"

text \<open>A signed url and its expiry; \<open>presign\<close> takes the key and the lifetime.\<close>

definition artifact_url ::
  "(string \<Rightarrow> nat \<Rightarrow> (string \<times> unix_seconds) option result) \<Rightarrow> config \<Rightarrow> unix_seconds \<Rightarrow> string \<Rightarrow> nat option \<Rightarrow>
   (string \<times> unix_seconds) reply" where
  "artifact_url presign cfg now key ttl_s =
     (let ttl = unwrap_or DEFAULT_ARTIFACT_URL_TTL ttl_s
      in case presign key ttl of
           Inl e \<Rightarrow> bad_request e
         | Inr (Some signed) \<Rightarrow> Inr signed
         | Inr None \<Rightarrow>
             Inr (trim_end_slashes (cf_public_url cfg) @ ''/api/blob/'' @ key, now + real ttl))"

definition blob :: "string \<Rightarrow> hub \<Rightarrow> string reply" where
  "blob key h = (case fs_get key (hb_blobs h) of Inr bytes \<Rightarrow> Inr bytes | Inl _ \<Rightarrow> Inl (404, ''no such artifact''))"

end
