(* ===== verification/ArchiveLaws.thy ===== *)
theory ArchiveLaws
  imports Archive
begin

text \<open>
  What the archiver guarantees and what it does not: an archived run is settled and its uploaded
  files are served from Drive; a file whose hot copy was gone is recorded as archived all the same.
\<close>

lemma map_of_btree_put: "map_of (btree_put k v m) = (map_of m)(k \<mapsto> v)"
  by (induction k v m rule: btree_put.induct) (auto simp: fun_eq_iff)

lemma hot_not_final [simp]:
  "checkpoint_file rid step f \<noteq> checkpoint_final_file rid' step' f'"
  by (simp add: checkpoint_file_def checkpoint_final_file_def checkpoint_dir_def checkpoint_final_dir_def)

lemma hot_after_promotion [simp]:
  "fs_get (checkpoint_file rid step f) (fst (fs_copy src (checkpoint_final_file rid' step' f') b)) =
   fs_get (checkpoint_file rid step f) b"
  by (auto simp: fs_get_def fs_copy_def fs_resolve_def result_bind_def split: sum.splits option.splits)

subsection \<open>The rows of a run's checkpoints\<close>

lemma insort_key_map: "(\<And>x. k (f x) = k x) \<Longrightarrow> insort_key k (f x) (map f xs) = map f (insort_key k x xs)"
  by (induction xs) auto

lemma sort_key_map: "(\<And>x. k (f x) = k x) \<Longrightarrow> sort_key k (map f xs) = map f (sort_key k xs)"
  by (induction xs) (simp_all add: insort_key_map)

definition relocated :: "nat \<Rightarrow> checkpoint_location \<Rightarrow> unix_seconds option \<Rightarrow> checkpoint_info \<Rightarrow> checkpoint_info" where
  "relocated step loc archived_at c =
     (if ck_step c = step then c\<lparr>ck_location := loc, ck_archived_at := archived_at\<rparr> else c)"

lemma relocated_step [simp]: "ck_step (relocated step loc ts c) = ck_step c"
  by (simp add: relocated_def)

definition run_infos :: "run_id \<Rightarrow> checkpoint_row list \<Rightarrow> checkpoint_info list" where
  "run_infos rid rows = map cx_info (filter (\<lambda>x. ck_run_id (cx_info x) = rid) rows)"

lemma run_infos_queries:
  "latest_checkpoint rid s =
     (case order_by_desc ck_step (run_infos rid (st_checkpoints s)) of [] \<Rightarrow> None | c # _ \<Rightarrow> Some c)"
  "store_checkpoints rid s = order_by ck_step (run_infos rid (st_checkpoints s))"
  by (simp_all add: latest_checkpoint_def store_checkpoints_def run_infos_def)

definition archived_rows :: "run_id \<Rightarrow> nat \<Rightarrow> (string \<times> string) list \<Rightarrow> unix_seconds \<Rightarrow> store \<Rightarrow> store" where
  "archived_rows rid step ids now s =
     mark_checkpoint_archived rid step ids now (set_checkpoint_location rid step R2Final s)"

lemma archived_infos:
  "run_infos rid (st_checkpoints (archived_rows rid step ids now s)) =
   map (relocated step Drive (Some now)) (run_infos rid (st_checkpoints s))"
proof -
  have "run_infos rid (update_where (\<lambda>c. ckpt_key c = (rid, step)) f
      (update_where (\<lambda>c. ckpt_key c = (rid, step)) g rows)) =
      map (relocated step Drive (Some now)) (run_infos rid rows)"
    if "f = (\<lambda>c. c\<lparr>cx_info := (cx_info c)\<lparr>ck_location := Drive, ck_archived_at := Some now\<rparr>, cx_drive_file_ids := Some ids\<rparr>)"
      "g = (\<lambda>c. c\<lparr>cx_info := (cx_info c)\<lparr>ck_location := R2Final\<rparr>\<rparr>)" for f g rows
    unfolding that by (induction rows) (simp_all add: run_infos_def relocated_def)
  then show ?thesis
    by (simp add: archived_rows_def mark_checkpoint_archived_def set_checkpoint_location_def)
qed

lemma latest_in_infos:
  "latest_checkpoint rid s = Some c \<Longrightarrow> c \<in> set (run_infos rid (st_checkpoints s))"
  unfolding run_infos_queries
  by (metis list.case_eq_if list.set_sel(1) option.inject option.distinct(1) set_order_by_desc)

lemma archived_latest:
  assumes "latest_checkpoint rid s = Some c"
  shows "latest_checkpoint rid (archived_rows rid (ck_step c) ids now s) =
    Some (c\<lparr>ck_location := Drive, ck_archived_at := Some now\<rparr>)"
proof -
  obtain cs where cs: "order_by_desc ck_step (run_infos rid (st_checkpoints s)) = c # cs"
    using assms by (auto simp: run_infos_queries split: list.splits)
  then have "order_by_desc ck_step (run_infos rid (st_checkpoints (archived_rows rid (ck_step c) ids now s))) =
      map (relocated (ck_step c) Drive (Some now)) (c # cs)"
    by (simp add: archived_infos order_by_desc_def sort_key_map [of ck_step] flip: rev_map)
  then show ?thesis by (simp add: run_infos_queries relocated_def)
qed

lemma archived_found:
  assumes "latest_checkpoint rid s = Some c"
  shows "\<exists>c'. find (\<lambda>x. ck_step x = ck_step c) (store_checkpoints rid (archived_rows rid (ck_step c) ids now s)) =
    Some c' \<and> ck_location c' = Drive"
proof -
  let ?xs = "store_checkpoints rid (archived_rows rid (ck_step c) ids now s)"
  have l: "set ?xs = relocated (ck_step c) Drive (Some now) ` set (run_infos rid (st_checkpoints s))"
    by (simp add: run_infos_queries archived_infos)
  have "find (\<lambda>x. ck_step x = ck_step c) ?xs \<noteq> None"
    unfolding find_None_iff l using latest_in_infos [OF assms] by auto
  then obtain c' where c': "find (\<lambda>x. ck_step x = ck_step c) ?xs = Some c'" by blast
  then have "c' \<in> set ?xs" "ck_step c' = ck_step c" by (auto simp: find_Some_iff)
  then have "ck_location c' = Drive" unfolding l by (auto simp: relocated_def split: if_splits)
  with c' show ?thesis by blast
qed

lemma archived_ids:
  assumes "latest_checkpoint rid s = Some c"
  shows "checkpoint_drive_ids rid (ck_step c) (archived_rows rid (ck_step c) ids now s) = Some ids"
proof -
  from latest_in_infos [OF assms] obtain x where
    "x \<in> set (st_checkpoints s)" "ckpt_key x = (rid, ck_step c)" by (auto simp: run_infos_def)
  then have "row_of ckpt_key (rid, ck_step c) (st_checkpoints s) \<noteq> None"
    by (auto simp: row_of_None_iff)
  then obtain y where y: "row_of ckpt_key (rid, ck_step c) (st_checkpoints s) = Some y" by blast
  then have "ckpt_key y = (rid, ck_step c)" by (auto dest: row_of_SomeD)
  with y show ?thesis
    by (simp add: archived_rows_def checkpoint_drive_ids_def mark_checkpoint_archived_def
        set_checkpoint_location_def row_of_update_where)
qed

subsection \<open>What a successful archiving did\<close>

text \<open>A Drive that keeps its files: a new file's id downloads what was uploaded, and an upload leaves
  what the other ids download alone.\<close>

definition keeps_files ::
  "(string \<Rightarrow> string \<Rightarrow> string option \<Rightarrow> string \<Rightarrow> 'w \<Rightarrow> 'w \<times> string result) \<Rightarrow>
   (string \<Rightarrow> 'w \<Rightarrow> 'w \<times> string result) \<Rightarrow> bool" where
  "keeps_files up dl \<longleftrightarrow>
     (\<forall>folder name mime bytes w w' i. up folder name mime bytes w = (w', Inr i) \<longrightarrow> snd (dl i w') = Inr bytes) \<and>
     (\<forall>folder name mime bytes w i c. snd (dl i w) = Inr c \<longrightarrow> snd (dl i (fst (up folder name mime bytes w))) = Inr c)"

lemma keeps_filesD:
  assumes "keeps_files up dl"
  shows "up folder name mime bytes w = (w', Inr i) \<Longrightarrow> snd (dl i w') = Inr bytes"
    and "up folder name mime bytes w = (w', r) \<Longrightarrow> snd (dl i w) = Inr c \<Longrightarrow> snd (dl i w') = Inr c"
proof -
  show "up folder name mime bytes w = (w', Inr i) \<Longrightarrow> snd (dl i w') = Inr bytes"
    using assms unfolding keeps_files_def by blast
  assume "up folder name mime bytes w = (w', r)"
  moreover assume "snd (dl i w) = Inr c"
  then have "snd (dl i (fst (up folder name mime bytes w))) = Inr c"
    using assms unfolding keeps_files_def by blast
  ultimately show "snd (dl i w') = Inr c" by simp
qed

lemma archive_document_keeps:
  "archive_document av rid name mime body ids w = (w', r) \<Longrightarrow> keeps_files (av_upload av) dl \<Longrightarrow>
   snd (dl i w) = Inr c \<Longrightarrow> snd (dl i w') = Inr c"
  by (auto simp: archive_document_def split: option.splits prod.splits sum.splits dest: keeps_filesD(2))

lemma archive_files_missing:
  "archive_files av rid step files ids s = (s', Inr ids') \<Longrightarrow>
   fs_get (checkpoint_file rid step f) (snd s) = Inl e \<Longrightarrow> map_of ids' f = map_of ids f"
proof (induction av rid step files ids s rule: archive_files.induct)
  case (2 av rid step g files ids w b)
  then show ?case
    by (cases "f = g") (auto simp: Let_def map_of_btree_put split: sum.splits prod.splits)
qed simp

lemma archive_files_served:
  assumes "keeps_files (av_upload av) dl"
  shows "archive_files av rid step files ids s = (s', Inr ids') \<Longrightarrow> distinct files \<Longrightarrow>
    (f \<notin> set files \<and> map_of ids f = Some i \<and> snd (dl i (fst s)) = Inr c \<longrightarrow>
       map_of ids' f = Some i \<and> snd (dl i (fst s')) = Inr c) \<and>
    (f \<in> set files \<and> fs_get (checkpoint_file rid step f) (snd s) = Inr c \<longrightarrow>
       (\<exists>i. map_of ids' f = Some i \<and> snd (dl i (fst s')) = Inr c))"
  using assms
proof (induction av rid step files ids s arbitrary: i rule: archive_files.induct)
  case (2 av rid step g files ids w b)
  show ?case
  proof (cases "fs_get (checkpoint_file rid step g) b")
    case (Inl e)
    with 2(1) [OF refl Inl] 2(3-) show ?thesis by (auto simp: Let_def)
  next
    case (Inr bytes)
    let ?b = "fst (fs_copy (checkpoint_file rid step g) (checkpoint_final_file rid step g) b)"
    from 2(3) Inr obtain w1 j where up: "av_upload av (ARCHIVE_ROOT_FOLDER @ ''/runs/'' @ rid @ ''/ckpt/'' @
        CHECKPOINT_DIR_PREFIX @ show_nat step) g (Some OCTET) bytes w = (w1, Inr j)"
      and rest: "archive_files av rid step files (btree_put g j ids) (w1, ?b) = (s', Inr ids')"
      by (auto simp: Let_def split: prod.splits sum.splits)
    note ih = 2(2) [OF refl Inr refl up [symmetric] refl rest]
    show ?thesis
      using ih [of j] ih [of i] 2(4,5) Inr keeps_filesD [OF 2(5) up] by (auto simp: map_of_btree_put)
  qed
qed simp

lemma archive_document_ids:
  "archive_document av rid name mime body ids w = (w', Inr ids') \<Longrightarrow> f \<noteq> name \<Longrightarrow>
   map_of ids' f = map_of ids f"
  by (auto simp: archive_document_def map_of_btree_put split: option.splits prod.splits sum.splits)

lemma archive_runD:
  assumes "archive_run av now rid force (w, h) = ((w', h'), Inr (Archived step n))"
  obtains c ids ids1 w1 b1 where "latest_checkpoint rid (hb_store h) = Some c" "step = ck_step c"
    "archive_files av rid step ARCHIVE_FILES [] (w, hb_blobs h) = ((w1, b1), Inr ids1)"
    "hb_store h' = archived_rows rid step ids now (hb_store h)"
    "\<And>f. f \<in> set ARCHIVE_FILES \<Longrightarrow> map_of ids f = map_of ids1 f"
    "hb_blobs h' = b1"
    "\<And>dl i c. keeps_files (av_upload av) dl \<Longrightarrow> snd (dl i w1) = Inr c \<Longrightarrow> snd (dl i w') = Inr c"
proof -
  from assms obtain c where c: "latest_checkpoint rid (hb_store h) = Some c"
    by (auto simp: archive_run_def split: option.splits)
  have nm: "f \<noteq> LOGS_NAME" "f \<noteq> METRICS_NAME" if "f \<in> set ARCHIVE_FILES" for f
    using that by (auto simp: ARCHIVE_FILES_def LOGS_NAME_def METRICS_NAME_def)
  from assms c obtain w1 b1 ids1 w2 ids2 w3 ids where
    1: "archive_files av rid (ck_step c) ARCHIVE_FILES [] (w, hb_blobs h) = ((w1, b1), Inr ids1)" "step = ck_step c"
    and 2: "archive_document av rid LOGS_NAME TEXT_MIME
        (logs_body rid (set_checkpoint_location rid (ck_step c) R2Final (hb_store h))) ids1 w1 = (w2, Inr ids2)"
    and 3: "archive_document av rid METRICS_NAME JSON_MIME
        (metrics_body av rid (set_checkpoint_location rid (ck_step c) R2Final (hb_store h))) ids2 w2 = (w3, Inr ids)"
    and 5: "w' = w3"
    and 4: "h' = on_store (mark_checkpoint_archived rid (ck_step c) ids now)
        (on_store (set_checkpoint_location rid (ck_step c) R2Final) (h\<lparr>hb_blobs := b1\<rparr>))"
    by (auto simp: archive_run_def Let_def split: prod.splits sum.splits if_splits)
  show thesis
    by (rule that [OF c 1(2), of w1 b1 ids1 ids])
       (use 1 4 nm archive_document_ids [OF 2] archive_document_ids [OF 3] 5 archive_document_keeps [OF 2]
         archive_document_keeps [OF 3] in \<open>auto simp: archived_rows_def\<close>)
qed

lemma archive_run_settled:
  assumes "archive_run av now rid force (w, h) = ((w', h'), Inr (Archived step n))"
  shows "archive_run av now' rid False (v, h') = ((v, h'), Inr Already_archived)"
proof -
  from assms obtain c ids where "latest_checkpoint rid (hb_store h) = Some c" "step = ck_step c"
    "hb_store h' = archived_rows rid step ids now (hb_store h)" by (rule archive_runD)
  then show ?thesis by (simp add: archive_run_def archived_latest)
qed


text \<open>C32: Archiving loses a checkpoint whose hot copy is gone. When a run is archived, for the first
  time or by force, while a file cannot be read from the hot tier, the checkpoint is recorded as
  archived without that file: whatever copies exist elsewhere, every fetch of the file is a 404
  from then on, and no later sweep tries again.\<close>

theorem expired_copy_unfetchable:
  assumes "archive_run av now rid force (w, h) = ((w', h'), Inr (Archived step n))"
    and "f \<in> set ARCHIVE_FILES" and "fs_get (checkpoint_file rid step f) (hb_blobs h) = Inl e"
  shows "serve_checkpoint presign (Some dl) rid step f (v, h') = (v, not_found) \<and>
    archive_run av now' rid False (v, h') = ((v, h'), Inr Already_archived)"
proof -
  from assms(1) obtain c ids ids1 w1 b1 where c: "latest_checkpoint rid (hb_store h) = Some c" "step = ck_step c"
    and files: "archive_files av rid step ARCHIVE_FILES [] (w, hb_blobs h) = ((w1, b1), Inr ids1)"
    and st: "hb_store h' = archived_rows rid step ids now (hb_store h)"
    and ids: "\<And>f. f \<in> set ARCHIVE_FILES \<Longrightarrow> map_of ids f = map_of ids1 f"
    by (rule archive_runD) blast
  have none: "map_of ids f = None"
    using archive_files_missing [OF files] assms(3) ids [OF assms(2)] by simp
  have safe: "CHR ''/'' \<notin> set f" "is_safe_key f"
    using assms(2) by (auto simp: ARCHIVE_FILES_def is_safe_lit)
  obtain c' where "find (\<lambda>x. ck_step x = step) (store_checkpoints rid (hb_store h')) = Some c'"
    "ck_location c' = Drive" using archived_found [OF c(1)] c(2) st by auto
  moreover have "checkpoint_drive_ids rid step (hb_store h') = Some ids"
    using archived_ids [OF c(1)] c(2) st by simp
  ultimately have "serve_checkpoint presign (Some dl) rid step f (v, h') = (v, not_found)"
    using safe none by (simp add: serve_checkpoint_def unwrap_or_def)
  with archive_run_settled [OF assms(1)] show ?thesis by blast
qed

subsection \<open>A run with one checkpoint\<close>

text \<open>A Drive as the list of its files; the id of a new file is longer than all others.\<close>

definition demo_drive_upload ::
  "string \<Rightarrow> string \<Rightarrow> string option \<Rightarrow> string \<Rightarrow> (string \<times> string) list \<Rightarrow> (string \<times> string) list \<times> string result" where
  "demo_drive_upload folder name mime bytes w =
     (let i = CHR ''x'' # concat (map fst w) in ((i, bytes) # w, Inr i))"

definition demo_drive_download :: "string \<Rightarrow> (string \<times> string) list \<Rightarrow> (string \<times> string) list \<times> string result" where
  "demo_drive_download i w = (w, case map_of w i of Some b \<Rightarrow> Inr b | None \<Rightarrow> Inl ''404'')"

definition demo_archiver :: "(string \<times> string) list archiver" where
  "demo_archiver = \<lparr>av_upload = demo_drive_upload, av_json = (\<lambda>_ _. ''{}'')\<rparr>"

lemma demo_keeps: "keeps_files demo_drive_upload demo_drive_download"
proof -
  have "length k \<le> length (concat (map fst w))" if "k \<in> fst ` set w" for k and w :: "(string \<times> string) list"
    using that
  proof (induction w)
    case (Cons a w)
    then show ?case by (cases "k = fst a") (auto intro: le_trans)
  qed simp
  then have "CHR ''x'' # concat (map fst w) \<notin> fst ` set w" for w :: "(string \<times> string) list"
    by (metis impossible_Cons)
  then have "map_of w (CHR ''x'' # concat (map fst w)) = None" for w :: "(string \<times> string) list"
    by (simp add: map_of_eq_None_iff)
  then show ?thesis
    by (auto simp: keeps_files_def demo_drive_upload_def demo_drive_download_def Let_def split: option.splits)
qed

definition demo_archive_store :: store where
  "demo_archive_store = empty_store\<lparr>st_checkpoints :=
     [\<lparr>cx_info = \<lparr>ck_run_id = ''r'', ck_step = 7, ck_uri = ''u'', ck_model_hash = ''m'', ck_pinned = False,
         ck_pin_name = None, ck_meta = default_checkpoint_meta, ck_created_at = 0, ck_location = R2Hot,
         ck_archived_at = None\<rparr>, cx_drive_file_ids = None\<rparr>]\<rparr>"

definition demo_hot :: blobs where
  "demo_hot = [checkpoint_file ''r'' 7 ''model.safetensors'' \<mapsto> ''weights'']"

lemma demo_safe: "is_safe_key (checkpoint_file ''r'' 7 f) = is_safe_key f"
  by (simp add: is_safe_checkpoint_file is_safe_seg)

lemma demo_hot_get:
  "fs_get (checkpoint_file ''r'' 7 ''model.safetensors'') demo_hot = Inr ''weights''"
  "fs_get (checkpoint_file ''r'' 7 ''meta.json'') demo_hot = Inl ''No such file''"
proof -
  have "checkpoint_file ''r'' 7 ''meta.json'' \<noteq> checkpoint_file ''r'' 7 ''model.safetensors''"
    by (simp add: checkpoint_file_def)
  then show "fs_get (checkpoint_file ''r'' 7 ''model.safetensors'') demo_hot = Inr ''weights''"
    "fs_get (checkpoint_file ''r'' 7 ''meta.json'') demo_hot = Inl ''No such file''"
    by (simp_all add: fs_get_def fs_resolve_def result_bind_def demo_safe demo_hot_def is_safe_lit)
qed

lemma demo_archive_latest:
  "\<exists>c. latest_checkpoint ''r'' demo_archive_store = Some c \<and> ck_step c = 7 \<and> ck_location c = R2Hot \<and> ck_archived_at c = None"
  by (simp add: latest_checkpoint_def demo_archive_store_def empty_store_def order_by_desc_def)

lemma demo_archive_docs:
  "logs_body ''r'' (set_checkpoint_location ''r'' 7 R2Final demo_archive_store) = None"
  "metrics_body av ''r'' (set_checkpoint_location ''r'' 7 R2Final demo_archive_store) = None"
  by (simp_all add: logs_body_def tail_logs_def metrics_body_def series_keys_def demo_archive_store_def
      empty_store_def set_checkpoint_location_def order_by_desc_def)

lemma demo_archive_run:
  "\<exists>w' h'. archive_run demo_archiver 9 ''r'' False ([], new_hub demo_archive_store demo_hot) = ((w', h'), Inr (Archived 7 1))"
proof -
  from demo_archive_latest obtain c where "latest_checkpoint ''r'' demo_archive_store = Some c" "ck_step c = 7"
    "ck_location c = R2Hot" "ck_archived_at c = None" by blast
  then show ?thesis
    by (simp add: archive_run_def new_hub_def ARCHIVE_FILES_def Let_def demo_hot_get demo_archiver_def
        demo_drive_upload_def archive_document_def demo_archive_docs)
qed


text \<open>The sidecar was never uploaded: its 404 is the second law at the same run.\<close>

lemma expired_copy_unfetchable_witness:
  "\<exists>w' h'. archive_run demo_archiver 9 ''r'' False ([], new_hub demo_archive_store demo_hot) =
       ((w', h'), Inr (Archived 7 1)) \<and>
     serve_checkpoint (\<lambda>_. Inr None) (Some demo_drive_download) ''r'' 7 ''meta.json'' (w', h') = (w', not_found)"
proof -
  from demo_archive_run obtain w' h' where
    run: "archive_run demo_archiver 9 ''r'' False ([], new_hub demo_archive_store demo_hot) = ((w', h'), Inr (Archived 7 1))"
    by blast
  from expired_copy_unfetchable [OF run, of "''meta.json''"] demo_hot_get(2) run show ?thesis
    by (simp add: ARCHIVE_FILES_def new_hub_def)
qed

text \<open>A sweep looks at the newest completed runs only: it leaves every other run's checkpoints alone.\<close>

lemma archive_run_other:
  assumes "rid \<noteq> k"
  shows "run_infos k (st_checkpoints (hb_store (snd (fst (archive_run av now rid force s))))) =
    run_infos k (st_checkpoints (hb_store (snd s)))"
proof -
  have upd: "run_infos k (update_where (\<lambda>c. ckpt_key c = (rid, step)) g rows) = run_infos k rows"
    if "\<And>c. ck_run_id (cx_info (g c)) = ck_run_id (cx_info c)" for g rows step
    using assms that by (induction rows) (auto simp: run_infos_def)
  then have upd: "run_infos k (st_checkpoints
      (st\<lparr>st_checkpoints := update_where (\<lambda>c. ckpt_key c = (rid, step)) g (st_checkpoints st)\<rparr>)) =
      run_infos k (st_checkpoints st)"
    if "\<And>c. ck_run_id (cx_info (g c)) = ck_run_id (cx_info c)" for g st step
    using that by simp
  have "run_infos k (st_checkpoints (set_checkpoint_location rid step l st)) = run_infos k (st_checkpoints st)"
    "run_infos k (st_checkpoints (mark_checkpoint_archived rid step ids t st)) = run_infos k (st_checkpoints st)"
    for step l ids t st
    unfolding set_checkpoint_location_def mark_checkpoint_archived_def by (rule upd, simp)+
  then show ?thesis
    by (auto simp: archive_run_def Let_def split: prod.splits option.splits sum.splits)
qed

lemma sweep_skips_old_runs:
  assumes "k \<notin> rs_id ` set (store_runs (default_run_query\<lparr>rq_state := Some Completed\<rparr>) SWEEP_LIMIT (hb_store (snd s)))"
  shows "run_infos k (st_checkpoints (hb_store (snd (fst (sweep_once av now s))))) =
    run_infos k (st_checkpoints (hb_store (snd s)))"
proof -
  have "run_infos k (st_checkpoints (hb_store (snd (fst (sweep_runs av now rs s))))) =
      run_infos k (st_checkpoints (hb_store (snd s)))" if "k \<notin> rs_id ` set rs" for rs s
    using that
    by (induction rs arbitrary: s) (auto simp: case_prod_beta archive_run_other)
  with assms show ?thesis by (simp add: sweep_once_def)
qed

end
