(* ===== verification/Mirror.thy ===== *)
theory Mirror
  imports Archive
begin

text \<open>
  The reporting mirror of the experiments server (\<open>experiments.rs\<close>): which report becomes which
  request, the durable outbox with its retries, and the submission of a run fetched from the server
  (\<open>hub/submit.rs\<close>). The server and the HTTP and JSON libraries are \<open>experiments_calls\<close> over a
  world \<open>'w\<close>; the clock is read once per delivery attempt.
\<close>

definition LINK_KIND_WANDB :: string where "LINK_KIND_WANDB = ''wandb''"
definition ACCEPTED_URI_SCHEMES :: "string list" where
  "ACCEPTED_URI_SCHEMES = [''s3://'', ''gdrive://'', ''https://'', ''http://'']"
definition OUTBOX_SWEEP_BATCH :: nat where "OUTBOX_SWEEP_BATCH = 20"
definition OUTBOX_BASE_BACKOFF_SECS :: nat where "OUTBOX_BASE_BACKOFF_SECS = 30"
definition OUTBOX_MAX_BACKOFF_SECS :: nat where "OUTBOX_MAX_BACKOFF_SECS = 3600"

record experiments =
  xp_base :: string
  xp_key :: string
  xp_programme :: string
  xp_programme_title :: string
  xp_experiment :: string
  xp_experiment_title :: string
  xp_public_url :: string
  xp_key_encryption_key :: "string option"

definition experiments_from_env :: "seal \<Rightarrow> (string \<Rightarrow> string option) \<Rightarrow> string \<Rightarrow> experiments option" where
  "experiments_from_env sl env public_url =
     (case non_empty (map_option (\<lambda>s. trim_end_slashes (trim s)) (env ''CHUK_EXPERIMENTS_URL'')) of
        None \<Rightarrow> None
      | Some base \<Rightarrow>
          (case non_empty (env ''CHUK_EXPERIMENTS_API_KEY'') of
             None \<Rightarrow> None
           | Some key \<Rightarrow>
               Some \<lparr>xp_base = base, xp_key = key,
                 xp_programme = unwrap_or ''gpu-training-harness''
                   (non_empty (map_option trim (env ''CHUK_EXPERIMENTS_PROGRAMME''))),
                 xp_programme_title = ''GPU training harness'',
                 xp_experiment = unwrap_or ''harness-runs''
                   (non_empty (map_option trim (env ''CHUK_EXPERIMENTS_EXPERIMENT''))),
                 xp_experiment_title = ''Harness runs'',
                 xp_public_url = trim_end_slashes (trim public_url),
                 xp_key_encryption_key = key_from_env sl env\<rparr>))"

subsection \<open>Events\<close>

datatype outbox_event =
    Ev_created run_spec "string option"
  | Ev_state run_state
  | Ev_checkpoint nat string checkpoint_meta
  | Ev_result string real

fun kind_label :: "outbox_event \<Rightarrow> string" where
  "kind_label (Ev_created _ _) = ''created''"
| "kind_label (Ev_state _) = ''state''"
| "kind_label (Ev_checkpoint _ _ _) = ''checkpoint''"
| "kind_label (Ev_result _ _) = ''result''"

fun map_status :: "run_state \<Rightarrow> string option" where
  "map_status Running = Some ''running''"
| "map_status Completed = Some ''completed''"
| "map_status Failed = Some ''failed''"
| "map_status Cancelled = Some ''cancelled''"
| "map_status Queued = None"
| "map_status Assigned = None"

definition backoff_for :: "int \<Rightarrow> nat" where
  "backoff_for attempts_so_far =
     (let shift = nat (min 10 (max 0 attempts_so_far));
          secs = min (OUTBOX_BASE_BACKOFF_SECS * 2 ^ shift) (2 ^ 64 - 1)
      in min secs OUTBOX_MAX_BACKOFF_SECS)"

definition rfc_civil :: "int \<Rightarrow> int \<times> nat \<times> nat" where
  "rfc_civil z0 =
     (let z = z0 + 719468;
          era = z div 146097;
          doe = z - era * 146097;
          yoe = (doe - doe div 1460 + doe div 36524 - doe div 146096) div 365;
          y = yoe + era * 400;
          doy = doe - (365 * yoe + yoe div 4 - yoe div 100);
          mp = (5 * doy + 2) div 153;
          d = nat (doy - (153 * mp + 2) div 5 + 1);
          m = nat (if mp < 10 then mp + 3 else mp - 9)
      in (if m \<le> 2 then y + 1 else y, m, d))"

definition rfc3339 :: "unix_seconds \<Rightarrow> string" where
  "rfc3339 secs =
     (let s = trunc_to_int secs; days = s div 86400; rem = s mod 86400; (y, m, d) = rfc_civil days
      in show_pad_int 4 y @ ''-'' @ show_pad 2 m @ ''-'' @ show_pad 2 d @ ''T'' @
         show_pad 2 (nat (rem div 3600)) @ '':'' @ show_pad 2 (nat (rem mod 3600 div 60)) @ '':'' @
         show_pad 2 (nat (rem mod 60)) @ ''Z'')"

definition linkback_patch :: "run_id \<Rightarrow> train_spec \<Rightarrow> json" where
  "linkback_patch rid train =
     JObj ((''harness_session_id'', JStr rid) #
           (case find (\<lambda>l. to_lower (rl_kind l) = to_lower LINK_KIND_WANDB) (tr_links train) of
              Some l \<Rightarrow> [(''wandb_url'', JStr (rl_url l))] | None \<Rightarrow> []))"

definition artifact_uri :: "experiments \<Rightarrow> run_id \<Rightarrow> nat \<Rightarrow> string \<Rightarrow> string option" where
  "artifact_uri xp rid step recorded =
     (if starts_with ''https://'' (xp_public_url xp) \<or> starts_with ''http://'' (xp_public_url xp)
      then Some (xp_public_url xp @ ''/api/checkpoint/'' @ rid @ ''/'' @ show_nat step @ ''/'' @ CHECKPOINT_MODEL_FILE)
      else if \<exists>p\<in>set ACCEPTED_URI_SCHEMES. starts_with p recorded then Some recorded else None)"

subsection \<open>The server\<close>

text \<open>The part of a run's record that a submission needs.\<close>

record experiments_run_snapshot =
  xs_status :: string
  xs_config :: json
  xs_workspec :: json
  xs_budget_seconds :: "nat option"
  xs_harness_session_id :: "string option"

text \<open>\<open>xc_send method url bearer body\<close> is one HTTP exchange: a transport error, or the status and the
  body. The others are the JSON codecs of the answers and of the outbox payload, and the display of
  a status.\<close>

record 'w experiments_calls =
  xc_send :: "string \<Rightarrow> string \<Rightarrow> string \<Rightarrow> json option \<Rightarrow> 'w \<Rightarrow> 'w \<times> (nat \<times> string) result"
  xc_status :: "nat \<Rightarrow> string"
  xc_created :: "string \<Rightarrow> string result"
  xc_snapshot :: "string \<Rightarrow> experiments_run_snapshot result"
  xc_render :: "outbox_event \<Rightarrow> string"
  xc_parse :: "string \<Rightarrow> outbox_event result"
  xc_meta :: "checkpoint_meta \<Rightarrow> json"
  xc_seal :: seal

record 'w mirror =
  mi_store :: store
  mi_world :: 'w
  mi_ensured :: bool

text \<open>A request whose answer must be a success; \<open>what\<close> heads the error of a refusal, \<open>context\<close> is that
  of a failed transport.\<close>

definition request_ok ::
  "'w experiments_calls \<Rightarrow> string \<Rightarrow> string \<Rightarrow> string \<Rightarrow> string \<Rightarrow> string \<Rightarrow> json option \<Rightarrow> 'w \<Rightarrow> 'w \<times> string result" where
  "request_ok xc what context meth url token body w =
     (case xc_send xc meth url token body w of
        (w1, Inl _) \<Rightarrow> (w1, Inl context)
      | (w1, Inr (status, text)) \<Rightarrow>
          (w1, if is_success status then Inr text
               else Inl (what @ '': '' @ xc_status xc status @ '' '' @ text)))"

definition bearer_for_email :: "experiments \<Rightarrow> 'w experiments_calls \<Rightarrow> string option \<Rightarrow> store \<Rightarrow> string" where
  "bearer_for_email xp xc email s =
     (case xp_key_encryption_key xp of
        None \<Rightarrow> xp_key xp
      | Some k \<Rightarrow>
          (case email of
             None \<Rightarrow> xp_key xp
           | Some e \<Rightarrow>
               (case user_experiments_key e s of
                  None \<Rightarrow> xp_key xp
                | Some encrypted \<Rightarrow>
                    (case decrypt (xc_seal xc) k encrypted of Inr key \<Rightarrow> key | Inl _ \<Rightarrow> xp_key xp))))"

definition bearer_for :: "experiments \<Rightarrow> 'w experiments_calls \<Rightarrow> run_id \<Rightarrow> store \<Rightarrow> string" where
  "bearer_for xp xc rid s =
     (if xp_key_encryption_key xp = None then xp_key xp
      else (case store_run rid s of
              None \<Rightarrow> xp_key xp
            | Some run \<Rightarrow> bearer_for_email xp xc (rs_created_by (rr_summary run)) s))"

definition ensure :: "experiments \<Rightarrow> 'w experiments_calls \<Rightarrow> 'w mirror \<Rightarrow> 'w mirror \<times> unit result" where
  "ensure xp xc m =
     (if mi_ensured m then (m, Inr ())
      else (case xc_send xc ''POST'' (xp_base xp @ ''/v1/experiments'') (xp_key xp)
                   (Some (JObj [(''programme'', JStr (xp_programme xp)),
                                (''programme_name'', JStr (xp_programme_title xp)),
                                (''slug'', JStr (xp_experiment xp)), (''title'', JStr (xp_experiment_title xp)),
                                (''status'', JStr ''running'')])) (mi_world m) of
              (w, Inl _) \<Rightarrow> (m\<lparr>mi_world := w\<rparr>, Inl ''POST /v1/experiments'')
            | (w, Inr (status, text)) \<Rightarrow>
                (if is_success status \<or> status = 409 then (m\<lparr>mi_world := w, mi_ensured := True\<rparr>, Inr ())
                 else (m\<lparr>mi_world := w\<rparr>,
                       Inl (''ensure experiment: '' @ xc_status xc status @ '' '' @ text)))))"

definition fetch_run ::
  "experiments \<Rightarrow> 'w experiments_calls \<Rightarrow> string \<Rightarrow> string option \<Rightarrow> store \<Rightarrow> 'w \<Rightarrow> 'w \<times> experiments_run_snapshot result" where
  "fetch_run xp xc ext created_by s w =
     (case request_ok xc ''fetch run'' ''GET run'' ''GET'' (xp_base xp @ ''/v1/runs/'' @ ext)
             (bearer_for_email xp xc created_by s) None w of
        (w1, Inl e) \<Rightarrow> (w1, Inl e)
      | (w1, Inr text) \<Rightarrow>
          (w1, case xc_snapshot xc text of Inr x \<Rightarrow> Inr x | Inl _ \<Rightarrow> Inl ''parse run''))"

definition patch_run :: "experiments \<Rightarrow> 'w experiments_calls \<Rightarrow> string \<Rightarrow> json \<Rightarrow> string \<Rightarrow> 'w \<Rightarrow> 'w \<times> unit result" where
  "patch_run xp xc ext body token w =
     (case request_ok xc ''patch run'' ''PATCH run'' ''PATCH'' (xp_base xp @ ''/v1/runs/'' @ ext) token (Some body) w of
        (w1, Inl e) \<Rightarrow> (w1, Inl e)
      | (w1, Inr _) \<Rightarrow> (w1, Inr ()))"

subsection \<open>The reports\<close>

definition opt_str :: "string option \<Rightarrow> json" where
  "opt_str x = (case x of None \<Rightarrow> JNull | Some s \<Rightarrow> JStr s)"

definition opt_int :: "int option \<Rightarrow> json" where
  "opt_int x = (case x of None \<Rightarrow> JNull | Some i \<Rightarrow> JInt i)"

definition code_json :: "code_ref \<Rightarrow> json" where
  "code_json c = JObj [(''name'', JStr (cr_name c)), (''sha'', JStr (cr_sha c))]"

definition run_config :: "train_spec \<Rightarrow> json" where
  "run_config train =
     JObj [(''entrypoint'', JStr (tr_entrypoint train)), (''config_path'', opt_str (tr_config train)),
           (''overrides'', tr_overrides train), (''seed'', opt_int (tr_seed train)),
           (''arch'', opt_str (tr_arch train)), (''code'', code_json (tr_code train))]"

definition run_workspec :: "train_spec \<Rightarrow> json" where
  "run_workspec train =
     JObj [(''entrypoint'', JStr (tr_entrypoint train)), (''code'', code_json (tr_code train))]"

definition try_create ::
  "experiments \<Rightarrow> 'w experiments_calls \<Rightarrow> run_id \<Rightarrow> train_spec \<Rightarrow> 'w mirror \<Rightarrow> 'w mirror \<times> unit result" where
  "try_create xp xc rid train m =
     (case ensure xp xc m of
        (m1, Inl e) \<Rightarrow> (m1, Inl e)
      | (m1, Inr _) \<Rightarrow>
          (let token = bearer_for xp xc rid (mi_store m1)
           in case request_ok xc ''create run'' ''POST run'' ''POST''
                     (xp_base xp @ ''/v1/experiments/'' @ xp_experiment xp @ ''/runs'') token
                     (Some (JObj [(''slug'', JStr rid), (''config'', run_config train),
                                  (''budget_seconds'', JInt (int (tr_timeout_s train))),
                                  (''workspec'', run_workspec train), (''status'', JStr ''queued'')]))
                     (mi_world m1) of
                (w, Inl e) \<Rightarrow> (m1\<lparr>mi_world := w\<rparr>, Inl e)
              | (w, Inr text) \<Rightarrow>
                  (case xc_created xc text of
                     Inl _ \<Rightarrow> (m1\<lparr>mi_world := w\<rparr>, Inl ''parse created run'')
                   | Inr ext \<Rightarrow>
                       (let w1 = fst (patch_run xp xc ext (linkback_patch rid train) token w)
                        in (m1\<lparr>mi_world := w1, mi_store := set_experiments_run_id rid ext (mi_store m1)\<rparr>, Inr ())))))"

definition try_attach ::
  "experiments \<Rightarrow> 'w experiments_calls \<Rightarrow> run_id \<Rightarrow> train_spec \<Rightarrow> string \<Rightarrow> 'w mirror \<Rightarrow> 'w mirror \<times> unit result" where
  "try_attach xp xc rid train ext m =
     (case patch_run xp xc ext (linkback_patch rid train) (bearer_for xp xc rid (mi_store m)) (mi_world m) of
        (w, Inl e) \<Rightarrow> (m\<lparr>mi_world := w\<rparr>, Inl e)
      | (w, Inr _) \<Rightarrow> (m\<lparr>mi_world := w, mi_store := set_experiments_run_id rid ext (mi_store m)\<rparr>, Inr ()))"

definition NOT_MIRRORED :: string where
  "NOT_MIRRORED = ''run not yet mirrored (created event still pending)''"

definition state_body :: "unix_seconds \<Rightarrow> run_state \<Rightarrow> string \<Rightarrow> json" where
  "state_body now state status =
     JObj ((''status'', JStr status) #
           (if state = Running then [(''started_at'', JStr (rfc3339 now))]
            else if is_terminal state then [(''ended_at'', JStr (rfc3339 now))] else []))"

definition try_state ::
  "experiments \<Rightarrow> 'w experiments_calls \<Rightarrow> unix_seconds \<Rightarrow> run_id \<Rightarrow> run_state \<Rightarrow> 'w mirror \<Rightarrow> 'w mirror \<times> unit result" where
  "try_state xp xc now rid state m =
     (case experiments_run_id rid (mi_store m) of
        None \<Rightarrow> (m, Inl NOT_MIRRORED)
      | Some ext \<Rightarrow>
          (case map_status state of
             None \<Rightarrow> (m, Inr ())
           | Some status \<Rightarrow>
               (case patch_run xp xc ext (state_body now state status) (bearer_for xp xc rid (mi_store m)) (mi_world m) of
                  (w, r) \<Rightarrow> (m\<lparr>mi_world := w\<rparr>, r))))"

definition artifact_name :: "run_id \<Rightarrow> checkpoint_meta \<Rightarrow> string" where
  "artifact_name rid meta =
     (case cm_arch meta of Some a \<Rightarrow> a
      | None \<Rightarrow> (case cm_code meta of Some c \<Rightarrow> cr_name c | None \<Rightarrow> rid))"

definition try_checkpoint ::
  "experiments \<Rightarrow> 'w experiments_calls \<Rightarrow> run_id \<Rightarrow> nat \<Rightarrow> string \<Rightarrow> checkpoint_meta \<Rightarrow> 'w mirror \<Rightarrow>
   'w mirror \<times> unit result" where
  "try_checkpoint xp xc rid step recorded meta m =
     (case experiments_run_id rid (mi_store m) of
        None \<Rightarrow> (m, Inl NOT_MIRRORED)
      | Some ext \<Rightarrow>
          (case artifact_uri xp rid step recorded of
             None \<Rightarrow> (m, Inl (''no experiments-server-accepted uri for checkpoint (uri='' @ recorded @ '')''))
           | Some uri \<Rightarrow>
               (case request_ok xc ''register artifact'' ''POST artifact'' ''POST''
                       (xp_base xp @ ''/v1/runs/'' @ ext @ ''/artifacts'') (bearer_for xp xc rid (mi_store m))
                       (Some (JObj [(''kind'', JStr ''checkpoint''), (''uri'', JStr uri), (''role'', JStr ''produced''),
                                    (''name'', JStr (artifact_name rid meta)), (''meta'', xc_meta xc meta)]))
                       (mi_world m) of
                  (w, Inl e) \<Rightarrow> (m\<lparr>mi_world := w\<rparr>, Inl e)
                | (w, Inr _) \<Rightarrow> (m\<lparr>mi_world := w\<rparr>, Inr ()))))"

definition try_result ::
  "experiments \<Rightarrow> 'w experiments_calls \<Rightarrow> run_id \<Rightarrow> string \<Rightarrow> real \<Rightarrow> 'w mirror \<Rightarrow> 'w mirror \<times> unit result" where
  "try_result xp xc rid name value m =
     (case experiments_run_id rid (mi_store m) of
        None \<Rightarrow> (m, Inl NOT_MIRRORED)
      | Some ext \<Rightarrow>
          (case request_ok xc ''submit result'' ''POST result'' ''POST''
                  (xp_base xp @ ''/v1/runs/'' @ ext @ ''/results'') (bearer_for xp xc rid (mi_store m))
                  (Some (JObj [(''name'', JStr name), (''value'', JFloat value)])) (mi_world m) of
             (w, Inl e) \<Rightarrow> (m\<lparr>mi_world := w\<rparr>, Inl e)
           | (w, Inr _) \<Rightarrow> (m\<lparr>mi_world := w\<rparr>, Inr ())))"

subsection \<open>The outbox\<close>

definition deliver ::
  "experiments \<Rightarrow> 'w experiments_calls \<Rightarrow> unix_seconds \<Rightarrow> run_id \<Rightarrow> outbox_event \<Rightarrow> 'w mirror \<Rightarrow> 'w mirror \<times> unit result" where
  "deliver xp xc now rid ev m =
     (case ev of
        Ev_created (Train train) (Some ext) \<Rightarrow> try_attach xp xc rid train ext m
      | Ev_created (Train train) None \<Rightarrow> try_create xp xc rid train m
      | Ev_created (Shell _) _ \<Rightarrow> (m, Inr ())
      | Ev_state state \<Rightarrow> try_state xp xc now rid state m
      | Ev_checkpoint step uri meta \<Rightarrow> try_checkpoint xp xc rid step uri meta m
      | Ev_result name value \<Rightarrow> try_result xp xc rid name value m)"

definition mi_on_store :: "(store \<Rightarrow> store) \<Rightarrow> 'w mirror \<Rightarrow> 'w mirror" where
  "mi_on_store f m = m\<lparr>mi_store := f (mi_store m)\<rparr>"

definition attempt ::
  "experiments \<Rightarrow> 'w experiments_calls \<Rightarrow> unix_seconds \<Rightarrow> int \<Rightarrow> run_id \<Rightarrow> outbox_event \<Rightarrow> int \<Rightarrow> 'w mirror \<Rightarrow>
   'w mirror \<times> bool" where
  "attempt xp xc now i rid ev attempts_so_far m =
     (case deliver xp xc now rid ev m of
        (m1, Inr _) \<Rightarrow> (mi_on_store (mark_outbox_event_done now i) m1, True)
      | (m1, Inl e) \<Rightarrow>
          (mi_on_store (mark_outbox_event_failed i e (now + real (backoff_for attempts_so_far))) m1, False))"

definition enqueue_and_attempt ::
  "experiments \<Rightarrow> 'w experiments_calls \<Rightarrow> unix_seconds \<Rightarrow> run_id \<Rightarrow> outbox_event \<Rightarrow> 'w mirror \<Rightarrow> 'w mirror" where
  "enqueue_and_attempt xp xc now rid ev m =
     (case enqueue_outbox_event rid (kind_label ev) (xc_render xc ev) now (mi_store m) of
        (s, i) \<Rightarrow> fst (attempt xp xc now i rid ev 0 (m\<lparr>mi_store := s\<rparr>)))"

fun sweep_rows ::
  "experiments \<Rightarrow> 'w experiments_calls \<Rightarrow> unix_seconds \<Rightarrow> outbox_row list \<Rightarrow> 'w mirror \<Rightarrow> 'w mirror \<times> nat" where
  "sweep_rows xp xc now [] m = (m, 0)"
| "sweep_rows xp xc now (r # rs) m =
     (case xc_parse xc (ob_payload r) of
        Inl _ \<Rightarrow> sweep_rows xp xc now rs (mi_on_store (mark_outbox_event_done now (ob_id r)) m)
      | Inr ev \<Rightarrow>
          (let (m1, ok) = attempt xp xc now (ob_id r) (ob_run_id r) ev (ob_attempts r) m;
               (m2, n) = sweep_rows xp xc now rs m1
           in (m2, if ok then n + 1 else n)))"

definition sweep_outbox_once ::
  "experiments \<Rightarrow> 'w experiments_calls \<Rightarrow> unix_seconds \<Rightarrow> 'w mirror \<Rightarrow> 'w mirror \<times> nat" where
  "sweep_outbox_once xp xc now m =
     sweep_rows xp xc now (due_outbox_events now OUTBOX_SWEEP_BATCH (mi_store m)) m"

subsection \<open>What the hub calls\<close>

definition report_created ::
  "experiments \<Rightarrow> 'w experiments_calls \<Rightarrow> unix_seconds \<Rightarrow> run_id \<Rightarrow> run_spec \<Rightarrow> string option \<Rightarrow> 'w mirror \<Rightarrow> 'w mirror" where
  "report_created xp xc now rid spec er m =
     (case spec of
        Shell _ \<Rightarrow> m
      | Train _ \<Rightarrow> enqueue_and_attempt xp xc now rid (Ev_created spec er) m)"

text \<open>The final value of every series, read once after the state was reported.\<close>

definition final_metrics :: "run_id \<Rightarrow> store \<Rightarrow> (string \<times> real) list" where
  "final_metrics rid s =
     List.map_filter (\<lambda>k. case metric_series rid None 0 0 s k of [] \<Rightarrow> None | ps \<Rightarrow> Some (k, mp_value (last ps)))
       (series_keys rid s)"

definition report_state ::
  "experiments \<Rightarrow> 'w experiments_calls \<Rightarrow> unix_seconds \<Rightarrow> run_id \<Rightarrow> run_state \<Rightarrow> 'w mirror \<Rightarrow> 'w mirror" where
  "report_state xp xc now rid state m =
     (let m1 = enqueue_and_attempt xp xc now rid (Ev_state state) m
      in if state = Completed
         then fold (\<lambda>(name, value). enqueue_and_attempt xp xc now rid (Ev_result name value))
                (final_metrics rid (mi_store m1)) m1
         else m1)"

definition report_checkpoint ::
  "experiments \<Rightarrow> 'w experiments_calls \<Rightarrow> unix_seconds \<Rightarrow> run_id \<Rightarrow> nat \<Rightarrow> string \<Rightarrow> checkpoint_meta \<Rightarrow>
   'w mirror \<Rightarrow> 'w mirror" where
  "report_checkpoint xp xc now rid step uri meta m =
     enqueue_and_attempt xp xc now rid (Ev_checkpoint step uri meta) m"

text \<open>One of the hub's detached calls, run to its end.\<close>

fun run_mirror_call ::
  "experiments \<Rightarrow> 'w experiments_calls \<Rightarrow> unix_seconds \<Rightarrow> mirror_call \<Rightarrow> 'w mirror \<Rightarrow> 'w mirror" where
  "run_mirror_call xp xc now (Report_created rid spec er) m = report_created xp xc now rid spec er m"
| "run_mirror_call xp xc now (Report_state rid st) m = report_state xp xc now rid st m"
| "run_mirror_call xp xc now (Report_checkpoint rid step uri meta) m = report_checkpoint xp xc now rid step uri meta m"

subsection \<open>Submitting a run of the experiments server\<close>

definition as_str :: "json option \<Rightarrow> string option" where
  "as_str v = (case v of Some (JStr s) \<Rightarrow> Some s | _ \<Rightarrow> None)"

definition not_null :: "json option \<Rightarrow> json option" where
  "not_null v = (if v = Some JNull then None else v)"

definition APOSTROPHE :: char where "APOSTROPHE = CHR 0x27"

definition BUILDING_SPEC :: string where
  "BUILDING_SPEC = ''building TrainSpec from experiments-server run''"

definition DEFAULT_TRAIN_TIMEOUT :: nat where "DEFAULT_TRAIN_TIMEOUT = 12 * 3600"

text \<open>The optional members as serde reads them: a string, an \<open>i64\<close>.\<close>

definition str_member :: "json option \<Rightarrow> string option result" where
  "str_member v = (case v of None \<Rightarrow> Inr None | Some (JStr s) \<Rightarrow> Inr (Some s) | Some _ \<Rightarrow> Inl BUILDING_SPEC)"

definition int_member :: "json option \<Rightarrow> int option result" where
  "int_member v =
     (case v of None \<Rightarrow> Inr None
      | Some j \<Rightarrow> (case as_i64 j of Some i \<Rightarrow> Inr (Some i) | None \<Rightarrow> Inl BUILDING_SPEC))"

definition train_spec_from_experiments_run :: "experiments_run_snapshot \<Rightarrow> train_spec result" where
  "train_spec_from_experiments_run run =
     (case (case as_str (json_get (xs_config run) ''entrypoint'') of
              Some e \<Rightarrow> Some e | None \<Rightarrow> as_str (json_get (xs_workspec run) ''entrypoint'')) of
        None \<Rightarrow> Inl ''run has no entrypoint in config or workspec''
      | Some entry \<Rightarrow>
          (case (case not_null (json_get (xs_config run) ''code'') of
                   Some c \<Rightarrow> Some c | None \<Rightarrow> json_get (xs_workspec run) ''code'') of
             None \<Rightarrow> Inl ''run has no code reference in config or workspec''
           | Some code \<Rightarrow>
               (case as_str (json_get code ''name'') of
                  None \<Rightarrow> Inl (''run'' @ [APOSTROPHE] @ ''s code reference has no name'') | Some name \<Rightarrow>
               (case as_str (json_get code ''sha'') of
                  None \<Rightarrow> Inl (''run'' @ [APOSTROPHE] @ ''s code reference has no sha'') | Some sha \<Rightarrow>
               (case str_member (not_null (json_get (xs_config run) ''config_path'')) of
                  Inl e \<Rightarrow> Inl e | Inr config \<Rightarrow>
               (case int_member (not_null (json_get (xs_config run) ''seed'')) of
                  Inl e \<Rightarrow> Inl e | Inr seed \<Rightarrow>
               (case str_member (not_null (json_get (xs_config run) ''arch'')) of
                  Inl e \<Rightarrow> Inl e | Inr arch \<Rightarrow>
                  Inr \<lparr>tr_code = \<lparr>cr_name = name, cr_sha = sha\<rparr>, tr_entrypoint = entry, tr_config = config,
                       tr_overrides = unwrap_or JNull (json_get (xs_config run) ''overrides''),
                       tr_artifacts_in = [], tr_data = None, tr_checkpoint = default_checkpoint_policy,
                       tr_seed = seed, tr_arch = arch,
                       tr_timeout_s = unwrap_or DEFAULT_TRAIN_TIMEOUT (xs_budget_seconds run),
                       tr_links = []\<rparr>)))))))"

text \<open>\<open>link\<close> is the mirror, if configured.\<close>

definition submit_from_experiment ::
  "(experiments \<times> 'w experiments_calls) option \<Rightarrow> hub_env \<Rightarrow> unix_seconds \<Rightarrow> string \<Rightarrow> string option \<Rightarrow> string option \<Rightarrow>
   'w \<times> hub \<Rightarrow> ('w \<times> hub) \<times> run_id result" where
  "submit_from_experiment link env now ext name created_by s =
     (let (w, h) = s
      in case link of
           None \<Rightarrow> ((w, h), Inl ''chuk-experiments-server mirror not configured'')
         | Some (xp, xc) \<Rightarrow>
             (case fetch_run xp xc ext created_by (hb_store h) w of
                (w1, Inl e) \<Rightarrow> ((w1, h), Inl e)
              | (w1, Inr snapshot) \<Rightarrow>
                  (case xs_harness_session_id snapshot of
                     Some sid \<Rightarrow>
                       ((w1, h), Inl (''run '' @ ext @ '' is already attached to a harness execution ('' @ sid @ '')''))
                   | None \<Rightarrow>
                       if xs_status snapshot \<noteq> ''queued''
                       then ((w1, h), Inl (''run '' @ ext @ '' is not queued (status='' @ xs_status snapshot @ '')''))
                       else
                         (case train_spec_from_experiments_run snapshot of
                            Inl e \<Rightarrow> ((w1, h), Inl e)
                          | Inr spec \<Rightarrow>
                              (case submit env now (unwrap_or ext name) (Train spec) (Some ext) created_by h of
                                 (h1, r) \<Rightarrow> ((w1, h1), r))))))"

text \<open>\<open>POST /runs/from-experiment\<close>.\<close>

definition submit_run_from_experiment ::
  "(experiments \<times> 'w experiments_calls) option \<Rightarrow> hub_env \<Rightarrow> unix_seconds \<Rightarrow> auth_context \<Rightarrow> string \<Rightarrow> string option \<Rightarrow>
   'w \<times> hub \<Rightarrow> ('w \<times> hub) \<times> run_id reply" where
  "submit_run_from_experiment link env now ctx ext name s =
     (if \<not> may ctx Write then (s, requires Write)
      else (case submit_from_experiment link env now ext name (Some (ac_owner_email ctx)) s of
              (s1, Inr rid) \<Rightarrow> (s1, Inr rid)
            | (s1, Inl e) \<Rightarrow> (s1, bad_request e)))"

end
