(* ===== verification/Api.thy ===== *)
theory Api
  imports Mirror
begin

text \<open>
  The HTTP API as one machine over the hub and the lease manager: the requests that may change
  something, the middleware in front of them, and the background passes of the lease manager, the
  archiver and the experiments mirror. Every call is a sequence of steps of the control plane (\<open>HubSystem\<close>), so the
  invariants of its reachable states hold whatever is requested, in any order.
\<close>

datatype request =
    Rq_access access_op string
  | Rq_shell submit_shell_request
  | Rq_run submit_run_request
  | Rq_sweep submit_sweep_request
  | Rq_from_experiment string "string option"
  | Rq_stop run_id
  | Rq_resume run_id
  | Rq_gate run_id string string gate_action
  | Rq_check_gates run_id
  | Rq_build string "string option" "string option" "string option"
  | Rq_offers string "string option" "real option"
  | Rq_provision provision_request
  | Rq_extend worker_id real string
  | Rq_teardown worker_id bool
  | Rq_colab "f64 option" "string option"
  | Rq_set_budget string f64 "string option"
  | Rq_delete_budget string
  | Rq_pin run_id nat string
  | Rq_archive run_id bool
  | Rq_archive_all

text \<open>What the handlers share: the lease manager (with the hub's environment and the
  configuration), the sealing of experiments keys, the code unit builder, the archiver and the
  float printers.\<close>

record 'w api =
  ap_mg :: "'w manager"
  ap_cookies :: cookie_crypto
  ap_seal :: seal
  ap_key :: "string option"
  ap_build :: "'w build_calls"
  ap_archiver :: "'w archiver option"
  ap_mirror :: "(experiments \<times> 'w experiments_calls) option"
  ap_fixed1 :: "f64 \<Rightarrow> string"
  ap_fixed2 :: "f64 \<Rightarrow> string"
  ap_show :: "f64 \<Rightarrow> string"

definition on_hub :: "(hub \<Rightarrow> hub) \<Rightarrow> 'w lm \<Rightarrow> 'w lm" where
  "on_hub f lm = lm\<lparr>lm_hub := f (lm_hub lm)\<rparr>"

definition on_both :: "('w \<times> hub \<Rightarrow> 'w \<times> hub) \<Rightarrow> 'w lm \<Rightarrow> 'w lm" where
  "on_both f lm = (case f (lm_world lm, lm_hub lm) of (w, h) \<Rightarrow> lm\<lparr>lm_world := w, lm_hub := h\<rparr>)"

text \<open>The state after a handler; its reply is the handler's own second component.\<close>

fun api_step :: "'w api \<Rightarrow> unix_seconds \<Rightarrow> auth_context \<Rightarrow> request \<Rightarrow> 'w lm \<Rightarrow> 'w lm" where
  "api_step ap now ctx (Rq_access op nonce) =
     on_hub (access_step (mg_env (ap_mg ap)) (ap_seal ap) (ap_key ap) nonce (now, ctx, op))"
| "api_step ap now ctx (Rq_shell rq) = on_hub (\<lambda>h. fst (submit_shell (mg_env (ap_mg ap)) now ctx rq h))"
| "api_step ap now ctx (Rq_run rq) =
     on_hub (\<lambda>h. fst (submit_run (mg_env (ap_mg ap)) (mg_cfg (ap_mg ap)) (ap_fixed1 ap) (ap_fixed2 ap) now ctx rq h))"
| "api_step ap now ctx (Rq_sweep rq) =
     on_hub (\<lambda>h. fst (api_submit_sweep (mg_env (ap_mg ap)) (mg_cfg (ap_mg ap)) (ap_fixed2 ap) now ctx rq h))"
| "api_step ap now ctx (Rq_from_experiment ext name) =
     on_both (\<lambda>s. fst (submit_run_from_experiment (ap_mirror ap) (mg_env (ap_mg ap)) now ctx ext name s))"
| "api_step ap now ctx (Rq_stop rid) = on_hub (\<lambda>h. fst (api_stop_run (mg_env (ap_mg ap)) now ctx rid h))"
| "api_step ap now ctx (Rq_resume rid) = on_hub (\<lambda>h. fst (api_resume_run (mg_env (ap_mg ap)) now ctx rid h))"
| "api_step ap now ctx (Rq_gate rid name expr action) =
     on_hub (\<lambda>h. fst (api_register_gate now ctx rid name expr action h))"
| "api_step ap now ctx (Rq_check_gates rid) = on_hub (\<lambda>h. fst (check_gates (mg_env (ap_mg ap)) now rid h))"
| "api_step ap now ctx (Rq_build repo commit name path) =
     on_both (\<lambda>s. fst (build_code_unit (ap_build ap) (mg_env (ap_mg ap)) now ctx repo commit name path s))"
| "api_step ap now ctx (Rq_offers p gpu price) = (\<lambda>lm. fst (provider_offers (ap_mg ap) p gpu price lm))"
| "api_step ap now ctx (Rq_provision rq) = (\<lambda>lm. fst (api_provision (ap_mg ap) now ctx rq lm))"
| "api_step ap now ctx (Rq_extend wid minutes reason) =
     (\<lambda>lm. fst (extend_lease (ap_mg ap) now ctx wid minutes reason lm))"
| "api_step ap now ctx (Rq_teardown wid force) = (\<lambda>lm. fst (api_teardown (ap_mg ap) now ctx wid force lm))"
| "api_step ap now ctx (Rq_colab lease labels) =
     on_hub (\<lambda>h. fst (colab_cell (mg_env (ap_mg ap)) (mg_cfg (ap_mg ap)) (ap_show ap) now lease labels h))"
| "api_step ap now ctx (Rq_set_budget scope cap period) = on_hub (\<lambda>h. fst (api_set_budget now ctx scope cap period h))"
| "api_step ap now ctx (Rq_delete_budget scope) = on_hub (\<lambda>h. fst (api_delete_budget ctx scope h))"
| "api_step ap now ctx (Rq_pin rid step name) = on_hub (\<lambda>h. fst (api_pin_checkpoint ctx rid step name h))"
| "api_step ap now ctx (Rq_archive rid force) = on_both (\<lambda>s. fst (api_archive_run (ap_archiver ap) now ctx rid force s))"
| "api_step ap now ctx Rq_archive_all = on_both (\<lambda>s. fst (archive_all (ap_archiver ap) now ctx s))"

text \<open>A call: the bearer middleware, then the handler.\<close>

definition api_call :: "'w api \<Rightarrow> unix_seconds \<Rightarrow> headers \<Rightarrow> request \<Rightarrow> 'w lm \<Rightarrow> 'w lm" where
  "api_call ap now hs rq lm =
     (case require_bearer (mg_env (ap_mg ap)) (ap_cookies ap) (mg_cfg (ap_mg ap)) now hs (lm_hub lm) of
        (h, Inl _) \<Rightarrow> lm\<lparr>lm_hub := h\<rparr>
      | (h, Inr ctx) \<Rightarrow> api_step ap now ctx rq (lm\<lparr>lm_hub := h\<rparr>))"

text \<open>The mirror works on the hub's store; whether the default experiment was ensured is carried by the
  event.\<close>

definition on_mirror :: "bool \<Rightarrow> ('w mirror \<Rightarrow> 'w mirror) \<Rightarrow> 'w lm \<Rightarrow> 'w lm" where
  "on_mirror ensured f lm =
     (let m = f \<lparr>mi_store = lm_store lm, mi_world = lm_world lm, mi_ensured = ensured\<rparr>
      in lm\<lparr>lm_world := mi_world m, lm_hub := (lm_hub lm)\<lparr>hb_store := mi_store m\<rparr>\<rparr>)"

datatype event =
    Request headers request
  | Lease_clock
  | Lease_reconcile
  | Archive_sweep
  | Mirror_task mirror_call bool
  | Outbox_sweep bool

fun system_event :: "'w api \<Rightarrow> unix_seconds \<times> event \<Rightarrow> 'w lm \<Rightarrow> 'w lm" where
  "system_event ap (now, Request hs rq) = api_call ap now hs rq"
| "system_event ap (now, Lease_clock) = (\<lambda>lm. fst (clock_pass (ap_mg ap) now lm))"
| "system_event ap (now, Lease_reconcile) = reconcile_pass (ap_mg ap)"
| "system_event ap (now, Archive_sweep) =
     (case ap_archiver ap of None \<Rightarrow> id | Some av \<Rightarrow> on_both (\<lambda>s. fst (sweep_once av now s)))"
| "system_event ap (now, Mirror_task c ensured) =
     (case ap_mirror ap of None \<Rightarrow> id
      | Some (xp, xc) \<Rightarrow> on_mirror ensured (run_mirror_call xp xc now c))"
| "system_event ap (now, Outbox_sweep ensured) =
     (case ap_mirror ap of None \<Rightarrow> id
      | Some (xp, xc) \<Rightarrow> on_mirror ensured (\<lambda>m. fst (sweep_outbox_once xp xc now m)))"

subsection \<open>Runs of hub steps\<close>

definition hub_runs :: "hub_env \<Rightarrow> hub \<Rightarrow> hub \<Rightarrow> bool" where
  "hub_runs env = (hub_step env)\<^sup>*\<^sup>*"

named_theorems hub_runs "operations that are runs of hub steps"

lemma hub_runs_refl [simp, intro]: "hub_runs env h h"
  by (simp add: hub_runs_def)

lemma hub_runs_step: "hub_step env h h' \<Longrightarrow> hub_runs env h h'"
  by (simp add: hub_runs_def)

lemma hub_runs_trans [trans]: "hub_runs env h h1 \<Longrightarrow> hub_runs env h1 h2 \<Longrightarrow> hub_runs env h h2"
  by (simp add: hub_runs_def)

lemma hub_runs_reach: "hub_runs env h h' \<Longrightarrow> hub_reach env h \<Longrightarrow> hub_reach env h'"
  unfolding hub_runs_def by (induction rule: rtranclp_induct) (auto intro: hub_reach.Step)

lemma hub_runs_side: "side_write (hb_store h) s \<Longrightarrow> hub_runs env h (h\<lparr>hb_store := s\<rparr>)"
  by (rule hub_runs_step [OF hub_step.Side])

lemma hub_runs_uuids [hub_runs]: "hub_runs env h (h\<lparr>hb_uuids := n\<rparr>)"
  by (rule hub_runs_step [OF hub_step.Uuid])

lemma hub_runs_uuid_side:
  "side_write (hb_store h) s \<Longrightarrow> hub_runs env h (h\<lparr>hb_uuids := n, hb_store := s\<rparr>)"
  using hub_runs_trans [OF hub_runs_uuids [of env h n] hub_runs_side [of "h\<lparr>hb_uuids := n\<rparr>" s]] by simp

lemma hub_runs_put [hub_runs]: "hub_runs env h (h\<lparr>hb_blobs := fst (fs_put (ev_root env) key body (hb_blobs h))\<rparr>)"
  by (rule hub_runs_step [OF hub_step.Put_blob])

lemmas hub_runs_calls [hub_runs] =
  hub_runs_step [OF hub_step.Submit] hub_runs_step [OF hub_step.Submit_sweep] hub_runs_step [OF hub_step.Stop]
  hub_runs_step [OF hub_step.Resume] hub_runs_step [OF hub_step.Check_gates] hub_runs_step [OF hub_step.Drain_worker]

subsection \<open>The handlers\<close>

lemma access_runs [hub_runs]: "hub_runs env h (access_step env sl key nonce (now, ctx, op) h)"
  by (cases op)
     (auto simp: access_defs Let_def case_prod_beta split: if_splits option.splits sum.splits
       intro!: hub_runs_uuids hub_runs_uuid_side hub_runs_side intro: side_write.intros)

lemma mint_runs [hub_runs]: "hub_runs env h (fst (mint_join_token env now wid h))"
  by (auto simp: mint_join_token_def generate_join_token_def generate_with_prefix_def fresh_uuid_def Let_def
      split: sum.splits intro!: hub_runs_uuids hub_runs_uuid_side side_write.Create_join)

lemma runs_of_call:
  "hub_runs env h (fst p) \<Longrightarrow> hub_runs env h (fst (case p of (h1, Inr x) \<Rightarrow> (h1, f h1 x) | (h1, Inl e) \<Rightarrow> (h1, g h1 e)))"
  by (cases p) (auto split: sum.splits)

lemma submit_runs [hub_runs]:
  "hub_runs env h (fst (submit_shell env now ctx srq h))"
  "hub_runs env h (fst (submit_run env cfg f1 f2 now ctx rrq h))"
  "hub_runs env h (fst (api_submit_sweep env cfg f2 now ctx wrq h))"
  by (simp_all add: submit_shell_def submit_run_def api_submit_sweep_def runs_of_call hub_runs_calls
      split: option.split sum.split)

lemma control_runs [hub_runs]:
  "hub_runs env h (fst (api_stop_run env now ctx rid h))"
  "hub_runs env h (fst (api_resume_run env now ctx rid h))"
  "hub_runs env h (fst (check_gates env now rid h))"
  using hub_runs_calls
  by (simp_all add: api_stop_run_def api_resume_run_def check_gates_def case_prod_beta split: sum.split)

lemma gate_runs [hub_runs]: "hub_runs env h (fst (api_register_gate now ctx rid name expr action h))"
  by (auto simp: api_register_gate_def Let_def split: sum.splits option.splits
      intro!: hub_runs_side side_write.Register_gate)

lemma budget_runs [hub_runs]:
  "hub_runs env h (fst (api_set_budget now ctx scope cap period h))"
  "hub_runs env h (fst (api_delete_budget ctx scope h))"
  "hub_runs env h (fst (api_pin_checkpoint ctx rid step name h))"
  using hub_runs_side [OF side_write.Delete_budget, of env h scope] hub_runs_side [OF side_write.Pin, of env h rid step name]
  by (auto simp: api_set_budget_def api_delete_budget_def api_pin_checkpoint_def Let_def case_prod_beta
      split: sum.splits f64.splits prod.splits bool.splits intro!: hub_runs_side side_write.Set_budget)

lemma colab_runs [hub_runs]: "hub_runs env h (fst (colab_cell env cfg show_f64 now lease_min labels h))"
proof -
  have "hub_runs env h (fst (mint_join_token env now wid (fst (fresh_uuid env h))))" for wid
    by (rule hub_runs_trans [OF _ mint_runs]) (simp add: fresh_uuid_def hub_runs_uuids)
  then show ?thesis
    by (auto simp: colab_cell_def Let_def fresh_uuid_def split: prod.splits sum.splits) (metis fst_conv)+
qed

subsection \<open>The lease manager\<close>

lemma lm_on_store_hub [simp]: "lm_hub (lm_on_store f lm) = on_store f (lm_hub lm)"
  by (simp add: lm_on_store_def)

lemma ledger_runs [hub_runs]: "hub_runs env (lm_hub lm) (lm_hub (lm_ledger now l event minutes cost lm))"
  by (simp add: lm_ledger_def hub_runs_side side_write.Ledger)

lemma lease_state_runs [hub_runs]: "hub_runs env h (on_store (set_lease_state wid st) h)"
  by (rule hub_runs_side [OF side_write.Lease_state])

lemma rent_runs: "hub_runs (mg_env mg) (lm_hub lm) (lm_hub (fst (rent mg now req lm)))"
proof -
  have "hub_runs (mg_env mg) h (fst (mint_join_token (mg_env mg) now wid (fst (fresh_uuid (mg_env mg) h))))" for wid h
    by (rule hub_runs_trans [OF _ mint_runs]) (simp add: fresh_uuid_def hub_runs_uuids)
  then show ?thesis
    by (auto simp: rent_def Let_def fresh_uuid_def split: prod.splits sum.splits) (metis fst_conv)+
qed

lemma settle_runs: "hub_runs env (lm_hub lm) (lm_hub (fst (settle mg now req rented lm)))"
  by (auto simp: settle_def Let_def split: prod.splits sum.splits
      intro!: hub_runs_trans [OF hub_runs_side [OF side_write.Create_lease] hub_runs_trans [OF _ ledger_runs]])

lemma provision_runs: "hub_runs (mg_env mg) (lm_hub lm) (lm_hub (fst (provision mg now req lm)))"
proof -
  obtain lm1 r where r: "rent mg now req lm = (lm1, r)" by fastforce
  then have rent: "hub_runs (mg_env mg) (lm_hub lm) (lm_hub lm1)" using rent_runs [of mg lm now req] by simp
  then show ?thesis
    by (cases r) (auto simp: provision_def r intro: hub_runs_trans [OF rent settle_runs])
qed

lemma extend_runs: "hub_runs env (lm_hub lm) (lm_hub (fst (LeaseMgr.extend mg now wid minutes reason lm)))"
proof -
  let ?lm1 = "\<lambda>e. lm_on_store (\<lambda>_. fst (store_extend_lease wid e (lm_store lm))) lm"
  have ext: "hub_runs env (lm_hub lm) (lm_hub (?lm1 e))" for e
    by (simp add: hub_runs_side [OF side_write.Extend_lease])
  have act: "hub_runs env (lm_hub lm) (lm_hub (lm_on_store (set_lease_state wid Active) (?lm1 e)))" for e
    by (rule hub_runs_trans [OF ext [of e]]) (simp only: lm_on_store_hub lease_state_runs)
  show ?thesis
    using ext hub_runs_trans [OF ext ledger_runs] hub_runs_trans [OF act ledger_runs]
    by (auto simp: LeaseMgr.extend_def Let_def case_prod_beta simp del: lm_on_store_hub
        split: option.splits sum.splits)
qed

lemma drain_runs: "hub_runs env (lm_hub lm) (lm_hub (drain l lm))"
  using hub_runs_trans [OF lease_state_runs hub_runs_step [OF hub_step.Drain_worker]]
  by (auto simp: drain_def Let_def hub_runs_calls)

lemma destroy_runs: "hub_runs env (lm_hub lm) (lm_hub (fst (destroy_and_verify mg now l lm)))"
proof -
  have "hub_runs env h (on_store (worker_left wid) (on_store (set_lease_state wid st) h))" for h wid st
    by (rule hub_runs_trans [OF lease_state_runs hub_runs_side [OF side_write.Worker_gone]])
  then show ?thesis
    by (auto simp: destroy_and_verify_def Let_def split: prod.splits sum.splits
        intro!: hub_runs_trans [OF _ ledger_runs])
qed

lemma teardown_runs: "hub_runs env (lm_hub lm) (lm_hub (fst (teardown mg now wid drain_first lm)))"
  by (auto simp: teardown_def destroy_runs hub_runs_trans [OF drain_runs destroy_runs] split: option.split)

lemma clock_loop_runs: "hub_runs env (lm_hub lm) (lm_hub (fst (clock_loop mg now ls lm)))"
proof (induction ls arbitrary: lm)
  case (Cons l ls)
  have "hub_runs env (lm_hub lm) (lm_hub (fst (clock_loop mg now ls lm1)))"
    if "destroy_and_verify mg now l lm = (lm1, r)" for lm1 r
    using hub_runs_trans [OF destroy_runs [of env lm mg now l] Cons [of "fst (destroy_and_verify mg now l lm)"]] that by simp
  moreover have "hub_runs env (lm_hub lm) (lm_hub lm1)" if "destroy_and_verify mg now l lm = (lm1, r)" for lm1 r
    using destroy_runs [of env lm mg now l] that by simp
  moreover have "hub_runs env (lm_hub lm) (lm_hub (fst (clock_loop mg now ls (drain l lm))))"
    by (rule hub_runs_trans [OF drain_runs Cons])
  ultimately show ?case using Cons by (auto simp: Let_def split: prod.splits sum.splits)
qed simp

lemma reap_all_runs: "hub_runs env (lm_hub lm) (lm_hub (fst (reap_all mg now ls lm)))"
proof (induction ls arbitrary: lm)
  case (Cons l ls)
  have d: "hub_runs env (lm_hub lm) (lm_hub (fst (destroy_and_verify mg now l (drain l lm))))"
    by (rule hub_runs_trans [OF drain_runs destroy_runs])
  then have "hub_runs env (lm_hub lm) (lm_hub (fst (reap_all mg now ls (fst (destroy_and_verify mg now l (drain l lm))))))"
    by (rule hub_runs_trans) (rule Cons)
  with d show ?case by (auto split: prod.splits sum.splits)
qed simp

lemma clock_pass_runs: "hub_runs env (lm_hub lm) (lm_hub (fst (clock_pass mg now lm)))"
proof -
  have idle: "hub_runs env (lm_hub lm) (lm_hub (fst (reap_idle mg now lm)))" for lm :: "'a lm"
    using reap_all_runs [of env "lm\<lparr>lm_idle := x\<rparr>" mg now ls for x ls]
    by (auto simp: reap_idle_def Let_def split: prod.splits)
  show ?thesis
    using clock_loop_runs [of env lm mg now "live_leases (lm_store lm)"] hub_runs_trans [OF clock_loop_runs idle]
    by (auto simp: clock_pass_def split: prod.splits sum.splits) (metis fst_conv)
qed

lemma api_lease_runs [hub_runs]:
  "hub_runs env (lm_hub lm) (lm_hub (fst (provider_offers mg p gpu price lm)))"
  "hub_runs (mg_env mg) (lm_hub lm) (lm_hub (fst (api_provision mg now ctx req lm)))"
  "hub_runs env (lm_hub lm) (lm_hub (fst (extend_lease mg now ctx wid minutes reason lm)))"
  "hub_runs env (lm_hub lm) (lm_hub (fst (api_teardown mg now ctx wid force lm)))"
  using provision_runs [of mg lm now req] extend_runs [of env lm mg now wid minutes reason]
    teardown_runs [of env lm mg now wid "\<not> force"]
  by (auto simp: provider_offers_def lm_offers_def api_provision_def extend_lease_def api_teardown_def
      split: prod.splits sum.splits option.splits)

subsection \<open>The archiver and the builder\<close>

lemma copy_runs: "hub_runs env h (h\<lparr>hb_blobs := fst (fs_copy from to (hb_blobs h))\<rparr>)"
  by (rule hub_runs_step [OF hub_step.Copy_blob])

lemma archive_files_runs:
  "archive_files av rid step fs ids (w, hb_blobs h) = ((w', b'), r) \<Longrightarrow> hub_runs env h (h\<lparr>hb_blobs := b'\<rparr>)"
proof (induction fs arbitrary: ids w h)
  case (Cons f fs)
  let ?key = "checkpoint_file rid step f"
  let ?h1 = "h\<lparr>hb_blobs := fst (fs_copy ?key (checkpoint_final_file rid step f) (hb_blobs h))\<rparr>"
  have "hub_runs env ?h1 (h\<lparr>hb_blobs := b'\<rparr>)"
    if "archive_files av rid step fs ids1 (w1, hb_blobs ?h1) = ((w', b'), r)" for ids1 w1
    using Cons.IH [OF that] by simp
  note rest = hub_runs_trans [OF copy_runs this]
  with Cons show ?case
    by (auto simp: Let_def copy_runs split: sum.splits prod.splits)
qed auto

lemma archive_run_runs: "hub_runs env (snd s) (snd (fst (archive_run av now rid force s)))"
proof -
  obtain w h where s: "s = (w, h)" by fastforce
  have loc: "hub_runs env h (on_store (set_checkpoint_location rid st R2Final) (h\<lparr>hb_blobs := b'\<rparr>))"
    if "archive_files av rid st fs ids (w, hb_blobs h) = ((w', b'), r)" for st fs ids w' b' r
    by (rule hub_runs_trans [OF archive_files_runs [OF that] hub_runs_side [OF side_write.Locate]])
  have mark: "hub_runs env h (on_store (mark_checkpoint_archived rid st ids' now)
      (on_store (set_checkpoint_location rid st R2Final) (h\<lparr>hb_blobs := b'\<rparr>)))"
    if "archive_files av rid st fs ids (w, hb_blobs h) = ((w', b'), r)" for st fs ids w' b' r ids'
    by (rule hub_runs_trans [OF loc [OF that] hub_runs_side [OF side_write.Archive]])
  show ?thesis
    by (auto simp: s archive_run_def Let_def simp del: hub.simps split: option.splits sum.splits prod.splits
        dest: archive_files_runs loc mark)
qed

lemma sweep_runs_runs: "hub_runs env (snd s) (snd (fst (sweep_runs av now rs s)))"
proof (induction rs arbitrary: s)
  case (Cons r rs)
  show ?case
    using hub_runs_trans [OF archive_run_runs Cons] by (simp add: case_prod_beta)
qed simp

lemma archive_runs [hub_runs]:
  "hub_runs env (snd s) (snd (fst (api_archive_run archiver now ctx rid force s)))"
  "hub_runs env (snd s) (snd (fst (archive_all archiver now ctx s)))"
  "hub_runs env (snd s) (snd (fst (sweep_once av now s)))"
  using archive_run_runs [of env s _ now rid force] sweep_runs_runs [of env s]
  by (auto simp: api_archive_run_def archive_all_def sweep_once_def split: option.splits prod.splits sum.splits)
    (metis fst_conv snd_conv)+

lemma put_runs:
  "fs_put (ev_root env) key body b = (b', r) \<Longrightarrow> hub_runs env (h\<lparr>hb_blobs := b\<rparr>) (h\<lparr>hb_blobs := b'\<rparr>)"
  using hub_runs_put [of env "h\<lparr>hb_blobs := b\<rparr>" key body] by simp

lemma store_unit_runs:
  "store_unit (ev_root env) name sha tarball text lock b = (b', r) \<Longrightarrow>
   hub_runs env (h\<lparr>hb_blobs := b\<rparr>) (h\<lparr>hb_blobs := b'\<rparr>)"
  by (auto simp: store_unit_def split: prod.splits sum.splits option.splits
      dest!: put_runs [where h = h] intro: hub_runs_trans)

lemma build_unit_runs:
  "build_unit bd (ev_root env) now name es b = (b', r) \<Longrightarrow> hub_runs env (h\<lparr>hb_blobs := b\<rparr>) (h\<lparr>hb_blobs := b'\<rparr>)"
  by (auto simp: build_unit_def Let_def split: prod.splits sum.splits option.splits if_splits
      dest!: store_unit_runs [where h = h])

lemma build_runs:
  "build bd (ev_root env) now repo commit name path (w, hb_blobs h) = ((w', b'), r) \<Longrightarrow>
   hub_runs env h (h\<lparr>hb_blobs := b'\<rparr>)"
  by (auto simp: build_def Let_def split: prod.splits sum.splits option.splits if_splits
      dest!: build_unit_runs [where h = h])

lemma build_code_unit_runs [hub_runs]:
  "hub_runs (env :: hub_env) (snd s) (snd (fst (build_code_unit bd env now ctx repo commit name path s)))"
proof -
  have "hub_runs env h (h\<lparr>hb_blobs := b', hb_store := register_code_unit now c m u (hb_store h)\<rparr>)"
    if "build bd (ev_root env) now repo commit name path (w, hb_blobs h) = ((w', b'), r)" for w h w' b' r c m u
    using hub_runs_trans [OF build_runs [OF that] hub_runs_side [OF side_write.Register_unit]] by simp
  then show ?thesis
    by (auto simp: build_code_unit_def split: prod.splits sum.splits dest: build_runs)
qed

subsection \<open>The mirror\<close>

abbreviation store_runs_to :: "hub_env \<Rightarrow> hub \<Rightarrow> store \<Rightarrow> store \<Rightarrow> bool" where
  "store_runs_to env h s s' \<equiv> hub_runs env (h\<lparr>hb_store := s\<rparr>) (h\<lparr>hb_store := s'\<rparr>)"

lemma store_side: "side_write s s' \<Longrightarrow> store_runs_to env h s s'"
  using hub_runs_side [of "h\<lparr>hb_store := s\<rparr>" s'] by simp

lemma store_mirrored: "store_runs_to env h s (set_experiments_run_id rid ext s)"
  using hub_runs_step [OF hub_step.Mirrored, of env "h\<lparr>hb_store := s\<rparr>" rid ext] by simp

lemma ensure_keeps_store: "ensure xp xc m = (m1, r) \<Longrightarrow> mi_store m1 = mi_store m"
  by (auto simp: ensure_def split: if_splits prod.splits sum.splits)

lemma deliver_runs: "store_runs_to env h (mi_store m) (mi_store (fst (deliver xp xc now rid ev m)))"
proof (cases "\<exists>train er. ev = Ev_created (Train train) er")
  case True
  then show ?thesis
    using store_mirrored [where env = env and h = h and s = "mi_store m" and rid = rid]
    by (auto simp: deliver_def try_attach_def try_create_def Let_def
        split: option.split prod.split sum.split dest!: ensure_keeps_store)
next
  case False
  then have "mi_store (fst (deliver xp xc now rid ev m)) = mi_store m"
    by (auto simp: deliver_def try_state_def try_checkpoint_def try_result_def
        split: outbox_event.split run_spec.split option.split prod.split sum.split)
  then show ?thesis by simp
qed

lemma attempt_runs: "store_runs_to env h (mi_store m) (mi_store (fst (attempt xp xc now i rid ev n m)))"
  using hub_runs_trans [OF deliver_runs [where env = env and h = h and m = m and xp = xp and xc = xc and now = now and rid = rid and ev = ev]] store_side [OF side_write.Outbox_done]
    store_side [OF side_write.Outbox_failed]
  by (auto simp: attempt_def mi_on_store_def split: prod.split sum.split)

lemma enqueue_runs: "store_runs_to env h (mi_store m) (mi_store (enqueue_and_attempt xp xc now rid ev m))"
proof -
  obtain s i where q: "enqueue_outbox_event rid (kind_label ev) (xc_render xc ev) now (mi_store m) = (s, i)" by fastforce
  have "store_runs_to env h (mi_store m) s"
    using store_side [OF side_write.Outbox_add, where env = env and h = h and s = "mi_store m" and rid1 = rid and kind1 = "kind_label ev" and payload1 = "xc_render xc ev" and ts1 = now] q by simp
  from hub_runs_trans [OF this] attempt_runs [where env = env and h = h and m = "m\<lparr>mi_store := s\<rparr>" and xp = xp and xc = xc and now = now and i = i and rid = rid and ev = ev and n = 0] show ?thesis
    by (simp add: enqueue_and_attempt_def q)
qed

lemma mirror_call_runs: "store_runs_to env h (mi_store m) (mi_store (run_mirror_call xp xc now c m))"
proof -
  have results: "store_runs_to env h (mi_store m) (mi_store (fold (\<lambda>(name, value). enqueue_and_attempt xp xc now rid (Ev_result name value)) rs m))"
    for rid rs m
    by (induction rs arbitrary: m) (auto intro: hub_runs_trans enqueue_runs)
  show ?thesis
  proof (cases c)
    case (Report_state rid st)
    then show ?thesis
      using hub_runs_trans [OF enqueue_runs results] enqueue_runs
      by (cases "st = Completed") (simp_all add: report_state_def Let_def)
  qed (auto simp: report_created_def report_checkpoint_def enqueue_runs split: run_spec.split)
qed

lemma sweep_rows_runs: "store_runs_to env h (mi_store m) (mi_store (fst (sweep_rows xp xc now rs m)))"
proof (induction rs arbitrary: m)
  case (Cons r rs)
  let ?done = "mi_on_store (mark_outbox_event_done now (ob_id r)) m"
  have "store_runs_to env h (mi_store m) (mi_store ?done)"
    by (simp add: mi_on_store_def store_side side_write.Outbox_done)
  from hub_runs_trans [OF this Cons [of ?done]] hub_runs_trans [OF attempt_runs Cons] show ?case
    by (auto simp: case_prod_beta split: sum.split)
qed simp

lemma on_mirror_runs:
  assumes "\<And>m. store_runs_to env (lm_hub lm) (mi_store m) (mi_store (f m))"
  shows "hub_runs env (lm_hub lm) (lm_hub (on_mirror ensured f lm))"
  using assms [of "\<lparr>mi_store = lm_store lm, mi_world = lm_world lm, mi_ensured = ensured\<rparr>"]
  by (simp add: on_mirror_def Let_def)

lemma from_experiment_runs [hub_runs]:
  "hub_runs env (snd s) (snd (fst (submit_run_from_experiment link env now ctx ext name s)))"
proof -
  have "hub_runs env h h1" if "submit env now n sp er cb h = (h1, r)" for n sp er cb h h1 r
    using hub_runs_step [OF hub_step.Submit, of env h now n sp er cb] that by simp
  then show ?thesis
    by (auto simp: submit_run_from_experiment_def submit_from_experiment_def Let_def
        split: option.splits prod.splits sum.splits if_splits)
qed

subsection \<open>The whole machine\<close>

lemma resolve_auth_runs: "hub_runs env h (fst (require_bearer env cc cfg now hs h))"
  using hub_runs_side [OF side_write.Touch_key]
  by (auto simp: require_bearer_def resolve_auth_def Let_def split: option.splits prod.splits if_splits)

lemma on_both_runs: "hub_runs env (lm_hub lm) (snd (f (lm_world lm, lm_hub lm))) \<Longrightarrow> hub_runs env (lm_hub lm) (lm_hub (on_both f lm))"
  by (simp add: on_both_def case_prod_beta)

lemma api_step_runs: "hub_runs (mg_env (ap_mg ap)) (lm_hub lm) (lm_hub (api_step ap now ctx rq lm))"
  using archive_runs [of _ "(lm_world lm, lm_hub lm)"] build_code_unit_runs [of _ "(lm_world lm, lm_hub lm)"]
    from_experiment_runs [of _ "(lm_world lm, lm_hub lm)"]
  by (cases rq) (simp_all add: on_hub_def hub_runs on_both_runs)

end
