(* ===== verification/ApiLaws.thy ===== *)
theory ApiLaws
  imports Api Scenario
begin

text \<open>
  What holds of every sequence of API calls and background passes: it is a run of the control
  plane, a caller without the write role changes credentials only, and what may be submitted
  without a cost confirmation is bounded by the configured threshold.
\<close>

subsection \<open>Refinement\<close>

lemma system_event_runs: "hub_runs (mg_env (ap_mg ap)) (lm_hub lm) (lm_hub (system_event ap (now, e) lm))"
proof (cases e)
  case (Request hs rq)
  have auth: "hub_runs (mg_env (ap_mg ap)) (lm_hub lm)
      (fst (require_bearer (mg_env (ap_mg ap)) (ap_cookies ap) (mg_cfg (ap_mg ap)) now hs (lm_hub lm)))"
    by (rule resolve_auth_runs)
  show ?thesis
    using auth hub_runs_trans [OF auth api_step_runs [of ap "lm\<lparr>lm_hub := h\<rparr>" for h, simplified]]
    by (auto simp: Request api_call_def split: prod.splits sum.splits)
next
  case Archive_sweep
  have "hub_runs (mg_env (ap_mg ap)) (lm_hub lm) (lm_hub (on_both (\<lambda>s. fst (sweep_once av now s)) lm))" for av
    by (rule on_both_runs) (use archive_runs(3) [of _ "(lm_world lm, lm_hub lm)"] in simp)
  with Archive_sweep show ?thesis by (simp split: option.split)
next
  case (Mirror_task c ensured)
  then show ?thesis by (auto simp: on_mirror_runs mirror_call_runs split: option.split)
next
  case (Outbox_sweep ensured)
  then show ?thesis by (auto simp: on_mirror_runs sweep_outbox_once_def sweep_rows_runs split: option.split)
qed (simp_all add: clock_pass_runs reconcile_pass_def)


lemma system_reach:
  assumes "hub_reach (mg_env (ap_mg ap)) (lm_hub lm)"
  shows "hub_reach (mg_env (ap_mg ap)) (lm_hub (fold (system_event ap) events lm))"
proof -
  have "hub_runs (mg_env (ap_mg ap)) (lm_hub lm) (lm_hub (fold (system_event ap) events lm))"
    by (induction events arbitrary: lm) (auto intro: hub_runs_trans system_event_runs)
  with assms show ?thesis by (rule hub_runs_reach [rotated])
qed

text \<open>C27: The tables stay well formed. From a reachable state, whatever requests and background passes
  follow, no two rows of the runs, workers, leases or checkpoints share a primary key, every run
  has an id the sequence has handed out, and every upload token belongs to a run that exists.\<close>

theorem system_tables_well_formed:
  assumes "hub_reach (mg_env (ap_mg ap)) (lm_hub lm)"
  shows "let h = lm_hub (fold (system_event ap) events lm); s = hb_store h
    in distinct (map run_key (st_runs s)) \<and> distinct (map wr_id (st_workers s)) \<and>
       distinct (map ls_worker_id (st_leases s)) \<and> distinct (map ckpt_key (st_checkpoints s)) \<and>
       (\<forall>r\<in>set (st_runs s). \<exists>ts n. run_key r = new_run_id ts n \<and> n \<le> seq_now s) \<and>
       (\<forall>g\<in>set (hb_grants h). run_state_of s (gr_run_id (snd g)) \<noteq> None)"
proof -
  have ok: "hub_ok (lm_hub (fold (system_event ap) events lm))" by (rule reach_hub_ok [OF system_reach [OF assms]])
  then have "run_state_of (hb_store (lm_hub (fold (system_event ap) events lm))) (gr_run_id g) \<noteq> None"
    if "(t, g) \<in> set (hb_grants (lm_hub (fold (system_event ap) events lm)))" for t g
    using that by (fastforce simp: hub_ok_def run_live_in_def)
  with ok show ?thesis
    unfolding Let_def hub_ok_def wf_store_def pk_def run_id_minted_def by auto blast
qed

subsection \<open>Callers without the write role\<close>

text \<open>The hub without the tables of users, API keys and join tokens and the counter of UUIDs.\<close>

definition beside_credentials :: "hub \<Rightarrow> hub" where
  "beside_credentials h =
     h\<lparr>hb_uuids := 0, hb_store := (hb_store h)\<lparr>st_users := [], st_api_keys := [], st_join_tokens := []\<rparr>\<rparr>"

lemma beside_uuids [simp]: "beside_credentials (h\<lparr>hb_uuids := n\<rparr>) = beside_credentials h"
  by (simp add: beside_credentials_def)

lemma beside_store:
  "s\<lparr>st_users := [], st_api_keys := [], st_join_tokens := []\<rparr> =
   (hb_store h)\<lparr>st_users := [], st_api_keys := [], st_join_tokens := []\<rparr> \<Longrightarrow>
   beside_credentials (h\<lparr>hb_store := s\<rparr>) = beside_credentials h"
  by (simp add: beside_credentials_def)

lemma not_admin: "\<not> may ctx Write \<Longrightarrow> \<not> may ctx Admin"
  by (cases "ac_role ctx") (auto simp: may_def less_eq_role_def)

lemma beside_auth: "beside_credentials (fst (require_bearer env cc cfg now hs h)) = beside_credentials h"
  by (auto simp: require_bearer_def resolve_auth_def Let_def touch_api_key_def
      split: option.splits prod.splits if_splits intro!: beside_store)

lemma beside_mint: "beside_credentials (fst (mint_join_token env now wid h)) = beside_credentials h"
  by (auto simp: mint_join_token_def generate_join_token_def generate_with_prefix_def fresh_uuid_def Let_def
      create_join_token_def beside_credentials_def split: sum.splits if_splits)

lemma beside_access:
  assumes "\<not> may ctx Write"
  shows "beside_credentials (access_step env sl key nonce (now, ctx, op) h) = beside_credentials h"
  using not_admin [OF assms]
  by (cases op)
     (auto simp: access_defs Let_def case_prod_beta create_api_key_def revoke_api_key_def
       set_user_experiments_key_def beside_credentials_def split: if_splits option.splits sum.splits)

lemma beside_colab: "beside_credentials (fst (colab_cell env cfg show_f64 now lease_min labels h)) = beside_credentials h"
proof -
  have "beside_credentials h2 = beside_credentials h"
    if "mint_join_token env now wid (fst (fresh_uuid env h)) = (h2, r)" for wid h2 r
    using beside_mint [of env now wid "fst (fresh_uuid env h)"] that by (simp add: fresh_uuid_def)
  then show ?thesis
    by (auto simp: colab_cell_def fresh_uuid_def Let_def split: prod.splits sum.splits)
qed

text \<open>C29: A caller without the write role, authenticated or not, changes nothing but credentials: no
  call of theirs except one to check a run's gates touches runs, logs, checkpoints, leases, the
  ledger, budgets, sweeps, workers, artifacts, grants, links or the idle table; only the
  tables of users, API keys and join tokens can change. Checking gates is a read that may stop the run.\<close>

theorem readers_change_credentials_only:
  assumes "snd (require_bearer (mg_env (ap_mg ap)) (ap_cookies ap) (mg_cfg (ap_mg ap)) now hs (lm_hub lm)) = r"
    and "\<And>ctx. r = Inr ctx \<Longrightarrow> \<not> may ctx Write" and "\<And>rid. rq \<noteq> Rq_check_gates rid"
  shows "beside_credentials (lm_hub (api_call ap now hs rq lm)) = beside_credentials (lm_hub lm) \<and>
    lm_idle (api_call ap now hs rq lm) = lm_idle lm"
proof -
  have step: "beside_credentials (lm_hub (api_step ap now ctx rq lm')) = beside_credentials (lm_hub lm') \<and>
      lm_idle (api_step ap now ctx rq lm') = lm_idle lm'" if "\<not> may ctx Write" for ctx and lm' :: "'a lm"
    using assms(3) that not_admin [OF that]
    by (cases rq)
       (auto simp: on_hub_def on_both_def beside_access beside_colab submit_shell_def submit_run_def
         api_submit_sweep_def api_stop_run_def api_resume_run_def api_register_gate_def build_code_unit_def
         provider_offers_def lm_offers_def api_provision_def extend_lease_def api_teardown_def
         api_set_budget_def api_delete_budget_def api_pin_checkpoint_def api_archive_run_def archive_all_def
         submit_run_from_experiment_def
         split: prod.splits sum.splits)
  have auth: "beside_credentials (fst (require_bearer (mg_env (ap_mg ap)) (ap_cookies ap) (mg_cfg (ap_mg ap)) now hs (lm_hub lm))) =
      beside_credentials (lm_hub lm)" by (rule beside_auth)
  show ?thesis
    using auth assms(1,2) step by (auto simp: api_call_def split: prod.splits sum.splits)
qed

definition demo_reader_hub :: hub where
  "demo_reader_hub = hub_init\<lparr>hb_store := empty_store\<lparr>st_api_keys :=
     [\<lparr>ax_info = \<lparr>ak_id = ''k'', ak_team_id = ''t'', ak_created_by = ''r@b'', ak_name = ''n'', ak_prefix = ''ck_'',
       ak_role = Read, ak_created_at = 0, ak_last_used_at = None, ak_revoked_at = None\<rparr>, ax_key_hash = ''0''\<rparr>]\<rparr>\<rparr>"

definition demo_api :: "unit api" where
  "demo_api = \<lparr>ap_mg = \<lparr>mg_env = demo_env, mg_cfg = demo_config, mg_providers = [], mg_fmt2 = (\<lambda>_. ''x''),
       mg_timeout = DESTROY_VERIFY_TIMEOUT, mg_poll = DESTROY_VERIFY_POLL\<rparr>,
     ap_cookies = demo_crypto, ap_seal = demo_seal, ap_key = None, ap_build = demo_build, ap_archiver = None,
     ap_mirror = None, ap_fixed1 = (\<lambda>_. ''x''), ap_fixed2 = (\<lambda>_. ''x''), ap_show = (\<lambda>_. ''x'')\<rparr>"

definition demo_reader :: headers where
  "demo_reader = \<lparr>hd_authorization = Some (BEARER_PREFIX @ ''ck_x''), hd_cookie = None\<rparr>"

definition demo_reader_lm :: "unit lm" where
  "demo_reader_lm = \<lparr>lm_hub = demo_reader_hub, lm_world = (), lm_idle = (\<lambda>_. None)\<rparr>"

lemma system_tables_well_formed_witness:
  "distinct (map ckpt_key (st_checkpoints (hb_store (lm_hub (fold (system_event demo_api)
     [(7, Request demo_reader (Rq_teardown ''w'' True)), (8, Lease_clock)]
     (demo_reader_lm\<lparr>lm_hub := demo_checkpointed\<rparr>))))))"
proof -
  have "hub_reach (mg_env (ap_mg demo_api)) (lm_hub (demo_reader_lm\<lparr>lm_hub := demo_checkpointed\<rparr>))"
    using demo_reach by (simp add: demo_api_def)
  from system_tables_well_formed [OF this] show ?thesis by (simp only: Let_def)
qed

lemma readers_change_credentials_only_witness:
  "\<exists>ctx. snd (require_bearer demo_env demo_crypto demo_config 6 demo_reader demo_reader_hub) = Inr ctx \<and> ac_role ctx = Read \<and>
     beside_credentials (lm_hub (api_call demo_api 6 demo_reader (Rq_teardown ''w'' True) demo_reader_lm)) =
     beside_credentials demo_reader_hub"
proof -
  let ?ctx = "key_context (ax_info (hd (st_api_keys (hb_store demo_reader_hub))))"
  have auth: "snd (require_bearer demo_env demo_crypto demo_config 6 demo_reader demo_reader_hub) = Inr ?ctx"
    by (simp add: require_bearer_def resolve_auth_def demo_reader_def demo_reader_hub_def resolve_api_key_def
        hash_token_def demo_env_def demo_config_def Let_def)
  have role: "ac_role ?ctx = Read" by (simp add: demo_reader_hub_def key_context_def)
  then have "\<not> may ctx Write" if "Inr ?ctx = (Inr ctx :: auth_context reply)" for ctx
    using that by (auto simp: may_def less_eq_role_def)
  from readers_change_credentials_only [of demo_api 6 demo_reader demo_reader_lm "Inr ?ctx" "Rq_teardown ''w'' True", OF _ this]
  show ?thesis using auth role by (simp add: demo_api_def demo_reader_lm_def)
qed

subsection \<open>Cost confirmation\<close>

lemma create_children_length:
  "create_children now name sid cb i specs s = (s', Inr rids) \<Longrightarrow> length rids = length specs"
  by (induction specs arbitrary: i s s' rids) (auto split: prod.splits sum.splits)

lemma fold_max_price:
  "m \<le> fold (\<lambda>l m. max m (ls_price_hr l)) ls m \<and> (\<forall>l\<in>set ls. ls_price_hr l \<le> fold (\<lambda>l m. max m (ls_price_hr l)) ls m)"
proof (induction ls arbitrary: m)
  case (Cons a ls)
  show ?case using Cons [of "max m (ls_price_hr a)"] by auto
qed simp

lemma run_cost_worst:
  assumes "l \<in> set live"
  shows "ls_price_hr l * real secs / 3600 \<le> estimate_run_cost live secs"
  using fold_max_price [of 0 live] assms
  by (auto simp: estimate_run_cost_def intro!: divide_right_mono mult_right_mono)

text \<open>C30: An unconfirmed sweep is affordable. When a sweep submitted without a cost confirmation is
  accepted, then on any one of the leases live at that moment all its children together, each
  running to its timeout, cost no more than the configured threshold.\<close>

theorem unconfirmed_sweep_affordable:
  assumes "api_submit_sweep env cfg f2 now ctx rq h = (h', Inr (sid, rids))" and "\<not> swr_confirm_cost rq"
    and "cf_confirm_cost_threshold cfg = Fin t" and "l \<in> set (live_leases (hb_store h))"
  shows "ls_price_hr l * real (tr_timeout_s (sw_template (swr_spec rq))) / 3600 * real (length rids) \<le> t"
proof -
  let ?cost = "estimate_run_cost (live_leases (hb_store h)) (tr_timeout_s (sw_template (swr_spec rq)))"
  from assms(1,2) have c: "?cost * real (length rids) \<le> t"
    by (auto simp: api_submit_sweep_def submit_sweep_def sweep_cost_refusal_def assms(3) Let_def not_less
        bad_request_def requires_def split: if_splits sum.splits option.splits prod.splits
        dest!: create_children_length)
  have "ls_price_hr l * real (tr_timeout_s (sw_template (swr_spec rq))) / 3600 * real (length rids) \<le>
      ?cost * real (length rids)"
    by (intro mult_right_mono run_cost_worst assms(4)) simp
  with c show ?thesis by simp
qed

definition demo_sweep_request :: submit_sweep_request where
  "demo_sweep_request = \<lparr>swr_name = ''s'', swr_spec = \<lparr>sw_template = demo_train,
     sw_axes = [(''seed'', [JInt 1])], sw_concurrency = 1\<rparr>, swr_confirm_cost = False\<rparr>"

definition demo_leased :: hub where
  "demo_leased = hub_init\<lparr>hb_store := empty_store\<lparr>st_leases := [\<lparr>ls_worker_id = ''w'', ls_provider = ''mock'',
     ls_instance_id = ''i'', ls_price_hr = 30, ls_granted_min = 60, ls_drain_window_min = 5, ls_started_at = 0,
     ls_state = Active, ls_extensions = []\<rparr>]\<rparr>\<rparr>"

definition demo_threshold :: config where
  "demo_threshold = demo_base_config\<lparr>cf_confirm_cost_threshold := Fin 1\<rparr>"

definition demo_writer :: auth_context where
  "demo_writer = \<lparr>ac_role = Write, ac_team_id = ''t'', ac_subject = ''w@b'', ac_owner_email = ''w@b''\<rparr>"

lemma demo_sweep_accepted:
  "\<exists>h' sid rids. api_submit_sweep demo_env demo_threshold (\<lambda>_. ''x'') 3 demo_writer demo_sweep_request demo_leased =
     (h', Inr (sid, rids)) \<and> length rids = 1"
proof -
  obtain c where children: "expand_sweep (ev_show_json demo_env) demo_train [(''seed'', [JInt 1])] = Inr [c]"
    by (simp add: expand_sweep_def validate_path_def Let_def fan_out_def combos_def
        combine_def apply_axis_def demo_train_def split: sum.splits)
  have cost: "sweep_cost_refusal (\<lambda>_. ''x'') demo_threshold (swr_spec demo_sweep_request) (length [c]) (hb_store demo_leased) = None"
    by (simp add: sweep_cost_refusal_def demo_threshold_def demo_sweep_request_def demo_train_def demo_leased_def
        live_leases_def estimate_run_cost_def)
  obtain s1 sid where sweep: "create_sweep 3 ''s'' demo_train [(''seed'', [JInt 1])] 1 (Some ''w@b'') (hb_store demo_leased) = (s1, Inr sid)"
    and s1: "st_runs s1 = []"
    by (simp add: create_sweep_def next_run_seq_def demo_leased_def empty_store_def row_of_def Let_def)
  from s1 obtain s2 rid where kids: "create_children 3 ''s'' sid (Some ''w@b'') 0 [snd c] s1 = (s2, Inr [rid])"
    by (simp add: create_run_def next_run_seq_def add_event_def Let_def row_of_def)
  have "hb_links demo_leased = []" by (simp add: demo_leased_def hub_init_def new_hub_def)
  then have pump: "pump demo_env 3 (demo_leased\<lparr>hb_store := s2\<rparr>) = (demo_leased\<lparr>hb_store := s2\<rparr>, Inr ())"
    by (simp add: pump_def pump_links.simps drop_links_def)
  have spec: "sw_template (swr_spec demo_sweep_request) = demo_train" "sw_axes (swr_spec demo_sweep_request) = [(''seed'', [JInt 1])]"
    "sw_concurrency (swr_spec demo_sweep_request) = 1" "swr_name demo_sweep_request = ''s''" "\<not> swr_confirm_cost demo_sweep_request"
    by (simp_all add: demo_sweep_request_def)
  have "may demo_writer Write" "ac_owner_email demo_writer = ''w@b''" by (simp_all add: demo_writer_def may_def)
  then show ?thesis
    using children cost sweep kids pump
    by (simp add: api_submit_sweep_def submit_sweep_def spec del: create_children.simps)
qed

lemma unconfirmed_sweep_affordable_witness:
  "\<exists>h' sid rids. api_submit_sweep demo_env demo_threshold (\<lambda>_. ''x'') 3 demo_writer demo_sweep_request demo_leased =
     (h', Inr (sid, rids)) \<and> (30 :: real) * 60 / 3600 * real (length rids) \<le> 1"
proof -
  from demo_sweep_accepted obtain h' sid rids where
    r: "api_submit_sweep demo_env demo_threshold (\<lambda>_. ''x'') 3 demo_writer demo_sweep_request demo_leased = (h', Inr (sid, rids))"
    by blast
  have "hd (st_leases (hb_store demo_leased)) \<in> set (live_leases (hb_store demo_leased))"
    by (simp add: demo_leased_def live_leases_def order_by_def)
  from unconfirmed_sweep_affordable [OF r _ _ this] r show ?thesis
    by (simp add: demo_sweep_request_def demo_threshold_def demo_leased_def demo_train_def)
qed

end
