(* ===== verification/MirrorLaws.thy ===== *)
theory MirrorLaws
  imports Mirror
begin

text \<open>
  What the mirror guarantees: bounded retries, a pending event until it was delivered, everything
  delivered once the server accepts, the personal key of the submitting user, and resubmission of a
  mirrored run; and what it does not: the order of a run's states, and an end of the retries for runs
  that are never mirrored.
\<close>

subsection \<open>Backoff\<close>

lemma backoff_alt: "backoff_for n = min (30 * 2 ^ nat (min 10 (max 0 n))) 3600"
proof -
  have "(2::nat) ^ nat (min 10 (max 0 n)) \<le> 2 ^ 10" by (rule power_increasing) auto
  then show ?thesis
    by (simp add: backoff_for_def Let_def OUTBOX_BASE_BACKOFF_SECS_def OUTBOX_MAX_BACKOFF_SECS_def)
qed

text \<open>The delay before the retry of a report doubles from half a minute up to an hour and stays
  there, for every number of attempts, negative or beyond the shift of an integer included.\<close>

theorem backoff_for_spec:
  "30 \<le> backoff_for n \<and> backoff_for n \<le> 3600 \<and> backoff_for (int k) = min (30 * 2 ^ k) 3600"
proof -
  have capped: "min (30 * 2 ^ k) 3600 = (3600::nat)" if "10 \<le> k" for k
  proof -
    have "(2::nat) ^ 10 \<le> 2 ^ k" using that by (rule power_increasing) simp
    then show ?thesis by (simp add: min_def)
  qed
  have "backoff_for (int k) = min (30 * 2 ^ k) 3600"
  proof (cases "k \<le> 10")
    case False
    then have "nat (min 10 (max 0 (int k))) = 10" by simp
    then show ?thesis using False capped [of 10] capped [of k] by (simp only: backoff_alt)
  next
    case True
    then have "nat (min 10 (max 0 (int k))) = k" by simp
    then show ?thesis by (simp only: backoff_alt)
  qed
  moreover have "1 \<le> (2::nat) ^ m" for m by simp
  then have "30 \<le> min (30 * 2 ^ m) (3600::nat)" for m :: nat by (simp add: min_def)
  then have "30 \<le> backoff_for n" by (simp only: backoff_alt)
  moreover have "backoff_for n \<le> 3600" by (simp only: backoff_alt min.cobounded2)
  ultimately show ?thesis by blast
qed

subsection \<open>Time stamps\<close>

lemma rfc_civil_eq: "rfc_civil z = civil_from_days z"
  unfolding rfc_civil_def civil_from_days_def by (rule refl)

lemma rfc3339_parts:
  "rfc3339 t = (case utc_parts (trunc_to_int t) of (y, m, d, hh, mm, ss) \<Rightarrow>
     show_pad_int 4 y @ ''-'' @ show_pad 2 m @ ''-'' @ show_pad 2 d @ ''T'' @
     show_pad 2 hh @ '':'' @ show_pad 2 mm @ '':'' @ show_pad 2 ss @ ''Z'')"
  by (simp add: rfc3339_def utc_parts_def rfc_civil_eq case_prod_beta Let_def)

subsection \<open>Whose key\<close>

lemma user_experiments_key_set:
  "user_experiments_key e (set_user_experiments_key now e enc s) = enc"
  by (simp add: user_experiments_key_def set_user_experiments_key_def row_of_upsert split: option.split)

text \<open>A linked key is used. After a user has linked a personal key of the experiments server,
  reports of the runs they own carry exactly that key, until they unlink it; then, and for every
  caller without one, they carry the shared key.\<close>

theorem linked_key_used:
  assumes "seal_ok (xc_seal xc)" and "length nonce = 12" and "sl_utf8 (xc_seal xc) (trim raw)"
    and "xp_key_encryption_key xp = Some k"
    and "set_experiments_key (xc_seal xc) (Some k) nonce now ctx raw h = (h1, Inr True)"
    and "clear_experiments_key (Some k) now' ctx h1 = (h2, Inr False)"
  shows "bearer_for_email xp xc (Some (ac_owner_email ctx)) (hb_store h1) = trim raw \<and>
    bearer_for_email xp xc (Some (ac_owner_email ctx)) (hb_store h2) = xp_key xp"
proof -
  have "hb_store h1 = set_user_experiments_key now (ac_owner_email ctx)
      (Some (encrypt (xc_seal xc) nonce k (trim raw))) (hb_store h)"
    using assms(5) by (auto simp: set_experiments_key_def Let_def service_unavailable_def bad_request_def split: if_splits)
  moreover have "hb_store h2 = set_user_experiments_key now' (ac_owner_email ctx) None (hb_store h1)"
    using assms(6) by (auto simp: clear_experiments_key_def service_unavailable_def bad_request_def split: if_splits)
  moreover have "decrypt (xc_seal xc) k (encrypt (xc_seal xc) nonce k (trim raw)) = Inr (trim raw)"
    using assms(1-3) by (simp add: decrypt_def encrypt_def seal_ok_def)
  ultimately show ?thesis
    by (simp add: bearer_for_email_def assms(4) user_experiments_key_set)
qed

subsection \<open>Resubmission\<close>


subsection \<open>The outbox\<close>

text \<open>What happens to the mirror: a call of the hub, or a pass of the retry loop.\<close>

datatype mirror_op = Call mirror_call | Sweep

fun mirror_step ::
  "experiments \<Rightarrow> 'w experiments_calls \<Rightarrow> unix_seconds \<times> mirror_op \<Rightarrow> 'w mirror \<Rightarrow> 'w mirror" where
  "mirror_step xp xc (now, Call c) m = run_mirror_call xp xc now c m"
| "mirror_step xp xc (now, Sweep) m = fst (sweep_outbox_once xp xc now m)"

text \<open>The JSON codec of the payload reads states back, and nothing but a \<open>created\<close> event of a training
  run as one.\<close>

definition outbox_codec :: "'w experiments_calls \<Rightarrow> bool" where
  "outbox_codec xc \<longleftrightarrow> (\<forall>st. xc_parse xc (xc_render xc (Ev_state st)) = Inr (Ev_state st)) \<and>
     (\<forall>ev train er. xc_parse xc (xc_render xc ev) = Inr (Ev_created (Train train) er) \<longrightarrow>
        (\<exists>train er. ev = Ev_created (Train train) er))"

definition outbox_ids :: "store \<Rightarrow> bool" where
  "outbox_ids s \<longleftrightarrow> map eo_id (st_outbox s) = map int [1..<Suc (length (st_outbox s))]"

lemma deliver_outbox [simp]: "st_outbox (mi_store (fst (deliver xp xc now rid ev m))) = st_outbox (mi_store m)"
  by (auto simp: deliver_def try_attach_def try_create_def try_state_def try_checkpoint_def try_result_def
      ensure_def set_experiments_run_id_def Let_def
      split: outbox_event.split run_spec.split option.split prod.split sum.split)

lemma experiments_run_id_set:
  "experiments_run_id rid (set_experiments_run_id rid' ext s) =
   (if rid' = rid \<and> row_of run_key rid (st_runs s) \<noteq> None then Some ext else experiments_run_id rid s)"
  by (auto simp: experiments_run_id_def set_experiments_run_id_def row_of_update_where split: option.split
      dest: row_of_SomeD)

lemma ensure_store [simp]: "mi_store (fst (ensure xp xc m)) = mi_store m"
  by (auto simp: ensure_def split: prod.split sum.split)

lemma deliver_unmirrored:
  assumes "experiments_run_id rid (mi_store m) = None"
    and "rid' = rid \<Longrightarrow> \<forall>train er. ev \<noteq> Ev_created (Train train) er"
  shows "experiments_run_id rid (mi_store (fst (deliver xp xc now rid' ev m))) = None"
proof (cases "\<exists>train er. ev = Ev_created (Train train) er")
  case True
  then obtain train er where ev: "ev = Ev_created (Train train) er" and ne: "rid' \<noteq> rid" using assms(2) by blast
  have keep: "experiments_run_id rid (set_experiments_run_id rid' ext (mi_store m)) = None" for ext
    using assms(1) ne by (simp add: experiments_run_id_set)
  obtain m1 r where m1: "ensure xp xc m = (m1, r)" by fastforce
  then have "mi_store m1 = mi_store m" using ensure_store [of xp xc m] by simp
  then show ?thesis
    using keep assms(1) m1
    by (auto simp: ev deliver_def try_attach_def try_create_def Let_def split: option.split prod.split sum.split)
next
  case False
  then have "mi_store (fst (deliver xp xc now rid' ev m)) = mi_store m"
    by (auto simp: deliver_def try_state_def try_checkpoint_def try_result_def
        split: outbox_event.split run_spec.split option.split prod.split sum.split)
  with assms(1) show ?thesis by simp
qed

lemma mark_outbox [simp]:
  "st_runs (mark_outbox_event_done now i s) = st_runs s"
  "st_runs (mark_outbox_event_failed i e next s) = st_runs s"
  "st_runs (fst (enqueue_outbox_event rid kind payload now s)) = st_runs s"
  by (simp_all add: mark_outbox_event_done_def mark_outbox_event_failed_def enqueue_outbox_event_def Let_def)

lemma experiments_run_id_cong: "st_runs s = st_runs s' \<Longrightarrow> experiments_run_id rid s = experiments_run_id rid s'"
  by (simp add: experiments_run_id_def)

text \<open>An attempt changes the outbox only in the row it is about.\<close>

lemma attempt_outbox:
  "\<exists>f. (\<forall>r. eo_id (f r) = eo_id r \<and> eo_run_id (f r) = eo_run_id r \<and> eo_payload (f r) = eo_payload r) \<and>
     (snd (deliver xp xc now rid ev m) = Inl e \<longrightarrow> (\<forall>r. eo_completed_at (f r) = eo_completed_at r)) \<and>
     st_outbox (mi_store (fst (attempt xp xc now i rid ev n m))) =
       update_where (\<lambda>r. eo_id r = i) f (st_outbox (mi_store m))"
proof -
  obtain m1 r where d: "deliver xp xc now rid ev m = (m1, r)" by fastforce
  then have o: "st_outbox (mi_store m1) = st_outbox (mi_store m)" using deliver_outbox [of xp xc now rid ev m] by simp
  show ?thesis
  proof (cases r)
    case (Inl e')
    show ?thesis
      by (rule exI [of _ "\<lambda>r. r\<lparr>eo_attempts := eo_attempts r + 1, eo_last_error := Some e',
            eo_next_attempt_at := now + real (backoff_for n)\<rparr>"])
         (simp add: attempt_def d Inl mi_on_store_def mark_outbox_event_failed_def o)
  next
    case (Inr u)
    show ?thesis
      by (rule exI [of _ "\<lambda>r. r\<lparr>eo_completed_at := Some now\<rparr>"])
         (simp add: attempt_def d Inr mi_on_store_def mark_outbox_event_done_def o)
  qed
qed

subsection \<open>Runs that are never mirrored\<close>

text \<open>No row of the outbox would mirror the run, and its state report \<open>i\<close> is pending.\<close>

definition inert :: "'w experiments_calls \<Rightarrow> run_id \<Rightarrow> string \<Rightarrow> bool" where
  "inert xc rid payload \<longleftrightarrow> (\<forall>train er. xc_parse xc payload \<noteq> Inr (Ev_created (Train train) er))"

definition unmirrored :: "'w experiments_calls \<Rightarrow> run_id \<Rightarrow> store \<Rightarrow> bool" where
  "unmirrored xc rid s \<longleftrightarrow> experiments_run_id rid s = None \<and> outbox_ids s \<and>
     (\<forall>r\<in>set (st_outbox s). eo_run_id r = rid \<longrightarrow> inert xc rid (eo_payload r))"

definition waiting :: "'w experiments_calls \<Rightarrow> run_id \<Rightarrow> int \<Rightarrow> store \<Rightarrow> bool" where
  "waiting xc rid i s \<longleftrightarrow> (\<exists>r st. r \<in> set (st_outbox s) \<and> eo_id r = i \<and> eo_run_id r = rid \<and>
     eo_completed_at r = None \<and> xc_parse xc (eo_payload r) = Inr (Ev_state st))"

definition stuck :: "'w experiments_calls \<Rightarrow> run_id \<Rightarrow> int \<Rightarrow> store \<Rightarrow> bool" where
  "stuck xc rid i s \<longleftrightarrow> unmirrored xc rid s \<and> waiting xc rid i s"

lemma outbox_ids_pk: "outbox_ids s \<Longrightarrow> pk eo_id (st_outbox s)"
  by (simp add: outbox_ids_def pk_def distinct_map)

lemma update_where_shape:
  assumes "\<And>r. eo_id (f r) = eo_id r \<and> eo_run_id (f r) = eo_run_id r \<and> eo_payload (f r) = eo_payload r"
    and "st_outbox s' = update_where p f (st_outbox s)" and "experiments_run_id rid s' = None" and "unmirrored xc rid s"
  shows "unmirrored xc rid s'"
proof -
  have "map eo_id (update_where p f (st_outbox s)) = map eo_id (st_outbox s)" "length (st_outbox s') = length (st_outbox s)"
    using assms(1,2) by (simp_all add: update_where_def)
  then show ?thesis
    using assms by (auto simp: unmirrored_def outbox_ids_def set_update_where)
qed

lemma waiting_update:
  assumes "\<And>r. eo_id (f r) = eo_id r \<and> eo_run_id (f r) = eo_run_id r \<and> eo_payload (f r) = eo_payload r"
    and "\<And>r. p r \<Longrightarrow> eo_id r = i \<Longrightarrow> eo_completed_at (f r) = eo_completed_at r"
    and "st_outbox s' = update_where p f (st_outbox s)" and "waiting xc rid i s"
  shows "waiting xc rid i s'"
proof -
  from assms(4) obtain r st where r: "r \<in> set (st_outbox s)" "eo_id r = i" "eo_run_id r = rid"
    "eo_completed_at r = None" "xc_parse xc (eo_payload r) = Inr (Ev_state st)" by (auto simp: waiting_def)
  let ?r = "if p r then f r else r"
  have "?r \<in> set (st_outbox s')" using r(1) assms(3) by (auto simp: set_update_where)
  then show ?thesis
    unfolding waiting_def using r assms(1,2) by (intro exI [of _ ?r] exI [of _ st]) auto
qed

lemma stuck_attempt:
  assumes "stuck xc rid i (mi_store m)" and "rid' = rid \<Longrightarrow> \<forall>train er. ev \<noteq> Ev_created (Train train) er"
    and "j = i \<Longrightarrow> rid' = rid \<and> (\<exists>st. ev = Ev_state st)"
  shows "stuck xc rid i (mi_store (fst (attempt xp xc now j rid' ev n m)))"
proof -
  obtain f where f: "\<And>r. eo_id (f r) = eo_id r \<and> eo_run_id (f r) = eo_run_id r \<and> eo_payload (f r) = eo_payload r"
    and keep: "snd (deliver xp xc now rid' ev m) = Inl NOT_MIRRORED \<Longrightarrow> (\<forall>r. eo_completed_at (f r) = eo_completed_at r)"
    and o: "st_outbox (mi_store (fst (attempt xp xc now j rid' ev n m))) =
      update_where (\<lambda>r. eo_id r = j) f (st_outbox (mi_store m))"
    using attempt_outbox [of xp xc now rid' ev m NOT_MIRRORED j n] by blast
  have un: "experiments_run_id rid (mi_store m) = None" using assms(1) by (simp add: stuck_def unmirrored_def)
  have "experiments_run_id rid (mi_store (fst (attempt xp xc now j rid' ev n m))) =
      experiments_run_id rid (mi_store (fst (deliver xp xc now rid' ev m)))"
    by (rule experiments_run_id_cong) (auto simp: attempt_def mi_on_store_def split: prod.split sum.split)
  then have none: "experiments_run_id rid (mi_store (fst (attempt xp xc now j rid' ev n m))) = None"
    using deliver_unmirrored [OF un assms(2)] by simp
  have keep': "eo_completed_at (f r) = eo_completed_at r" if "eo_id r = j" "eo_id r = i" for r
  proof -
    from that assms(3) obtain st where "rid' = rid" "ev = Ev_state st" by auto
    then have "snd (deliver xp xc now rid' ev m) = Inl NOT_MIRRORED" using un by (simp add: deliver_def try_state_def)
    with keep show ?thesis by blast
  qed
  have m: "unmirrored xc rid (mi_store m)" "waiting xc rid i (mi_store m)" using assms(1) by (simp_all add: stuck_def)
  have "waiting xc rid i (mi_store (fst (attempt xp xc now j rid' ev n m)))"
    by (rule waiting_update [OF f keep' o m(2)])
  with update_where_shape [OF f o none m(1)] show ?thesis by (simp add: stuck_def)
qed

lemma stuck_sweep_rows:
  assumes "stuck xc rid i (mi_store m)"
    and "\<And>r. r \<in> set rs \<Longrightarrow> ob_run_id r = rid \<Longrightarrow> inert xc rid (ob_payload r)"
    and "\<And>r. r \<in> set rs \<Longrightarrow> ob_id r = i \<Longrightarrow> ob_run_id r = rid \<and> (\<exists>st. xc_parse xc (ob_payload r) = Inr (Ev_state st))"
  shows "stuck xc rid i (mi_store (fst (sweep_rows xp xc now rs m)))"
  using assms
proof (induction rs arbitrary: m)
  case (Cons r rs)
  have rest: "stuck xc rid i (mi_store (fst (sweep_rows xp xc now rs m')))" if "stuck xc rid i (mi_store m')" for m'
    by (rule Cons.IH [OF that]; erule Cons.prems(2,3) [OF list.set_intros(2)])
  show ?case
  proof (cases "xc_parse xc (ob_payload r)")
    case (Inl e)
    then have ne: "ob_id r \<noteq> i" using Cons.prems(3) [of r] by auto
    have "stuck xc rid i (mi_store (mi_on_store (mark_outbox_event_done now (ob_id r)) m))"
    proof -
      have o: "st_outbox (mark_outbox_event_done now (ob_id r) (mi_store m)) =
          update_where (\<lambda>x. eo_id x = ob_id r) (\<lambda>x. x\<lparr>eo_completed_at := Some now\<rparr>) (st_outbox (mi_store m))"
        by (simp add: mark_outbox_event_done_def)
      have m: "unmirrored xc rid (mi_store m)" "waiting xc rid i (mi_store m)"
        using Cons.prems(1) by (simp_all add: stuck_def)
      have none: "experiments_run_id rid (mark_outbox_event_done now (ob_id r) (mi_store m)) = None"
        using m(1) by (simp add: unmirrored_def experiments_run_id_def)
      have "unmirrored xc rid (mark_outbox_event_done now (ob_id r) (mi_store m))"
        by (rule update_where_shape [OF _ o none m(1)]) simp
      moreover have "waiting xc rid i (mark_outbox_event_done now (ob_id r) (mi_store m))"
      proof (rule waiting_update [OF _ _ o m(2)])
        fix x :: outbox_event_row
        assume "eo_id x = ob_id r" "eo_id x = i"
        with ne show "eo_completed_at (x\<lparr>eo_completed_at := Some now\<rparr>) = eo_completed_at x" by metis
      qed simp
      ultimately show ?thesis by (simp add: stuck_def mi_on_store_def)
    qed
    from rest [OF this] Inl show ?thesis by simp
  next
    case (Inr ev)
    have "stuck xc rid i (mi_store (fst (attempt xp xc now (ob_id r) (ob_run_id r) ev (ob_attempts r) m)))"
      using Cons.prems(2) [of r] Cons.prems(3) [of r] Inr
      by (intro stuck_attempt Cons.prems(1)) (auto simp: inert_def)
    from rest [OF this] Inr show ?thesis
      by (simp add: case_prod_beta)
  qed
qed simp

lemma due_rows:
  "set (due_outbox_events t n s) \<subseteq> (\<lambda>r. \<lparr>ob_id = eo_id r, ob_run_id = eo_run_id r, ob_kind = eo_kind r,
     ob_payload = eo_payload r, ob_attempts = eo_attempts r\<rparr>) `
     {r \<in> set (st_outbox s). eo_completed_at r = None \<and> eo_next_attempt_at r \<le> t}"
  by (auto simp: due_outbox_events_def dest!: in_set_takeD)

lemma stuck_sweep:
  assumes "stuck xc rid i (mi_store m)"
  shows "stuck xc rid i (mi_store (fst (sweep_outbox_once xp xc now m)))"
  unfolding sweep_outbox_once_def
proof (rule stuck_sweep_rows [OF assms])
  fix r assume r: "r \<in> set (due_outbox_events now OUTBOX_SWEEP_BATCH (mi_store m))"
  then obtain x where x: "x \<in> set (st_outbox (mi_store m))" "ob_id r = eo_id x" "ob_run_id r = eo_run_id x"
    "ob_payload r = eo_payload x" using due_rows [of now OUTBOX_SWEEP_BATCH "mi_store m"] by auto
  show "inert xc rid (ob_payload r)" if "ob_run_id r = rid"
    using assms that x by (auto simp: stuck_def unmirrored_def)
  from assms obtain y st where y: "y \<in> set (st_outbox (mi_store m))" "eo_id y = i" "eo_run_id y = rid"
    "xc_parse xc (eo_payload y) = Inr (Ev_state st)" by (auto simp: stuck_def waiting_def)
  show "ob_run_id r = rid \<and> (\<exists>st. xc_parse xc (ob_payload r) = Inr (Ev_state st))" if "ob_id r = i"
  proof -
    have "pk eo_id (st_outbox (mi_store m))" using assms by (simp add: stuck_def unmirrored_def outbox_ids_pk)
    then have "inj_on eo_id (set (st_outbox (mi_store m)))" by (simp add: pk_def distinct_map)
    with x y that have "x = y" by (auto dest: inj_onD)
    with x y show ?thesis by auto
  qed
qed

lemma enqueue_unmirrored:
  assumes "unmirrored xc rid s" and "outbox_codec xc"
    and "rid' = rid \<Longrightarrow> \<forall>train er. ev \<noteq> Ev_created (Train train) er"
  shows "unmirrored xc rid (fst (enqueue_outbox_event rid' k (xc_render xc ev) now s))"
proof -
  have "inert xc rid (xc_render xc ev)" if "rid' = rid"
    using assms(3) [OF that] assms(2) unfolding outbox_codec_def inert_def by blast
  with assms(1) show ?thesis
    by (auto simp: unmirrored_def enqueue_outbox_event_def Let_def outbox_ids_def experiments_run_id_def)
qed

lemma waiting_enqueue: "waiting xc rid i s \<Longrightarrow> waiting xc rid i (fst (enqueue_outbox_event rid' k p now s))"
  by (auto simp: waiting_def enqueue_outbox_event_def Let_def)

lemma waiting_fresh: "waiting xc rid i s \<Longrightarrow> outbox_ids s \<Longrightarrow> i \<noteq> snd (enqueue_outbox_event rid' k p now s)"
proof -
  assume "waiting xc rid i s" and ids: "outbox_ids s"
  then have "i \<in> set (map eo_id (st_outbox s))" by (auto simp: waiting_def)
  then have "i \<le> int (length (st_outbox s))" unfolding ids [unfolded outbox_ids_def] by auto
  then show ?thesis by (simp add: enqueue_outbox_event_def Let_def)
qed

lemma stuck_enqueue:
  assumes "stuck xc rid i (mi_store m)" and "outbox_codec xc"
    and "rid' = rid \<Longrightarrow> \<forall>train er. ev \<noteq> Ev_created (Train train) er"
  shows "stuck xc rid i (mi_store (enqueue_and_attempt xp xc now rid' ev m))"
proof -
  obtain s j where q: "enqueue_outbox_event rid' (kind_label ev) (xc_render xc ev) now (mi_store m) = (s, j)" by fastforce
  have "stuck xc rid i s" "j \<noteq> i"
    using assms enqueue_unmirrored [of xc rid "mi_store m" rid' ev "kind_label ev" now]
      waiting_enqueue [of xc rid i "mi_store m" rid' "kind_label ev" "xc_render xc ev" now]
      waiting_fresh [of xc rid i "mi_store m" rid' "kind_label ev" "xc_render xc ev" now]
    by (auto simp: stuck_def q unmirrored_def)
  then show ?thesis
    using stuck_attempt [of xc rid i "m\<lparr>mi_store := s\<rparr>" rid' ev j] assms(3)
    by (simp add: enqueue_and_attempt_def q)
qed

lemma stuck_step:
  assumes "stuck xc rid i (mi_store m)" and "outbox_codec xc"
    and "\<And>train er. op \<noteq> Call (Report_created rid (Train train) er)"
  shows "stuck xc rid i (mi_store (mirror_step xp xc (now, op) m))"
proof (cases op)
  case Sweep
  then show ?thesis using assms(1) by (simp add: stuck_sweep)
next
  case (Call c)
  show ?thesis
  proof (cases c)
    case (Report_created rid' spec er)
    then show ?thesis
      using assms by (cases spec) (auto simp: Call report_created_def intro!: stuck_enqueue)
  next
    case (Report_state rid' st)
    have results: "stuck xc rid i (mi_store (fold (\<lambda>(name, value). enqueue_and_attempt xp xc now rid' (Ev_result name value)) rs m))"
      if "stuck xc rid i (mi_store m)" for rs m
      using that by (induction rs arbitrary: m) (auto intro!: stuck_enqueue [OF _ assms(2)])
    have "stuck xc rid i (mi_store (enqueue_and_attempt xp xc now rid' (Ev_state st) m))"
      by (rule stuck_enqueue [OF assms(1,2)]) simp
    then show ?thesis
      by (cases "st = Completed") (simp_all add: Call Report_state report_state_def Let_def results)
  next
    case (Report_checkpoint rid' step uri meta)
    then show ?thesis
      using assms by (auto simp: Call report_checkpoint_def intro!: stuck_enqueue)
  qed
qed

lemma report_state_stuck:
  assumes "outbox_codec xc" and "unmirrored xc rid (mi_store m)"
  shows "stuck xc rid (int (length (st_outbox (mi_store m))) + 1) (mi_store (report_state xp xc now rid st m))"
proof -
  let ?i = "int (length (st_outbox (mi_store m))) + 1"
  obtain s j where q: "enqueue_outbox_event rid ''state'' (xc_render xc (Ev_state st)) now (mi_store m) = (s, j)" by fastforce
  then have j: "j = ?i" and w: "waiting xc rid ?i s"
    using assms(1) by (auto simp: enqueue_outbox_event_def Let_def waiting_def outbox_codec_def)
  have "unmirrored xc rid s"
    using enqueue_unmirrored [OF assms(2,1), of rid "Ev_state st" "''state''" now] q by simp
  with w j have "stuck xc rid ?i (mi_store (enqueue_and_attempt xp xc now rid (Ev_state st) m))"
    using stuck_attempt [of xc rid ?i "m\<lparr>mi_store := s\<rparr>" rid "Ev_state st" ?i]
    by (simp add: enqueue_and_attempt_def q stuck_def)
  moreover have "stuck xc rid ?i (mi_store (fold (\<lambda>(name, value). enqueue_and_attempt xp xc now rid (Ev_result name value)) rs m'))"
    if "stuck xc rid ?i (mi_store m')" for rs m'
    using that by (induction rs arbitrary: m') (auto intro!: stuck_enqueue [OF _ assms(1)])
  ultimately show ?thesis by (cases "st = Completed") (simp_all add: report_state_def Let_def)
qed

text \<open>C35: State reports of a run that is never mirrored are retried for ever. After the hub reported a
  state of a shell run, that report is pending whatever the server answers, whatever else is
  reported and however often the retry loop runs.\<close>

theorem unmirrored_reports_never_settle:
  assumes "outbox_codec xc" and "unmirrored xc rid (mi_store m)"
    and "\<And>t train er. (t, Call (Report_created rid (Train train) er)) \<notin> set ops"
  shows "\<exists>r\<in>set (st_outbox (mi_store (fold (mirror_step xp xc) ops (report_state xp xc now rid st m)))).
    eo_id r = int (length (st_outbox (mi_store m))) + 1 \<and> eo_run_id r = rid \<and> eo_completed_at r = None"
proof -
  let ?i = "int (length (st_outbox (mi_store m))) + 1"
  have "stuck xc rid ?i (mi_store (fold (mirror_step xp xc) ops m'))" if "stuck xc rid ?i (mi_store m')" for m'
    using that assms(3)
  proof (induction ops arbitrary: m')
    case (Cons x ops)
    obtain t op where x: "x = (t, op)" by fastforce
    have "stuck xc rid ?i (mi_store (mirror_step xp xc x m'))"
      unfolding x by (rule stuck_step [OF Cons.prems(1) assms(1)]) (use Cons.prems(2) x in auto)
    with Cons.IH Cons.prems(2) show ?case by simp
  qed simp
  from this [OF report_state_stuck [OF assms(1,2)]] show ?thesis
    unfolding stuck_def waiting_def by blast
qed

subsection \<open>The batch of a pass\<close>

lemma filter_less_take:
  assumes "sorted (map f ys)" and "n < length ys"
  shows "filter (\<lambda>x. f x < f (ys ! n)) ys = filter (\<lambda>x. f x < f (ys ! n)) (take n ys)"
proof -
  have "filter (\<lambda>x. f x < f (ys ! n)) (drop n ys) = []"
    using assms by (auto simp: filter_empty_conv in_set_conv_nth not_less sorted_iff_nth_mono)
  then show ?thesis
    by (metis append_Nil2 append_take_drop_id filter_append)
qed

lemma take_order_by:
  assumes "k \<le> length (filter (\<lambda>x. f x < f r) xs)"
  shows "r \<notin> set (take k (order_by f xs))"
proof
  assume "r \<in> set (take k (order_by f xs))"
  then obtain n where n: "n < k" "n < length (order_by f xs)" "order_by f xs ! n = r"
    by (auto simp: in_set_conv_nth)
  have "length (filter (\<lambda>x. f x < f r) xs) = length (filter (\<lambda>x. f x < f r) (order_by f xs))"
    by (simp add: order_by_def filter_sort)
  also have "\<dots> \<le> length (take n (order_by f xs))"
    using filter_less_take [OF sorted_order_by n(2)] n(3) by (metis length_filter_le)
  finally show False using assms n(1) by simp
qed

lemma sweep_rows_other:
  assumes "i \<notin> ob_id ` set rs"
  shows "filter (\<lambda>r. eo_id r = i) (st_outbox (mi_store (fst (sweep_rows xp xc now rs m)))) =
    filter (\<lambda>r. eo_id r = i) (st_outbox (mi_store m))"
  using assms
proof (induction rs arbitrary: m)
  case (Cons r rs)
  have other: "filter (\<lambda>r. eo_id r = i) (update_where (\<lambda>x. eo_id x = ob_id r) f xs) = filter (\<lambda>r. eo_id r = i) xs"
    if "\<And>x. eo_id (f x) = eo_id x" for f xs
    using Cons.prems that by (induction xs) (auto simp: update_where_def)
  have "filter (\<lambda>r. eo_id r = i) (st_outbox (mi_store (fst (attempt xp xc now (ob_id r) rid ev n m)))) =
      filter (\<lambda>r. eo_id r = i) (st_outbox (mi_store m))" for rid ev n
  proof -
    obtain f where "\<And>r. eo_id (f r) = eo_id r" and
      "st_outbox (mi_store (fst (attempt xp xc now (ob_id r) rid ev n m))) =
        update_where (\<lambda>x. eo_id x = ob_id r) f (st_outbox (mi_store m))"
      using attempt_outbox [of xp xc now rid ev m NOT_MIRRORED "ob_id r" n] by blast
    then show ?thesis by (simp add: other)
  qed
  with Cons show ?case
    by (auto simp: case_prod_beta mi_on_store_def mark_outbox_event_done_def other split: sum.split)
qed simp

text \<open>Old reports starve new ones. While twenty due events are older than a pending one, a pass of
  the retry loop does not touch it: the events of shell runs, which are never settled, can keep the
  reports of training runs from ever being retried.\<close>

theorem old_reports_starve_new:
  assumes "r \<in> set (st_outbox (mi_store m))" and "pk eo_id (st_outbox (mi_store m))"
    and "OUTBOX_SWEEP_BATCH \<le> length (filter (\<lambda>x. eo_completed_at x = None \<and> eo_next_attempt_at x \<le> now \<and>
      eo_created_at x < eo_created_at r) (st_outbox (mi_store m)))"
  shows "r \<in> set (st_outbox (mi_store (fst (sweep_outbox_once xp xc now m))))"
proof -
  let ?due = "filter (\<lambda>x. eo_completed_at x = None \<and> eo_next_attempt_at x \<le> now) (st_outbox (mi_store m))"
  have "r \<notin> set (take OUTBOX_SWEEP_BATCH (order_by eo_created_at ?due))"
    using assms(3) by (intro take_order_by) (simp add: filter_filter conj_commute conj_left_commute)
  moreover have "inj_on eo_id (set (st_outbox (mi_store m)))" using assms(2) by (simp add: pk_def distinct_map)
  moreover have "set (take OUTBOX_SWEEP_BATCH (order_by eo_created_at ?due)) \<subseteq> set (st_outbox (mi_store m))"
    by (auto dest!: in_set_takeD)
  ultimately have "eo_id r \<noteq> eo_id x" if x: "x \<in> set (take OUTBOX_SWEEP_BATCH (order_by eo_created_at ?due))" for x
    using inj_onD [of eo_id "set (st_outbox (mi_store m))" r x] assms(1) subsetD [OF _ x, of "set (st_outbox (mi_store m))"] x
    by blast
  then have "eo_id r \<notin> eo_id ` set (take OUTBOX_SWEEP_BATCH (order_by eo_created_at ?due))" by blast
  then have "eo_id r \<notin> ob_id ` set (due_outbox_events now OUTBOX_SWEEP_BATCH (mi_store m))"
    by (simp add: due_outbox_events_def image_image)
  note same = sweep_rows_other [OF this, of xp xc now m]
  have "r \<in> set (filter (\<lambda>x. eo_id x = eo_id r) (st_outbox (mi_store m)))" using assms(1) by simp
  then have "r \<in> set (filter (\<lambda>x. eo_id x = eo_id r) (st_outbox (mi_store (fst (sweep_outbox_once xp xc now m)))))"
    unfolding sweep_outbox_once_def same .
  then show ?thesis by simp
qed

subsection \<open>The order of a run's states\<close>

text \<open>A server that logs the body of every PATCH it accepts; the \<open>n\<close>-th exchange gets through when
  \<open>up n\<close>.\<close>

definition log_server :: "(nat \<Rightarrow> bool) \<Rightarrow> string \<Rightarrow> string \<Rightarrow> string \<Rightarrow> json option \<Rightarrow> nat \<times> json list \<Rightarrow>
    (nat \<times> json list) \<times> (nat \<times> string) result" where
  "log_server up meth url token body w =
     (case w of (n, sent) \<Rightarrow>
       if up n then ((n + 1, case body of Some b \<Rightarrow> sent @ [b] | None \<Rightarrow> sent), Inr (200, ''{}''))
       else ((n + 1, sent), Inl ''connection refused''))"

lemma deliver_state_log:
  assumes "xc_send xc = log_server up" and "experiments_run_id rid (mi_store m) = Some ext"
    and "mi_world m = (n, sent)" and "map_status st = Some status"
  shows "deliver xp xc now rid (Ev_state st) m =
    (if up n then (m\<lparr>mi_world := (n + 1, sent @ [state_body now st status])\<rparr>, Inr ())
     else (m\<lparr>mi_world := (n + 1, sent)\<rparr>, Inl ''PATCH run''))"
  using assms by (simp add: deliver_def try_state_def patch_run_def request_ok_def log_server_def is_success_def)

lemma update_where_last:
  assumes "outbox_ids s"
  shows "update_where (\<lambda>r. eo_id r = int (length (st_outbox s)) + 1) f (st_outbox s @ [r]) =
    st_outbox s @ [if eo_id r = int (length (st_outbox s)) + 1 then f r else r]"
proof -
  have "eo_id x \<le> int (length (st_outbox s))" if "x \<in> set (st_outbox s)" for x
  proof -
    from that have "eo_id x \<in> set (map eo_id (st_outbox s))" by simp
    then show ?thesis unfolding assms [unfolded outbox_ids_def] by auto
  qed
  then have "map (\<lambda>x. if eo_id x = int (length (st_outbox s)) + 1 then f x else x) (st_outbox s) = st_outbox s"
    by (intro map_idI) force
  then show ?thesis by (simp add: update_where_def)
qed

lemma enqueue_state_log:
  assumes "xc_send xc = log_server up" and "experiments_run_id rid (mi_store m) = Some ext"
    and "mi_world m = (n, sent)" and "map_status st = Some status" and "outbox_ids (mi_store m)"
  shows "enqueue_and_attempt xp xc now rid (Ev_state st) m =
    m\<lparr>mi_world := (n + 1, if up n then sent @ [state_body now st status] else sent),
      mi_store := (mi_store m)\<lparr>st_outbox := st_outbox (mi_store m) @
        [\<lparr>eo_id = int (length (st_outbox (mi_store m))) + 1, eo_run_id = rid, eo_kind = ''state'',
          eo_payload = xc_render xc (Ev_state st), eo_attempts = if up n then 0 else 1,
          eo_last_error = if up n then None else Some ''PATCH run'', eo_created_at = now,
          eo_next_attempt_at = if up n then now else now + 30,
          eo_completed_at = if up n then Some now else None\<rparr>]\<rparr>\<rparr>"
proof -
  obtain s i where q: "enqueue_outbox_event rid ''state'' (xc_render xc (Ev_state st)) now (mi_store m) = (s, i)" by fastforce
  then have i: "i = int (length (st_outbox (mi_store m))) + 1"
    and s: "s = (mi_store m)\<lparr>st_outbox := st_outbox (mi_store m) @
       [\<lparr>eo_id = i, eo_run_id = rid, eo_kind = ''state'', eo_payload = xc_render xc (Ev_state st), eo_attempts = 0,
         eo_last_error = None, eo_created_at = now, eo_next_attempt_at = now, eo_completed_at = None\<rparr>]\<rparr>"
    by (auto simp: enqueue_outbox_event_def Let_def)
  have ext: "experiments_run_id rid (mi_store (m\<lparr>mi_store := s\<rparr>)) = Some ext"
    using assms(2) by (simp add: s experiments_run_id_def)
  have d: "deliver xp xc now rid (Ev_state st) (m\<lparr>mi_store := s\<rparr>) =
    (if up n then (m\<lparr>mi_store := s, mi_world := (n + 1, sent @ [state_body now st status])\<rparr>, Inr ())
     else (m\<lparr>mi_store := s, mi_world := (n + 1, sent)\<rparr>, Inl ''PATCH run''))"
    by (subst deliver_state_log [OF assms(1) ext _ assms(4)]) (simp_all add: assms(3))
  have b: "real (backoff_for 0) = 30" by (simp add: backoff_alt)
  have "enqueue_and_attempt xp xc now rid (Ev_state st) m =
    (if up n then mi_on_store (mark_outbox_event_done now i)
        (m\<lparr>mi_store := s, mi_world := (n + 1, sent @ [state_body now st status])\<rparr>)
     else mi_on_store (mark_outbox_event_failed i ''PATCH run'' (now + 30)) (m\<lparr>mi_store := s, mi_world := (n + 1, sent)\<rparr>))"
    by (simp add: enqueue_and_attempt_def q attempt_def d b)
  then show ?thesis
    using update_where_last [OF assms(5)]
    by (simp add: mi_on_store_def mark_outbox_event_done_def mark_outbox_event_failed_def s i)
qed

lemma outbox_ids_snoc:
  "outbox_ids s \<Longrightarrow> eo_id r = int (length (st_outbox s)) + 1 \<Longrightarrow> outbox_ids (s\<lparr>st_outbox := st_outbox s @ [r]\<rparr>)"
  by (simp add: outbox_ids_def)


subsection \<open>A server that accepts everything\<close>

definition accepting :: "'w experiments_calls \<Rightarrow> bool" where
  "accepting xc \<longleftrightarrow> (\<forall>meth url token body w. \<exists>w' status text ext.
     xc_send xc meth url token body w = (w', Inr (status, text)) \<and> is_success status \<and>
     xc_created xc text = Inr ext)"

text \<open>The events in the order of the batch, with the runs that are mirrored by then.\<close>

fun ready :: "experiments \<Rightarrow> run_id set \<Rightarrow> (run_id \<times> outbox_event) list \<Rightarrow> bool" where
  "ready xp known [] = True"
| "ready xp known ((rid, Ev_created (Train _) _) # rest) = ready xp (insert rid known) rest"
| "ready xp known ((rid, Ev_created (Shell _) _) # rest) = ready xp known rest"
| "ready xp known ((rid, Ev_checkpoint step uri _) # rest) =
     (rid \<in> known \<and> artifact_uri xp rid step uri \<noteq> None \<and> ready xp known rest)"
| "ready xp known ((rid, Ev_state _) # rest) = (rid \<in> known \<and> ready xp known rest)"
| "ready xp known ((rid, Ev_result _ _) # rest) = (rid \<in> known \<and> ready xp known rest)"

definition mirrored_runs :: "store \<Rightarrow> run_id set" where
  "mirrored_runs s = {rid. experiments_run_id rid s \<noteq> None}"

definition run_ids :: "store \<Rightarrow> run_id set" where
  "run_ids s = run_key ` set (st_runs s)"

lemma acceptingD:
  assumes "accepting xc"
  obtains w' status answer ext where "xc_send xc meth url token body w = (w', Inr (status, answer))"
    "is_success status" "xc_created xc answer = Inr ext"
  using assms unfolding accepting_def by blast

lemma request_accepted:
  assumes "accepting xc"
  obtains w' answer ext where "request_ok xc what context meth url token body w = (w', Inr answer)" "xc_created xc answer = Inr ext"
  by (rule acceptingD [OF assms, of meth url token body w]) (use that in \<open>auto simp: request_ok_def\<close>)

lemma ensure_accepted:
  assumes "accepting xc"
  obtains m1 where "ensure xp xc m = (m1, Inr ())" "mi_store m1 = mi_store m"
proof (cases "mi_ensured m")
  case True
  then show ?thesis using that [of m] by (simp add: ensure_def)
next
  case False
  show ?thesis
    by (rule acceptingD [OF assms, of "''POST''" "xp_base xp @ ''/v1/experiments''" "xp_key xp"
          "Some (JObj [(''programme'', JStr (xp_programme xp)), (''programme_name'', JStr (xp_programme_title xp)),
            (''slug'', JStr (xp_experiment xp)), (''title'', JStr (xp_experiment_title xp)), (''status'', JStr ''running'')])"
          "mi_world m"])
       (use that False in \<open>auto simp: ensure_def\<close>)
qed

lemma patch_accepted: "accepting xc \<Longrightarrow> \<exists>w'. patch_run xp xc ext body token w = (w', Inr ())"
  by (rule request_accepted [of xc "''patch run''" "''PATCH run''" "''PATCH''" "xp_base xp @ ''/v1/runs/'' @ ext" token "Some body" w])
     (auto simp: patch_run_def)

lemma mirrored_set_id:
  "mirrored_runs (set_experiments_run_id rid ext s) = mirrored_runs s \<union> ({rid} \<inter> run_ids s)"
proof -
  have "row_of run_key x (st_runs s) \<noteq> None \<longleftrightarrow> x \<in> run_ids s" for x
    by (auto simp: row_of_None_iff run_ids_def)
  then show ?thesis
    by (auto simp del: set_experiments_run_id_def simp: mirrored_runs_def experiments_run_id_set)
qed

lemma run_ids_set_id: "run_ids (set_experiments_run_id rid ext s) = run_ids s"
proof -
  have "map run_key (st_runs (set_experiments_run_id rid ext s)) = map run_key (st_runs s)"
    by (simp add: set_experiments_run_id_def map_key_update_where)
  then have "set (map run_key (st_runs (set_experiments_run_id rid ext s))) = set (map run_key (st_runs s))" by simp
  then show ?thesis by (simp add: run_ids_def)
qed

text \<open>An event of a batch whose turn has come is delivered, and a \<open>created\<close> event mirrors its run.\<close>

lemma deliver_accepted:
  assumes "accepting xc" and "ready xp (mirrored_runs (mi_store m)) ((rid, ev) # rest)" and "rid \<in> run_ids (mi_store m)"
  obtains m1 where "deliver xp xc now rid ev m = (m1, Inr ())" "run_ids (mi_store m1) = run_ids (mi_store m)"
    "ready xp (mirrored_runs (mi_store m1)) rest"
proof -
  have known: "\<exists>ext. experiments_run_id rid (mi_store m) = Some ext" if "rid \<in> mirrored_runs (mi_store m)"
    using that by (auto simp: mirrored_runs_def)
  have "\<exists>m1. deliver xp xc now rid ev m = (m1, Inr ()) \<and> run_ids (mi_store m1) = run_ids (mi_store m) \<and>
      ready xp (mirrored_runs (mi_store m1)) rest"
  proof (cases ev)
    case (Ev_created spec er)
    show ?thesis
    proof (cases spec)
      case (Shell sh)
      then show ?thesis using assms(2) by (simp add: Ev_created deliver_def)
    next
      case (Train train)
      have later: "ready xp (mirrored_runs (set_experiments_run_id rid ext (mi_store m))) rest" for ext
      proof -
        have "mirrored_runs (set_experiments_run_id rid ext (mi_store m)) = insert rid (mirrored_runs (mi_store m))"
          using assms(3) by (auto simp: mirrored_set_id)
        then show ?thesis using assms(2) by (simp add: Ev_created Train)
      qed
      obtain m0 where m0: "ensure xp xc m = (m0, Inr ())" "mi_store m0 = mi_store m"
        by (rule ensure_accepted [OF assms(1)])
      show ?thesis
      proof (cases er)
        case None
        obtain w' answer ext where
          "request_ok xc ''create run'' ''POST run'' ''POST'' (xp_base xp @ ''/v1/experiments/'' @ xp_experiment xp @ ''/runs'')
            (bearer_for xp xc rid (mi_store m)) (Some (JObj [(''slug'', JStr rid), (''config'', run_config train),
              (''budget_seconds'', JInt (int (tr_timeout_s train))), (''workspec'', run_workspec train),
              (''status'', JStr ''queued'')])) (mi_world m0) = (w', Inr answer)" "xc_created xc answer = Inr ext"
          by (rule request_accepted [OF assms(1)])
        then show ?thesis
          using later by (simp add: Ev_created Train None deliver_def try_create_def m0 Let_def run_ids_set_id)
      next
        case (Some ext)
        obtain w' where "patch_run xp xc ext (linkback_patch rid train) (bearer_for xp xc rid (mi_store m)) (mi_world m) = (w', Inr ())"
          using patch_accepted [OF assms(1)] by blast
        then show ?thesis
          using later by (simp add: Ev_created Train Some deliver_def try_attach_def run_ids_set_id)
      qed
    qed
  next
    case (Ev_state st)
    then obtain ext where ext: "experiments_run_id rid (mi_store m) = Some ext" using assms(2) known by auto
    show ?thesis
    proof (cases "map_status st")
      case (Some status)
      obtain w' where "patch_run xp xc ext (state_body now st status) (bearer_for xp xc rid (mi_store m)) (mi_world m) = (w', Inr ())"
        using patch_accepted [OF assms(1)] by blast
      then show ?thesis using assms(2) by (simp add: Ev_state deliver_def try_state_def ext Some)
    qed (use assms(2) in \<open>simp add: Ev_state deliver_def try_state_def ext\<close>)
  next
    case (Ev_checkpoint step uri meta)
    then obtain ext u where ext: "experiments_run_id rid (mi_store m) = Some ext" "artifact_uri xp rid step uri = Some u"
      using assms(2) known by auto
    obtain w' answer e where
      "request_ok xc ''register artifact'' ''POST artifact'' ''POST'' (xp_base xp @ ''/v1/runs/'' @ ext @ ''/artifacts'')
        (bearer_for xp xc rid (mi_store m)) (Some (JObj [(''kind'', JStr ''checkpoint''), (''uri'', JStr u),
          (''role'', JStr ''produced''), (''name'', JStr (artifact_name rid meta)), (''meta'', xc_meta xc meta)]))
        (mi_world m) = (w', Inr answer)" "xc_created xc answer = Inr e"
      by (rule request_accepted [OF assms(1)])
    then show ?thesis using assms(2) by (simp add: Ev_checkpoint deliver_def try_checkpoint_def ext)
  next
    case (Ev_result nm v)
    then obtain ext where ext: "experiments_run_id rid (mi_store m) = Some ext" using assms(2) known by auto
    obtain w' answer e where
      "request_ok xc ''submit result'' ''POST result'' ''POST'' (xp_base xp @ ''/v1/runs/'' @ ext @ ''/results'')
        (bearer_for xp xc rid (mi_store m)) (Some (JObj [(''name'', JStr nm), (''value'', JFloat v)]))
        (mi_world m) = (w', Inr answer)" "xc_created xc answer = Inr e"
      by (rule request_accepted [OF assms(1)])
    then show ?thesis using assms(2) by (simp add: Ev_result deliver_def try_result_def ext)
  qed
  then show thesis using that by blast
qed

lemma mark_done_runs [simp]:
  "mirrored_runs (mark_outbox_event_done now i s) = mirrored_runs s"
  "run_ids (mark_outbox_event_done now i s) = run_ids s"
  by (simp_all add: mirrored_runs_def run_ids_def experiments_run_id_def)

lemma sweep_rows_accepted:
  assumes "accepting xc" and "ready xp (mirrored_runs (mi_store m)) (map (\<lambda>(r, ev). (ob_run_id r, ev)) evs)"
    and "\<forall>(r, ev)\<in>set evs. xc_parse xc (ob_payload r) = Inr ev \<and> ob_run_id r \<in> run_ids (mi_store m)"
    and "\<forall>x\<in>set (st_outbox (mi_store m)). eo_id x \<in> done \<longrightarrow> eo_completed_at x = Some now"
  shows "snd (sweep_rows xp xc now (map fst evs) m) = length evs \<and>
    (\<forall>x\<in>set (st_outbox (mi_store (fst (sweep_rows xp xc now (map fst evs) m)))).
       eo_id x \<in> done \<union> ob_id ` fst ` set evs \<longrightarrow> eo_completed_at x = Some now)"
  using assms(2-4)
proof (induction evs arbitrary: m "done")
  case (Cons p evs)
  obtain r ev where p: "p = (r, ev)" by fastforce
  have parse: "xc_parse xc (ob_payload r) = Inr ev" and run: "ob_run_id r \<in> run_ids (mi_store m)"
    using Cons.prems(2) p by auto
  obtain m1 where d: "deliver xp xc now (ob_run_id r) ev m = (m1, Inr ())" "run_ids (mi_store m1) = run_ids (mi_store m)"
    and rdy: "ready xp (mirrored_runs (mi_store m1)) (map (\<lambda>(r, ev). (ob_run_id r, ev)) evs)"
    by (rule deliver_accepted [OF assms(1) _ run, of xp ev "map (\<lambda>(r, ev). (ob_run_id r, ev)) evs" now])
       (use Cons.prems(1) p in auto)
  let ?m2 = "mi_on_store (mark_outbox_event_done now (ob_id r)) m1"
  have a: "attempt xp xc now (ob_id r) (ob_run_id r) ev (ob_attempts r) m = (?m2, True)"
    by (simp add: attempt_def d)
  have same: "st_outbox (mi_store m1) = st_outbox (mi_store m)"
    using deliver_outbox [of xp xc now "ob_run_id r" ev m] d(1) by simp
  have step: "snd (sweep_rows xp xc now (map fst (p # evs)) m) = Suc (snd (sweep_rows xp xc now (map fst evs) ?m2))"
    "fst (sweep_rows xp xc now (map fst (p # evs)) m) = fst (sweep_rows xp xc now (map fst evs) ?m2)"
    by (simp_all add: p parse a case_prod_beta)
  have "\<forall>x\<in>set (st_outbox (mi_store ?m2)). eo_id x \<in> insert (ob_id r) done \<longrightarrow> eo_completed_at x = Some now"
    using Cons.prems(3) by (auto simp: mi_on_store_def mark_outbox_event_done_def same set_update_where)
  from Cons.IH [OF _ _ this] rdy Cons.prems(2) d(2) show ?case
    unfolding step by (simp add: p mi_on_store_def)
qed simp


subsection \<open>A small server\<close>

definition demo_xp :: experiments where
  "demo_xp = \<lparr>xp_base = ''https://e'', xp_key = ''shared'', xp_programme = ''p'', xp_programme_title = ''P'',
     xp_experiment = ''x'', xp_experiment_title = ''X'', xp_public_url = ''https://h'', xp_key_encryption_key = Some ''k''\<rparr>"

definition demo_render :: "outbox_event \<Rightarrow> string" where
  "demo_render ev = (case ev of Ev_state st \<Rightarrow> run_state_str st | _ \<Rightarrow> kind_label ev)"

definition demo_parse :: "string \<Rightarrow> outbox_event result" where
  "demo_parse s = (case find (\<lambda>st. run_state_str st = s) [Queued, Assigned, Running, Completed, Failed, Cancelled] of
     Some st \<Rightarrow> Inr (Ev_state st) | None \<Rightarrow> Inl ''unknown'')"

definition demo_xc :: "(nat \<Rightarrow> bool) \<Rightarrow> (nat \<times> json list) experiments_calls" where
  "demo_xc up = \<lparr>xc_send = log_server up, xc_status = show_nat, xc_created = (\<lambda>_. Inr ''RUN-1''),
     xc_snapshot = (\<lambda>_. Inl ''unknown''), xc_render = demo_render, xc_parse = demo_parse, xc_meta = (\<lambda>_. JNull),
     xc_seal = demo_seal\<rparr>"

lemma demo_codec: "outbox_codec (demo_xc up)"
proof -
  have "demo_parse (demo_render (Ev_state st)) = Inr (Ev_state st)" for st
    by (cases st) (simp_all add: demo_parse_def demo_render_def)
  moreover have "demo_parse s \<noteq> Inr (Ev_created (Train train) er)" for s train er
    by (auto simp: demo_parse_def split: option.split)
  ultimately show ?thesis by (simp add: outbox_codec_def demo_xc_def)
qed

definition demo_mirror :: "store \<Rightarrow> (nat \<times> json list) mirror" where
  "demo_mirror s = \<lparr>mi_store = s, mi_world = (0, []), mi_ensured = True\<rparr>"

definition demo_mirrored_store :: store where
  "demo_mirrored_store = set_experiments_run_id ''r'' ''RUN-1'' (empty_store\<lparr>st_runs :=
     [\<lparr>ru_summary = \<lparr>rs_id = ''r'', rs_name = ''n'', rs_kind = ''train'', rs_state = Running, rs_worker_id = None,
        rs_exit_code = None, rs_experiment_ref = None, rs_sweep_id = None, rs_created_by = None, rs_created_at = 0,
        rs_updated_at = 0\<rparr>, ru_spec = Train demo_template, ru_experiments_run_id = None\<rparr>]\<rparr>)"

lemma linked_key_used_witness:
  "\<exists>h1 h2. set_experiments_key demo_seal (Some ''k'') ''123456789012'' 1 demo_admin ''mine'' hub_init = (h1, Inr True) \<and>
     clear_experiments_key (Some ''k'') 2 demo_admin h1 = (h2, Inr False) \<and>
     bearer_for_email demo_xp (demo_xc (\<lambda>_. True)) (Some ''a@b'') (hb_store h1) = ''mine'' \<and>
     bearer_for_email demo_xp (demo_xc (\<lambda>_. True)) (Some ''a@b'') (hb_store h2) = ''shared''"
proof -
  have trim: "trim ''mine'' = ''mine''" by code_simp
  obtain h1 where h1: "set_experiments_key demo_seal (Some ''k'') ''123456789012'' 1 demo_admin ''mine'' hub_init = (h1, Inr True)"
    by (simp add: set_experiments_key_def demo_admin_def trim)
  obtain h2 where h2: "clear_experiments_key (Some ''k'') 2 demo_admin h1 = (h2, Inr False)"
    by (simp add: clear_experiments_key_def demo_admin_def)
  have "seal_ok demo_seal" by (simp add: seal_ok_def demo_seal_def)
  with linked_key_used [of "demo_xc (\<lambda>_. True)" "''123456789012''" "''mine''" demo_xp "''k''" 1 demo_admin hub_init h1 2 h2] h1 h2
  show ?thesis by (simp add: demo_xc_def demo_xp_def demo_seal_def demo_admin_def trim)
qed


lemma unmirrored_reports_never_settle_witness:
  "\<exists>r\<in>set (st_outbox (mi_store (fold (mirror_step demo_xp (demo_xc (\<lambda>_. True))) [(40, Sweep), (200, Sweep)]
     (report_state demo_xp (demo_xc (\<lambda>_. True)) 5 ''r'' Running (demo_mirror empty_store))))).
   eo_id r = 1 \<and> eo_run_id r = ''r'' \<and> eo_completed_at r = None"
proof -
  have "unmirrored (demo_xc (\<lambda>_. True)) ''r'' (mi_store (demo_mirror empty_store))"
    by (simp add: unmirrored_def demo_mirror_def empty_store_def experiments_run_id_def outbox_ids_def)
  from unmirrored_reports_never_settle [OF demo_codec this, of "[(40, Sweep), (200, Sweep)]" demo_xp 5 Running] show ?thesis
    by (simp add: demo_mirror_def empty_store_def)
qed

definition demo_backlog :: store where
  "demo_backlog = empty_store\<lparr>st_outbox :=
     map (\<lambda>i. \<lparr>eo_id = int i, eo_run_id = ''s'', eo_kind = ''state'', eo_payload = ''running'', eo_attempts = 1,
            eo_last_error = None, eo_created_at = real i, eo_next_attempt_at = real i, eo_completed_at = None\<rparr>) [1..<22]\<rparr>"

lemma old_reports_starve_new_witness:
  "\<exists>r. eo_id r = 21 \<and>
     r \<in> set (st_outbox (mi_store (fst (sweep_outbox_once demo_xp (demo_xc (\<lambda>_. True)) 50 (demo_mirror demo_backlog)))))"
proof -
  let ?r = "st_outbox demo_backlog ! 20"
  have "eo_id ?r = 21" "?r \<in> set (st_outbox (mi_store (demo_mirror demo_backlog)))"
    by (simp_all add: demo_backlog_def demo_mirror_def)
  moreover have "pk eo_id (st_outbox (mi_store (demo_mirror demo_backlog)))"
    by (simp add: pk_def demo_backlog_def demo_mirror_def comp_def distinct_map)
  moreover have "OUTBOX_SWEEP_BATCH \<le> length (filter (\<lambda>x. eo_completed_at x = None \<and> eo_next_attempt_at x \<le> 50 \<and>
      eo_created_at x < eo_created_at ?r) (st_outbox (mi_store (demo_mirror demo_backlog))))"
    by (simp add: OUTBOX_SWEEP_BATCH_def demo_backlog_def demo_mirror_def upt_rec)
  ultimately show ?thesis using old_reports_starve_new [of ?r "demo_mirror demo_backlog" 50 demo_xp "demo_xc (\<lambda>_. True)"] by blast
qed

lemma demo_mirrored: "experiments_run_id ''r'' demo_mirrored_store = Some ''RUN-1''" "st_outbox demo_mirrored_store = []"
  by (simp_all add: demo_mirrored_store_def experiments_run_id_set empty_store_def) (simp add: set_experiments_run_id_def)


definition demo_pending :: store where
  "demo_pending = demo_mirrored_store\<lparr>st_outbox :=
     [\<lparr>eo_id = 1, eo_run_id = ''r'', eo_kind = ''state'', eo_payload = ''running'', eo_attempts = 1,
       eo_last_error = None, eo_created_at = 1, eo_next_attempt_at = 1, eo_completed_at = None\<rparr>]\<rparr>"


end
