(* ===== verification/Drive.thy ===== *)
theory Drive
  imports Archive
begin

text \<open>
  The Google Drive client of the archive tier (\<open>drive.rs\<close>): the cached access token, the folder
  walk with its cache, and the resumable upload. Drive and the HTTP and JSON libraries are
  \<open>drive_calls\<close> over a world \<open>'w\<close>. The chunk loop of an upload may run for ever, so it is a partial
  function: \<open>None\<close> is a loop that does not end.
\<close>

definition OAUTH_TOKEN_URL :: string where
  "OAUTH_TOKEN_URL = ''https://oauth2.googleapis.com/token''"
definition DRIVE_FILES_URL :: string where
  "DRIVE_FILES_URL = ''https://www.googleapis.com/drive/v3/files''"
definition DRIVE_UPLOAD_URL :: string where
  "DRIVE_UPLOAD_URL = ''https://www.googleapis.com/upload/drive/v3/files''"
definition FOLDER_MIME :: string where "FOLDER_MIME = ''application/vnd.google-apps.folder''"
definition OCTET_STREAM :: string where "OCTET_STREAM = ''application/octet-stream''"
definition GRANT_REFRESH :: string where "GRANT_REFRESH = ''refresh_token''"
definition ROOT_PARENT :: string where "ROOT_PARENT = ''root''"
definition UPLOAD_CHUNK :: nat where "UPLOAD_CHUNK = 8 * 1024 * 1024"
definition TOKEN_SLACK_S :: real where "TOKEN_SLACK_S = 60"
definition MAX_CHUNK_RETRIES :: nat where "MAX_CHUNK_RETRIES = 4"

subsection \<open>The client\<close>

record cached_token =
  ct_access_token :: string
  ct_expires_at :: unix_seconds

record drive_client =
  dc_client_id :: string
  dc_client_secret :: string
  dc_refresh_token :: string
  dc_token_url :: string
  dc_files_url :: string
  dc_upload_url :: string

text \<open>The client's two locked slots, and the world its requests change.\<close>

record 'w drive =
  dk_world :: 'w
  dk_token :: "cached_token option"
  dk_folders :: "string \<rightharpoonup> string"

definition needs_both :: "string \<Rightarrow> string" where
  "needs_both var =
     ''CHUK_TRAIN_GOOGLE_REFRESH_TOKEN is set but '' @ var @ '' is not '' @ EM_DASH @
     '' the archive tier needs both''"

definition drive_from_env :: "(string \<Rightarrow> string option) \<Rightarrow> drive_client option result" where
  "drive_from_env env =
     (case env ''CHUK_TRAIN_GOOGLE_REFRESH_TOKEN'' of
        None \<Rightarrow> Inr None
      | Some refresh \<Rightarrow>
          if trim refresh = [] then Inr None
          else (case env ''CHUK_TRAIN_GOOGLE_CLIENT_ID'' of
                  None \<Rightarrow> Inl (needs_both ''CHUK_TRAIN_GOOGLE_CLIENT_ID'')
                | Some client_id \<Rightarrow>
                    (case env ''CHUK_TRAIN_GOOGLE_CLIENT_SECRET'' of
                       None \<Rightarrow> Inl (needs_both ''CHUK_TRAIN_GOOGLE_CLIENT_SECRET'')
                     | Some secret \<Rightarrow>
                         Inr (Some \<lparr>dc_client_id = client_id, dc_client_secret = secret, dc_refresh_token = refresh,
                           dc_token_url = OAUTH_TOKEN_URL, dc_files_url = DRIVE_FILES_URL,
                           dc_upload_url = DRIVE_UPLOAD_URL\<rparr>))))"

subsection \<open>Requests and replies\<close>

datatype drive_body = No_body | Form "(string \<times> string) list" | Json_body json | Bytes string

record drive_request =
  dq_method :: string
  dq_url :: string
  dq_bearer :: "string option"
  dq_query :: "(string \<times> string) list"
  dq_headers :: "(string \<times> string) list"
  dq_body :: drive_body

text \<open>A reply with its \<open>Location\<close> and \<open>Range\<close> headers, where they are readable text.\<close>

record drive_reply =
  dp_status :: nat
  dp_location :: "string option"
  dp_range :: "string option"
  dp_body :: string

text \<open>One exchange (\<open>Inl\<close> is a transport error), the clock, the display of a status, and the decoders of
  the three answers: a token with its lifetime, a file's id, a list of ids.\<close>

record 'w drive_calls =
  dv_send :: "drive_request \<Rightarrow> 'w \<Rightarrow> 'w \<times> drive_reply result"
  dv_now :: "'w \<Rightarrow> unix_seconds"
  dv_status :: "nat \<Rightarrow> string"
  dv_token :: "string \<Rightarrow> (string \<times> real) result"
  dv_file :: "string \<Rightarrow> string result"
  dv_files :: "string \<Rightarrow> string list result"

definition error_for_status_with_body :: "'w drive_calls \<Rightarrow> string \<Rightarrow> drive_reply \<Rightarrow> drive_reply result" where
  "error_for_status_with_body dv what r =
     (if is_success (dp_status r) then Inr r
      else Inl (what @ '' failed ('' @ dv_status dv (dp_status r) @ ''): '' @ dp_body r))"

text \<open>A request whose answer must be a success; \<open>what\<close> names it in the errors.\<close>

definition drive_send :: "'w drive_calls \<Rightarrow> string \<Rightarrow> drive_request \<Rightarrow> 'w drive \<Rightarrow> 'w drive \<times> drive_reply result" where
  "drive_send dv what q d =
     (case dv_send dv q (dk_world d) of
        (w, Inl _) \<Rightarrow> (d\<lparr>dk_world := w\<rparr>, Inl (what @ '' request''))
      | (w, Inr r) \<Rightarrow> (d\<lparr>dk_world := w\<rparr>, error_for_status_with_body dv what r))"

definition access_token :: "'w drive_calls \<Rightarrow> drive_client \<Rightarrow> 'w drive \<Rightarrow> 'w drive \<times> string result" where
  "access_token dv dc d =
     (case (case dk_token d of
              Some tok \<Rightarrow> if dv_now dv (dk_world d) < ct_expires_at tok - TOKEN_SLACK_S then Some tok else None
            | None \<Rightarrow> None) of
        Some tok \<Rightarrow> (d, Inr (ct_access_token tok))
      | None \<Rightarrow>
          (case drive_send dv ''drive token refresh''
                  \<lparr>dq_method = ''POST'', dq_url = dc_token_url dc, dq_bearer = None, dq_query = [], dq_headers = [],
                   dq_body = Form [(''client_id'', dc_client_id dc), (''client_secret'', dc_client_secret dc),
                     (''refresh_token'', dc_refresh_token dc), (''grant_type'', GRANT_REFRESH)]\<rparr> d of
             (d1, Inl e) \<Rightarrow> (d1, Inl e)
           | (d1, Inr r) \<Rightarrow>
               (case dv_token dv (dp_body r) of
                  Inl _ \<Rightarrow> (d1, Inl ''parsing drive token response'')
                | Inr (token, expires_in) \<Rightarrow>
                    (d1\<lparr>dk_token := Some \<lparr>ct_access_token = token,
                          ct_expires_at = dv_now dv (dk_world d1) + expires_in\<rparr>\<rparr>, Inr token))))"

definition probe :: "'w drive_calls \<Rightarrow> drive_client \<Rightarrow> 'w drive \<Rightarrow> 'w drive \<times> unit result" where
  "probe dv dc d =
     (case access_token dv dc d of (d1, Inl e) \<Rightarrow> (d1, Inl e) | (d1, Inr _) \<Rightarrow> (d1, Inr ()))"

subsection \<open>Folders\<close>

definition folder_segments :: "string \<Rightarrow> string list" where
  "folder_segments path = filter (\<lambda>s. s \<noteq> []) (split_on (CHR ''/'') path)"

definition escape_query :: "string \<Rightarrow> string" where
  "escape_query v =
     concat (map (\<lambda>c. if c = CHR 0x5C \<or> c = CHR 0x27 then [CHR 0x5C, c] else [c]) v)"

definition quoted :: "string \<Rightarrow> string" where
  "quoted v = [CHR 0x27] @ v @ [CHR 0x27]"

text \<open>A request with a bearer token: the token may have to be fetched first.\<close>

definition authed ::
  "'w drive_calls \<Rightarrow> drive_client \<Rightarrow> string \<Rightarrow> (string \<Rightarrow> drive_request) \<Rightarrow> 'w drive \<Rightarrow> 'w drive \<times> drive_reply result" where
  "authed dv dc what q d =
     (case access_token dv dc d of
        (d1, Inl e) \<Rightarrow> (d1, Inl e)
      | (d1, Inr token) \<Rightarrow> drive_send dv what (q token) d1)"

definition find_child_folder ::
  "'w drive_calls \<Rightarrow> drive_client \<Rightarrow> string \<Rightarrow> string \<Rightarrow> 'w drive \<Rightarrow> 'w drive \<times> string option result" where
  "find_child_folder dv dc parent name d =
     (case authed dv dc ''drive folder lookup''
             (\<lambda>token. \<lparr>dq_method = ''GET'', dq_url = dc_files_url dc, dq_bearer = Some token,
                dq_query = [(''q'', ''name = '' @ quoted (escape_query name) @ '' and '' @ quoted (escape_query parent) @
                    '' in parents and mimeType = '' @ quoted FOLDER_MIME @ '' and trashed = false''),
                  (''fields'', ''files(id)''), (''spaces'', ''drive''), (''pageSize'', ''1'')],
                dq_headers = [], dq_body = No_body\<rparr>) d of
        (d1, Inl e) \<Rightarrow> (d1, Inl e)
      | (d1, Inr r) \<Rightarrow>
          (d1, case dv_files dv (dp_body r) of
                 Inl _ \<Rightarrow> Inl ''parsing drive folder list''
               | Inr [] \<Rightarrow> Inr None
               | Inr (i # _) \<Rightarrow> Inr (Some i)))"

definition create_folder ::
  "'w drive_calls \<Rightarrow> drive_client \<Rightarrow> string \<Rightarrow> string \<Rightarrow> 'w drive \<Rightarrow> 'w drive \<times> string result" where
  "create_folder dv dc parent name d =
     (case authed dv dc ''drive folder create''
             (\<lambda>token. \<lparr>dq_method = ''POST'', dq_url = dc_files_url dc, dq_bearer = Some token,
                dq_query = [(''fields'', ''id'')], dq_headers = [],
                dq_body = Json_body (JObj [(''name'', JStr name), (''mimeType'', JStr FOLDER_MIME),
                  (''parents'', JArr [JStr parent])])\<rparr>) d of
        (d1, Inl e) \<Rightarrow> (d1, Inl e)
      | (d1, Inr r) \<Rightarrow>
          (d1, case dv_file dv (dp_body r) of Inl _ \<Rightarrow> Inl ''parsing created folder'' | Inr i \<Rightarrow> Inr i))"

text \<open>The walk: \<open>parent\<close> and \<open>prefix\<close> are those of the segments done.\<close>

fun walk_folders ::
  "'w drive_calls \<Rightarrow> drive_client \<Rightarrow> string \<Rightarrow> string \<Rightarrow> string list \<Rightarrow> 'w drive \<Rightarrow> 'w drive \<times> string result" where
  "walk_folders dv dc parent prefix [] d = (d, Inr parent)"
| "walk_folders dv dc parent prefix (segment # segments) d =
     (let path = (if prefix = [] then segment else prefix @ ''/'' @ segment)
      in case dk_folders d path of
           Some i \<Rightarrow> walk_folders dv dc i path segments d
         | None \<Rightarrow>
             (case (case find_child_folder dv dc parent segment d of
                      (d1, Inl e) \<Rightarrow> (d1, Inl e)
                    | (d1, Inr (Some i)) \<Rightarrow> (d1, Inr i)
                    | (d1, Inr None) \<Rightarrow> create_folder dv dc parent segment d1) of
                (d2, Inl e) \<Rightarrow> (d2, Inl e)
              | (d2, Inr i) \<Rightarrow>
                  walk_folders dv dc i path segments (d2\<lparr>dk_folders := (dk_folders d2)(path \<mapsto> i)\<rparr>)))"

definition ensure_folder_path ::
  "'w drive_calls \<Rightarrow> drive_client \<Rightarrow> string \<Rightarrow> 'w drive \<Rightarrow> 'w drive \<times> string result" where
  "ensure_folder_path dv dc path d = walk_folders dv dc ROOT_PARENT [] (folder_segments path) d"

subsection \<open>The resumable upload\<close>

text \<open>A chunk is never empty, so its last byte has a number.\<close>

definition content_range :: "nat \<Rightarrow> nat \<Rightarrow> nat \<Rightarrow> string" where
  "content_range start stop len = ''bytes '' @ show_nat start @ ''-'' @ show_nat (stop - 1) @ ''/'' @ show_nat len"

definition unknown_range :: "nat \<Rightarrow> string" where
  "unknown_range len = ''bytes */'' @ show_nat len"

definition parse_committed_end :: "string \<Rightarrow> nat option" where
  "parse_committed_end rng = parse_u64 (last (split_on (CHR ''-'') rng))"

definition session_put :: "string \<Rightarrow> string \<Rightarrow> drive_body \<Rightarrow> drive_request" where
  "session_put session rng body =
     \<lparr>dq_method = ''PUT'', dq_url = session, dq_bearer = None, dq_query = [],
      dq_headers = [(''Content-Range'', rng)], dq_body = body\<rparr>"

definition slice :: "nat \<Rightarrow> nat \<Rightarrow> string \<Rightarrow> string" where
  "slice start stop bytes = take (stop - start) (drop start bytes)"

definition chunk_put :: "string \<Rightarrow> nat \<Rightarrow> nat \<Rightarrow> string \<Rightarrow> drive_request" where
  "chunk_put session start stop bytes =
     session_put session (content_range start stop (length bytes)) (Bytes (slice start stop bytes))"

definition status_put :: "string \<Rightarrow> nat \<Rightarrow> drive_request" where
  "status_put session len = session_put session (unknown_range len) No_body"

definition start_resumable ::
  "'w drive_calls \<Rightarrow> drive_client \<Rightarrow> string \<Rightarrow> string \<Rightarrow> string \<Rightarrow> nat \<Rightarrow> 'w drive \<Rightarrow> 'w drive \<times> string result" where
  "start_resumable dv dc parent name mime len d =
     (case authed dv dc ''drive resumable initiate''
             (\<lambda>token. \<lparr>dq_method = ''POST'', dq_url = dc_upload_url dc, dq_bearer = Some token,
                dq_query = [(''uploadType'', ''resumable''), (''fields'', ''id'')],
                dq_headers = [(''X-Upload-Content-Type'', mime), (''X-Upload-Content-Length'', show_nat len)],
                dq_body = Json_body (JObj [(''name'', JStr name), (''parents'', JArr [JStr parent])])\<rparr>) d of
        (d1, Inl e) \<Rightarrow> (d1, Inl e)
      | (d1, Inr r) \<Rightarrow>
          (d1, case dp_location r of
                 None \<Rightarrow> Inl ''drive resumable initiate: no Location header'' | Some session \<Rightarrow> Inr session))"

definition finalise_id :: "'w drive_calls \<Rightarrow> drive_reply \<Rightarrow> string result" where
  "finalise_id dv r =
     (case error_for_status_with_body dv ''drive upload finalise'' r of
        Inl e \<Rightarrow> Inl e
      | Inr r1 \<Rightarrow> (case dv_file dv (dp_body r1) of Inl _ \<Rightarrow> Inl ''parsing uploaded file id'' | Inr i \<Rightarrow> Inr i))"

text \<open>How many bytes the session has; the last byte's number plus one is a \<open>u64\<close>.\<close>

definition committed_offset :: "'w drive_calls \<Rightarrow> string \<Rightarrow> nat \<Rightarrow> 'w \<Rightarrow> 'w \<times> nat result" where
  "committed_offset dv session len w =
     (case dv_send dv (status_put session len) w of
        (w1, Inl _) \<Rightarrow> (w1, Inl ''drive resumable status query'')
      | (w1, Inr r) \<Rightarrow>
          (w1, Inr (if is_success (dp_status r) then len
                    else (case dp_range r of
                            None \<Rightarrow> 0
                          | Some rng \<Rightarrow>
                              (case parse_committed_end rng of
                                 None \<Rightarrow> 0 | Some l \<Rightarrow> (l + 1) mod 2 ^ 64)))))"

definition PERMANENT_REDIRECT :: nat where "PERMANENT_REDIRECT = 308"

definition ENDED :: string where
  "ENDED = ''drive upload ended without a finalising response''"

definition chunk_error :: "'w drive_calls \<Rightarrow> drive_reply result \<Rightarrow> string" where
  "chunk_error dv resp =
     (case resp of
        Inl _ \<Rightarrow> ''drive chunk upload transport''
      | Inr r \<Rightarrow> ''drive chunk upload failed ('' @ dv_status dv (dp_status r) @ ''): '' @ dp_body r)"

text \<open>What the loop does with the reply to a chunk that ends at \<open>stop\<close>: it is over with a result, or
  goes on from an offset with a count of retries.\<close>

definition chunk_reply ::
  "'w drive_calls \<Rightarrow> string \<Rightarrow> nat \<Rightarrow> nat \<Rightarrow> nat \<Rightarrow> drive_reply result \<Rightarrow> 'w \<Rightarrow> 'w \<times> (string result + nat \<times> nat)" where
  "chunk_reply dv session len stop retries resp w =
     (let retry = (if MAX_CHUNK_RETRIES \<le> retries then (w, Inl (Inl (chunk_error dv resp)))
                   else (case committed_offset dv session len w of
                           (w1, Inl e) \<Rightarrow> (w1, Inl (Inl e))
                         | (w1, Inr offset) \<Rightarrow> (w1, Inr (offset, retries + 1))))
      in case resp of
           Inl _ \<Rightarrow> retry
         | Inr r \<Rightarrow>
             if dp_status r = PERMANENT_REDIRECT then (w, Inr (stop, 0))
             else if is_success (dp_status r) then (w, Inl (finalise_id dv r))
             else retry)"

partial_function (option) chunk_loop ::
  "'w drive_calls \<Rightarrow> string \<Rightarrow> string \<Rightarrow> nat \<Rightarrow> nat \<Rightarrow> 'w \<Rightarrow> ('w \<times> string result) option" where
  "chunk_loop dv session bytes offset retries w =
     (if length bytes \<le> offset then Some (w, Inl ENDED)
      else (let stop = min (offset + UPLOAD_CHUNK) (length bytes);
                (w1, resp) = dv_send dv (chunk_put session offset stop bytes) w
            in case chunk_reply dv session (length bytes) stop retries resp w1 of
                 (w2, Inl r) \<Rightarrow> Some (w2, r)
               | (w2, Inr (offset', retries')) \<Rightarrow> chunk_loop dv session bytes offset' retries' w2))"

definition put_chunks ::
  "'w drive_calls \<Rightarrow> string \<Rightarrow> string \<Rightarrow> 'w \<Rightarrow> ('w \<times> string result) option" where
  "put_chunks dv session bytes w =
     (if bytes = []
      then Some (case dv_send dv (status_put session 0) w of
                   (w1, Inl _) \<Rightarrow> (w1, Inl ''drive resumable empty finalise'')
                 | (w1, Inr r) \<Rightarrow> (w1, finalise_id dv r))
      else chunk_loop dv session bytes 0 0 w)"

definition upload_bytes ::
  "'w drive_calls \<Rightarrow> drive_client \<Rightarrow> string \<Rightarrow> string \<Rightarrow> string \<Rightarrow> string \<Rightarrow> 'w drive \<Rightarrow> ('w drive \<times> string result) option" where
  "upload_bytes dv dc parent name mime bytes d =
     (case start_resumable dv dc parent name mime (length bytes) d of
        (d1, Inl e) \<Rightarrow> Some (d1, Inl e)
      | (d1, Inr session) \<Rightarrow>
          map_option (\<lambda>(w, r). (d1\<lparr>dk_world := w\<rparr>, r)) (put_chunks dv session bytes (dk_world d1)))"

definition upload_to_path ::
  "'w drive_calls \<Rightarrow> drive_client \<Rightarrow> string \<Rightarrow> string \<Rightarrow> string option \<Rightarrow> string \<Rightarrow> 'w drive \<Rightarrow>
   ('w drive \<times> string result) option" where
  "upload_to_path dv dc path name mime bytes d =
     (case ensure_folder_path dv dc path d of
        (d1, Inl e) \<Rightarrow> Some (d1, Inl e)
      | (d1, Inr parent) \<Rightarrow> upload_bytes dv dc parent name (unwrap_or OCTET_STREAM mime) bytes d1)"

subsection \<open>Files by id\<close>

definition download :: "'w drive_calls \<Rightarrow> drive_client \<Rightarrow> string \<Rightarrow> 'w drive \<Rightarrow> 'w drive \<times> string result" where
  "download dv dc file_id d =
     (case authed dv dc ''drive download''
             (\<lambda>token. \<lparr>dq_method = ''GET'', dq_url = dc_files_url dc @ ''/'' @ file_id, dq_bearer = Some token,
                dq_query = [(''alt'', ''media'')], dq_headers = [], dq_body = No_body\<rparr>) d of
        (d1, Inl e) \<Rightarrow> (d1, Inl e)
      | (d1, Inr r) \<Rightarrow> (d1, Inr (dp_body r)))"

definition delete_file :: "'w drive_calls \<Rightarrow> drive_client \<Rightarrow> string \<Rightarrow> 'w drive \<Rightarrow> 'w drive \<times> unit result" where
  "delete_file dv dc file_id d =
     (case authed dv dc ''drive delete''
             (\<lambda>token. \<lparr>dq_method = ''DELETE'', dq_url = dc_files_url dc @ ''/'' @ file_id, dq_bearer = Some token,
                dq_query = [], dq_headers = [], dq_body = No_body\<rparr>) d of
        (d1, Inl e) \<Rightarrow> (d1, Inl e)
      | (d1, Inr _) \<Rightarrow> (d1, Inr ()))"

end
