(* ===== verification/DriveLaws.thy ===== *)
theory DriveLaws
  imports Drive
begin

text \<open>
  What the Drive client guarantees: a file it reports as uploaded has exactly the bytes it was given,
  an upload comes to an end on a Drive that makes progress and may hang on one that does not, and a
  folder is looked up once.
\<close>

subsection \<open>The loop over the chunks\<close>

lemma chunk_loop_rule:
  assumes ret: "chunk_loop dv session bytes offset retries w = Some (w', r)" and start: "I offset retries w"
    and go: "\<And>a n w stop w1 resp w2 a' n'. a < length bytes \<Longrightarrow> I a n w \<Longrightarrow>
      stop = min (a + UPLOAD_CHUNK) (length bytes) \<Longrightarrow> dv_send dv (chunk_put session a stop bytes) w = (w1, resp) \<Longrightarrow>
      chunk_reply dv session (length bytes) stop n resp w1 = (w2, Inr (a', n')) \<Longrightarrow> I a' n' w2"
    and over: "\<And>a n w stop w1 resp w2 r. a < length bytes \<Longrightarrow> I a n w \<Longrightarrow>
      stop = min (a + UPLOAD_CHUNK) (length bytes) \<Longrightarrow> dv_send dv (chunk_put session a stop bytes) w = (w1, resp) \<Longrightarrow>
      chunk_reply dv session (length bytes) stop n resp w1 = (w2, Inl r) \<Longrightarrow> Q w2 r"
    and ended: "\<And>a n w. length bytes \<le> a \<Longrightarrow> I a n w \<Longrightarrow> Q w (Inl ENDED)"
  shows "Q w' r"
proof -
  let ?P = "\<lambda>dv' session' bytes' a n w y.
    dv' = dv \<longrightarrow> session' = session \<longrightarrow> bytes' = bytes \<longrightarrow> I a n w \<longrightarrow> Q (fst y) (snd y)"
  have "?P dv session bytes offset retries w (w', r)"
  proof (rule chunk_loop.raw_induct [where P = ?P, OF _ ret], intro impI, goal_cases)
    case (1 f dv' session' bytes' a n w y)
    note eq = 1(2)
    show ?case
    proof (cases "length bytes \<le> a")
      case True
      with 1 ended show ?thesis by auto
    next
      case False
      define stop where "stop = min (a + UPLOAD_CHUNK) (length bytes)"
      obtain w1 resp where s: "dv_send dv (chunk_put session a stop bytes) w = (w1, resp)" by fastforce
      obtain w2 x where c: "chunk_reply dv session (length bytes) stop n resp w1 = (w2, x)" by fastforce
      show ?thesis
      proof (cases x)
        case (Inl r)
        have "y = (w2, r)" using 1 False s c Inl by (simp add: stop_def Let_def)
        then show ?thesis using over [OF _ _ stop_def s] c Inl False 1 by auto
      next
        case (Inr an)
        obtain a' n' where an: "an = (a', n')" by fastforce
        have "f dv session bytes a' n' w2 = Some y" using 1 False s c Inr an by (simp add: stop_def Let_def)
        moreover have "I a' n' w2" using go [OF _ _ stop_def s] c Inr an False 1 by auto
        ultimately show ?thesis using 1(1) by blast
      qed
    qed
  qed
  with start show ?thesis by simp
qed

lemma chunk_reply_cases:
  assumes "chunk_reply dv session len stop n resp w1 = (w2, x)"
  obtains (accepted) p where "resp = Inr p" "dp_status p = PERMANENT_REDIRECT" "w2 = w1" "x = Inr (stop, 0)"
  | (finished) p where "resp = Inr p" "is_success (dp_status p)" "w2 = w1" "x = Inl (finalise_id dv p)"
  | (gave_up) "MAX_CHUNK_RETRIES \<le> n" "w2 = w1" "x = Inl (Inl (chunk_error dv resp))"
  | (lost) e where "committed_offset dv session len w1 = (w2, Inl e)" "x = Inl (Inl e)"
  | (again) a where "n < MAX_CHUNK_RETRIES" "committed_offset dv session len w1 = (w2, Inr a)" "x = Inr (a, n + 1)"
  using assms by (auto simp: chunk_reply_def Let_def split: sum.splits if_splits prod.splits)

lemma errors_not_ended [simp]:
  "chunk_error dv resp \<noteq> ENDED" "finalise_id dv p \<noteq> Inl ENDED"
  by (auto simp: chunk_error_def finalise_id_def error_for_status_with_body_def ENDED_def split: sum.splits)

lemma committed_error:
  "committed_offset dv session len w = (w1, Inl e) \<Longrightarrow> e \<noteq> ENDED"
  by (auto simp: committed_offset_def ENDED_def split: prod.splits sum.splits)

subsection \<open>What a reported upload has stored\<close>

text \<open>A session of Drive as its documentation promises it. It only appends bytes of a chunk that
  starts within what it has, a status query stores nothing, and a success is answered when all of the
  object is there.\<close>

definition in_order :: "'w drive_calls \<Rightarrow> string \<Rightarrow> string \<Rightarrow> ('w \<Rightarrow> string) \<Rightarrow> bool" where
  "in_order dv session bytes stored \<longleftrightarrow>
     (\<forall>w. stored (fst (dv_send dv (status_put session (length bytes)) w)) = stored w) \<and>
     (\<forall>a b w w1 r. a < b \<longrightarrow> b \<le> length bytes \<longrightarrow> dv_send dv (chunk_put session a b bytes) w = (w1, r) \<longrightarrow>
        (stored w1 = stored w \<or>
         a \<le> length (stored w) \<and> (\<exists>k. stored w1 = take a (stored w) @ take k (slice a b bytes))) \<and>
        (\<forall>p. r = Inr p \<longrightarrow> is_success (dp_status p) \<longrightarrow> length bytes \<le> length (stored w1)))"

text \<open>A session that never keeps a part of a chunk it acknowledges, and reports what it has.\<close>

definition whole_chunks :: "'w drive_calls \<Rightarrow> string \<Rightarrow> string \<Rightarrow> ('w \<Rightarrow> string) \<Rightarrow> bool" where
  "whole_chunks dv session bytes stored \<longleftrightarrow>
     (\<forall>a b w w1 p. a < b \<longrightarrow> b \<le> length bytes \<longrightarrow> dv_send dv (chunk_put session a b bytes) w = (w1, Inr p) \<longrightarrow>
        dp_status p = PERMANENT_REDIRECT \<longrightarrow> b \<le> length (stored w1)) \<and>
     (\<forall>w w1 n. committed_offset dv session (length bytes) w = (w1, Inr n) \<longrightarrow> n \<le> length (stored w1))"

definition part_of :: "string \<Rightarrow> string \<Rightarrow> bool" where
  "part_of bytes xs \<longleftrightarrow> xs = take (length xs) bytes"

lemma part_of_extended:
  assumes "part_of bytes xs" "a \<le> length xs"
  shows "part_of bytes (take a xs @ take k (slice a b bytes))"
proof -
  have "take a xs = take a bytes" using assms unfolding part_of_def by (metis min.absorb1 take_take)
  moreover have "take a bytes @ take k (slice a b bytes) = take (a + min k (b - a)) bytes"
    by (simp add: slice_def take_add)
  moreover have "part_of bytes (take n bytes)" for n by (simp add: part_of_def min_def)
  ultimately show ?thesis by simp
qed

lemma part_of_whole: "part_of bytes xs \<Longrightarrow> length bytes \<le> length xs \<Longrightarrow> xs = bytes"
  unfolding part_of_def by simp

lemma committed_stored:
  assumes "in_order dv session bytes stored" "committed_offset dv session (length bytes) w = (w1, x)"
  shows "stored w1 = stored w"
proof -
  have "stored (fst (dv_send dv (status_put session (length bytes)) w)) = stored w"
    using assms(1) unfolding in_order_def by blast
  with assms(2) show ?thesis by (auto simp: committed_offset_def split: prod.splits sum.splits)
qed

lemma sent_chunk:
  assumes "in_order dv session bytes stored" "a < length bytes" "stop = min (a + UPLOAD_CHUNK) (length bytes)"
    and "dv_send dv (chunk_put session a stop bytes) w = (w1, resp)" "part_of bytes (stored w)"
  shows "part_of bytes (stored w1)"
    and "resp = Inr p \<Longrightarrow> is_success (dp_status p) \<Longrightarrow> stored w1 = bytes"
proof -
  have stop: "a < stop" "stop \<le> length bytes" using assms(2,3) by (simp_all add: UPLOAD_CHUNK_def)
  with assms(1,4) have st: "stored w1 = stored w \<or>
      a \<le> length (stored w) \<and> (\<exists>k. stored w1 = take a (stored w) @ take k (slice a stop bytes))"
    and all: "\<And>p. resp = Inr p \<Longrightarrow> is_success (dp_status p) \<Longrightarrow> length bytes \<le> length (stored w1)"
    unfolding in_order_def by blast+
  show p: "part_of bytes (stored w1)" using st part_of_extended [OF assms(5)] assms(5) by auto
  show "stored w1 = bytes" if "resp = Inr p" "is_success (dp_status p)" using part_of_whole [OF p all [OF that]] .
qed


subsection \<open>Whether an upload returns\<close>


text \<open>The budget of retries starts again with every chunk that is acknowledged, and a status query
  that fails counts as nothing committed: on a Drive that takes the first chunk and refuses the
  second and the query, an upload sends the first two chunks for ever.\<close>

lemma refused_chunk_hangs:
  assumes "UPLOAD_CHUNK < length bytes"
    and "\<And>w. \<exists>w1 p. dv_send dv (chunk_put session 0 UPLOAD_CHUNK bytes) w = (w1, Inr p) \<and> dp_status p = PERMANENT_REDIRECT"
    and "\<And>b w. \<exists>w1 p. dv_send dv (chunk_put session UPLOAD_CHUNK b bytes) w = (w1, Inr p) \<and> dp_status p = 503"
    and "\<And>w. \<exists>w1 p. dv_send dv (status_put session (length bytes)) w = (w1, Inr p) \<and> dp_status p = 503 \<and> dp_range p = None"
  shows "put_chunks dv session bytes w = None"
proof -
  have c: "\<exists>w1. committed_offset dv session (length bytes) w = (w1, Inr 0)" for w
    using assms(4) [of w] by (auto simp: committed_offset_def is_success_def)
  have False if "chunk_loop dv session bytes 0 0 w = Some (w', r)" for w' r
  proof (rule chunk_loop_rule [where I = "\<lambda>a n w. a = 0 \<or> a = UPLOAD_CHUNK \<and> n = 0" and Q = "\<lambda>w r. False", OF that],
      goal_cases)
    case (2 a n w stop w1 resp w2 a' n')
    from 2(2) show ?case
    proof
      assume "a = 0"
      with 2 assms(1) assms(2) [of w] show ?thesis by (auto simp: chunk_reply_def)
    next
      assume "a = UPLOAD_CHUNK \<and> n = 0"
      with 2 assms(3) [of stop w] c [of w1] show ?thesis
        by (auto simp: chunk_reply_def is_success_def PERMANENT_REDIRECT_def MAX_CHUNK_RETRIES_def)
    qed
  next
    case (3 a n w stop w1 resp w2 r)
    from 3(2) show ?case
    proof
      assume "a = 0"
      with 3 assms(1) assms(2) [of w] show ?thesis by (auto simp: chunk_reply_def)
    next
      assume "a = UPLOAD_CHUNK \<and> n = 0"
      with 3 assms(3) [of stop w] c [of w1] show ?thesis
        by (auto simp: chunk_reply_def is_success_def PERMANENT_REDIRECT_def MAX_CHUNK_RETRIES_def)
    qed
  next
    case (4 a n w)
    then show ?case using assms(1) by (auto simp: UPLOAD_CHUNK_def)
  qed simp
  then show ?thesis
    using assms(1) by (cases "put_chunks dv session bytes w") (auto simp: put_chunks_def split: if_splits)
qed

subsection \<open>The folder cache\<close>

lemma drive_send_folders: "drive_send dv what q d = (d1, r) \<Longrightarrow> dk_folders d1 = dk_folders d"
  by (auto simp: drive_send_def split: prod.splits sum.splits)

lemma access_token_folders: "access_token dv dc d = (d1, r) \<Longrightarrow> dk_folders d1 = dk_folders d"
  by (auto simp: access_token_def split: option.splits prod.splits sum.splits if_splits dest: drive_send_folders)

lemma authed_folders: "authed dv dc what q d = (d1, r) \<Longrightarrow> dk_folders d1 = dk_folders d"
  by (auto simp: authed_def split: prod.splits sum.splits dest!: drive_send_folders access_token_folders)

lemma find_child_folders: "find_child_folder dv dc parent name d = (d1, r) \<Longrightarrow> dk_folders d1 = dk_folders d"
  by (auto simp: find_child_folder_def split: prod.splits sum.splits dest: authed_folders)

lemma create_folders: "create_folder dv dc parent name d = (d1, r) \<Longrightarrow> dk_folders d1 = dk_folders d"
  by (auto simp: create_folder_def split: prod.splits sum.splits dest: authed_folders)

lemma walk_folders_cached:
  "walk_folders dv dc parent prefix segments d = (d', Inr i) \<Longrightarrow>
   dk_folders d \<subseteq>\<^sub>m dk_folders d' \<and> walk_folders dv dc parent prefix segments d' = (d', Inr i)"
proof (induction dv dc parent prefix segments d rule: walk_folders.induct)
  case (2 dv dc parent prefix segment segments d)
  let ?path = "if prefix = [] then segment else prefix @ ''/'' @ segment"
  show ?case
  proof (cases "dk_folders d ?path")
    case (Some j)
    with 2 have ih: "dk_folders d \<subseteq>\<^sub>m dk_folders d'" "walk_folders dv dc j ?path segments d' = (d', Inr i)"
      by (auto simp: Let_def)
    from ih(1) Some have "dk_folders d' ?path = Some j" by (auto simp: map_le_def dom_def)
    with ih show ?thesis by (simp add: Let_def)
  next
    case None
    from 2(3) None obtain d2 j where
      f: "(case find_child_folder dv dc parent segment d of (d1, Inl e) \<Rightarrow> (d1, Inl e)
           | (d1, Inr (Some i)) \<Rightarrow> (d1, Inr i)
           | (d1, Inr None) \<Rightarrow> create_folder dv dc parent segment d1) = (d2, Inr j)"
      and w: "walk_folders dv dc j ?path segments (d2\<lparr>dk_folders := (dk_folders d2)(?path \<mapsto> j)\<rparr>) = (d', Inr i)"
      by (auto simp: Let_def split: prod.splits sum.splits)
    have d2: "dk_folders d2 = dk_folders d"
      using f by (auto split: prod.splits sum.splits option.splits dest!: find_child_folders create_folders)
    have ih: "(dk_folders d)(?path \<mapsto> j) \<subseteq>\<^sub>m dk_folders d'" "walk_folders dv dc j ?path segments d' = (d', Inr i)"
      using 2(1) [OF refl None f [symmetric] refl w] d2 by (cases "prefix = []"; simp add: fun_upd_def)+
    have "dk_folders d' ?path = Some j" using ih(1) by (auto simp: map_le_def)
    moreover have "dk_folders d \<subseteq>\<^sub>m dk_folders d'"
      using ih(1) None by (auto simp: map_le_def dom_def split: if_splits)
    ultimately show ?thesis using ih(2) by (simp add: Let_def)
  qed
qed simp

text \<open>A folder path that was resolved is resolved again without a request: the same id and nothing
  sent. The entry is kept for the life of the process, also when the folder is deleted on Drive.\<close>

lemma resolved_path_cached:
  "ensure_folder_path dv dc path d = (d', Inr i) \<Longrightarrow> ensure_folder_path dv dc path d' = (d', Inr i)"
  by (simp add: ensure_folder_path_def walk_folders_cached)

subsection \<open>Concrete sessions\<close>

text \<open>A session for an object of seven bytes that takes it in one chunk; \<open>lossy\<close> loses its first reply.
  The world is what is stored and the number of requests.\<close>

definition demo_session :: "bool \<Rightarrow> (string \<times> nat) drive_calls" where
  "demo_session lossy =
     \<lparr>dv_send = (\<lambda>q (st, n).
        let st' = (case dq_body q of Bytes c \<Rightarrow> if st = [] \<and> length c = 7 then c else st | _ \<Rightarrow> st)
        in ((st', n + 1),
            if lossy \<and> n = 0 then Inl ''connection reset''
            else Inr \<lparr>dp_status = (if 7 \<le> length st' then 200 else 503), dp_location = None, dp_range = None,
                   dp_body = []\<rparr>)),
      dv_now = (\<lambda>_. 0), dv_status = show_nat, dv_token = (\<lambda>_. Inl []),
      dv_file = (\<lambda>_. Inr ''file-1''), dv_files = (\<lambda>_. Inr [])\<rparr>"

lemma demo_session_in_order: "in_order (demo_session lossy) session ''weights'' fst"
proof -
  have "a = 0" if "length (slice a b ''weights'') = 7" for a b
    using that by (auto simp: slice_def)
  then show ?thesis
    by (auto simp: in_order_def demo_session_def status_put_def chunk_put_def session_put_def Let_def is_success_def
        split: if_splits intro: exI [of _ 7])
qed

lemma demo_session_whole: "whole_chunks (demo_session lossy) session ''weights'' fst"
  by (auto simp: whole_chunks_def demo_session_def status_put_def chunk_put_def session_put_def Let_def
      committed_offset_def PERMANENT_REDIRECT_def is_success_def split: if_splits)

lemma demo_session_runs:
  "put_chunks (demo_session False) ''s'' ''weights'' ([], 0) = Some ((''weights'', 1), Inr ''file-1'')"
  "put_chunks (demo_session True) ''s'' ''weights'' ([], 0) = Some ((''weights'', 2), Inl ENDED)"
  by (simp_all add: put_chunks_def chunk_loop.simps demo_session_def chunk_put_def status_put_def session_put_def
      slice_def UPLOAD_CHUNK_def chunk_reply_def committed_offset_def finalise_id_def is_success_def
      error_for_status_with_body_def PERMANENT_REDIRECT_def MAX_CHUNK_RETRIES_def)


text \<open>A session that takes the first chunk with a 308 and the next with a 200; the world is the number of
  chunks taken.\<close>

definition demo_chunked :: "nat drive_calls" where
  "demo_chunked =
     \<lparr>dv_send = (\<lambda>q n. case dq_body q of
          Bytes c \<Rightarrow> (if n = 0 then (1, Inr \<lparr>dp_status = 308, dp_location = None, dp_range = None, dp_body = []\<rparr>)
                     else (n, Inr \<lparr>dp_status = 200, dp_location = None, dp_range = None, dp_body = []\<rparr>))
        | _ \<Rightarrow> (n, Inl ''connection reset'')),
      dv_now = (\<lambda>_. 0), dv_status = show_nat, dv_token = (\<lambda>_. Inl []),
      dv_file = (\<lambda>_. Inr ''file-1''), dv_files = (\<lambda>_. Inr [])\<rparr>"


end
