(* ===== verification/Postgres.thy ===== *)
theory Postgres
  imports Gate
begin

text \<open>
  The Postgres store where it differs from the sqlite one (\<open>store/postgres\<close>): the sequence of run ids,
  and the metrics, whose vals keep their infinities and NaN; the rest is the same SQL with other
  placeholders. The relation to the sqlite tables and what a gate sees of the difference.
\<close>

record pg_metric =
  pm_run_id :: run_id
  pm_step :: nat
  pm_key :: string
  pm_value :: f64
  pm_ts :: unix_seconds

text \<open>The sequence is the number of vals handed out; it is never rolled back.\<close>

record pg_store =
  pg_exec_ref_seq :: nat
  pg_metrics :: "pg_metric list"

definition pg_next_run_seq :: "pg_store \<Rightarrow> pg_store \<times> int" where
  "pg_next_run_seq s =
     (let n = pg_exec_ref_seq s + 1 in (s\<lparr>pg_exec_ref_seq := n\<rparr>, int n))"

definition pg_metric_key :: "pg_metric \<Rightarrow> run_id \<times> string \<times> nat" where
  "pg_metric_key r = (pm_run_id r, pm_key r, pm_step r)"

definition pg_append_metric ::
  "unix_seconds \<Rightarrow> run_id \<Rightarrow> nat \<Rightarrow> string \<times> f64 \<Rightarrow> pg_metric list \<Rightarrow> pg_metric list" where
  "pg_append_metric ts rid step = (\<lambda>(key, v) rows.
     upsert pg_metric_key
       \<lparr>pm_run_id = rid, pm_step = step, pm_key = key, pm_value = v, pm_ts = ts\<rparr>
       (\<lambda>r. r\<lparr>pm_value := v\<rparr>) rows)"

definition pg_append_metrics ::
  "unix_seconds \<Rightarrow> run_id \<Rightarrow> nat \<Rightarrow> (string \<times> f64) list \<Rightarrow> pg_store \<Rightarrow> pg_store" where
  "pg_append_metrics ts rid step vals s =
     s\<lparr>pg_metrics := fold (pg_append_metric ts rid step) vals (pg_metrics s)\<rparr>"

definition pg_metric_series ::
  "run_id \<Rightarrow> string list option \<Rightarrow> nat \<Rightarrow> nat \<Rightarrow> pg_store \<Rightarrow> string \<Rightarrow> metric_point list" where
  "pg_metric_series rid keys since_step downsample s key =
     (let rows = order_by pm_step
                   (filter (\<lambda>r. pm_run_id r = rid \<and> since_step \<le> pm_step r \<and> pm_key r = key) (pg_metrics s));
          wanted = (case keys of None \<Rightarrow> True | Some ks \<Rightarrow> key \<in> set ks);
          points = (if wanted
                    then concat (map (\<lambda>r. case pm_value r of
                                            Fin v \<Rightarrow> [\<lparr>mp_step = pm_step r, mp_value = v\<rparr>] | _ \<Rightarrow> []) rows)
                    else [])
      in if 0 < downsample then downsample_in_place points downsample else points)"

definition pg_metric_history :: "run_id \<Rightarrow> string \<Rightarrow> pg_store \<Rightarrow> metric_observation list" where
  "pg_metric_history rid key s =
     map (\<lambda>r. \<lparr>mo_ts = pm_ts r, mo_value = pm_value r\<rparr>)
       (order_by pm_step (filter (\<lambda>r. pm_run_id r = rid \<and> pm_key r = key) (pg_metrics s)))"

text \<open>The result of a gate keeps a NaN.\<close>

definition pg_record_gate_result ::
  "string \<Rightarrow> string \<Rightarrow> string \<Rightarrow> bool \<Rightarrow> f64 option \<Rightarrow> string \<Rightarrow> unix_seconds \<Rightarrow> gate_info list \<Rightarrow> gate_info list" where
  "pg_record_gate_result scope scope_id name tripped last_value detail ts gates =
     update_where (\<lambda>g. gate_key g = (scope, scope_id, name))
       (\<lambda>g. g\<lparr>ga_tripped := Some tripped, ga_last_value := last_value,
              ga_evaluated_at := Some ts, ga_detail := Some detail\<rparr>) gates"

subsection \<open>The sqlite tables it stands for\<close>

definition sqlite_metric :: "pg_metric \<Rightarrow> metric_row" where
  "sqlite_metric r =
     \<lparr>mr_run_id = pm_run_id r, mr_step = pm_step r, mr_key = pm_key r, mr_value = storable (pm_value r),
      mr_ts = pm_ts r\<rparr>"

text \<open>A store of each kind with the same metrics, up to what sqlite can keep.\<close>

definition same_metrics :: "pg_store \<Rightarrow> store \<Rightarrow> bool" where
  "same_metrics p s \<longleftrightarrow> st_metrics s = map sqlite_metric (pg_metrics p)"

fun collapse :: "f64 \<Rightarrow> f64" where
  "collapse (Fin x) = Fin x"
| "collapse _ = NaN"

lemma sqlite_metric_sel [simp]:
  "mr_run_id (sqlite_metric r) = pm_run_id r" "mr_step (sqlite_metric r) = pm_step r"
  "mr_key (sqlite_metric r) = pm_key r" "mr_ts (sqlite_metric r) = pm_ts r"
  "mr_value (sqlite_metric r) = storable (pm_value r)"
  by (simp_all add: sqlite_metric_def pg_metric_key_def)

lemma sort_key_sqlite: "sort_key mr_step (map sqlite_metric rows) = map sqlite_metric (sort_key pm_step rows)"
proof (induction rows)
  case (Cons r rows)
  have "insort_key mr_step (sqlite_metric r) (map sqlite_metric xs) = map sqlite_metric (insort_key pm_step r xs)" for xs
    by (induction xs) simp_all
  with Cons show ?case by simp
qed simp

lemma append_metric_sqlite:
  "map sqlite_metric (pg_append_metric ts rid step kv rows) = append_metric ts rid step kv (map sqlite_metric rows)"
  by (cases kv)
     (simp add: pg_append_metric_def append_metric_def upsert_def update_where_def sqlite_metric_def
       pg_metric_key_def comp_def if_distrib cong: if_cong)

lemma same_metrics_append:
  assumes "same_metrics p s"
  shows "same_metrics (pg_append_metrics ts rid step vals p) (append_metrics ts rid step vals s)"
proof -
  have "map sqlite_metric (fold (pg_append_metric ts rid step) vals rows) =
      fold (append_metric ts rid step) vals (map sqlite_metric rows)" for rows
    by (induction vals arbitrary: rows) (simp_all add: append_metric_sqlite)
  with assms show ?thesis by (simp add: same_metrics_def pg_append_metrics_def append_metrics_def)
qed

lemma same_metrics_series:
  assumes "same_metrics p s"
  shows "pg_metric_series rid keys since d p key = metric_series rid keys since d s key"
proof -
  have "(\<lambda>r. case pm_value r of Fin v \<Rightarrow> [\<lparr>mp_step = pm_step r, mp_value = v\<rparr>] | _ \<Rightarrow> []) =
      (\<lambda>r. case storable (pm_value r) of None \<Rightarrow> []
         | Some v \<Rightarrow> [\<lparr>mp_step = mr_step (sqlite_metric r), mp_value = v\<rparr>])"
    by (rule ext) (simp split: f64.split)
  with assms show ?thesis
    by (simp add: same_metrics_def pg_metric_series_def metric_series_def order_by_def filter_map comp_def
        sort_key_sqlite)
qed

lemma storable_collapse: "(case storable v of Some x \<Rightarrow> Fin x | None \<Rightarrow> NaN) = collapse v"
  by (cases v) simp_all

lemma same_metrics_history:
  assumes "same_metrics p s"
  shows "metric_history rid key s = map (\<lambda>o'. o'\<lparr>mo_value := collapse (mo_value o')\<rparr>) (pg_metric_history rid key p)"
  using assms
  by (simp add: same_metrics_def pg_metric_history_def metric_history_def order_by_def filter_map comp_def
      sort_key_sqlite storable_collapse)

subsection \<open>What a gate sees\<close>

lemma last_map: "xs \<noteq> [] \<Longrightarrow> last (map f xs) = f (last xs)"
  by (induction xs) auto

lemma collapse_finite: "is_finite (collapse v) = is_finite v"
  by (cases v) simp_all

lemma collapse_not_infinite: "\<not> is_infinite v \<Longrightarrow> collapse v = v"
  by (cases v) simp_all

text \<open>C40: The Postgres store serves metrics as the sqlite store does, up to infinities. Stores that hold
  the same metrics hold the same metrics after every report, answer every query of a series alike,
  and an \<open>isnan\<close> gate trips on both or on neither; so does every gate when the history has no
  infinity. An infinite observation is where they differ: a gate \<open>last(key) > bound\<close> trips on
  Postgres and not on sqlite, which reads it back as NaN.\<close>

theorem pg_metrics_refine:
  assumes "same_metrics p s"
  shows "same_metrics (pg_append_metrics ts rid step vals p) (append_metrics ts rid step vals s) \<and>
    pg_metric_series rid keys since d p key = metric_series rid keys since d s key \<and>
    (let hp = pg_metric_history rid key p; hs = metric_history rid key s
     in ve_tripped (evaluate_gate fmt (IsNan key) hp now) = ve_tripped (evaluate_gate fmt (IsNan key) hs now) \<and>
        ((\<forall>x\<in>set hp. \<not> is_infinite (mo_value x)) \<longrightarrow> evaluate_gate fmt g hp now = evaluate_gate fmt g hs now) \<and>
        (hp \<noteq> [] \<longrightarrow> mo_value (last hp) = PosInf \<longrightarrow>
           ve_tripped (evaluate_gate fmt (Threshold key Gt (Fin b)) hp now) \<and>
           \<not> ve_tripped (evaluate_gate fmt (Threshold key Gt (Fin b)) hs now)))"
proof -
  note h = same_metrics_history [OF assms, of rid key]
  have same: "metric_history rid key s = pg_metric_history rid key p"
    if "\<forall>x\<in>set (pg_metric_history rid key p). \<not> is_infinite (mo_value x)"
    using that by (simp add: h map_idI collapse_not_infinite)
  show ?thesis
    using same_metrics_append [OF assms] same_metrics_series [OF assms] same
    by (auto simp: Let_def last_obs_def h last_map collapse_finite no_data_def split: option.splits)
qed

subsection \<open>A concrete history\<close>

definition demo_pg :: pg_store where
  "demo_pg = pg_append_metrics 100 ''R'' 1 [(''loss'', PosInf)] \<lparr>pg_exec_ref_seq = 0, pg_metrics = []\<rparr>"

lemma demo_pg_same: "same_metrics \<lparr>pg_exec_ref_seq = 0, pg_metrics = []\<rparr> (s\<lparr>st_metrics := []\<rparr>)"
  by (simp add: same_metrics_def)

lemma demo_pg_history: "pg_metric_history ''R'' ''loss'' demo_pg = [\<lparr>mo_ts = 100, mo_value = PosInf\<rparr>]"
  by (simp add: pg_metric_history_def demo_pg_def pg_append_metrics_def pg_append_metric_def upsert_def order_by_def)

lemma pg_metrics_refine_witness:
  "ve_tripped (evaluate_gate (\<lambda>_. []) (Threshold ''loss'' Gt (Fin 10)) (pg_metric_history ''R'' ''loss'' demo_pg) 200) \<and>
   \<not> ve_tripped (evaluate_gate (\<lambda>_. []) (Threshold ''loss'' Gt (Fin 10))
     (metric_history ''R'' ''loss'' (empty_store\<lparr>st_metrics := map sqlite_metric (pg_metrics demo_pg)\<rparr>)) 200)"
  using pg_metrics_refine [of demo_pg "empty_store\<lparr>st_metrics := map sqlite_metric (pg_metrics demo_pg)\<rparr>" 0 "''R''" 0 "[]"
      None 0 0 "''loss''" "\<lambda>_. []" 200 "IsNan ''loss''" 10]
  by (simp add: same_metrics_def demo_pg_history Let_def)

end
