(* ===== verification/Startup.thy ===== *)
theory Startup
  imports Session Drive Mirror Postgres
begin

text \<open>
  What the process does before it serves (\<open>main.rs\<close>): the backends named by the configuration
  (\<open>store/mod.rs\<close>, \<open>artifacts/mod.rs\<close>), the seeded team and sysadmin, the lifecycle rules of the
  bucket and the S3 store (\<open>artifacts/s3.rs\<close>), the optional clients, and the page it serves
  (\<open>dash.rs\<close>). The S3 library and the included page assets are parameters.
\<close>

subsection \<open>The metadata store\<close>

datatype store_backend = Sqlite string | Pg string

definition open_store :: "string \<Rightarrow> store_backend result" where
  "open_store spec =
     (if starts_with ''postgres:'' spec \<or> starts_with ''postgresql:'' spec then Inr (Pg spec)
      else (case strip_prefix ''sqlite:'' spec of
              Some path \<Rightarrow> Inr (Sqlite path)
            | None \<Rightarrow>
                if starts_with ''redis:'' spec
                then Inl ''redis store backend is reserved for M2+; use sqlite or postgres for now''
                else Inr (Sqlite spec)))"

subsection \<open>The artifact store\<close>

definition DEFAULT_REGION :: string where "DEFAULT_REGION = ''auto''"

record s3_config =
  s3_endpoint :: string
  s3_region :: string
  s3_access_key :: string
  s3_secret_key :: string
  s3_bucket :: string

definition must_be_set :: "(string \<Rightarrow> string option) \<Rightarrow> string \<Rightarrow> string \<Rightarrow> string result" where
  "must_be_set env var what = ok_or (env var) (var @ '' must be set'' @ what)"

definition s3_from_env :: "(string \<Rightarrow> string option) \<Rightarrow> string \<Rightarrow> s3_config result" where
  "s3_from_env env bucket =
     result_bind (must_be_set env ''CHUK_TRAIN_S3_ENDPOINT'' '' for an s3/r2 store'') (\<lambda>endpoint.
     result_bind (must_be_set env ''CHUK_TRAIN_S3_ACCESS_KEY_ID'' []) (\<lambda>access_key.
     result_bind (must_be_set env ''CHUK_TRAIN_S3_SECRET_ACCESS_KEY'' []) (\<lambda>secret_key.
     Inr \<lparr>s3_endpoint = endpoint, s3_region = unwrap_or DEFAULT_REGION (env ''CHUK_TRAIN_S3_REGION''),
          s3_access_key = access_key, s3_secret_key = secret_key, s3_bucket = bucket\<rparr>)))"

datatype artifact_backend = Fs string | S3 s3_config

definition open_artifact_store :: "(string \<Rightarrow> string option) \<Rightarrow> string \<Rightarrow> artifact_backend result" where
  "open_artifact_store env spec =
     (case (case strip_prefix ''s3:'' spec of Some b \<Rightarrow> Some b | None \<Rightarrow> strip_prefix ''r2:'' spec) of
        Some bucket \<Rightarrow>
          (case s3_from_env env (dropWhile (\<lambda>c. c = CHR ''/'') bucket) of
             Inr cfg \<Rightarrow> Inr (S3 cfg) | Inl e \<Rightarrow> Inl e)
      | None \<Rightarrow> Inr (Fs (unwrap_or spec (strip_prefix ''file:'' spec))))"

text \<open>A lifecycle rule of a bucket: the parts that this program sets, and the rest of a foreign one.\<close>

record lifecycle_rule =
  lr_id :: string
  lr_enabled :: bool
  lr_prefix :: "string option"
  lr_days :: "int option"
  lr_other :: string

text \<open>The library's requests for one bucket; an object is its bytes.\<close>

record 'w s3_calls =
  so_put :: "string \<Rightarrow> string \<Rightarrow> 'w \<Rightarrow> 'w \<times> unit result"
  so_get :: "string \<Rightarrow> 'w \<Rightarrow> 'w \<times> string result"
  so_head :: "string \<Rightarrow> 'w \<Rightarrow> 'w \<times> unit result"
  so_delete :: "string \<Rightarrow> 'w \<Rightarrow> 'w \<times> unit result"
  so_copy :: "string \<Rightarrow> string \<Rightarrow> 'w \<Rightarrow> 'w \<times> unit result"
  so_get_lifecycle :: "'w \<Rightarrow> 'w \<times> lifecycle_rule list option result"
  so_put_lifecycle :: "lifecycle_rule list \<Rightarrow> 'w \<Rightarrow> 'w \<times> unit result"
  so_presign :: "bool \<Rightarrow> string \<Rightarrow> nat \<Rightarrow> string result"

definition with_context :: "string \<Rightarrow> 'w \<times> 'a result \<Rightarrow> 'w \<times> 'a result" where
  "with_context what r = (case r of (w, Inl _) \<Rightarrow> (w, Inl what) | (w, Inr x) \<Rightarrow> (w, Inr x))"

definition s3_uri :: "s3_config \<Rightarrow> string \<Rightarrow> string" where
  "s3_uri cfg key = ''s3://'' @ s3_bucket cfg @ ''/'' @ key"

definition s3_put :: "'w s3_calls \<Rightarrow> s3_config \<Rightarrow> string \<Rightarrow> string \<Rightarrow> 'w \<Rightarrow> 'w \<times> string result" where
  "s3_put so cfg key bytes w =
     (case with_context (''s3 put '' @ key) (so_put so key bytes w) of
        (w1, Inl e) \<Rightarrow> (w1, Inl e) | (w1, Inr _) \<Rightarrow> (w1, Inr (s3_uri cfg key)))"

definition s3_get :: "'w s3_calls \<Rightarrow> string \<Rightarrow> 'w \<Rightarrow> 'w \<times> string result" where
  "s3_get so key w = with_context (''s3 get '' @ key) (so_get so key w)"

definition s3_exists :: "'w s3_calls \<Rightarrow> string \<Rightarrow> 'w \<Rightarrow> 'w \<times> bool result" where
  "s3_exists so key w = (case so_head so key w of (w1, r) \<Rightarrow> (w1, Inr (is_ok r)))"

definition s3_delete :: "'w s3_calls \<Rightarrow> string \<Rightarrow> 'w \<Rightarrow> 'w \<times> unit result" where
  "s3_delete so key w = with_context (''s3 delete '' @ key) (so_delete so key w)"

definition s3_copy :: "'w s3_calls \<Rightarrow> s3_config \<Rightarrow> string \<Rightarrow> string \<Rightarrow> 'w \<Rightarrow> 'w \<times> unit result" where
  "s3_copy so cfg src dst w =
     with_context (''s3 copy '' @ src @ '' -> '' @ dst) (so_copy so (s3_bucket cfg @ ''/'' @ src) dst w)"

definition s3_presign ::
  "'w s3_calls \<Rightarrow> unix_seconds \<Rightarrow> nat \<Rightarrow> bool \<Rightarrow> string \<Rightarrow> (string \<times> unix_seconds) result" where
  "s3_presign so now ttl get key =
     (case so_presign so get key ttl of Inl e \<Rightarrow> Inl e | Inr url \<Rightarrow> Inr (url, now + real ttl))"

definition s3_presign_get :: "'w s3_calls \<Rightarrow> unix_seconds \<Rightarrow> string \<Rightarrow> nat \<Rightarrow> (string \<times> unix_seconds) option result" where
  "s3_presign_get so now key ttl =
     (case s3_presign so now ttl True key of Inl e \<Rightarrow> Inl e | Inr u \<Rightarrow> Inr (Some u))"

definition s3_presign_put :: "'w s3_calls \<Rightarrow> unix_seconds \<Rightarrow> string \<Rightarrow> nat \<Rightarrow> (string \<times> unix_seconds) option result" where
  "s3_presign_put so now key ttl =
     (case s3_presign so now ttl False key of Inl e \<Rightarrow> Inl e | Inr u \<Rightarrow> Inr (Some u))"

subsection \<open>Lifecycle rules\<close>

definition foreign_rule :: "(string \<times> int) list \<Rightarrow> lifecycle_rule \<Rightarrow> bool" where
  "foreign_rule rules r =
     (let prefix = unwrap_or [] (lr_prefix r) in prefix = [] \<or> prefix \<notin> set (map fst rules))"

definition expire_rule :: "string \<times> int \<Rightarrow> lifecycle_rule" where
  "expire_rule = (\<lambda>(prefix, days).
     \<lparr>lr_id = ''expire-'' @ trim_end_slashes prefix, lr_enabled = True, lr_prefix = Some prefix,
      lr_days = Some days, lr_other = []\<rparr>)"

definition merge_lifecycle_rules :: "lifecycle_rule list \<Rightarrow> (string \<times> int) list \<Rightarrow> lifecycle_rule list" where
  "merge_lifecycle_rules existing rules = filter (foreign_rule rules) existing @ map expire_rule rules"

definition apply_lifecycle ::
  "'w s3_calls \<Rightarrow> s3_config \<Rightarrow> (string \<times> int) list \<Rightarrow> 'w \<Rightarrow> 'w \<times> unit result" where
  "apply_lifecycle so cfg rules w =
     (let (w1, r) = so_get_lifecycle so w;
          existing = (case r of Inr x \<Rightarrow> unwrap_or [] x | Inl _ \<Rightarrow> [])
      in with_context (''put lifecycle on bucket '' @ s3_bucket cfg)
           (so_put_lifecycle so (merge_lifecycle_rules existing rules) w1))"

definition CKPT_HOT_TTL_DAYS :: int where "CKPT_HOT_TTL_DAYS = 1"
definition CKPT_FINAL_TTL_DAYS :: int where "CKPT_FINAL_TTL_DAYS = 30"

definition lifecycle_rules :: "(string \<times> int) list" where
  "lifecycle_rules =
     [(CKPT_HOT_PREFIX @ ''/'', CKPT_HOT_TTL_DAYS), (CKPT_FINAL_PREFIX @ ''/'', CKPT_FINAL_TTL_DAYS)]"

subsection \<open>Starting\<close>

definition DEFAULT_TEAM_NAME :: string where "DEFAULT_TEAM_NAME = ''Default''"

definition seed :: "config \<Rightarrow> unix_seconds \<Rightarrow> store \<Rightarrow> store" where
  "seed cfg now s =
     (let s1 = ensure_team now DEFAULT_TEAM_ID DEFAULT_TEAM_NAME s
      in case bootstrap_sysadmin cfg of
           None \<Rightarrow> s1
         | Some admin \<Rightarrow>
             if get_user admin s1 = None then upsert_user now admin DEFAULT_TEAM_ID Sysadmin s1 else s1)"

text \<open>The datasets client is the library's, for a base URL and a key.\<close>

definition datasets_from_env :: "(string \<Rightarrow> string option) \<Rightarrow> (string \<times> string) option" where
  "datasets_from_env env =
     (case non_empty (map_option (\<lambda>s. trim_end_slashes (trim s)) (env ''CHUK_DATASETS_URL'')) of
        None \<Rightarrow> None
      | Some base \<Rightarrow> map_option (\<lambda>key. (base, key)) (non_empty (map_option trim (env ''CHUK_DATASETS_API_KEY''))))"

record services =
  sv_artifacts :: artifact_backend
  sv_drive :: "drive_client option"
  sv_experiments :: "experiments option"
  sv_datasets :: "(string \<times> string) option"

text \<open>From the loaded configuration to what the servers and loops are started with: the store as seeded,
  also when a later step fails, the world after the bucket's rules were set (a failure there is only
  logged), and the services or the error the process ends with.\<close>

definition boot ::
  "'w s3_calls \<Rightarrow> seal \<Rightarrow> (string \<Rightarrow> string option) \<Rightarrow> config \<Rightarrow> unix_seconds \<Rightarrow> 'w \<times> store \<Rightarrow>
   ('w \<times> store) \<times> services result" where
  "boot so sl env cfg now ws =
     (let (w, s) = ws
      in case open_store (cf_store_spec cfg) of
           Inl e \<Rightarrow> ((w, s), Inl e)
         | Inr _ \<Rightarrow>
             (let s1 = seed cfg now s
              in case open_artifact_store env (cf_artifacts_spec cfg) of
                   Inl e \<Rightarrow> ((w, s1), Inl e)
                 | Inr artifacts \<Rightarrow>
                     (let w1 = (case artifacts of
                                  Fs _ \<Rightarrow> w
                                | S3 bucket \<Rightarrow> fst (apply_lifecycle so bucket lifecycle_rules w))
                      in case drive_from_env env of
                           Inl e \<Rightarrow> ((w1, s1), Inl e)
                         | Inr drive \<Rightarrow>
                             ((w1, s1), Inr \<lparr>sv_artifacts = artifacts, sv_drive = drive,
                                sv_experiments = experiments_from_env sl env (cf_public_url cfg),
                                sv_datasets = datasets_from_env env\<rparr>))))"

subsection \<open>The dashboard\<close>

definition REFRESH_MS :: nat where "REFRESH_MS = 4000"

record dash_assets =
  da_html :: string
  da_css :: string
  da_js :: string

definition DQ :: string where "DQ = [CHR 0x22]"

text \<open>A middle dot, in UTF-8.\<close>

definition MIDDLE_DOT :: string where "MIDDLE_DOT = [CHR 0xC2, CHR 0xB7]"

definition header_right :: "string option \<Rightarrow> bool \<Rightarrow> string" where
  "header_right user signed_in =
     (if signed_in
      then ''<span class='' @ DQ @ ''who'' @ DQ @ ''>'' @ unwrap_or [] user @ '' '' @ MIDDLE_DOT @
           '' <a href='' @ DQ @ ''/auth/logout'' @ DQ @ ''>sign out</a></span>''
      else ''<input id='' @ DQ @ ''tok'' @ DQ @ '' type='' @ DQ @ ''password'' @ DQ @ '' placeholder='' @ DQ @
           ''API token'' @ DQ @ '' autocomplete='' @ DQ @ ''off'' @ DQ @ ''>'')"

definition render_page :: "dash_assets \<Rightarrow> string option \<Rightarrow> bool \<Rightarrow> string" where
  "render_page da user signed_in =
     replace_all ''{REFRESH_MS}'' (show_nat REFRESH_MS)
       (replace_all ''{HEADER_RIGHT}'' (header_right user signed_in)
         (replace_all ''{JS}'' (da_js da) (replace_all ''{CSS}'' (da_css da) (da_html da))))"

datatype page = Html string | Login

definition dashboard :: "dash_assets \<Rightarrow> cookie_crypto \<Rightarrow> config \<Rightarrow> int \<Rightarrow> headers \<Rightarrow> page" where
  "dashboard da cc cfg now hs =
     (if auth_enabled cfg
      then (case session_email cc cfg now hs of
              Some email \<Rightarrow> Html (render_page da (Some email) True)
            | None \<Rightarrow> Login)
      else Html (render_page da None False))"

subsection \<open>What starting changes\<close>

lemma with_context_fst [simp]: "fst (with_context what r) = fst r"
  by (auto simp: with_context_def split: prod.splits sum.splits)

text \<open>Seeding never changes a user who exists, and a second start changes nothing more.\<close>

lemma seed_keeps_users: "get_user e s = Some u \<Longrightarrow> get_user e (seed cfg now s) = Some u"
  by (auto simp: seed_def Let_def get_user_def ensure_team_def upsert_user_def row_of_upsert split: option.splits)

lemma seed_idempotent: "seed cfg t' (seed cfg t s) = seed cfg t s"
proof -
  have again: "ensure_team t' tid name s = s" if "\<exists>r\<in>set (st_teams s). tm_id r = tid" for tid name s
    using that by (simp add: ensure_team_def upsert_def update_where_def)
  have "\<exists>r\<in>set (st_teams (seed cfg t s)). tm_id r = DEFAULT_TEAM_ID"
    by (auto simp: seed_def Let_def ensure_team_def upsert_user_def upsert_def set_update_where split: option.splits)
  moreover have "get_user a (seed cfg t s) \<noteq> None" if "bootstrap_sysadmin cfg = Some a" for a
    using that by (auto simp: seed_def Let_def get_user_def upsert_user_def row_of_upsert split: option.splits)
  ultimately show ?thesis
    unfolding seed_def [of cfg t'] Let_def by (cases "bootstrap_sysadmin cfg") (auto simp: again)
qed

text \<open>Setting the rules again changes nothing, whatever foreign rules there are, and those are kept.\<close>

lemma expired_not_foreign: "fst x \<in> set (map fst rules) \<Longrightarrow> fst x \<noteq> [] \<Longrightarrow> \<not> foreign_rule rules (expire_rule x)"
  by (cases x) (simp add: foreign_rule_def expire_rule_def unwrap_or_def)

lemma merge_keeps_foreign:
  assumes "[] \<notin> fst ` set rules"
  shows "filter (foreign_rule rules) (merge_lifecycle_rules existing rules) = filter (foreign_rule rules) existing"
proof -
  have "\<not> foreign_rule rules (expire_rule x)" if "x \<in> set rules" for x
    using that assms by (intro expired_not_foreign) force+
  then show ?thesis by (auto simp: merge_lifecycle_rules_def filter_empty_conv)
qed

lemma merge_idempotent:
  "[] \<notin> fst ` set rules \<Longrightarrow>
   merge_lifecycle_rules (merge_lifecycle_rules existing rules) rules = merge_lifecycle_rules existing rules"
  by (subst merge_lifecycle_rules_def) (simp add: merge_keeps_foreign, simp add: merge_lifecycle_rules_def)

text \<open>A bucket whose rules cannot be read is taken for one without rules, so the foreign ones are lost.\<close>

lemma unread_rules_lost:
  "so_get_lifecycle so w = (w1, Inl e) \<Longrightarrow>
   apply_lifecycle so cfg rules w =
     with_context (''put lifecycle on bucket '' @ s3_bucket cfg) (so_put_lifecycle so (map expire_rule rules) w1)"
  by (simp add: apply_lifecycle_def merge_lifecycle_rules_def)

end
