(* ===== verification/Spec2Isabelle.thy ===== *)
theory Spec2Isabelle
  imports Access LeaseDemo WorkerDemo ArchiveLaws ApiLaws MirrorLaws DriveLaws Startup
begin

text \<open>
  Verification development for chuk-mcp-training: a control plane that queues training runs,
  rents workers, assigns jobs to them over a websocket protocol and collects their artifacts,
  and the worker agent that executes the jobs.

  The program and the theories. Paths are relative to \<open>src/crates\<close>; \<open>cp\<close> abbreviates
  \<open>chuk-train-controlplane/src\<close>, \<open>proto\<close> \<open>chuk-train-proto/src\<close>, \<open>wire\<close>
  \<open>chuk-compute-wire/src\<close> and \<open>worker\<close> \<open>chuk-compute-worker/src\<close>.

  \<^item> \<open>Prelude\<close>: types shared by all parts (results, floats, json, tables as row lists), the
    generic lemmas on lists, maps and words. \<open>Capability\<close>: the locales for tables of bearer
    capabilities, interpreted on upload grants, API keys and worker tokens. \<open>Text\<close>: the string
    functions of the standard library that the code calls.
  \<^item> \<open>Wire\<close>, \<open>Domain\<close>, \<open>Keys\<close>, \<open>Ids\<close>, \<open>Calendar\<close>: the protocol types (\<open>wire\<close>), the domain
    types and constants (\<open>proto\<close>), the artifact keys, the run ids (\<open>cp/store/ids.rs\<close>) and the
    calendar arithmetic they and the budgets use.
  \<^item> \<open>Store\<close>, \<open>StoreMeta\<close>: the sqlite store (\<open>cp/store/sqlite\<close>), one definition per method, as
    what its SQL does to the tables; the store invariant \<open>wf_store\<close>.
  \<^item> \<open>Grant\<close>: upload grants and the transfer endpoints (\<open>cp/grant.rs\<close>, \<open>upload.rs\<close>) over the
    filesystem artifact store (\<open>cp/artifacts/fs.rs\<close>).
  \<^item> \<open>Gate\<close>, \<open>Budget\<close>, \<open>Sweep\<close>, \<open>Jobspec\<close>: the pure parts of the control plane with the
    same names.
  \<^item> \<open>HubCore\<close>, \<open>Schedule\<close>, \<open>Control\<close>, \<open>Connection\<close>, \<open>Messages\<close>, \<open>Submit\<close>: the hub
    (\<open>cp/hub\<close>), one theory per file, handlers as functions from the hub and a clock reading to
    the hub after it and a result.
  \<^item> \<open>Pump\<close>, \<open>HubInv\<close>, \<open>Lineage\<close>, \<open>HubSystem\<close>, \<open>RunLife\<close>, \<open>HighWater\<close>: what the scheduler
    guarantees, the hub invariant, the checkpoint lineage, the hub as a transition system with
    its reachable states, the life of a run, and the replay marks. \<open>Scenario\<close>: concrete hubs.
  \<^item> \<open>Config\<close>, \<open>Session\<close>, \<open>Join\<close>, \<open>Access\<close>: settings (\<open>cp/config.rs\<close>), the OAuth sign-in and
    its signed cookies (\<open>cp/auth.rs\<close>), the worker handshake (\<open>cp/ws.rs\<close>), and the bearer
    middleware with the access API (\<open>cp/api/mod.rs\<close>, \<open>api/access.rs\<close>, \<open>apikey.rs\<close>,
    \<open>crypto.rs\<close>).
  \<^item> \<open>Provider\<close>, \<open>LeaseMgr\<close>, \<open>LeaseLaws\<close>, \<open>LeaseDemo\<close>: the provider trait with the mock and the
    Vast backend (\<open>cp/provider\<close>), the lease manager (\<open>cp/lease.rs\<close>), its laws and their concrete
    instances.
  \<^item> \<open>Codeunit\<close>, \<open>ApiRuns\<close>, \<open>ApiLeases\<close>, \<open>Archive\<close>, \<open>ArchiveLaws\<close>: the code unit builder
    (\<open>cp/codeunit.rs\<close>), the handlers of the HTTP API for runs, sweeps and gates (\<open>cp/api/runs.rs\<close>),
    for leases, budgets and agent downloads (\<open>cp/api/leases.rs\<close>, \<open>api/system.rs\<close>), and the archive
    tier with its endpoints (\<open>cp/archive.rs\<close>, \<open>api/archive.rs\<close>, \<open>api/checkpoints.rs\<close>).
  \<^item> \<open>Mirror\<close>, \<open>MirrorLaws\<close>: the mirror of the experiments server (\<open>cp/experiments.rs\<close>): which
    report becomes which request, the durable outbox and its retries, and the way back from a run of
    the server to a submission; what is delivered, in which order, and what never settles.
  \<^item> \<open>Drive\<close>, \<open>DriveLaws\<close>: the client of the archive's Drive (\<open>cp/drive.rs\<close>): tokens, folders and
    the resumable upload; what a reported upload has stored, and when an upload returns.
  \<^item> \<open>Postgres\<close>: where the Postgres store (\<open>cp/store/postgres\<close>) differs from the sqlite one, and how
    they are related.
  \<^item> \<open>Startup\<close>: the backends, the seeding and the optional clients (\<open>cp/main.rs\<close>, \<open>store/mod.rs\<close>,
    \<open>artifacts/mod.rs\<close>, \<open>artifacts/s3.rs\<close>, \<open>datasets.rs\<close>) and the page (\<open>cp/dash.rs\<close>).
  \<^item> \<open>Api\<close>, \<open>ApiLaws\<close>: every request that may change something, the bearer middleware in front of
    it and the background passes as one machine over the hub and the lease manager, as \<open>cp/main.rs\<close>
    wires them; it refines the transition system of \<open>HubSystem\<close>, and what each role can change.
  \<^item> \<open>WorkerIo\<close>, \<open>Collect\<close>, \<open>CollectLaws\<close>, \<open>Executor\<close>, \<open>Agent\<close>: the worker's leaf modules, its
    input staging and output collection, the executor of one job, and the session loop
    (\<open>worker/main.rs\<close>), one definition per branch of its \<open>select!\<close>.
  \<^item> \<open>Link\<close>, \<open>LinkLaws\<close>, \<open>WorkerDemo\<close>: the worker and the hub composed over a socket that may be
    cut at any moment: what is delivered, what is lost, and a cancel that reaches the wrong run.

  How the parts interact. A handler of the hub reads and writes the store, mints and revokes
  grants, and sends messages on links; a worker uses a grant to upload artifacts through the
  transfer endpoints, and reports back with messages that the hub turns into store writes;
  gates, budgets and sweeps are pure functions the handlers call. The lease manager calls a
  provider and writes leases and the ledger, which the budgets read.

  Conventions. A database row is a record, a table the list of its rows in insertion order, and
  a method its effect on the tables; errors of the database and the network, panics of a
  poisoned lock and task cancellation are outside the model. A handler runs to completion
  before the next one starts and reads the clock once; a state change made before an early
  return is kept; where an interleaving inside a handler matters, its two halves are separate
  definitions (\<open>rent\<close> and \<open>settle\<close> of a provision). Clock readings and money are reals; counters
  are naturals, and machine words appear where wrap-around is reachable (\<open>Sweep\<close>). Libraries
  (sqlx, serde, axum, sha2, uuid, the datasets and experiments services, an identity provider,
  an HTTP client, a process) are parameters of the definitions that use them. Loops are
  structural recursion over the snapshot the code iterates, or over the list of what happens
  (ticks of the supervisor, outcomes of sessions); the polls that verify a destroy stop at their
  deadline, after 61 of them. No definition needs fuel; the chunk loop of a Drive upload, which can
  run for ever, is a partial function, and \<open>DriveLaws\<close> says when it returns.

  Not modelled: the methods of the Postgres store that are the sqlite ones with other placeholders,
  the HTTP framing and the decoding of requests, the spawning and the intervals of the background
  loops and the route table in \<open>cp/main.rs\<close>, and the test helpers; see the component list.
\<close>

section \<open>Properties that span components\<close>

text \<open>C1: In every state the control plane can reach, through any interleaving of handler calls,
  uploads, fetches, closing channels and writes of the API, every upload token in existence
  was minted for a run that exists and has not ended, and every recorded checkpoint has a
  lineage that is a gapless chain of slices from step 0 to its own step.\<close>

theorem reachable_consistent:
  assumes "hub_reach env h"
  shows "gr_run_id ` snd ` set (hb_grants h) \<subseteq>
      {k. \<exists>st. run_state_of (hb_store h) k = Some st \<and> st \<notin> {Completed, Failed, Cancelled}} \<and>
    (\<forall>c\<in>set (st_checkpoints (hb_store h)). chain 0 (cm_slices (ck_meta (cx_info c))) (ck_step (cx_info c)))"
proof
  have "\<forall>x\<in>set (hb_grants h). run_live_in (hb_store h) (gr_run_id (snd x))"
    using reach_hub_ok [OF assms] by (auto simp: hub_ok_def case_prod_beta)
  moreover have "is_terminal st \<longleftrightarrow> st \<in> {Completed, Failed, Cancelled}" for st by (cases st) simp_all
  ultimately show "gr_run_id ` snd ` set (hb_grants h) \<subseteq>
      {k. \<exists>st. run_state_of (hb_store h) k = Some st \<and> st \<notin> {Completed, Failed, Cancelled}}"
    by (auto simp: run_live_in_def)
  show "\<forall>c\<in>set (st_checkpoints (hb_store h)). chain 0 (cm_slices (ck_meta (cx_info c))) (ck_step (cx_info c))"
    using reach_lineage_ok [OF assms] by (simp add: lineage_ok_def ckpt_ok_def)
qed

lemma reachable_consistent_witness:
  "demo_id \<in> gr_run_id ` snd ` set (hb_grants demo_checkpointed) \<and>
   (\<exists>c\<in>set (st_checkpoints (hb_store demo_checkpointed)).
      chain 0 (cm_slices (ck_meta (cx_info c))) (ck_step (cx_info c)))"
  using reachable_consistent [OF demo_reach] demo_checkpointed_rows demo_checkpointed_grants by auto



end
